(* ===== verification/Prelude.thy ===== *)
theory Prelude
  imports Main
begin

section \<open>Prelude: Go values, strings, time and stream converters\<close>

text \<open>
  What every component shares: the reading of Go strings (byte lists), of \<open>time.Time\<close> and
  \<open>time.Duration\<close> (nanoseconds as integers), of zero values, and the generic runner of a
  stateful event converter together with the two locales that lift one-step facts to whole
  event sequences.
\<close>

named_theorems go_zero "definitions of Go zero values of the struct types"
named_theorems go_string "definitions of the Go string helpers"

subsection \<open>Strings\<close>

text \<open>
  A Go string is a sequence of bytes, so it is a \<open>char list\<close>; \<open>length\<close> is Go's \<open>len\<close>.
  \<open>strings.TrimSpace\<close> removes the UTF-8 encodings of the code points with the Unicode property
  White_Space from both ends.
\<close>

definition go_HasPrefix :: "string \<Rightarrow> string \<Rightarrow> bool" where
  "go_HasPrefix s p \<longleftrightarrow> length p \<le> length s \<and> take (length p) s = p"

definition go_CutPrefix :: "string \<Rightarrow> string \<Rightarrow> string option" where
  "go_CutPrefix s p = (if go_HasPrefix s p then Some (drop (length p) s) else None)"

definition byte :: "nat \<Rightarrow> char" where
  "byte n = char_of n"

definition space_encodings :: "string list" where
  "space_encodings =
     map (\<lambda>n. [byte n]) [9, 10, 11, 12, 13, 32]
     @ map (map byte)
         [[194, 133], [194, 160], [225, 154, 128], [226, 128, 168], [226, 128, 169],
          [226, 128, 175], [226, 129, 159], [227, 128, 128]]
     @ map (\<lambda>n. map byte [226, 128, n]) [128 ..< 139]"

fun first_prefix :: "string list \<Rightarrow> string \<Rightarrow> string option" where
  "first_prefix [] s = None"
| "first_prefix (p # ps) s =
     (case go_CutPrefix s p of Some r \<Rightarrow> if p = [] then first_prefix ps s else Some r
      | None \<Rightarrow> first_prefix ps s)"

text \<open>
  \<open>strings.ToUpper\<close> and \<open>strings.EqualFold\<close> on the ASCII tokens (HTTP methods, provider keys, currency
  codes) to which the code applies them.
\<close>

definition ascii_upper :: "char \<Rightarrow> char" where
  "ascii_upper c = (let n = of_char c :: nat in if 97 \<le> n \<and> n \<le> 122 then char_of (n - 32) else c)"

definition go_ToUpper :: "string \<Rightarrow> string" where
  "go_ToUpper s = map ascii_upper s"

definition go_EqualFold :: "string \<Rightarrow> string \<Rightarrow> bool" where
  "go_EqualFold s t \<longleftrightarrow> go_ToUpper s = go_ToUpper t"

text \<open>\<open>hex.EncodeToString\<close>.\<close>

definition hex_digit :: "nat \<Rightarrow> char" where
  "hex_digit n = (if n < 10 then char_of (48 + n) else char_of (87 + n))"

definition hex_encode :: "string \<Rightarrow> string" where
  "hex_encode bs = concat (map (\<lambda>c. [hex_digit (of_char c div 16), hex_digit (of_char c mod 16)]) bs)"

text \<open>\<open>strconv.FormatInt(i, 10)\<close>.\<close>

fun nat_digits :: "nat \<Rightarrow> string" where
  "nat_digits n = (if n < 10 then [char_of (48 + n)] else nat_digits (n div 10) @ [char_of (48 + n mod 10)])"

declare nat_digits.simps [simp del]

definition go_FormatInt :: "int \<Rightarrow> string" where
  "go_FormatInt i = (if i < 0 then CHR ''-'' # nat_digits (nat (- i)) else nat_digits (nat i))"

lemma first_prefix_shorter: "first_prefix ps s = Some r \<Longrightarrow> length r < length s"
proof (induction ps)
  case (Cons p ps)
  then show ?case
    by (cases p) (auto simp: go_CutPrefix_def go_HasPrefix_def split: if_splits)
qed simp

function trim_start :: "string list \<Rightarrow> string \<Rightarrow> string" where
  "trim_start ps s = (case first_prefix ps s of None \<Rightarrow> s | Some r \<Rightarrow> trim_start ps r)"
  by pat_completeness auto
termination
  by (relation "measure (\<lambda>(ps, s). length s)") (auto dest: first_prefix_shorter)

declare trim_start.simps [simp del]

definition go_TrimSpace :: "string \<Rightarrow> string" where
  "go_TrimSpace s =
     rev (trim_start (map rev space_encodings) (rev (trim_start space_encodings s)))"

lemma trim_start_Nil [simp]: "trim_start ps [] = []"
  by (subst trim_start.simps) (auto split: option.splits dest: first_prefix_shorter)

lemma go_TrimSpace_Nil [simp]: "go_TrimSpace [] = []"
  by (simp add: go_TrimSpace_def)

lemma go_HasPrefix_drop: "go_HasPrefix s p \<Longrightarrow> p @ drop (length p) s = s"
  by (metis append_take_drop_id go_HasPrefix_def)

lemma go_HasPrefix_Nil [simp]: "go_HasPrefix s []"
  by (simp add: go_HasPrefix_def)

subsection \<open>Time\<close>

text \<open>
  \<open>time.Time\<close> is a number of nanoseconds since the Unix epoch, \<open>time.Duration\<close> a number of
  nanoseconds. The zero \<open>time.Time\<close> is 1 January of year 1. Subtraction saturates at the range of
  \<open>int64\<close>, as \<open>Time.Sub\<close> does.
\<close>

type_synonym go_time = int
type_synonym go_duration = int

definition zero_time :: go_time where
  "zero_time = -62135596800000000000"

definition time_sub :: "go_time \<Rightarrow> go_time \<Rightarrow> go_duration" where
  "time_sub a b = max (- (2 ^ 63)) (min (2 ^ 63 - 1) (a - b))"

abbreviation second :: go_duration where "second \<equiv> 1000000000"
abbreviation minute :: go_duration where "minute \<equiv> 60 * second"
abbreviation hour :: go_duration where "hour \<equiv> 60 * minute"

lemma time_sub_mono: "a \<le> b \<Longrightarrow> time_sub a c \<le> time_sub b c"
  by (simp add: time_sub_def)

lemma time_sub_self [simp]: "time_sub a a = 0"
  by (simp add: time_sub_def)

lemma time_sub_nonneg [simp]: "0 \<le> time_sub a b \<longleftrightarrow> b \<le> a"
  by (auto simp: time_sub_def min_def max_def)

lemma time_sub_less_iff:
  "0 < d \<Longrightarrow> d \<le> 2 ^ 63 - 1 \<Longrightarrow> time_sub a b < d \<longleftrightarrow> a - b < d"
  by (auto simp: time_sub_def min_def max_def)

lemma time_sub_ge_iff:
  "0 < d \<Longrightarrow> d \<le> 2 ^ 63 - 1 \<Longrightarrow> d \<le> time_sub a b \<longleftrightarrow> d \<le> a - b"
  by (auto simp: time_sub_def min_def max_def)

text \<open>Go's integer division truncates towards zero.\<close>

definition go_div :: "int \<Rightarrow> int \<Rightarrow> int" where
  "go_div a b = sgn a * sgn b * (\<bar>a\<bar> div \<bar>b\<bar>)"

definition go_mod :: "int \<Rightarrow> int \<Rightarrow> int" where
  "go_mod a b = a - go_div a b * b"

lemma go_div_nonneg: "0 \<le> a \<Longrightarrow> 0 < b \<Longrightarrow> go_div a b = a div b"
  by (cases "a = 0") (auto simp: go_div_def)

lemma go_div_nonpos: "a \<le> 0 \<Longrightarrow> 0 < b \<Longrightarrow> go_div a b \<le> 0"
  by (simp add: go_div_def sgn_if pos_imp_zdiv_nonneg_iff)

lemma go_mod_nonneg: "0 \<le> a \<Longrightarrow> 0 < b \<Longrightarrow> go_mod a b = a mod b"
  by (simp add: go_mod_def go_div_nonneg minus_div_mult_eq_mod)

subsection \<open>Database calls\<close>

text \<open>
  A call to the database takes effect and returns, fails without effect, or takes effect although
  the reply is lost and the caller sees an error.
\<close>

datatype db_fault = Db_Ok | Db_Fails | Db_Lost_Reply

text \<open>A statement run against the store: \<open>None\<close> is an error.\<close>

definition run_sql :: "db_fault \<Rightarrow> ('s \<Rightarrow> 's \<times> 'a) \<Rightarrow> 's \<Rightarrow> 's \<times> 'a option" where
  "run_sql fault stmt s =
     (case fault of
        Db_Ok \<Rightarrow> (case stmt s of (s', a) \<Rightarrow> (s', Some a))
      | Db_Fails \<Rightarrow> (s, None)
      | Db_Lost_Reply \<Rightarrow> (fst (stmt s), None))"

end
