(* ===== verification/Converters.thy ===== *)
theory Converters
  imports Prelude
begin

section \<open>Stateful event converters\<close>

text \<open>
  The protocol bridges of \<open>internal/pkg/apicompat\<close> all have one shape: a function takes one
  upstream event and a mutable state and returns the downstream events, and the gateway calls it
  on the events of the stream in order. \<open>run_events\<close> is that loop. A downstream protocol is an
  acceptor \<open>scan_events\<close> that reads the emitted events one by one.

  Locales lift facts about one call to facts about a whole stream: \<open>stream_protocol\<close> (the
  output is accepted by a protocol, whose position is a view of the converter's state), its
  generalisation \<open>guarded_protocol\<close> for inputs that keep a condition, and
  \<open>stream_conservation\<close> (what the output carries is what the input carried).
\<close>

fun run_events :: "('e \<Rightarrow> 's \<Rightarrow> 's \<times> 'o list) \<Rightarrow> 'e list \<Rightarrow> 's \<Rightarrow> 's \<times> 'o list" where
  "run_events f [] s = (s, [])"
| "run_events f (e # es) s =
     (case f e s of (s1, o1) \<Rightarrow> case run_events f es s1 of (s2, o2) \<Rightarrow> (s2, o1 @ o2))"

fun scan_events :: "('p \<Rightarrow> 'o \<Rightarrow> 'p option) \<Rightarrow> 'p \<Rightarrow> 'o list \<Rightarrow> 'p option" where
  "scan_events k p [] = Some p"
| "scan_events k p (x # xs) =
     (case k p x of None \<Rightarrow> None | Some p' \<Rightarrow> scan_events k p' xs)"

lemma scan_events_append:
  "scan_events k p (xs @ ys) =
     (case scan_events k p xs of None \<Rightarrow> None | Some p' \<Rightarrow> scan_events k p' ys)"
  by (induction xs arbitrary: p) (auto split: option.splits)

lemma scan_events_appendI:
  "scan_events k p xs = Some p' \<Longrightarrow> scan_events k p' ys = r \<Longrightarrow> scan_events k p (xs @ ys) = r"
  by (simp add: scan_events_append)

lemma fst_run_events_Cons: "fst (run_events f (e # es) s) = fst (run_events f es (fst (f e s)))"
  by (simp split: prod.splits)

lemma snd_run_events_Cons:
  "snd (run_events f (e # es) s) = snd (f e s) @ snd (run_events f es (fst (f e s)))"
  by (simp split: prod.splits)

lemmas run_events_Cons = fst_run_events_Cons snd_run_events_Cons

lemma run_events_append:
  "fst (run_events f (es @ es') s) = fst (run_events f es' (fst (run_events f es s)))"
  "snd (run_events f (es @ es') s) =
     snd (run_events f es s) @ snd (run_events f es' (fst (run_events f es s)))"
  by (induction es arbitrary: s) (simp_all add: run_events_Cons del: run_events.simps(2))

lemma run_events_single: "run_events f [e] s = f e s"
  by (simp split: prod.split)

text \<open>A condition on each event, evaluated in the state in which it arrives.\<close>

fun guarded_run :: "('e \<Rightarrow> 's \<Rightarrow> bool) \<Rightarrow> ('e \<Rightarrow> 's \<Rightarrow> 's \<times> 'o list) \<Rightarrow> 'e list \<Rightarrow> 's \<Rightarrow> bool" where
  "guarded_run g f [] s \<longleftrightarrow> True"
| "guarded_run g f (e # es) s \<longleftrightarrow> g e s \<and> guarded_run g f es (fst (f e s))"

lemma guarded_run_True [simp]: "guarded_run (\<lambda>e s. True) f es s"
  by (induction es arbitrary: s) simp_all

locale guarded_protocol =
  fixes conv :: "'e \<Rightarrow> 's \<Rightarrow> 's \<times> 'o list"
    and inv :: "'s \<Rightarrow> bool"
    and view :: "'s \<Rightarrow> 'p"
    and accept :: "'p \<Rightarrow> 'o \<Rightarrow> 'p option"
    and guard :: "'e \<Rightarrow> 's \<Rightarrow> bool"
  assumes guarded_inv: "inv s \<Longrightarrow> guard e s \<Longrightarrow> inv (fst (conv e s))"
    and guarded_accepted: "inv s \<Longrightarrow> guard e s \<Longrightarrow>
      scan_events accept (view s) (snd (conv e s)) = Some (view (fst (conv e s)))"
begin

lemma guarded_run_inv: "inv s \<Longrightarrow> guarded_run guard conv es s \<Longrightarrow> inv (fst (run_events conv es s))"
proof (induction es arbitrary: s)
  case (Cons e es)
  then show ?case by (simp add: run_events_Cons guarded_inv del: run_events.simps(2))
qed simp

lemma guarded_run_accepted:
  "inv s \<Longrightarrow> guarded_run guard conv es s \<Longrightarrow>
   scan_events accept (view s) (snd (run_events conv es s)) = Some (view (fst (run_events conv es s)))"
proof (induction es arbitrary: s)
  case (Cons e es)
  then show ?case
    by (simp add: run_events_Cons scan_events_append guarded_accepted guarded_inv
        del: run_events.simps(2))
qed simp

end

locale stream_protocol =
  fixes conv :: "'e \<Rightarrow> 's \<Rightarrow> 's \<times> 'o list"
    and inv :: "'s \<Rightarrow> bool"
    and view :: "'s \<Rightarrow> 'p"
    and accept :: "'p \<Rightarrow> 'o \<Rightarrow> 'p option"
  assumes inv_step: "inv s \<Longrightarrow> inv (fst (conv e s))"
    and step_accepted:
      "inv s \<Longrightarrow> scan_events accept (view s) (snd (conv e s)) = Some (view (fst (conv e s)))"

sublocale stream_protocol \<subseteq> unguarded: guarded_protocol conv inv view accept "\<lambda>e s. True"
  by unfold_locales (simp_all add: inv_step step_accepted)

context stream_protocol
begin

lemma finished_accepted:
  assumes "inv s"
    and "\<And>t. inv t \<Longrightarrow> scan_events accept (view t) (snd (fin t)) = Some (view (fst (fin t)))"
  shows "scan_events accept (view s)
           (snd (run_events conv es s) @ snd (fin (fst (run_events conv es s))))
         = Some (view (fst (fin (fst (run_events conv es s)))))"
  using assms
  by (simp add: scan_events_append unguarded.guarded_run_accepted unguarded.guarded_run_inv)

end

text \<open>A client whose position is more than a view of the converter's state: the two are related, and stay so.\<close>

locale stream_simulation =
  fixes conv :: "'e \<Rightarrow> 's \<Rightarrow> 's \<times> 'o list"
    and related :: "'s \<Rightarrow> 'p \<Rightarrow> bool"
    and accept :: "'p \<Rightarrow> 'o \<Rightarrow> 'p option"
    and guard :: "'e \<Rightarrow> 's \<Rightarrow> bool"
  assumes simulated: "related s p \<Longrightarrow> guard e s \<Longrightarrow>
      \<exists>p'. scan_events accept p (snd (conv e s)) = Some p' \<and> related (fst (conv e s)) p'"
begin

lemma run_simulated: "related s p \<Longrightarrow> guarded_run guard conv es s \<Longrightarrow>
  \<exists>p'. scan_events accept p (snd (run_events conv es s)) = Some p' \<and> related (fst (run_events conv es s)) p'"
proof (induction es arbitrary: s p)
  case (Cons e es)
  then obtain p' where "scan_events accept p (snd (conv e s)) = Some p'" "related (fst (conv e s)) p'"
    using simulated by (metis guarded_run.simps(2))
  moreover from this Cons have "\<exists>p''. scan_events accept p' (snd (run_events conv es (fst (conv e s)))) = Some p'' \<and>
      related (fst (run_events conv es (fst (conv e s)))) p''" by simp
  ultimately show ?case by (auto simp: run_events_Cons scan_events_append simp del: run_events.simps(2))
qed simp

end

locale stream_conservation =
  fixes conv :: "'e \<Rightarrow> 's \<Rightarrow> 's \<times> 'o list"
    and carried_in :: "'e \<Rightarrow> 'a list"
    and carried_out :: "'o \<Rightarrow> 'a list"
  assumes conserved: "concat (map carried_out (snd (conv e s))) = carried_in e"
begin

lemma run_conserved:
  "concat (map carried_out (snd (run_events conv es s))) = concat (map carried_in es)"
  by (induction es arbitrary: s) (simp_all add: run_events_Cons conserved del: run_events.simps(2))

end

end
