(* ===== verification/Apicompat_Types.thy ===== *)
theory Apicompat_Types
  imports Converters
begin

section \<open>The wire types of internal/pkg/apicompat/types.go\<close>

text \<open>
  The structs of \<open>types.go\<close> that the response bridges read and build, field by field. A pointer
  is an \<open>option\<close>, a slice a list (nil and empty are both \<open>[]\<close>), a \<open>json.RawMessage\<close> its bytes;
  a pointer to a struct with one field is an \<open>option\<close> of that field.
  Token counts and indices are Go \<open>int\<close>; they are small non-negative numbers, modelled as \<open>int\<close>.
  \<open>zero_\<close> constants are the Go zero values from which the code builds struct literals.
\<close>

subsection \<open>Anthropic\<close>

record AnthropicCacheControl =
  cc_Type :: string
  cc_TTL :: string

record AnthropicImageSource =
  is_Type :: string
  is_MediaType :: string
  is_Data :: string

record AnthropicContentBlock =
  cb_Type :: string
  cb_CacheControl :: "AnthropicCacheControl option"
  cb_Text :: string
  cb_Thinking :: string
  cb_Signature :: string
  cb_Source :: "AnthropicImageSource option"
  cb_ID :: string
  cb_Name :: string
  cb_Input :: string
  cb_ToolUseID :: string
  cb_Content :: string
  cb_IsError :: bool

definition zero_block :: AnthropicContentBlock where [go_zero]:
  "zero_block = \<lparr>cb_Type = [], cb_CacheControl = None, cb_Text = [], cb_Thinking = [],
     cb_Signature = [], cb_Source = None, cb_ID = [], cb_Name = [], cb_Input = [],
     cb_ToolUseID = [], cb_Content = [], cb_IsError = False\<rparr>"

record AnthropicUsage =
  au_InputTokens :: int
  au_OutputTokens :: int
  au_CacheCreationInputTokens :: int
  au_CacheReadInputTokens :: int
  au_PromptTokens :: int
  au_CachedTokens :: int
  au_PromptTokensDetails :: "int option"
  au_PromptCacheHitTokens :: "int option"
  au_PromptCacheMissTokens :: "int option"

definition zero_usage :: AnthropicUsage where [go_zero]:
  "zero_usage = \<lparr>au_InputTokens = 0, au_OutputTokens = 0, au_CacheCreationInputTokens = 0,
     au_CacheReadInputTokens = 0, au_PromptTokens = 0, au_CachedTokens = 0,
     au_PromptTokensDetails = None, au_PromptCacheHitTokens = None,
     au_PromptCacheMissTokens = None\<rparr>"

record AnthropicResponse =
  ar_ID :: string
  ar_Type :: string
  ar_Role :: string
  ar_Content :: "AnthropicContentBlock list"
  ar_Model :: string
  ar_StopReason :: "string option"
  ar_StopSequence :: "string option"
  ar_Usage :: AnthropicUsage

record AnthropicDelta =
  ad_Type :: string
  ad_Text :: string
  ad_PartialJSON :: string
  ad_Thinking :: string
  ad_Signature :: string
  ad_StopReason :: string
  ad_StopSequence :: "string option"

definition zero_delta :: AnthropicDelta where [go_zero]:
  "zero_delta = \<lparr>ad_Type = [], ad_Text = [], ad_PartialJSON = [], ad_Thinking = [],
     ad_Signature = [], ad_StopReason = [], ad_StopSequence = None\<rparr>"

record AnthropicStreamEvent =
  ae_Type :: string
  ae_Message :: "AnthropicResponse option"
  ae_Index :: "int option"
  ae_ContentBlock :: "AnthropicContentBlock option"
  ae_Delta :: "AnthropicDelta option"
  ae_Usage :: "AnthropicUsage option"

definition zero_anth_event :: AnthropicStreamEvent where [go_zero]:
  "zero_anth_event = \<lparr>ae_Type = [], ae_Message = None, ae_Index = None, ae_ContentBlock = None,
     ae_Delta = None, ae_Usage = None\<rparr>"

text \<open>\<open>AnthropicStopReasonString\<close>.\<close>

definition AnthropicStopReasonString :: "string option \<Rightarrow> string" where
  "AnthropicStopReasonString p = (case p of None \<Rightarrow> [] | Some s \<Rightarrow> s)"

subsection \<open>OpenAI Responses\<close>

record ResponsesContentPart =
  cp_Type :: string
  cp_Text :: string
  cp_ImageURL :: string
  cp_Filename :: string
  cp_FileData :: string
  cp_FileID :: string

definition zero_part :: ResponsesContentPart where [go_zero]:
  "zero_part = \<lparr>cp_Type = [], cp_Text = [], cp_ImageURL = [], cp_Filename = [], cp_FileData = [],
     cp_FileID = []\<rparr>"

definition output_text_part :: "string \<Rightarrow> ResponsesContentPart" where
  "output_text_part t = zero_part\<lparr>cp_Type := ''output_text'', cp_Text := t\<rparr>"

record WebSearchAction =
  wa_Type :: string
  wa_Query :: string

record ResponsesSummary =
  sm_Type :: string
  sm_Text :: string

record ResponsesOutput =
  ro_Type :: string
  ro_ID :: string
  ro_Role :: string
  ro_Content :: "ResponsesContentPart list"
  ro_Status :: string
  ro_EncryptedContent :: string
  ro_Summary :: "ResponsesSummary list"
  ro_CallID :: string
  ro_Name :: string
  ro_Arguments :: string
  ro_Namespace :: string
  ro_Input :: string
  ro_Action :: "WebSearchAction option"

definition zero_output :: ResponsesOutput where [go_zero]:
  "zero_output = \<lparr>ro_Type = [], ro_ID = [], ro_Role = [], ro_Content = [], ro_Status = [],
     ro_EncryptedContent = [], ro_Summary = [], ro_CallID = [], ro_Name = [], ro_Arguments = [],
     ro_Namespace = [], ro_Input = [], ro_Action = None\<rparr>"

record ResponsesInputTokensDetails =
  it_CachedTokens :: int
  it_AudioTokens :: int
  it_CacheCreationTokens :: int
  it_CacheWriteTokens :: int

definition zero_input_details :: ResponsesInputTokensDetails where [go_zero]:
  "zero_input_details = \<lparr>it_CachedTokens = 0, it_AudioTokens = 0, it_CacheCreationTokens = 0,
     it_CacheWriteTokens = 0\<rparr>"

record ResponsesOutputTokensDetails =
  ot_ReasoningTokens :: int
  ot_AudioTokens :: int
  ot_AcceptedPredictionTokens :: int
  ot_RejectedPredictionTokens :: int

record ResponsesUsage =
  ru_InputTokens :: int
  ru_OutputTokens :: int
  ru_TotalTokens :: int
  ru_CacheCreationInputTokens :: int
  ru_InputTokensDetails :: "ResponsesInputTokensDetails option"
  ru_OutputTokensDetails :: "ResponsesOutputTokensDetails option"

record ResponsesError =
  err_Code :: string
  err_Message :: string

text \<open>\<open>ResponsesIncompleteDetails\<close> has the single field \<open>Reason\<close>.\<close>

type_synonym ResponsesIncompleteDetails = string

record ResponsesResponse =
  rr_ID :: string
  rr_Object :: string
  rr_CreatedAt :: int
  rr_Model :: string
  rr_Status :: string
  rr_Output :: "ResponsesOutput list"
  rr_Usage :: "ResponsesUsage option"
  rr_ServiceTier :: string
  rr_IncompleteDetails :: "ResponsesIncompleteDetails option"
  rr_Error :: "ResponsesError option"

definition zero_response :: ResponsesResponse where [go_zero]:
  "zero_response = \<lparr>rr_ID = [], rr_Object = [], rr_CreatedAt = 0, rr_Model = [], rr_Status = [],
     rr_Output = [], rr_Usage = None, rr_ServiceTier = [], rr_IncompleteDetails = None,
     rr_Error = None\<rparr>"

record ResponsesStreamEvent =
  re_Type :: string
  re_Response :: "ResponsesResponse option"
  re_Usage :: "ResponsesUsage option"
  re_Item :: "ResponsesOutput option"
  re_OutputIndex :: int
  re_ContentIndex :: int
  re_Delta :: string
  re_Text :: string
  re_ItemID :: string
  re_CallID :: string
  re_Name :: string
  re_Arguments :: string
  re_Input :: string
  re_SummaryIndex :: int
  re_Part :: "ResponsesContentPart option"
  re_Code :: string
  re_Param :: string
  re_SequenceNumber :: int

definition zero_resp_event :: ResponsesStreamEvent where [go_zero]:
  "zero_resp_event = \<lparr>re_Type = [], re_Response = None, re_Usage = None, re_Item = None,
     re_OutputIndex = 0, re_ContentIndex = 0, re_Delta = [], re_Text = [], re_ItemID = [],
     re_CallID = [], re_Name = [], re_Arguments = [], re_Input = [], re_SummaryIndex = 0,
     re_Part = None, re_Code = [], re_Param = [], re_SequenceNumber = 0\<rparr>"

subsection \<open>OpenAI Chat Completions\<close>

record ChatFunctionCall =
  fc_Name :: string
  fc_Arguments :: string

record ChatToolCall =
  tc_Index :: "int option"
  tc_ID :: string
  tc_Type :: string
  tc_Function :: ChatFunctionCall

record ChatMessage =
  cm_Role :: string
  cm_Content :: string
  cm_ReasoningContent :: string
  cm_Reasoning :: string
  cm_Name :: string
  cm_ToolCalls :: "ChatToolCall list"
  cm_ToolCallID :: string
  cm_FunctionCall :: "ChatFunctionCall option"

definition zero_message :: ChatMessage where [go_zero]:
  "zero_message = \<lparr>cm_Role = [], cm_Content = [], cm_ReasoningContent = [], cm_Reasoning = [],
     cm_Name = [], cm_ToolCalls = [], cm_ToolCallID = [], cm_FunctionCall = None\<rparr>"

record ChatTokenDetails =
  td_CachedTokens :: int
  td_AudioTokens :: int
  td_CacheCreationTokens :: int
  td_CacheWriteTokens :: int
  td_ReasoningTokens :: int
  td_AcceptedPredictionTokens :: int
  td_RejectedPredictionTokens :: int

definition zero_token_details :: ChatTokenDetails where [go_zero]:
  "zero_token_details = \<lparr>td_CachedTokens = 0, td_AudioTokens = 0, td_CacheCreationTokens = 0,
     td_CacheWriteTokens = 0, td_ReasoningTokens = 0, td_AcceptedPredictionTokens = 0,
     td_RejectedPredictionTokens = 0\<rparr>"

record ChatUsage =
  cu_PromptTokens :: int
  cu_CompletionTokens :: int
  cu_TotalTokens :: int
  cu_PromptTokensDetails :: "ChatTokenDetails option"
  cu_CompletionTokensDetails :: "ChatTokenDetails option"

record ChatChoice =
  ch_Index :: int
  ch_Message :: ChatMessage
  ch_FinishReason :: string

record ChatCompletionsResponse =
  cr_ID :: string
  cr_Object :: string
  cr_Created :: int
  cr_Model :: string
  cr_Choices :: "ChatChoice list"
  cr_Usage :: "ChatUsage option"
  cr_SystemFingerprint :: string
  cr_ServiceTier :: string

record ChatDelta =
  cd_Role :: string
  cd_Content :: "string option"
  cd_ReasoningContent :: "string option"
  cd_Reasoning :: "string option"
  cd_ToolCalls :: "ChatToolCall list"

definition zero_chat_delta :: ChatDelta where [go_zero]:
  "zero_chat_delta = \<lparr>cd_Role = [], cd_Content = None, cd_ReasoningContent = None,
     cd_Reasoning = None, cd_ToolCalls = []\<rparr>"

record ChatChunkChoice =
  cx_Index :: int
  cx_Delta :: ChatDelta
  cx_FinishReason :: "string option"

record ChatCompletionsChunk =
  ck_ID :: string
  ck_Object :: string
  ck_Created :: int
  ck_Model :: string
  ck_Choices :: "ChatChunkChoice list"
  ck_Usage :: "ChatUsage option"
  ck_SystemFingerprint :: string
  ck_ServiceTier :: string

subsection \<open>encoding/json as the bridges use it\<close>

text \<open>
  The bridges call \<open>json.Valid\<close>, \<open>json.Unmarshal\<close> into \<open>map[string]json.RawMessage\<close>,
  \<open>json.Marshal\<close> of such a map, of a \<open>map[string]string\<close> and of a string. Nothing depends on how
  these encode, so they are arguments of the model. \<open>None\<close> is an error return; an object is its
  list of members.
\<close>

record json_lib =
  json_Valid :: "string \<Rightarrow> bool"
  json_UnmarshalObject :: "string \<Rightarrow> (string \<times> string) list option"
  json_MarshalObject :: "(string \<times> string) list \<Rightarrow> string option"
  json_MarshalStringMap :: "(string \<times> string) list \<Rightarrow> string"
  json_MarshalString :: "string \<Rightarrow> string"

text \<open>
  A concrete instance for evaluating the model: every text is valid, only the empty object is
  decoded, and a map is encoded as the concatenation of its members.
\<close>

definition plain_json :: json_lib where
  "plain_json = \<lparr>json_Valid = (\<lambda>s. s \<noteq> []),
     json_UnmarshalObject = (\<lambda>s. if s = ''{}'' then Some [] else None),
     json_MarshalObject = (\<lambda>kvs. Some (concat (map (\<lambda>(k, v). k @ v) kvs))),
     json_MarshalStringMap = (\<lambda>kvs. concat (map (\<lambda>(k, v). k @ v) kvs)),
     json_MarshalString = (\<lambda>s. s)\<rparr>"

subsection \<open>Call identifiers\<close>

definition toResponsesCallID :: "string \<Rightarrow> string" where
  "toResponsesCallID cid = cid"

definition fromResponsesCallID :: "string \<Rightarrow> string" where
  "fromResponsesCallID cid =
     (case go_CutPrefix cid ''fc_'' of
        Some after \<Rightarrow>
          if go_HasPrefix after ''toolu_'' \<or> go_HasPrefix after ''call_'' then after else cid
      | None \<Rightarrow> cid)"

end
