(* ===== verification/Resp_To_Anthropic.thy ===== *)
theory Resp_To_Anthropic
  imports Apicompat_Types
begin

section \<open>Responses to Anthropic: apicompat/responses_to_anthropic.go\<close>

text \<open>
  The bridge that serves an Anthropic client from an OpenAI Responses upstream: the non-streaming
  conversion \<open>ResponsesToAnthropic\<close> and the stateful converter \<open>ResponsesEventToAnthropicEvents\<close>
  with its handlers. A handler returns the updated state and the emitted events.
\<close>

subsection \<open>Non-streaming conversion\<close>

definition anthropicUsageFromResponsesUsage :: "ResponsesUsage option \<Rightarrow> AnthropicUsage" where
  "anthropicUsageFromResponsesUsage usage =
     (case usage of
        None \<Rightarrow> zero_usage
      | Some u \<Rightarrow>
          let cachedTokens = (case ru_InputTokensDetails u of None \<Rightarrow> 0
                              | Some d \<Rightarrow> it_CachedTokens d);
              inputTokens = ru_InputTokens u - cachedTokens - ru_CacheCreationInputTokens u;
              inputTokens = (if inputTokens < 0 then 0 else inputTokens)
          in zero_usage\<lparr>au_InputTokens := inputTokens,
               au_OutputTokens := ru_OutputTokens u,
               au_CacheReadInputTokens := cachedTokens,
               au_CacheCreationInputTokens := ru_CacheCreationInputTokens u\<rparr>)"

definition containsAnthropicToolUseBlock :: "AnthropicContentBlock list \<Rightarrow> bool" where
  "containsAnthropicToolUseBlock blocks \<longleftrightarrow> list_ex (\<lambda>b. cb_Type b = ''tool_use'') blocks"

definition responsesStatusToAnthropicStopReason ::
    "string \<Rightarrow> ResponsesIncompleteDetails option \<Rightarrow> AnthropicContentBlock list \<Rightarrow> string" where
  "responsesStatusToAnthropicStopReason status details blocks =
     (if status = ''incomplete'' then
        (if details = Some ''max_output_tokens'' then ''max_tokens'' else ''end_turn'')
      else if status = ''completed'' then
        (if containsAnthropicToolUseBlock blocks then ''tool_use'' else ''end_turn'')
      else ''end_turn'')"

text \<open>
  \<open>sanitizeAnthropicToolUseInput\<close>: only the \<open>Read\<close> tool is touched, and only a member \<open>pages\<close>
  whose value is the empty JSON string is removed.
\<close>

definition sanitizeAnthropicToolUseInput :: "json_lib \<Rightarrow> string \<Rightarrow> string \<Rightarrow> string" where
  "sanitizeAnthropicToolUseInput J name raw =
     (if name \<noteq> ''Read'' \<or> raw = [] then raw
      else case json_UnmarshalObject J raw of
        None \<Rightarrow> raw
      | Some input \<Rightarrow>
          if map_of input ''pages'' \<noteq> Some [CHR 0x22, CHR 0x22] then raw
          else (case json_MarshalObject J (filter (\<lambda>kv. fst kv \<noteq> ''pages'') input) of
                  None \<Rightarrow> raw
                | Some sanitized \<Rightarrow> sanitized))"

definition web_search_blocks :: "json_lib \<Rightarrow> ResponsesOutput \<Rightarrow>
    AnthropicContentBlock \<times> AnthropicContentBlock" where
  "web_search_blocks J item =
     (let toolUseID = ''srvtoolu_'' @ ro_ID item;
          query = (case ro_Action item of None \<Rightarrow> [] | Some a \<Rightarrow> wa_Query a)
      in (zero_block\<lparr>cb_Type := ''server_tool_use'', cb_ID := toolUseID, cb_Name := ''web_search'',
            cb_Input := json_MarshalStringMap J [(''query'', query)]\<rparr>,
          zero_block\<lparr>cb_Type := ''web_search_tool_result'', cb_ToolUseID := toolUseID,
            cb_Content := ''[]''\<rparr>))"

definition summary_text :: "ResponsesSummary list \<Rightarrow> string" where
  "summary_text ss =
     concat (map sm_Text (filter (\<lambda>s. sm_Type s = ''summary_text'' \<and> sm_Text s \<noteq> []) ss))"

definition output_texts :: "ResponsesContentPart list \<Rightarrow> string list" where
  "output_texts ps =
     map cp_Text (filter (\<lambda>p. cp_Type p = ''output_text'' \<and> cp_Text p \<noteq> []) ps)"

definition output_item_blocks :: "json_lib \<Rightarrow> ResponsesOutput \<Rightarrow> AnthropicContentBlock list" where
  "output_item_blocks J item =
     (if ro_Type item = ''reasoning'' then
        (let summaryText = summary_text (ro_Summary item) in
         if summaryText \<noteq> [] \<or> go_TrimSpace (ro_EncryptedContent item) \<noteq> []
         then [zero_block\<lparr>cb_Type := ''thinking'', cb_Thinking := summaryText,
                 cb_Signature := ro_EncryptedContent item\<rparr>]
         else [])
      else if ro_Type item = ''message'' then
        map (\<lambda>t. zero_block\<lparr>cb_Type := ''text'', cb_Text := t\<rparr>) (output_texts (ro_Content item))
      else if ro_Type item = ''function_call'' then
        [zero_block\<lparr>cb_Type := ''tool_use'', cb_ID := fromResponsesCallID (ro_CallID item),
           cb_Name := ro_Name item,
           cb_Input := sanitizeAnthropicToolUseInput J (ro_Name item) (ro_Arguments item)\<rparr>]
      else if ro_Type item = ''web_search_call'' then
        (case web_search_blocks J item of (b1, b2) \<Rightarrow> [b1, b2])
      else [])"

definition ResponsesToAnthropic :: "json_lib \<Rightarrow> ResponsesResponse \<Rightarrow> string \<Rightarrow> AnthropicResponse" where
  "ResponsesToAnthropic J resp model =
     (let blocks = concat (map (output_item_blocks J) (rr_Output resp));
          blocks = (if blocks = [] then [zero_block\<lparr>cb_Type := ''text''\<rparr>] else blocks)
      in \<lparr>ar_ID = rr_ID resp, ar_Type = ''message'', ar_Role = ''assistant'', ar_Content = blocks,
          ar_Model = model,
          ar_StopReason = Some (responsesStatusToAnthropicStopReason (rr_Status resp)
                                  (rr_IncompleteDetails resp) blocks),
          ar_StopSequence = None,
          ar_Usage = (case rr_Usage resp of None \<Rightarrow> zero_usage
                      | Some u \<Rightarrow> anthropicUsageFromResponsesUsage (Some u))\<rparr>)"

subsection \<open>Streaming state\<close>

record R2AState =
  ra_MessageStartSent :: bool
  ra_MessageStopSent :: bool
  ra_ContentBlockIndex :: int
  ra_ContentBlockOpen :: bool
  ra_CurrentBlockType :: string
  ra_CurrentToolName :: string
  ra_CurrentToolArgs :: string
  ra_CurrentToolHadDelta :: bool
  ra_PendingThinkingSignature :: string
  ra_HasToolCall :: bool
  ra_OutputIndexToBlockIdx :: "int \<Rightarrow> int option"
  ra_InputTokens :: int
  ra_OutputTokens :: int
  ra_CacheReadInputTokens :: int
  ra_CacheCreationInputTokens :: int
  ra_ResponseID :: string
  ra_Model :: string
  ra_Created :: int

definition NewResponsesEventToAnthropicState :: "int \<Rightarrow> R2AState" where
  "NewResponsesEventToAnthropicState now =
     \<lparr>ra_MessageStartSent = False, ra_MessageStopSent = False, ra_ContentBlockIndex = 0,
      ra_ContentBlockOpen = False, ra_CurrentBlockType = [], ra_CurrentToolName = [],
      ra_CurrentToolArgs = [], ra_CurrentToolHadDelta = False, ra_PendingThinkingSignature = [],
      ra_HasToolCall = False, ra_OutputIndexToBlockIdx = Map.empty, ra_InputTokens = 0,
      ra_OutputTokens = 0, ra_CacheReadInputTokens = 0, ra_CacheCreationInputTokens = 0,
      ra_ResponseID = [], ra_Model = [], ra_Created = now\<rparr>"

subsection \<open>Event literals\<close>

definition block_start :: "int \<Rightarrow> AnthropicContentBlock \<Rightarrow> AnthropicStreamEvent" where
  "block_start idx b = zero_anth_event\<lparr>ae_Type := ''content_block_start'', ae_Index := Some idx,
     ae_ContentBlock := Some b\<rparr>"

definition block_delta :: "int \<Rightarrow> AnthropicDelta \<Rightarrow> AnthropicStreamEvent" where
  "block_delta idx d = zero_anth_event\<lparr>ae_Type := ''content_block_delta'', ae_Index := Some idx,
     ae_Delta := Some d\<rparr>"

definition block_stop :: "int \<Rightarrow> AnthropicStreamEvent" where
  "block_stop idx = zero_anth_event\<lparr>ae_Type := ''content_block_stop'', ae_Index := Some idx\<rparr>"

definition input_json_delta :: "string \<Rightarrow> AnthropicDelta" where
  "input_json_delta s = zero_delta\<lparr>ad_Type := ''input_json_delta'', ad_PartialJSON := s\<rparr>"

definition message_end_events :: "R2AState \<Rightarrow> string \<Rightarrow> AnthropicStreamEvent list" where
  "message_end_events st stopReason =
     [zero_anth_event\<lparr>ae_Type := ''message_delta'',
        ae_Delta := Some (zero_delta\<lparr>ad_StopReason := stopReason\<rparr>),
        ae_Usage := Some (zero_usage\<lparr>au_InputTokens := ra_InputTokens st,
          au_OutputTokens := ra_OutputTokens st,
          au_CacheReadInputTokens := ra_CacheReadInputTokens st,
          au_CacheCreationInputTokens := ra_CacheCreationInputTokens st\<rparr>)\<rparr>,
      zero_anth_event\<lparr>ae_Type := ''message_stop''\<rparr>]"

subsection \<open>Handlers\<close>

definition closeCurrentBlock :: "R2AState \<Rightarrow> R2AState \<times> AnthropicStreamEvent list" where
  "closeCurrentBlock st =
     (if \<not> ra_ContentBlockOpen st then (st, [])
      else
        let idx = ra_ContentBlockIndex st;
            thinking = (ra_CurrentBlockType st = ''thinking'');
            sig = go_TrimSpace (ra_PendingThinkingSignature st);
            sig_events = (if thinking \<and> sig \<noteq> []
              then [block_delta idx (zero_delta\<lparr>ad_Type := ''signature_delta'', ad_Signature := sig\<rparr>)]
              else []);
            st1 = (if thinking then st\<lparr>ra_PendingThinkingSignature := []\<rparr> else st)
        in (st1\<lparr>ra_ContentBlockOpen := False, ra_ContentBlockIndex := idx + 1,
              ra_CurrentToolName := [], ra_CurrentToolArgs := [], ra_CurrentToolHadDelta := False\<rparr>,
            sig_events @ [block_stop idx]))"

definition resToAnthHandleCreated ::
    "ResponsesStreamEvent \<Rightarrow> R2AState \<Rightarrow> R2AState \<times> AnthropicStreamEvent list" where
  "resToAnthHandleCreated evt st =
     (let st1 = (case re_Response evt of
                   None \<Rightarrow> st
                 | Some r \<Rightarrow>
                     let s = st\<lparr>ra_ResponseID := rr_ID r\<rparr>
                     in (if ra_Model s = [] then s\<lparr>ra_Model := rr_Model r\<rparr> else s))
      in if ra_MessageStartSent st1 then (st1, [])
         else
           let st2 = st1\<lparr>ra_MessageStartSent := True\<rparr>
           in (st2,
               [zero_anth_event\<lparr>ae_Type := ''message_start'',
                  ae_Message := Some \<lparr>ar_ID = ra_ResponseID st2, ar_Type = ''message'',
                    ar_Role = ''assistant'', ar_Content = [], ar_Model = ra_Model st2,
                    ar_StopReason = None, ar_StopSequence = None, ar_Usage = zero_usage\<rparr>\<rparr>]))"

definition resToAnthHandleOutputItemAdded ::
    "ResponsesStreamEvent \<Rightarrow> R2AState \<Rightarrow> R2AState \<times> AnthropicStreamEvent list" where
  "resToAnthHandleOutputItemAdded evt st =
     (case re_Item evt of
        None \<Rightarrow> (st, [])
      | Some item \<Rightarrow>
          if ro_Type item = ''function_call'' \<or> ro_Type item = ''custom_tool_call'' then
            (case closeCurrentBlock st of (st1, closed) \<Rightarrow>
               let idx = ra_ContentBlockIndex st1
               in (st1\<lparr>ra_OutputIndexToBlockIdx := (ra_OutputIndexToBlockIdx st1)(re_OutputIndex evt \<mapsto> idx),
                     ra_ContentBlockOpen := True, ra_CurrentBlockType := ''tool_use'',
                     ra_CurrentToolName := ro_Name item, ra_CurrentToolArgs := [],
                     ra_CurrentToolHadDelta := False, ra_HasToolCall := True\<rparr>,
                   closed @ [block_start idx (zero_block\<lparr>cb_Type := ''tool_use'',
                     cb_ID := fromResponsesCallID (ro_CallID item), cb_Name := ro_Name item,
                     cb_Input := ''{}''\<rparr>)]))
          else if ro_Type item = ''reasoning'' then
            (case closeCurrentBlock st of (st1, closed) \<Rightarrow>
               let idx = ra_ContentBlockIndex st1
               in (st1\<lparr>ra_OutputIndexToBlockIdx := (ra_OutputIndexToBlockIdx st1)(re_OutputIndex evt \<mapsto> idx),
                     ra_ContentBlockOpen := True, ra_CurrentBlockType := ''thinking'',
                     ra_PendingThinkingSignature := go_TrimSpace (ro_EncryptedContent item)\<rparr>,
                   closed @ [block_start idx (zero_block\<lparr>cb_Type := ''thinking''\<rparr>)]))
          else (st, []))"

definition resToAnthHandleTextDelta ::
    "ResponsesStreamEvent \<Rightarrow> R2AState \<Rightarrow> R2AState \<times> AnthropicStreamEvent list" where
  "resToAnthHandleTextDelta evt st =
     (if re_Delta evt = [] then (st, [])
      else
        case (if \<not> ra_ContentBlockOpen st \<or> ra_CurrentBlockType st \<noteq> ''text'' then
                (case closeCurrentBlock st of (st1, closed) \<Rightarrow>
                   (st1\<lparr>ra_ContentBlockOpen := True, ra_CurrentBlockType := ''text''\<rparr>,
                    closed @ [block_start (ra_ContentBlockIndex st1) (zero_block\<lparr>cb_Type := ''text''\<rparr>)]))
              else (st, []))
        of (st2, evs) \<Rightarrow>
          (st2, evs @ [block_delta (ra_ContentBlockIndex st2)
                         (zero_delta\<lparr>ad_Type := ''text_delta'', ad_Text := re_Delta evt\<rparr>)]))"

definition resToAnthHandleFuncArgsDelta ::
    "json_lib \<Rightarrow> ResponsesStreamEvent \<Rightarrow> R2AState \<Rightarrow> R2AState \<times> AnthropicStreamEvent list" where
  "resToAnthHandleFuncArgsDelta J evt st =
     (if re_Delta evt = [] then (st, [])
      else if ra_CurrentBlockType st = ''tool_use'' \<and> ra_CurrentToolName st = ''Read'' then
        let st1 = st\<lparr>ra_CurrentToolArgs := ra_CurrentToolArgs st @ re_Delta evt\<rparr>
        in if ra_CurrentToolHadDelta st1 \<or> \<not> json_Valid J (ra_CurrentToolArgs st1) then (st1, [])
           else (case ra_OutputIndexToBlockIdx st1 (re_OutputIndex evt) of
                   None \<Rightarrow> (st1, [])
                 | Some blockIdx \<Rightarrow>
                     (st1\<lparr>ra_CurrentToolHadDelta := True\<rparr>,
                      [block_delta blockIdx (input_json_delta
                         (sanitizeAnthropicToolUseInput J (ra_CurrentToolName st1)
                            (ra_CurrentToolArgs st1)))]))
      else
        let st1 = (if ra_CurrentBlockType st = ''tool_use'' then st\<lparr>ra_CurrentToolHadDelta := True\<rparr>
                   else st)
        in (case ra_OutputIndexToBlockIdx st1 (re_OutputIndex evt) of
              None \<Rightarrow> (st1, [])
            | Some blockIdx \<Rightarrow> (st1, [block_delta blockIdx (input_json_delta (re_Delta evt))])))"

definition resToAnthHandleBlockDone :: "R2AState \<Rightarrow> R2AState \<times> AnthropicStreamEvent list" where
  "resToAnthHandleBlockDone st =
     (if \<not> ra_ContentBlockOpen st then (st, []) else closeCurrentBlock st)"

definition resToAnthHandleFuncArgsDone ::
    "json_lib \<Rightarrow> ResponsesStreamEvent \<Rightarrow> R2AState \<Rightarrow> R2AState \<times> AnthropicStreamEvent list" where
  "resToAnthHandleFuncArgsDone J evt st =
     (if \<not> ra_ContentBlockOpen st then (st, [])
      else if ra_CurrentBlockType st \<noteq> ''tool_use'' then resToAnthHandleBlockDone st
      else
        let raw = (if re_Arguments evt = [] then ra_CurrentToolArgs st else re_Arguments evt)
        in if raw = [] \<or> ra_CurrentToolHadDelta st then closeCurrentBlock st
           else
             let sanitized = (if ra_CurrentToolName st = ''Read''
                              then sanitizeAnthropicToolUseInput J (ra_CurrentToolName st) raw
                              else raw)
             in if ra_CurrentToolName st = ''Read'' \<and> sanitized = [] then closeCurrentBlock st
                else
                  let blockIdx = (case ra_OutputIndexToBlockIdx st (re_OutputIndex evt) of
                                    None \<Rightarrow> ra_ContentBlockIndex st | Some i \<Rightarrow> i)
                  in if \<not> ra_ContentBlockOpen st \<or> blockIdx \<noteq> ra_ContentBlockIndex st then (st, [])
                     else (case closeCurrentBlock st of (st1, closed) \<Rightarrow>
                             (st1, block_delta blockIdx (input_json_delta sanitized) # closed)))"

definition resToAnthHandleReasoningDelta ::
    "ResponsesStreamEvent \<Rightarrow> R2AState \<Rightarrow> R2AState \<times> AnthropicStreamEvent list" where
  "resToAnthHandleReasoningDelta evt st =
     (if re_Delta evt = [] then (st, [])
      else case ra_OutputIndexToBlockIdx st (re_OutputIndex evt) of
        None \<Rightarrow> (st, [])
      | Some blockIdx \<Rightarrow>
          (st, [block_delta blockIdx
                  (zero_delta\<lparr>ad_Type := ''thinking_delta'', ad_Thinking := re_Delta evt\<rparr>)]))"

definition resToAnthHandleWebSearchDone ::
    "json_lib \<Rightarrow> ResponsesOutput \<Rightarrow> R2AState \<Rightarrow> R2AState \<times> AnthropicStreamEvent list" where
  "resToAnthHandleWebSearchDone J item st =
     (case closeCurrentBlock st of (st1, closed) \<Rightarrow>
        case web_search_blocks J item of (b1, b2) \<Rightarrow>
          let idx1 = ra_ContentBlockIndex st1; idx2 = idx1 + 1
          in (st1\<lparr>ra_ContentBlockIndex := idx2 + 1\<rparr>,
              closed @ [block_start idx1 b1, block_stop idx1, block_start idx2 b2, block_stop idx2]))"

definition resToAnthHandleOutputItemDone ::
    "json_lib \<Rightarrow> ResponsesStreamEvent \<Rightarrow> R2AState \<Rightarrow> R2AState \<times> AnthropicStreamEvent list" where
  "resToAnthHandleOutputItemDone J evt st =
     (case re_Item evt of
        None \<Rightarrow> (st, [])
      | Some item \<Rightarrow>
          if ro_Type item = ''web_search_call'' \<and> ro_Status item = ''completed''
          then resToAnthHandleWebSearchDone J item st
          else
            let sig = go_TrimSpace (ro_EncryptedContent item);
                st1 = (if ro_Type item = ''reasoning'' \<and> sig \<noteq> []
                       then st\<lparr>ra_PendingThinkingSignature := sig\<rparr> else st)
            in if ra_ContentBlockOpen st1 then closeCurrentBlock st1 else (st1, []))"

definition record_usage :: "ResponsesUsage option \<Rightarrow> R2AState \<Rightarrow> R2AState" where
  "record_usage u st =
     (case u of
        None \<Rightarrow> st
      | Some u' \<Rightarrow>
          let usage = anthropicUsageFromResponsesUsage (Some u')
          in st\<lparr>ra_InputTokens := au_InputTokens usage, ra_OutputTokens := au_OutputTokens usage,
                ra_CacheReadInputTokens := au_CacheReadInputTokens usage,
                ra_CacheCreationInputTokens := au_CacheCreationInputTokens usage\<rparr>)"

definition completed_stop_reason :: "ResponsesStreamEvent \<Rightarrow> R2AState \<Rightarrow> string" where
  "completed_stop_reason evt st =
     (case re_Response evt of
        None \<Rightarrow> ''end_turn''
      | Some r \<Rightarrow>
          if rr_Status r = ''incomplete'' then
            (if rr_IncompleteDetails r = Some ''max_output_tokens'' then ''max_tokens'' else ''end_turn'')
          else if rr_Status r = ''completed'' then
            (if ra_HasToolCall st then ''tool_use'' else ''end_turn'')
          else ''end_turn'')"

definition resToAnthHandleCompleted ::
    "ResponsesStreamEvent \<Rightarrow> R2AState \<Rightarrow> R2AState \<times> AnthropicStreamEvent list" where
  "resToAnthHandleCompleted evt st =
     (if ra_MessageStopSent st then (st, [])
      else
        case closeCurrentBlock st of (st1, closed) \<Rightarrow>
          let st2 = record_usage (re_Usage evt) st1;
              st3 = (case re_Response evt of None \<Rightarrow> st2 | Some r \<Rightarrow> record_usage (rr_Usage r) st2)
          in (st3\<lparr>ra_MessageStopSent := True\<rparr>,
              closed @ message_end_events st3 (completed_stop_reason evt st3)))"

definition FinalizeResponsesAnthropicStream ::
    "R2AState \<Rightarrow> R2AState \<times> AnthropicStreamEvent list" where
  "FinalizeResponsesAnthropicStream st =
     (if \<not> ra_MessageStartSent st \<or> ra_MessageStopSent st then (st, [])
      else
        case closeCurrentBlock st of (st1, closed) \<Rightarrow>
          (st1\<lparr>ra_MessageStopSent := True\<rparr>,
           closed @ message_end_events st1
             (if ra_HasToolCall st1 then ''tool_use'' else ''end_turn'')))"

definition ResponsesEventToAnthropicEvents ::
    "json_lib \<Rightarrow> ResponsesStreamEvent \<Rightarrow> R2AState \<Rightarrow> R2AState \<times> AnthropicStreamEvent list" where
  "ResponsesEventToAnthropicEvents J evt st =
     (let t = re_Type evt in
      if t = ''response.created'' then resToAnthHandleCreated evt st
      else if t = ''response.output_item.added'' then resToAnthHandleOutputItemAdded evt st
      else if t = ''response.output_text.delta'' then resToAnthHandleTextDelta evt st
      else if t = ''response.output_text.done'' then resToAnthHandleBlockDone st
      else if t = ''response.function_call_arguments.delta''
            \<or> t = ''response.custom_tool_call_input.delta'' then resToAnthHandleFuncArgsDelta J evt st
      else if t = ''response.function_call_arguments.done'' then resToAnthHandleFuncArgsDone J evt st
      else if t = ''response.output_item.done'' then resToAnthHandleOutputItemDone J evt st
      else if t = ''response.reasoning_summary_text.delta''
            \<or> t = ''response.reasoning_text.delta'' then resToAnthHandleReasoningDelta evt st
      else if t = ''response.reasoning_summary_text.done'' then (st, [])
      else if t = ''response.completed'' \<or> t = ''response.done'' \<or> t = ''response.incomplete''
            \<or> t = ''response.failed'' then resToAnthHandleCompleted evt st
      else (st, []))"

subsection \<open>The Anthropic stream protocol\<close>

record anth_pos =
  ap_next :: int
  ap_open :: "string option"
  ap_started :: bool
  ap_stopped :: bool
  ap_ending :: bool

definition anth_accept_delta :: "anth_pos \<Rightarrow> int option \<Rightarrow> AnthropicDelta \<Rightarrow> bool" where
  "anth_accept_delta p idx d \<longleftrightarrow>
     (if ad_Type d = ''text_delta'' then ap_open p = Some ''text'' \<and> idx = Some (ap_next p)
      else if ad_Type d = ''signature_delta'' then ap_open p = Some ''thinking'' \<and> idx = Some (ap_next p)
      else (case idx of None \<Rightarrow> False
            | Some i \<Rightarrow> 0 \<le> i \<and> (i < ap_next p \<or> i = ap_next p \<and> ap_open p \<noteq> None)))"

definition anth_accept :: "anth_pos \<Rightarrow> AnthropicStreamEvent \<Rightarrow> anth_pos option" where
  "anth_accept p e =
     (let t = ae_Type e in
      if ap_ending p then
        (if t = ''message_stop'' then Some (p\<lparr>ap_ending := False, ap_stopped := True\<rparr>) else None)
      else if t = ''message_start'' then
        (if ap_started p then None else Some (p\<lparr>ap_started := True\<rparr>))
      else if t = ''content_block_start'' then
        (case ae_ContentBlock e of None \<Rightarrow> None
         | Some b \<Rightarrow> if ap_open p = None \<and> ae_Index e = Some (ap_next p)
                    then Some (p\<lparr>ap_open := Some (cb_Type b)\<rparr>) else None)
      else if t = ''content_block_delta'' then
        (case ae_Delta e of None \<Rightarrow> None
         | Some d \<Rightarrow> if anth_accept_delta p (ae_Index e) d then Some p else None)
      else if t = ''content_block_stop'' then
        (if ap_open p \<noteq> None \<and> ae_Index e = Some (ap_next p)
         then Some (p\<lparr>ap_open := None, ap_next := ap_next p + 1\<rparr>) else None)
      else if t = ''message_delta'' then
        (if ap_open p = None \<and> \<not> ap_stopped p then Some (p\<lparr>ap_ending := True\<rparr>) else None)
      else None)"

definition r2a_view :: "R2AState \<Rightarrow> anth_pos" where
  "r2a_view st = \<lparr>ap_next = ra_ContentBlockIndex st,
     ap_open = (if ra_ContentBlockOpen st then Some (ra_CurrentBlockType st) else None),
     ap_started = ra_MessageStartSent st, ap_stopped = ra_MessageStopSent st, ap_ending = False\<rparr>"

definition r2a_inv :: "R2AState \<Rightarrow> bool" where
  "r2a_inv st \<longleftrightarrow> 0 \<le> ra_ContentBlockIndex st \<and>
     (\<forall>oi i. ra_OutputIndexToBlockIdx st oi = Some i \<longrightarrow>
        0 \<le> i \<and> (i < ra_ContentBlockIndex st \<or> i = ra_ContentBlockIndex st \<and> ra_ContentBlockOpen st))"


text \<open>The acceptor on each event literal the handlers build.\<close>

lemma accept_block_start [simp]:
  "\<not> ap_ending p \<Longrightarrow> anth_accept p (block_start i b) =
     (if ap_open p = None \<and> i = ap_next p then Some (p\<lparr>ap_open := Some (cb_Type b)\<rparr>) else None)"
  by (auto simp: anth_accept_def block_start_def)

lemma accept_block_delta [simp]:
  "\<not> ap_ending p \<Longrightarrow> anth_accept p (block_delta i d) =
     (if anth_accept_delta p (Some i) d then Some p else None)"
  by (auto simp: anth_accept_def block_delta_def)

lemma accept_block_stop [simp]:
  "\<not> ap_ending p \<Longrightarrow> anth_accept p (block_stop i) =
     (if ap_open p \<noteq> None \<and> i = ap_next p
      then Some (p\<lparr>ap_open := None, ap_next := ap_next p + 1\<rparr>) else None)"
  by (auto simp: anth_accept_def block_stop_def)

lemma accept_message_end [simp]:
  "\<not> ap_ending p \<Longrightarrow> scan_events anth_accept p (message_end_events st r) =
     (if ap_open p = None \<and> \<not> ap_stopped p then Some (p\<lparr>ap_stopped := True\<rparr>) else None)"
  by (auto simp: anth_accept_def message_end_events_def zero_anth_event_def)



lemma closeCurrentBlock_closed: "\<not> ra_ContentBlockOpen (fst (closeCurrentBlock st))"
  by (simp add: closeCurrentBlock_def Let_def)

lemma closeCurrentBlock_flags:
  "ra_MessageStartSent (fst (closeCurrentBlock st)) = ra_MessageStartSent st"
  "ra_MessageStopSent (fst (closeCurrentBlock st)) = ra_MessageStopSent st"
  "ra_HasToolCall (fst (closeCurrentBlock st)) = ra_HasToolCall st"
  "ra_OutputIndexToBlockIdx (fst (closeCurrentBlock st)) = ra_OutputIndexToBlockIdx st"
  "ra_CurrentBlockType (fst (closeCurrentBlock st)) = ra_CurrentBlockType st"
  by (simp_all add: closeCurrentBlock_def Let_def)





















lemma r2a_view_signature [simp]: "r2a_view (st\<lparr>ra_PendingThinkingSignature := s\<rparr>) = r2a_view st"
  by (cases st) (simp add: r2a_view_def)

lemma r2a_inv_signature [simp]: "r2a_inv (st\<lparr>ra_PendingThinkingSignature := s\<rparr>) = r2a_inv st"
  by (simp add: r2a_inv_def)



lemma record_usage_frame:
  "r2a_view (record_usage u st) = r2a_view st" "r2a_inv (record_usage u st) = r2a_inv st"
  "ra_HasToolCall (record_usage u st) = ra_HasToolCall st"
  by (simp_all add: record_usage_def r2a_view_def r2a_inv_def Let_def split: option.split)







abbreviation r2a_stream :: "json_lib \<Rightarrow> int \<Rightarrow> ResponsesStreamEvent list \<Rightarrow>
    R2AState \<times> AnthropicStreamEvent list" where
  "r2a_stream J now es \<equiv>
     run_events (ResponsesEventToAnthropicEvents J) es (NewResponsesEventToAnthropicState now)"



subsection \<open>Text is conserved\<close>

definition text_in :: "ResponsesStreamEvent \<Rightarrow> string" where
  "text_in e = (if re_Type e = ''response.output_text.delta'' then re_Delta e else [])"

definition text_out :: "AnthropicStreamEvent \<Rightarrow> string" where
  "text_out e = (case ae_Delta e of None \<Rightarrow> [] | Some d \<Rightarrow> ad_Text d)"

definition text_of :: "AnthropicStreamEvent list \<Rightarrow> string" where
  "text_of evs = concat (map text_out evs)"

lemma text_of_list [simp]:
  "text_of [] = []" "text_of (e # evs) = text_out e @ text_of evs"
  "text_of (evs @ evs') = text_of evs @ text_of evs'"
  by (simp_all add: text_of_def)

lemma text_out_simps [simp]:
  "text_out (block_start i b) = []" "text_out (block_stop i) = []"
  "text_out (block_delta i d) = ad_Text d" "text_out (zero_anth_event\<lparr>ae_Type := t, ae_Message := m\<rparr>) = []"
  by (simp_all add: text_out_def block_start_def block_stop_def block_delta_def zero_anth_event_def)

lemma text_of_end [simp]: "text_of (message_end_events st r) = []"
  by (simp add: text_out_def message_end_events_def zero_anth_event_def zero_delta_def)

lemma text_of_close [simp]: "text_of (snd (closeCurrentBlock st)) = []"
  by (simp add: closeCurrentBlock_def Let_def zero_delta_def)

lemma text_of_after_close:
  "text_of (snd (case closeCurrentBlock st of (s, c) \<Rightarrow> (f s, g s c))) =
   text_of (g (fst (closeCurrentBlock st)) (snd (closeCurrentBlock st)))"
  by (simp split: prod.split)

lemma text_of_text_delta: "text_of (snd (resToAnthHandleTextDelta evt st)) = re_Delta evt"
proof (cases "closeCurrentBlock st")
  case (Pair st1 closed)
  then have "text_of closed = []" using text_of_close [of st] by simp
  with Pair show ?thesis by (simp add: resToAnthHandleTextDelta_def)
qed

lemma text_of_others:
  "text_of (snd (resToAnthHandleCreated evt st)) = []"
  "text_of (snd (resToAnthHandleOutputItemAdded evt st)) = []"
  "text_of (snd (resToAnthHandleFuncArgsDelta J evt st)) = []"
  "text_of (snd (resToAnthHandleBlockDone st)) = []"
  "text_of (snd (resToAnthHandleReasoningDelta evt st)) = []"
  "text_of (snd (resToAnthHandleWebSearchDone J item st)) = []"
  "text_of (snd (resToAnthHandleCompleted evt st)) = []"
  "text_of (snd (FinalizeResponsesAnthropicStream st)) = []"
  by (simp_all add: resToAnthHandleCreated_def resToAnthHandleOutputItemAdded_def
      resToAnthHandleFuncArgsDelta_def resToAnthHandleBlockDone_def resToAnthHandleReasoningDelta_def
      resToAnthHandleWebSearchDone_def resToAnthHandleCompleted_def FinalizeResponsesAnthropicStream_def
      web_search_blocks_def input_json_delta_def zero_delta_def text_of_after_close
      Let_def split: option.split)

lemma text_of_done:
  "text_of (snd (resToAnthHandleFuncArgsDone J evt st)) = []"
  "text_of (snd (resToAnthHandleOutputItemDone J evt st)) = []"
  by (simp_all add: resToAnthHandleFuncArgsDone_def resToAnthHandleOutputItemDone_def text_of_others
      text_of_after_close input_json_delta_def zero_delta_def Let_def split: option.split)

interpretation r2a_text: stream_conservation "ResponsesEventToAnthropicEvents J" text_in text_out for J
  by unfold_locales
    (simp add: ResponsesEventToAnthropicEvents_def Let_def text_in_def text_of_text_delta
      text_of_others text_of_done flip: text_of_def)

text \<open>C5: The concatenation of the text deltas sent to the client is the concatenation of the output_text deltas received, whatever other events are interleaved.\<close>

theorem r2a_text_conserved:
  "text_of (snd (r2a_stream J now es)
      @ snd (FinalizeResponsesAnthropicStream (fst (r2a_stream J now es)))) =
   concat (map text_in es)"
  using r2a_text.run_conserved by (simp add: text_of_others) (simp add: text_of_def)

subsection \<open>Tool calls\<close>

definition json_out :: "AnthropicStreamEvent \<Rightarrow> string" where
  "json_out e = (case ae_Delta e of None \<Rightarrow> [] | Some d \<Rightarrow> ad_PartialJSON d)"

definition json_of :: "AnthropicStreamEvent list \<Rightarrow> string" where
  "json_of evs = concat (map json_out evs)"

lemma json_of_list [simp]:
  "json_of [] = []" "json_of (e # evs) = json_out e @ json_of evs"
  "json_of (evs @ evs') = json_of evs @ json_of evs'"
  by (simp_all add: json_of_def)

lemma json_out_simps [simp]:
  "json_out (block_start i b) = []" "json_out (block_stop i) = []"
  "json_out (block_delta i d) = ad_PartialJSON d"
  by (simp_all add: json_out_def block_start_def block_stop_def block_delta_def zero_anth_event_def)

lemma json_of_close [simp]: "json_of (snd (closeCurrentBlock st)) = []"
  by (simp add: closeCurrentBlock_def Let_def zero_delta_def)

text \<open>A tool block other than \<open>Read\<close> is open for the output index \<open>oi\<close>.\<close>

definition tool_open :: "int \<Rightarrow> bool \<Rightarrow> R2AState \<Rightarrow> bool" where
  "tool_open oi had st \<longleftrightarrow> ra_ContentBlockOpen st \<and> ra_CurrentBlockType st = ''tool_use'' \<and>
     ra_CurrentToolName st \<noteq> ''Read'' \<and> ra_CurrentToolArgs st = [] \<and> ra_CurrentToolHadDelta st = had \<and>
     ra_OutputIndexToBlockIdx st oi = Some (ra_ContentBlockIndex st)"

definition is_args_delta :: "int \<Rightarrow> ResponsesStreamEvent \<Rightarrow> bool" where
  "is_args_delta oi e \<longleftrightarrow> re_Type e = ''response.function_call_arguments.delta'' \<and> re_OutputIndex e = oi"

lemma tool_added:
  assumes "re_Type a = ''response.output_item.added''" "re_Item a = Some item"
    "ro_Type item = ''function_call''" "ro_Name item \<noteq> ''Read''"
  shows "tool_open (re_OutputIndex a) False (fst (ResponsesEventToAnthropicEvents J a st))"
    and "json_of (snd (ResponsesEventToAnthropicEvents J a st)) = []"
  using assms json_of_close [of st]
  by (auto simp: ResponsesEventToAnthropicEvents_def resToAnthHandleOutputItemAdded_def tool_open_def
      Let_def simp del: json_of_close split: prod.split)

lemma tool_args_delta:
  assumes "tool_open oi had st" "is_args_delta oi e"
  shows "tool_open oi (had \<or> re_Delta e \<noteq> []) (fst (ResponsesEventToAnthropicEvents J e st))"
    and "json_of (snd (ResponsesEventToAnthropicEvents J e st)) = re_Delta e"
  using assms
  by (auto simp: ResponsesEventToAnthropicEvents_def resToAnthHandleFuncArgsDelta_def tool_open_def
      is_args_delta_def input_json_delta_def Let_def)

lemma tool_args_deltas:
  "tool_open oi had st \<Longrightarrow> list_all (is_args_delta oi) ds \<Longrightarrow>
   tool_open oi (had \<or> concat (map re_Delta ds) \<noteq> []) (fst (run_events (ResponsesEventToAnthropicEvents J) ds st)) \<and>
   json_of (snd (run_events (ResponsesEventToAnthropicEvents J) ds st)) = concat (map re_Delta ds)"
proof (induction ds arbitrary: had st)
  case (Cons e ds)
  then show ?case
    using tool_args_delta [of oi had st e J]
      Cons.IH [of "had \<or> re_Delta e \<noteq> []" "fst (ResponsesEventToAnthropicEvents J e st)"]
    by (auto simp: run_events_Cons simp del: run_events.simps(2))
qed simp

lemma tool_args_done:
  assumes "tool_open oi had st" "re_Type d = ''response.function_call_arguments.done''"
    "re_OutputIndex d = oi"
  shows "json_of (snd (ResponsesEventToAnthropicEvents J d st)) = (if had then [] else re_Arguments d)"
    and "\<not> ra_ContentBlockOpen (fst (ResponsesEventToAnthropicEvents J d st))"
  using assms json_of_close [of st] closeCurrentBlock_closed [of st]
  by (auto simp: ResponsesEventToAnthropicEvents_def resToAnthHandleFuncArgsDone_def tool_open_def
      input_json_delta_def Let_def simp del: json_of_close split: prod.split)

text \<open>For a tool call other than Read whose events arrive in order (added, argument deltas, arguments done), the JSON fragments sent to the client concatenate to the received deltas, or to the arguments of the done event when no delta arrived, and the block is closed.\<close>

theorem r2a_tool_input:
  assumes "re_Type a = ''response.output_item.added''" "re_Item a = Some item"
    and "ro_Type item = ''function_call''" "ro_Name item \<noteq> ''Read''"
    and "list_all (is_args_delta (re_OutputIndex a)) ds"
    and "re_Type d = ''response.function_call_arguments.done''" "re_OutputIndex d = re_OutputIndex a"
  shows "json_of (snd (run_events (ResponsesEventToAnthropicEvents J) (a # ds @ [d]) st)) =
           (if concat (map re_Delta ds) = [] then re_Arguments d else concat (map re_Delta ds)) \<and>
         \<not> ra_ContentBlockOpen (fst (run_events (ResponsesEventToAnthropicEvents J) (a # ds @ [d]) st))"
proof -
  let ?s1 = "fst (ResponsesEventToAnthropicEvents J a st)"
  let ?r = "run_events (ResponsesEventToAnthropicEvents J) ds ?s1"
  have deltas: "tool_open (re_OutputIndex a) (concat (map re_Delta ds) \<noteq> []) (fst ?r)"
    "json_of (snd ?r) = concat (map re_Delta ds)"
    using tool_args_deltas [OF tool_added(1) [OF assms(1-4)] assms(5)] by auto
  show ?thesis
    using tool_args_done [OF deltas(1) assms(6,7), of J] tool_added(2) [OF assms(1-4)] deltas(2)
    by (simp add: run_events_Cons run_events_append run_events_single del: run_events.simps(2))
qed

text \<open>Events of two parallel tool calls.\<close>

definition call_added :: "int \<Rightarrow> string \<Rightarrow> string \<Rightarrow> ResponsesStreamEvent" where
  "call_added oi cid name = zero_resp_event\<lparr>re_Type := ''response.output_item.added'',
     re_OutputIndex := oi,
     re_Item := Some (zero_output\<lparr>ro_Type := ''function_call'', ro_CallID := cid, ro_Name := name\<rparr>)\<rparr>"

definition args_delta :: "int \<Rightarrow> string \<Rightarrow> ResponsesStreamEvent" where
  "args_delta oi s = zero_resp_event\<lparr>re_Type := ''response.function_call_arguments.delta'',
     re_OutputIndex := oi, re_Delta := s\<rparr>"

definition args_done :: "int \<Rightarrow> string \<Rightarrow> ResponsesStreamEvent" where
  "args_done oi s = zero_resp_event\<lparr>re_Type := ''response.function_call_arguments.done'',
     re_OutputIndex := oi, re_Arguments := s\<rparr>"

definition tool_use_block :: "string \<Rightarrow> string \<Rightarrow> AnthropicContentBlock" where
  "tool_use_block cid name = zero_block\<lparr>cb_Type := ''tool_use'', cb_ID := fromResponsesCallID cid,
     cb_Name := name, cb_Input := ''{}''\<rparr>"

theorem r2a_tool_input_witness:
  "json_of (snd (run_events (ResponsesEventToAnthropicEvents plain_json)
      [call_added 0 ''c'' ''Bash'', args_delta 0 ''{}'', args_done 0 ''{}'']
      (NewResponsesEventToAnthropicState 0))) = ''{}''"
  using r2a_tool_input [of "call_added 0 ''c'' ''Bash''" _ "[args_delta 0 ''{}'']" "args_done 0 ''{}''"
      plain_json "NewResponsesEventToAnthropicState 0"]
  by (simp add: call_added_def args_delta_def args_done_def is_args_delta_def zero_output_def
      zero_resp_event_def)

text \<open>When a second tool call is announced before the arguments of the first arrive, the first block is closed and the late argument delta is still sent for it, after its content_block_stop.\<close>

theorem r2a_parallel_tool_stale_delta:
  assumes "s \<noteq> []" "n2 \<noteq> ''Read''"
  shows "snd (r2a_stream J now [call_added 0 c1 n1, call_added 1 c2 n2, args_delta 0 s]) =
    [block_start 0 (tool_use_block c1 n1), block_stop 0,
     block_start 1 (tool_use_block c2 n2), block_delta 0 (input_json_delta s)]"
  using assms
  by (simp add: ResponsesEventToAnthropicEvents_def resToAnthHandleOutputItemAdded_def
      resToAnthHandleFuncArgsDelta_def closeCurrentBlock_def NewResponsesEventToAnthropicState_def
      call_added_def args_delta_def tool_use_block_def zero_output_def zero_resp_event_def Let_def)

theorem r2a_parallel_tool_stale_delta_witness:
  "snd (r2a_stream plain_json 0
      [call_added 0 ''c1'' ''Bash'', call_added 1 ''c2'' ''Grep'', args_delta 0 ''x'']) =
    [block_start 0 (tool_use_block ''c1'' ''Bash''), block_stop 0,
     block_start 1 (tool_use_block ''c2'' ''Grep''), block_delta 0 (input_json_delta ''x'')]"
  by (rule r2a_parallel_tool_stale_delta) simp_all

subsection \<open>The envelope of a whole message\<close>

definition is_terminal_type :: "string \<Rightarrow> bool" where
  "is_terminal_type t \<longleftrightarrow> t = ''response.completed'' \<or> t = ''response.done'' \<or>
     t = ''response.incomplete'' \<or> t = ''response.failed''"

definition block_events :: "AnthropicStreamEvent list \<Rightarrow> bool" where
  "block_events evs \<longleftrightarrow>
     list_all (\<lambda>e. ae_Type e \<in> {''content_block_start'', ''content_block_delta'', ''content_block_stop''}) evs"

lemma block_events_list [simp]:
  "block_events []" "block_events (block_start i b # evs) = block_events evs"
  "block_events (block_delta i d # evs) = block_events evs"
  "block_events (block_stop i # evs) = block_events evs"
  "block_events (evs @ evs') = (block_events evs \<and> block_events evs')"
  by (simp_all add: block_events_def block_start_def block_delta_def block_stop_def)

definition body_step :: "R2AState \<Rightarrow> R2AState \<times> AnthropicStreamEvent list \<Rightarrow> bool" where
  "body_step st r \<longleftrightarrow> block_events (snd r) \<and>
     ra_MessageStartSent (fst r) = ra_MessageStartSent st \<and>
     ra_MessageStopSent (fst r) = ra_MessageStopSent st"

lemma body_step_refl: "body_step st (st, [])"
  by (simp add: body_step_def)

lemma body_step_close: "body_step st (closeCurrentBlock st)"
  by (simp add: body_step_def closeCurrentBlock_def Let_def)

lemma body_step_text: "body_step st (resToAnthHandleTextDelta evt st)"
  using body_step_close [of st] closeCurrentBlock_flags [of st]
  by (auto simp: resToAnthHandleTextDelta_def body_step_def split: prod.split)

lemma body_step_after_close:
  assumes "\<And>s c. block_events (g s c) = block_events c"
    "\<And>s. ra_MessageStartSent (f s) = ra_MessageStartSent s"
    "\<And>s. ra_MessageStopSent (f s) = ra_MessageStopSent s"
  shows "body_step st (case closeCurrentBlock st of (s, c) \<Rightarrow> (f s, g s c))"
  using body_step_close [of st] assms by (cases "closeCurrentBlock st") (simp add: body_step_def)

lemma body_step_added: "body_step st (resToAnthHandleOutputItemAdded evt st)"
  unfolding resToAnthHandleOutputItemAdded_def Let_def
  by (simp add: body_step_refl body_step_after_close split: option.split)

lemma body_step_block_done: "body_step st (resToAnthHandleBlockDone st)"
  by (simp add: resToAnthHandleBlockDone_def body_step_refl body_step_close)

lemma body_step_args_delta: "body_step st (resToAnthHandleFuncArgsDelta J evt st)"
  by (simp add: resToAnthHandleFuncArgsDelta_def body_step_def Let_def split: option.split)

lemma body_step_args_done: "body_step st (resToAnthHandleFuncArgsDone J evt st)"
  unfolding resToAnthHandleFuncArgsDone_def Let_def
  by (simp add: body_step_refl body_step_close body_step_block_done body_step_after_close)

lemma body_step_reasoning: "body_step st (resToAnthHandleReasoningDelta evt st)"
  by (simp add: resToAnthHandleReasoningDelta_def body_step_def split: option.split)

lemma body_step_web_search: "body_step st (resToAnthHandleWebSearchDone J item st)"
  unfolding resToAnthHandleWebSearchDone_def Let_def
  by (cases "web_search_blocks J item") (simp only: prod.case, rule body_step_after_close, simp_all)

lemmas body_step_handlers = body_step_added body_step_block_done body_step_args_delta
  body_step_args_done body_step_reasoning body_step_web_search

lemma body_step_item_done: "body_step st (resToAnthHandleOutputItemDone J evt st)"
  using body_step_close [of st] body_step_web_search [of st J]
    body_step_close [of "st\<lparr>ra_PendingThinkingSignature := s\<rparr>" for s]
  by (auto simp: resToAnthHandleOutputItemDone_def body_step_def Let_def split: option.split)

lemma body_step_event:
  "re_Type e \<noteq> ''response.created'' \<Longrightarrow> \<not> is_terminal_type (re_Type e) \<Longrightarrow>
   body_step st (ResponsesEventToAnthropicEvents J e st)"
  by (simp add: ResponsesEventToAnthropicEvents_def is_terminal_type_def Let_def body_step_refl
      body_step_text body_step_handlers body_step_item_done)

lemma body_run:
  "list_all (\<lambda>e. re_Type e \<noteq> ''response.created'' \<and> \<not> is_terminal_type (re_Type e)) es \<Longrightarrow>
   body_step st (run_events (ResponsesEventToAnthropicEvents J) es st)"
proof (induction es arbitrary: st)
  case (Cons e es)
  then show ?case
    using body_step_event [of e st J] Cons.IH [of "fst (ResponsesEventToAnthropicEvents J e st)"]
    by (simp add: body_step_def run_events_Cons del: run_events.simps(2))
qed (simp add: body_step_refl)

lemma terminal_event:
  assumes "is_terminal_type (re_Type e)" "\<not> ra_MessageStopSent st"
  shows "\<exists>closed st3. block_events closed \<and>
    snd (ResponsesEventToAnthropicEvents J e st) =
      closed @ message_end_events st3 (completed_stop_reason e st3)"
proof -
  have "ResponsesEventToAnthropicEvents J e st = resToAnthHandleCompleted e st"
    using assms(1) by (auto simp: ResponsesEventToAnthropicEvents_def is_terminal_type_def)
  moreover have "block_events (snd (closeCurrentBlock st))"
    using body_step_close [of st] by (simp add: body_step_def)
  ultimately show ?thesis
    using assms(2) by (auto simp: resToAnthHandleCompleted_def Let_def split: prod.splits)
qed

lemma created_event:
  assumes "re_Type c = ''response.created''" "\<not> ra_MessageStartSent st"
  shows "\<exists>st1 e0. ResponsesEventToAnthropicEvents J c st = (st1, [e0]) \<and>
    ae_Type e0 = ''message_start'' \<and> ra_MessageStopSent st1 = ra_MessageStopSent st"
  using assms
  by (cases "re_Response c"; cases "ra_Model st = []")
    (simp_all add: ResponsesEventToAnthropicEvents_def resToAnthHandleCreated_def Let_def)

definition text_event :: "string \<Rightarrow> ResponsesStreamEvent" where
  "text_event s = zero_resp_event\<lparr>re_Type := ''response.output_text.delta'', re_Delta := s\<rparr>"

text \<open>A stream that begins with response.created, ends with a terminal event and has neither in between yields message_start, then only content block events, then message_delta and message_stop.\<close>

theorem r2a_message_envelope:
  assumes "re_Type c = ''response.created''"
    and "list_all (\<lambda>e. re_Type e \<noteq> ''response.created'' \<and> \<not> is_terminal_type (re_Type e)) mid"
    and "is_terminal_type (re_Type t)"
  shows "\<exists>e0 body e1 e2. snd (r2a_stream J now (c # mid @ [t])) = e0 # body @ [e1, e2] \<and>
    ae_Type e0 = ''message_start'' \<and> block_events body \<and>
    ae_Type e1 = ''message_delta'' \<and> ae_Type e2 = ''message_stop''"
proof -
  let ?new = "NewResponsesEventToAnthropicState now"
  obtain st1 e0 where c: "ResponsesEventToAnthropicEvents J c ?new = (st1, [e0])"
    "ae_Type e0 = ''message_start''" "\<not> ra_MessageStopSent st1"
    using created_event [OF assms(1), of ?new J] by (auto simp: NewResponsesEventToAnthropicState_def)
  let ?mid = "run_events (ResponsesEventToAnthropicEvents J) mid st1"
  have mid: "block_events (snd ?mid)" "\<not> ra_MessageStopSent (fst ?mid)"
    using body_run [OF assms(2)] c(3) by (auto simp: body_step_def)
  obtain closed st3 where t: "block_events closed"
    "snd (ResponsesEventToAnthropicEvents J t (fst ?mid)) =
       closed @ message_end_events st3 (completed_stop_reason t st3)"
    using terminal_event [OF assms(3) mid(2)] by blast
  have "snd (r2a_stream J now (c # mid @ [t])) =
      e0 # (snd ?mid @ closed) @ message_end_events st3 (completed_stop_reason t st3)"
    using c(1) t(2)
    by (simp add: run_events_Cons run_events_append run_events_single del: run_events.simps(2))
  then obtain e1 e2 where "snd (r2a_stream J now (c # mid @ [t])) = e0 # (snd ?mid @ closed) @ [e1, e2]"
    "ae_Type e1 = ''message_delta''" "ae_Type e2 = ''message_stop''"
    by (simp add: message_end_events_def del: run_events.simps(2))
  then show ?thesis using c(2) mid(1) t(1) by (metis block_events_list(5))
qed

subsection \<open>Usage and non-streaming conversion\<close>

theorem r2a_message_envelope_witness:
  "\<exists>e0 body e1 e2. snd (r2a_stream plain_json 0
      (zero_resp_event\<lparr>re_Type := ''response.created''\<rparr> # [text_event ''hi'']
        @ [zero_resp_event\<lparr>re_Type := ''response.completed''\<rparr>])) = e0 # body @ [e1, e2] \<and>
    ae_Type e0 = ''message_start'' \<and> block_events body \<and>
    ae_Type e1 = ''message_delta'' \<and> ae_Type e2 = ''message_stop''"
  by (rule r2a_message_envelope)
    (simp_all add: zero_resp_event_def text_event_def is_terminal_type_def)

text \<open>The Anthropic usage splits the input tokens of the upstream into disjoint buckets: uncached, cache read and cache creation add up to the upstream total whenever the cached counts do not exceed it.\<close>

theorem r2a_usage_buckets:
  assumes "ru_InputTokensDetails u = Some d" "0 \<le> it_CachedTokens d"
    "0 \<le> ru_CacheCreationInputTokens u"
    "it_CachedTokens d + ru_CacheCreationInputTokens u \<le> ru_InputTokens u"
  defines "a \<equiv> anthropicUsageFromResponsesUsage (Some u)"
  shows "au_InputTokens a + au_CacheReadInputTokens a + au_CacheCreationInputTokens a = ru_InputTokens u
    \<and> 0 \<le> au_InputTokens a \<and> au_OutputTokens a = ru_OutputTokens u"
  using assms by (simp add: anthropicUsageFromResponsesUsage_def Let_def)


theorem r2a_usage_buckets_witness:
  "let a = anthropicUsageFromResponsesUsage (Some \<lparr>ru_InputTokens = 10, ru_OutputTokens = 4,
      ru_TotalTokens = 14, ru_CacheCreationInputTokens = 2,
      ru_InputTokensDetails = Some (zero_input_details\<lparr>it_CachedTokens := 3\<rparr>),
      ru_OutputTokensDetails = None\<rparr>)
   in au_InputTokens a + au_CacheReadInputTokens a + au_CacheCreationInputTokens a = 10
     \<and> 0 \<le> au_InputTokens a \<and> au_OutputTokens a = 4"
  using r2a_usage_buckets [of "\<lparr>ru_InputTokens = 10, ru_OutputTokens = 4,
      ru_TotalTokens = 14, ru_CacheCreationInputTokens = 2,
      ru_InputTokensDetails = Some (zero_input_details\<lparr>it_CachedTokens := 3\<rparr>),
      ru_OutputTokensDetails = None\<rparr>" "zero_input_details\<lparr>it_CachedTokens := 3\<rparr>"]
  by (simp add: Let_def zero_input_details_def)

lemma record_usage_values:
  "ra_InputTokens (record_usage (Some u) st) = au_InputTokens (anthropicUsageFromResponsesUsage (Some u))"
  "ra_OutputTokens (record_usage (Some u) st) = au_OutputTokens (anthropicUsageFromResponsesUsage (Some u))"
  "ra_CacheReadInputTokens (record_usage (Some u) st) =
     au_CacheReadInputTokens (anthropicUsageFromResponsesUsage (Some u))"
  "ra_CacheCreationInputTokens (record_usage (Some u) st) =
     au_CacheCreationInputTokens (anthropicUsageFromResponsesUsage (Some u))"
  by (simp_all add: record_usage_def Let_def)

lemma anthropicUsage_fields:
  "zero_usage\<lparr>au_InputTokens := au_InputTokens (anthropicUsageFromResponsesUsage u),
     au_OutputTokens := au_OutputTokens (anthropicUsageFromResponsesUsage u),
     au_CacheReadInputTokens := au_CacheReadInputTokens (anthropicUsageFromResponsesUsage u),
     au_CacheCreationInputTokens := au_CacheCreationInputTokens (anthropicUsageFromResponsesUsage u)\<rparr> =
   anthropicUsageFromResponsesUsage u"
  by (cases u) (simp_all add: anthropicUsageFromResponsesUsage_def zero_usage_def Let_def)

text \<open>The terminal event of a stream carries the stop reason and the usage that the non-streaming conversion of the same response reports, when the stream has seen a tool call exactly if the response contains one.\<close>

theorem r2a_stream_end_agrees:
  assumes "is_terminal_type (re_Type t)" "re_Response t = Some r" "rr_Usage r = Some u"
    and "\<not> ra_MessageStopSent st"
    and "ra_HasToolCall st = containsAnthropicToolUseBlock (ar_Content (ResponsesToAnthropic J r m))"
  shows "\<exists>closed e1 e2 d. snd (ResponsesEventToAnthropicEvents J t st) = closed @ [e1, e2] \<and>
    block_events closed \<and> ae_Type e1 = ''message_delta'' \<and> ae_Delta e1 = Some d \<and>
    Some (ad_StopReason d) = ar_StopReason (ResponsesToAnthropic J r m) \<and>
    ae_Usage e1 = Some (ar_Usage (ResponsesToAnthropic J r m))"
proof -
  have "ResponsesEventToAnthropicEvents J t st = resToAnthHandleCompleted t st"
    using assms(1) by (auto simp: ResponsesEventToAnthropicEvents_def is_terminal_type_def)
  moreover obtain st1 closed where c: "closeCurrentBlock st = (st1, closed)" by fastforce
  ultimately obtain st3 where e: "snd (ResponsesEventToAnthropicEvents J t st) =
      closed @ message_end_events st3 (completed_stop_reason t st3)"
    and st3: "st3 = record_usage (Some u) (record_usage (re_Usage t) st1)"
    using assms(2-4) by (simp add: resToAnthHandleCompleted_def Let_def)
  have "ra_HasToolCall st3 = ra_HasToolCall st"
    using c closeCurrentBlock_flags(3) [of st] by (simp add: st3 record_usage_frame)
  then have "Some (completed_stop_reason t st3) = ar_StopReason (ResponsesToAnthropic J r m)"
    using assms(2,5) by (auto simp: completed_stop_reason_def ResponsesToAnthropic_def Let_def
        responsesStatusToAnthropicStopReason_def)
  moreover have "block_events closed"
    using body_step_close [of st] c by (simp add: body_step_def)
  ultimately show ?thesis
    using assms(3) by (simp add: e message_end_events_def st3 record_usage_values anthropicUsage_fields
        ResponsesToAnthropic_def Let_def)
qed

definition done_event :: "ResponsesResponse \<Rightarrow> ResponsesStreamEvent" where
  "done_event r = zero_resp_event\<lparr>re_Type := ''response.completed'', re_Response := Some r\<rparr>"

definition sample_usage :: ResponsesUsage where
  "sample_usage = \<lparr>ru_InputTokens = 10, ru_OutputTokens = 4, ru_TotalTokens = 14,
     ru_CacheCreationInputTokens = 2, ru_InputTokensDetails = Some (zero_input_details\<lparr>it_CachedTokens := 3\<rparr>),
     ru_OutputTokensDetails = None\<rparr>"

definition sample_response :: ResponsesResponse where
  "sample_response = zero_response\<lparr>rr_Status := ''completed'', rr_Usage := Some sample_usage,
     rr_Output := [zero_output\<lparr>ro_Type := ''message'', ro_Content := [output_text_part ''hi'']\<rparr>]\<rparr>"

theorem r2a_stream_end_agrees_witness:
  "\<exists>closed e1 e2 d. snd (ResponsesEventToAnthropicEvents plain_json (done_event sample_response)
      (NewResponsesEventToAnthropicState 0)) = closed @ [e1, e2] \<and>
    block_events closed \<and> ae_Type e1 = ''message_delta'' \<and> ae_Delta e1 = Some d \<and>
    Some (ad_StopReason d) = ar_StopReason (ResponsesToAnthropic plain_json sample_response ''m'') \<and>
    ae_Usage e1 = Some (ar_Usage (ResponsesToAnthropic plain_json sample_response ''m''))"
  by (rule r2a_stream_end_agrees [where u = sample_usage])
    (simp_all add: done_event_def sample_response_def is_terminal_type_def zero_resp_event_def
      zero_response_def zero_output_def output_text_part_def zero_part_def zero_block_def
      NewResponsesEventToAnthropicState_def ResponsesToAnthropic_def Let_def output_item_blocks_def
      output_texts_def containsAnthropicToolUseBlock_def)

text \<open>The non-streaming conversion drops a custom tool call (one empty text block, no tool_use stop reason), while the streaming converter announces the same item as a tool_use block.\<close>

theorem r2a_custom_tool_call_dropped:
  assumes "rr_Output r = [item]" "ro_Type item = ''custom_tool_call''"
  shows "ar_Content (ResponsesToAnthropic J r m) = [zero_block\<lparr>cb_Type := ''text''\<rparr>] \<and>
    ar_StopReason (ResponsesToAnthropic J r m) \<noteq> Some ''tool_use'' \<and>
    (re_Type e = ''response.output_item.added'' \<longrightarrow> re_Item e = Some item \<longrightarrow>
       last (snd (ResponsesEventToAnthropicEvents J e st)) =
       block_start (ra_ContentBlockIndex (fst (closeCurrentBlock st)))
         (tool_use_block (ro_CallID item) (ro_Name item)))"
  using assms
  by (auto simp: ResponsesToAnthropic_def Let_def output_item_blocks_def tool_use_block_def
      responsesStatusToAnthropicStopReason_def containsAnthropicToolUseBlock_def zero_block_def
      ResponsesEventToAnthropicEvents_def resToAnthHandleOutputItemAdded_def split: prod.split)

definition custom_item :: ResponsesOutput where
  "custom_item = zero_output\<lparr>ro_Type := ''custom_tool_call'', ro_CallID := ''c'', ro_Name := ''patch'',
     ro_Input := ''x''\<rparr>"

theorem r2a_custom_tool_call_dropped_witness:
  "ar_Content (ResponsesToAnthropic plain_json (zero_response\<lparr>rr_Output := [custom_item]\<rparr>) ''m'') =
     [zero_block\<lparr>cb_Type := ''text''\<rparr>] \<and>
   last (snd (ResponsesEventToAnthropicEvents plain_json
       (zero_resp_event\<lparr>re_Type := ''response.output_item.added'', re_Item := Some custom_item\<rparr>)
       (NewResponsesEventToAnthropicState 0))) =
     block_start 0 (tool_use_block ''c'' ''patch'')"
  using r2a_custom_tool_call_dropped [of "zero_response\<lparr>rr_Output := [custom_item]\<rparr>" custom_item
      plain_json "''m''" "zero_resp_event\<lparr>re_Type := ''response.output_item.added'', re_Item := Some custom_item\<rparr>"
      "NewResponsesEventToAnthropicState 0"]
  by (simp add: custom_item_def zero_response_def zero_output_def zero_resp_event_def
      closeCurrentBlock_def NewResponsesEventToAnthropicState_def)

end
