(* ===== verification/Anthropic_To_Resp.thy ===== *)
theory Anthropic_To_Resp
  imports Resp_To_Anthropic
begin

section \<open>Anthropic to Responses: apicompat/anthropic_to_responses_response.go\<close>

text \<open>
  The bridge that serves an OpenAI Responses client from an Anthropic upstream: the non-streaming
  conversion \<open>AnthropicToResponsesResponse\<close> and the stateful converter
  \<open>AnthropicEventToResponsesEvents\<close> with its handlers and finalizer.

  Identifiers are drawn from \<open>crypto/rand\<close>: the bytes read are arguments of the model. The
  streaming converter draws at most one item identifier per event, so an event comes paired with
  the bytes that are read if it needs one; the non-streaming conversion reads from a sequence.
\<close>

subsection \<open>Identifiers\<close>

definition generateResponsesID :: "string \<Rightarrow> string" where
  "generateResponsesID b = ''resp_'' @ hex_encode b"

definition generateItemID :: "string \<Rightarrow> string" where
  "generateItemID b = ''item_'' @ hex_encode b"

subsection \<open>Non-streaming conversion\<close>

definition anthropicStopReasonToResponsesStatus :: "string \<Rightarrow> AnthropicContentBlock list \<Rightarrow> string" where
  "anthropicStopReasonToResponsesStatus stopReason blocks =
     (if stopReason = ''max_tokens'' then ''incomplete''
      else if stopReason \<in> {''end_turn'', ''tool_use'', ''stop_sequence''} then ''completed''
      else ''completed'')"

definition message_item :: "string \<Rightarrow> ResponsesContentPart list \<Rightarrow> ResponsesOutput" where
  "message_item iid parts = zero_output\<lparr>ro_Type := ''message'', ro_ID := iid, ro_Role := ''assistant'',
     ro_Content := parts, ro_Status := ''completed''\<rparr>"

text \<open>One turn of the loop over the content blocks; \<open>rnd n\<close> is the n-th read of random bytes.\<close>

definition convert_block :: "(nat \<Rightarrow> string) \<Rightarrow> AnthropicContentBlock \<Rightarrow>
    ResponsesOutput list \<times> ResponsesContentPart list \<Rightarrow>
    ResponsesOutput list \<times> ResponsesContentPart list" where
  "convert_block rnd b acc =
     (case acc of (outputs, msgParts) \<Rightarrow>
        let iid = generateItemID (rnd (length outputs)) in
        if cb_Type b = ''thinking'' then
          (if cb_Thinking b = [] then acc
           else (outputs @ [zero_output\<lparr>ro_Type := ''reasoning'', ro_ID := iid,
                   ro_Summary := [\<lparr>sm_Type = ''summary_text'', sm_Text = cb_Thinking b\<rparr>]\<rparr>], msgParts))
        else if cb_Type b = ''text'' then
          (if cb_Text b = [] then acc else (outputs, msgParts @ [output_text_part (cb_Text b)]))
        else if cb_Type b = ''tool_use'' then
          (outputs @ [zero_output\<lparr>ro_Type := ''function_call'', ro_ID := iid,
             ro_CallID := toResponsesCallID (cb_ID b), ro_Name := cb_Name b,
             ro_Arguments := (if cb_Input b = [] then ''{}'' else cb_Input b),
             ro_Status := ''completed''\<rparr>], msgParts)
        else acc)"

definition response_outputs :: "(nat \<Rightarrow> string) \<Rightarrow> AnthropicContentBlock list \<Rightarrow> ResponsesOutput list" where
  "response_outputs rnd blocks =
     (case fold (convert_block rnd) blocks ([], []) of (outputs, msgParts) \<Rightarrow>
        let outputs = (if msgParts = [] then outputs
                       else outputs @ [message_item (generateItemID (rnd (length outputs))) msgParts])
        in if outputs = [] then [message_item (generateItemID (rnd 0)) [output_text_part []]]
           else outputs)"

text \<open>
  \<open>openai_usage\<close> is the usage literal that the non-streaming conversion and the terminal event of
  the stream both build: OpenAI counts the cached tokens as input tokens.
\<close>

definition openai_usage :: "int \<Rightarrow> int \<Rightarrow> int \<Rightarrow> int \<Rightarrow> ResponsesUsage" where
  "openai_usage input cacheRead cacheCreation outp =
     (let total = input + cacheRead + cacheCreation
      in \<lparr>ru_InputTokens = total, ru_OutputTokens = outp, ru_TotalTokens = total + outp,
          ru_CacheCreationInputTokens = cacheCreation,
          ru_InputTokensDetails =
            (if cacheRead > 0 then Some (zero_input_details\<lparr>it_CachedTokens := cacheRead\<rparr>) else None),
          ru_OutputTokensDetails = None\<rparr>)"

definition AnthropicToResponsesResponse ::
    "string \<Rightarrow> (nat \<Rightarrow> string) \<Rightarrow> int \<Rightarrow> AnthropicResponse \<Rightarrow> ResponsesResponse" where
  "AnthropicToResponsesResponse rid rnd now resp =
     (let status = anthropicStopReasonToResponsesStatus
                     (AnthropicStopReasonString (ar_StopReason resp)) (ar_Content resp)
      in zero_response\<lparr>rr_ID := (if ar_ID resp = [] then generateResponsesID rid else ar_ID resp),
           rr_Object := ''response'', rr_CreatedAt := now, rr_Model := ar_Model resp,
           rr_Output := response_outputs rnd (ar_Content resp),
           rr_Status := status,
           rr_IncompleteDetails := (if status = ''incomplete'' then Some ''max_output_tokens'' else None),
           rr_Usage := Some (openai_usage (au_InputTokens (ar_Usage resp))
             (au_CacheReadInputTokens (ar_Usage resp)) (au_CacheCreationInputTokens (ar_Usage resp))
             (au_OutputTokens (ar_Usage resp)))\<rparr>)"

subsection \<open>Streaming state\<close>

record A2RState =
  sr_ResponseID :: string
  sr_Model :: string
  sr_Created :: int
  sr_SequenceNumber :: int
  sr_CreatedSent :: bool
  sr_CompletedSent :: bool
  sr_OutputIndex :: int
  sr_CurrentItemID :: string
  sr_CurrentItemType :: string
  sr_ContentIndex :: int
  sr_TextAccum :: string
  sr_CurrentCallID :: string
  sr_CurrentName :: string
  sr_CurrentContent :: "ResponsesContentPart list"
  sr_CurrentArgs :: string
  sr_CurrentSummary :: string
  sr_Outputs :: "ResponsesOutput list"
  sr_InputTokens :: int
  sr_OutputTokens :: int
  sr_CacheReadInputTokens :: int
  sr_CacheCreationInputTokens :: int
  sr_StopReason :: string

definition NewAnthropicEventToResponsesState :: "int \<Rightarrow> A2RState" where
  "NewAnthropicEventToResponsesState now =
     \<lparr>sr_ResponseID = [], sr_Model = [], sr_Created = now, sr_SequenceNumber = 0,
      sr_CreatedSent = False, sr_CompletedSent = False, sr_OutputIndex = 0, sr_CurrentItemID = [],
      sr_CurrentItemType = [], sr_ContentIndex = 0, sr_TextAccum = [], sr_CurrentCallID = [],
      sr_CurrentName = [], sr_CurrentContent = [], sr_CurrentArgs = [], sr_CurrentSummary = [],
      sr_Outputs = [], sr_InputTokens = 0, sr_OutputTokens = 0, sr_CacheReadInputTokens = 0,
      sr_CacheCreationInputTokens = 0, sr_StopReason = []\<rparr>"

subsection \<open>Event construction\<close>

definition makeResponsesEvent ::
    "A2RState \<Rightarrow> string \<Rightarrow> ResponsesStreamEvent \<Rightarrow> A2RState \<times> ResponsesStreamEvent list" where
  "makeResponsesEvent st eventType template =
     (st\<lparr>sr_SequenceNumber := sr_SequenceNumber st + 1\<rparr>,
      [template\<lparr>re_Type := eventType, re_SequenceNumber := sr_SequenceNumber st\<rparr>])"

definition makeResponsesCreatedEvent :: "A2RState \<Rightarrow> A2RState \<times> ResponsesStreamEvent list" where
  "makeResponsesCreatedEvent st =
     (st\<lparr>sr_SequenceNumber := sr_SequenceNumber st + 1\<rparr>,
      [zero_resp_event\<lparr>re_Type := ''response.created'', re_SequenceNumber := sr_SequenceNumber st,
         re_Response := Some (zero_response\<lparr>rr_ID := sr_ResponseID st, rr_Object := ''response'',
           rr_CreatedAt := sr_Created st, rr_Model := sr_Model st, rr_Status := ''in_progress'',
           rr_Output := []\<rparr>)\<rparr>])"

definition makeResponsesCompletedEvent :: "A2RState \<Rightarrow> string \<Rightarrow> ResponsesIncompleteDetails option \<Rightarrow>
    A2RState \<times> ResponsesStreamEvent list" where
  "makeResponsesCompletedEvent st status incompleteDetails =
     (st\<lparr>sr_SequenceNumber := sr_SequenceNumber st + 1\<rparr>,
      [zero_resp_event\<lparr>
         re_Type := (if status = ''incomplete'' then ''response.incomplete'' else ''response.completed''),
         re_SequenceNumber := sr_SequenceNumber st,
         re_Response := Some (zero_response\<lparr>rr_ID := sr_ResponseID st, rr_Object := ''response'',
           rr_CreatedAt := sr_Created st, rr_Model := sr_Model st, rr_Status := status,
           rr_Output := sr_Outputs st,
           rr_Usage := Some (openai_usage (sr_InputTokens st) (sr_CacheReadInputTokens st)
             (sr_CacheCreationInputTokens st) (sr_OutputTokens st)),
           rr_IncompleteDetails := incompleteDetails\<rparr>)\<rparr>])"

definition anthropicResponsesStreamTerminalState :: "string \<Rightarrow> string \<times> ResponsesIncompleteDetails option" where
  "anthropicResponsesStreamTerminalState stopReason =
     (if stopReason = ''max_tokens'' then (''incomplete'', Some ''max_output_tokens'')
      else (''completed'', None))"

text \<open>The emitted events of two state changes, one after the other.\<close>

definition then_emit :: "'s \<times> 'e list \<Rightarrow> ('s \<Rightarrow> 's \<times> 'e list) \<Rightarrow> 's \<times> 'e list" where
  "then_emit r k = (case r of (s, es) \<Rightarrow> case k s of (s', es') \<Rightarrow> (s', es @ es'))"

lemma then_emit_proj: "fst (then_emit r k) = fst (k (fst r))" "snd (then_emit r k) = snd r @ snd (k (fst r))"
  by (simp_all add: then_emit_def split: prod.split)

definition current_item :: "A2RState \<Rightarrow> ResponsesOutput" where
  "current_item st =
     (let item = zero_output\<lparr>ro_Type := sr_CurrentItemType st, ro_ID := sr_CurrentItemID st,
                   ro_Status := ''completed''\<rparr>
      in if sr_CurrentItemType st = ''message'' then
           item\<lparr>ro_Role := ''assistant'', ro_Content := sr_CurrentContent st\<rparr>
         else if sr_CurrentItemType st = ''function_call'' then
           item\<lparr>ro_CallID := sr_CurrentCallID st, ro_Name := sr_CurrentName st,
             ro_Arguments := (if sr_CurrentArgs st = [] then ''{}'' else sr_CurrentArgs st)\<rparr>
         else if sr_CurrentItemType st = ''reasoning'' then
           (if sr_CurrentSummary st = [] then item
            else item\<lparr>ro_Summary := [\<lparr>sm_Type = ''summary_text'', sm_Text = sr_CurrentSummary st\<rparr>]\<rparr>)
         else item)"

definition closeCurrentResponsesItem :: "A2RState \<Rightarrow> A2RState \<times> ResponsesStreamEvent list" where
  "closeCurrentResponsesItem st =
     (if sr_CurrentItemType st = [] then (st, [])
      else
        let item = current_item st;
            st1 = st\<lparr>sr_Outputs := sr_Outputs st @ [item], sr_CurrentItemType := [],
                     sr_CurrentItemID := [], sr_CurrentCallID := [], sr_CurrentName := [],
                     sr_CurrentContent := [], sr_CurrentArgs := [], sr_CurrentSummary := [],
                     sr_TextAccum := [], sr_OutputIndex := sr_OutputIndex st + 1, sr_ContentIndex := 0\<rparr>
        in makeResponsesEvent st1 ''response.output_item.done''
             (zero_resp_event\<lparr>re_OutputIndex := sr_OutputIndex st1 - 1, re_Item := Some item\<rparr>))"

subsection \<open>Handlers\<close>

definition pos_or :: "int \<Rightarrow> int \<Rightarrow> int" where
  "pos_or new old = (if new > 0 then new else old)"

definition anthToResHandleMessageStart ::
    "AnthropicStreamEvent \<Rightarrow> A2RState \<Rightarrow> A2RState \<times> ResponsesStreamEvent list" where
  "anthToResHandleMessageStart evt st =
     (let st1 = (case ae_Message evt of
                   None \<Rightarrow> st
                 | Some m \<Rightarrow>
                     st\<lparr>sr_ResponseID := ar_ID m,
                        sr_Model := (if sr_Model st = [] then ar_Model m else sr_Model st),
                        sr_InputTokens := pos_or (au_InputTokens (ar_Usage m)) (sr_InputTokens st),
                        sr_CacheReadInputTokens :=
                          pos_or (au_CacheReadInputTokens (ar_Usage m)) (sr_CacheReadInputTokens st),
                        sr_CacheCreationInputTokens :=
                          pos_or (au_CacheCreationInputTokens (ar_Usage m)) (sr_CacheCreationInputTokens st)\<rparr>)
      in if sr_CreatedSent st1 then (st1, [])
         else makeResponsesCreatedEvent (st1\<lparr>sr_CreatedSent := True\<rparr>))"

definition item_added :: "A2RState \<Rightarrow> ResponsesOutput \<Rightarrow> A2RState \<times> ResponsesStreamEvent list" where
  "item_added st item = makeResponsesEvent st ''response.output_item.added''
     (zero_resp_event\<lparr>re_OutputIndex := sr_OutputIndex st, re_Item := Some item\<rparr>)"

definition start_thinking :: "string \<Rightarrow> A2RState \<Rightarrow> A2RState \<times> ResponsesStreamEvent list" where
  "start_thinking rnd st =
     then_emit (closeCurrentResponsesItem st) (\<lambda>s.
       let s = s\<lparr>sr_CurrentItemID := generateItemID rnd, sr_CurrentItemType := ''reasoning'',
                 sr_ContentIndex := 0\<rparr>
       in item_added s (zero_output\<lparr>ro_Type := ''reasoning'', ro_ID := sr_CurrentItemID s\<rparr>))"

definition open_message :: "string \<Rightarrow> A2RState \<Rightarrow> A2RState \<times> ResponsesStreamEvent list" where
  "open_message rnd st =
     (if sr_CurrentItemType st = ''message'' then (st, [])
      else then_emit (closeCurrentResponsesItem st) (\<lambda>s.
        let s = s\<lparr>sr_CurrentItemID := generateItemID rnd, sr_CurrentItemType := ''message'',
                  sr_ContentIndex := 0\<rparr>
        in item_added s (zero_output\<lparr>ro_Type := ''message'', ro_ID := sr_CurrentItemID s,
             ro_Role := ''assistant'', ro_Status := ''in_progress''\<rparr>)))"

definition start_text :: "string \<Rightarrow> A2RState \<Rightarrow> A2RState \<times> ResponsesStreamEvent list" where
  "start_text rnd st =
     then_emit (open_message rnd st) (\<lambda>s.
       case makeResponsesEvent s ''response.content_part.added''
              (zero_resp_event\<lparr>re_OutputIndex := sr_OutputIndex s, re_ContentIndex := sr_ContentIndex s,
                 re_ItemID := sr_CurrentItemID s, re_Part := Some (output_text_part [])\<rparr>)
       of (s', es) \<Rightarrow> (s'\<lparr>sr_TextAccum := []\<rparr>, es))"

definition start_tool_use ::
    "string \<Rightarrow> AnthropicContentBlock \<Rightarrow> A2RState \<Rightarrow> A2RState \<times> ResponsesStreamEvent list" where
  "start_tool_use rnd b st =
     then_emit (closeCurrentResponsesItem st) (\<lambda>s.
       let s = s\<lparr>sr_CurrentItemID := generateItemID rnd, sr_CurrentItemType := ''function_call'',
                 sr_CurrentCallID := toResponsesCallID (cb_ID b), sr_CurrentName := cb_Name b\<rparr>
       in item_added s (zero_output\<lparr>ro_Type := ''function_call'', ro_ID := sr_CurrentItemID s,
            ro_CallID := sr_CurrentCallID s, ro_Name := sr_CurrentName s,
            ro_Status := ''in_progress''\<rparr>))"

definition anthToResHandleContentBlockStart ::
    "string \<Rightarrow> AnthropicStreamEvent \<Rightarrow> A2RState \<Rightarrow> A2RState \<times> ResponsesStreamEvent list" where
  "anthToResHandleContentBlockStart rnd evt st =
     (case ae_ContentBlock evt of
        None \<Rightarrow> (st, [])
      | Some b \<Rightarrow>
          if cb_Type b = ''thinking'' then start_thinking rnd st
          else if cb_Type b = ''text'' then start_text rnd st
          else if cb_Type b = ''tool_use'' then start_tool_use rnd b st
          else (st, []))"

definition anthToResHandleContentBlockDelta ::
    "AnthropicStreamEvent \<Rightarrow> A2RState \<Rightarrow> A2RState \<times> ResponsesStreamEvent list" where
  "anthToResHandleContentBlockDelta evt st =
     (case ae_Delta evt of
        None \<Rightarrow> (st, [])
      | Some d \<Rightarrow>
          if ad_Type d = ''text_delta'' then
            (if ad_Text d = [] then (st, [])
             else makeResponsesEvent (st\<lparr>sr_TextAccum := sr_TextAccum st @ ad_Text d\<rparr>)
               ''response.output_text.delta''
               (zero_resp_event\<lparr>re_OutputIndex := sr_OutputIndex st, re_ContentIndex := sr_ContentIndex st,
                  re_Delta := ad_Text d, re_ItemID := sr_CurrentItemID st\<rparr>))
          else if ad_Type d = ''thinking_delta'' then
            (if ad_Thinking d = [] then (st, [])
             else makeResponsesEvent (st\<lparr>sr_CurrentSummary := sr_CurrentSummary st @ ad_Thinking d\<rparr>)
               ''response.reasoning_summary_text.delta''
               (zero_resp_event\<lparr>re_OutputIndex := sr_OutputIndex st, re_SummaryIndex := 0,
                  re_Delta := ad_Thinking d, re_ItemID := sr_CurrentItemID st\<rparr>))
          else if ad_Type d = ''input_json_delta'' then
            (if ad_PartialJSON d = [] then (st, [])
             else makeResponsesEvent (st\<lparr>sr_CurrentArgs := sr_CurrentArgs st @ ad_PartialJSON d\<rparr>)
               ''response.function_call_arguments.delta''
               (zero_resp_event\<lparr>re_OutputIndex := sr_OutputIndex st, re_Delta := ad_PartialJSON d,
                  re_ItemID := sr_CurrentItemID st, re_CallID := sr_CurrentCallID st,
                  re_Name := sr_CurrentName st\<rparr>))
          else (st, []))"

definition anthToResHandleContentBlockStop ::
    "AnthropicStreamEvent \<Rightarrow> A2RState \<Rightarrow> A2RState \<times> ResponsesStreamEvent list" where
  "anthToResHandleContentBlockStop evt st =
     (if sr_CurrentItemType st = ''reasoning'' then
        then_emit (makeResponsesEvent st ''response.reasoning_summary_text.done''
            (zero_resp_event\<lparr>re_OutputIndex := sr_OutputIndex st, re_SummaryIndex := 0,
               re_ItemID := sr_CurrentItemID st\<rparr>))
          closeCurrentResponsesItem
      else if sr_CurrentItemType st = ''function_call'' then
        then_emit (makeResponsesEvent st ''response.function_call_arguments.done''
            (zero_resp_event\<lparr>re_OutputIndex := sr_OutputIndex st, re_ItemID := sr_CurrentItemID st,
               re_CallID := sr_CurrentCallID st, re_Name := sr_CurrentName st\<rparr>))
          closeCurrentResponsesItem
      else if sr_CurrentItemType st = ''message'' then
        (let txt = sr_TextAccum st;
             contentIndex = sr_ContentIndex st;
             st1 = st\<lparr>sr_TextAccum := [],
                      sr_CurrentContent := sr_CurrentContent st @ [output_text_part txt],
                      sr_ContentIndex := contentIndex + 1\<rparr>
         in then_emit (makeResponsesEvent st1 ''response.output_text.done''
                (zero_resp_event\<lparr>re_OutputIndex := sr_OutputIndex st1, re_ContentIndex := contentIndex,
                   re_ItemID := sr_CurrentItemID st1, re_Text := txt\<rparr>))
              (\<lambda>s. makeResponsesEvent s ''response.content_part.done''
                (zero_resp_event\<lparr>re_OutputIndex := sr_OutputIndex s, re_ContentIndex := contentIndex,
                   re_ItemID := sr_CurrentItemID s, re_Part := Some (output_text_part txt)\<rparr>)))
      else (st, []))"

definition anthToResHandleMessageDelta ::
    "AnthropicStreamEvent \<Rightarrow> A2RState \<Rightarrow> A2RState \<times> ResponsesStreamEvent list" where
  "anthToResHandleMessageDelta evt st =
     (let st1 = (case ae_Usage evt of
                   None \<Rightarrow> st
                 | Some u \<Rightarrow>
                     st\<lparr>sr_OutputTokens := au_OutputTokens u,
                        sr_InputTokens := pos_or (au_InputTokens u) (sr_InputTokens st),
                        sr_CacheReadInputTokens :=
                          pos_or (au_CacheReadInputTokens u) (sr_CacheReadInputTokens st),
                        sr_CacheCreationInputTokens :=
                          pos_or (au_CacheCreationInputTokens u) (sr_CacheCreationInputTokens st)\<rparr>)
      in (case ae_Delta evt of
            None \<Rightarrow> st1
          | Some d \<Rightarrow> if ad_StopReason d = [] then st1 else st1\<lparr>sr_StopReason := ad_StopReason d\<rparr>, []))"

definition end_response :: "A2RState \<Rightarrow> A2RState \<times> ResponsesStreamEvent list" where
  "end_response st =
     then_emit (closeCurrentResponsesItem st) (\<lambda>s.
       case anthropicResponsesStreamTerminalState (sr_StopReason s) of (status, details) \<Rightarrow>
         case makeResponsesCompletedEvent s status details of
           (s', es) \<Rightarrow> (s'\<lparr>sr_CompletedSent := True\<rparr>, es))"

definition anthToResHandleMessageStop :: "A2RState \<Rightarrow> A2RState \<times> ResponsesStreamEvent list" where
  "anthToResHandleMessageStop st = (if sr_CompletedSent st then (st, []) else end_response st)"

definition FinalizeAnthropicResponsesStream :: "A2RState \<Rightarrow> A2RState \<times> ResponsesStreamEvent list" where
  "FinalizeAnthropicResponsesStream st =
     (if \<not> sr_CreatedSent st \<or> sr_CompletedSent st then (st, []) else end_response st)"

text \<open>The dispatcher; the event is paired with the random bytes available to it.\<close>

definition AnthropicEventToResponsesEvents ::
    "string \<times> AnthropicStreamEvent \<Rightarrow> A2RState \<Rightarrow> A2RState \<times> ResponsesStreamEvent list" where
  "AnthropicEventToResponsesEvents re st =
     (case re of (rnd, evt) \<Rightarrow>
        let t = ae_Type evt in
        if t = ''message_start'' then anthToResHandleMessageStart evt st
        else if t = ''content_block_start'' then anthToResHandleContentBlockStart rnd evt st
        else if t = ''content_block_delta'' then anthToResHandleContentBlockDelta evt st
        else if t = ''content_block_stop'' then anthToResHandleContentBlockStop evt st
        else if t = ''message_delta'' then anthToResHandleMessageDelta evt st
        else if t = ''message_stop'' then anthToResHandleMessageStop st
        else (st, []))"

subsection \<open>The Responses stream protocol\<close>

record resp_pos =
  rp_seq :: int
  rp_index :: int
  rp_type :: string
  rp_iid :: string
  rp_part :: int
  rp_items :: "ResponsesOutput list"
  rp_created :: bool
  rp_completed :: bool

definition resp_here :: "resp_pos \<Rightarrow> ResponsesStreamEvent \<Rightarrow> bool" where
  "resp_here p e \<longleftrightarrow> re_OutputIndex e = rp_index p \<and> re_ItemID e = rp_iid p"

definition resp_accept_type :: "resp_pos \<Rightarrow> ResponsesStreamEvent \<Rightarrow> resp_pos option" where
  "resp_accept_type p e =
     (let t = re_Type e; in_message = (rp_type p = ''message'' \<and> resp_here p e \<and> re_ContentIndex e = rp_part p) in
      if t = ''response.created'' then (if rp_created p then None else Some (p\<lparr>rp_created := True\<rparr>))
      else if t = ''response.output_item.added'' then
        (case re_Item e of None \<Rightarrow> None
         | Some i \<Rightarrow> if rp_type p = [] \<and> ro_Type i \<noteq> [] \<and> re_OutputIndex e = rp_index p
                    then Some (p\<lparr>rp_type := ro_Type i, rp_iid := ro_ID i\<rparr>) else None)
      else if t = ''response.output_item.done'' then
        (case re_Item e of None \<Rightarrow> None
         | Some i \<Rightarrow> if rp_type p \<noteq> [] \<and> ro_Type i = rp_type p \<and> ro_ID i = rp_iid p \<and>
                       ro_Status i = ''completed'' \<and> re_OutputIndex e = rp_index p
                    then Some (p\<lparr>rp_type := [], rp_iid := [], rp_part := 0, rp_index := rp_index p + 1,
                                 rp_items := rp_items p @ [i]\<rparr>) else None)
      else if t = ''response.content_part.added'' \<or> t = ''response.output_text.done'' then
        (if in_message then Some p else None)
      else if t = ''response.content_part.done'' then
        (if in_message then Some (p\<lparr>rp_part := rp_part p + 1\<rparr>) else None)
      else if t = ''response.output_text.delta'' then
        (if resp_here p e \<and> re_ContentIndex e = rp_part p then Some p else None)
      else if t = ''response.reasoning_summary_text.delta'' \<or> t = ''response.function_call_arguments.delta'' then
        (if resp_here p e then Some p else None)
      else if t = ''response.reasoning_summary_text.done'' then
        (if resp_here p e \<and> rp_type p = ''reasoning'' then Some p else None)
      else if t = ''response.function_call_arguments.done'' then
        (if resp_here p e \<and> rp_type p = ''function_call'' then Some p else None)
      else if t = ''response.completed'' \<or> t = ''response.incomplete'' then
        (case re_Response e of None \<Rightarrow> None
         | Some r \<Rightarrow> if rp_type p = [] \<and> \<not> rp_completed p \<and> rr_Output r = rp_items p
                    then Some (p\<lparr>rp_completed := True\<rparr>) else None)
      else None)"

definition resp_accept :: "resp_pos \<Rightarrow> ResponsesStreamEvent \<Rightarrow> resp_pos option" where
  "resp_accept p e =
     (if re_SequenceNumber e \<noteq> rp_seq p then None
      else case resp_accept_type p e of None \<Rightarrow> None
        | Some p' \<Rightarrow> Some (p'\<lparr>rp_seq := rp_seq p + 1\<rparr>))"

definition a2r_view :: "A2RState \<Rightarrow> resp_pos" where
  "a2r_view st = \<lparr>rp_seq = sr_SequenceNumber st, rp_index = sr_OutputIndex st,
     rp_type = sr_CurrentItemType st, rp_iid = sr_CurrentItemID st, rp_part = sr_ContentIndex st,
     rp_items = sr_Outputs st, rp_created = sr_CreatedSent st, rp_completed = sr_CompletedSent st\<rparr>"

definition a2r_inv :: "A2RState \<Rightarrow> bool" where
  "a2r_inv st \<longleftrightarrow> (sr_CurrentItemType st = [] \<longrightarrow> sr_ContentIndex st = 0)"

definition a2r_ok :: "A2RState \<Rightarrow> A2RState \<times> ResponsesStreamEvent list \<Rightarrow> bool" where
  "a2r_ok st r \<longleftrightarrow> a2r_inv (fst r) \<and>
     scan_events resp_accept (a2r_view st) (snd r) = Some (a2r_view (fst r))"

lemma a2r_ok_refl: "a2r_inv st \<Longrightarrow> a2r_ok st (st, [])"
  by (simp add: a2r_ok_def)

lemma a2r_ok_then:
  "a2r_ok st r \<Longrightarrow> (\<And>es. r = (fst r, es) \<Longrightarrow> a2r_inv (fst r) \<Longrightarrow> a2r_ok (fst r) (k (fst r))) \<Longrightarrow>
   a2r_ok st (then_emit r k)"
  by (cases r; cases "k (fst r)") (simp add: then_emit_def a2r_ok_def scan_events_append)

lemma current_item_fields:
  "ro_Type (current_item st) = sr_CurrentItemType st" "ro_ID (current_item st) = sr_CurrentItemID st"
  "ro_Status (current_item st) = ''completed''"
  by (simp_all add: current_item_def zero_output_def Let_def)

lemmas a2r_accept = a2r_ok_def a2r_inv_def a2r_view_def resp_accept_def resp_accept_type_def
  resp_here_def zero_resp_event_def makeResponsesEvent_def

lemma a2r_close_ok: "a2r_inv st \<Longrightarrow> a2r_ok st (closeCurrentResponsesItem st)"
  by (simp add: closeCurrentResponsesItem_def Let_def a2r_accept current_item_fields)

lemma closed_item_type: "sr_CurrentItemType (fst (closeCurrentResponsesItem st)) = []"
  by (simp add: closeCurrentResponsesItem_def Let_def makeResponsesEvent_def)

lemma close_flags:
  "sr_CreatedSent (fst (closeCurrentResponsesItem st)) = sr_CreatedSent st"
  "sr_CompletedSent (fst (closeCurrentResponsesItem st)) = sr_CompletedSent st"
  by (simp_all add: closeCurrentResponsesItem_def Let_def makeResponsesEvent_def)

lemma a2r_after_close:
  assumes "a2r_inv st"
    and "\<And>s. a2r_inv s \<Longrightarrow> sr_CurrentItemType s = [] \<Longrightarrow> sr_CompletedSent s = sr_CompletedSent st \<Longrightarrow>
           a2r_ok s (k s)"
  shows "a2r_ok st (then_emit (closeCurrentResponsesItem st) k)"
  using assms a2r_close_ok [OF assms(1)]
  by (intro a2r_ok_then) (auto simp: closed_item_type close_flags)

lemma start_thinking_ok: "a2r_inv st \<Longrightarrow> a2r_ok st (start_thinking rnd st)"
  unfolding start_thinking_def Let_def
  by (erule a2r_after_close) (simp add: item_added_def a2r_accept zero_output_def)

lemma open_message_ok: "a2r_inv st \<Longrightarrow> a2r_ok st (open_message rnd st)"
  unfolding open_message_def Let_def
  by (auto intro!: a2r_after_close a2r_ok_refl) (simp_all add: item_added_def a2r_accept zero_output_def)

lemma open_message_type: "sr_CurrentItemType (fst (open_message rnd st)) = ''message''"
  by (simp add: open_message_def then_emit_def item_added_def makeResponsesEvent_def Let_def
      split: prod.split)

lemma start_text_ok: "a2r_inv st \<Longrightarrow> a2r_ok st (start_text rnd st)"
  unfolding start_text_def
  using open_message_ok [of st rnd] open_message_type [of rnd st]
  by (intro a2r_ok_then) (auto simp: a2r_accept)

lemma start_tool_use_ok: "a2r_inv st \<Longrightarrow> a2r_ok st (start_tool_use rnd b st)"
  unfolding start_tool_use_def Let_def
  by (erule a2r_after_close) (simp add: item_added_def a2r_accept zero_output_def)

lemma block_start_ok: "a2r_inv st \<Longrightarrow> a2r_ok st (anthToResHandleContentBlockStart rnd evt st)"
  by (simp add: anthToResHandleContentBlockStart_def start_thinking_ok start_text_ok start_tool_use_ok
      a2r_ok_refl split: option.split)

lemma block_delta_ok: "a2r_inv st \<Longrightarrow> a2r_ok st (anthToResHandleContentBlockDelta evt st)"
  by (simp add: anthToResHandleContentBlockDelta_def a2r_accept split: option.split)

lemma block_stop_ok: "a2r_inv st \<Longrightarrow> a2r_ok st (anthToResHandleContentBlockStop evt st)"
proof -
  assume inv: "a2r_inv st"
  have close: "a2r_ok st (then_emit r closeCurrentResponsesItem)" if "a2r_ok st r" for r
    using that by (rule a2r_ok_then) (rule a2r_close_ok)
  have message: "a2r_ok st (anthToResHandleContentBlockStop evt st)" if "sr_CurrentItemType st = ''message''"
    using that by (simp add: anthToResHandleContentBlockStop_def then_emit_def a2r_accept Let_def)
  have items: "a2r_ok st (anthToResHandleContentBlockStop evt st)" if "sr_CurrentItemType st \<noteq> ''message''"
    unfolding anthToResHandleContentBlockStop_def
    using that inv by (auto intro!: close a2r_ok_refl) (simp_all add: a2r_accept)
  show ?thesis using message items by blast
qed

lemma message_start_ok: "a2r_inv st \<Longrightarrow> a2r_ok st (anthToResHandleMessageStart evt st)"
  by (simp add: anthToResHandleMessageStart_def makeResponsesCreatedEvent_def a2r_accept Let_def
      split: option.split)

lemma message_delta_ok: "a2r_inv st \<Longrightarrow> a2r_ok st (anthToResHandleMessageDelta evt st)"
  by (simp add: anthToResHandleMessageDelta_def a2r_accept Let_def split: option.split)

lemma end_response_ok: "a2r_inv st \<Longrightarrow> \<not> sr_CompletedSent st \<Longrightarrow> a2r_ok st (end_response st)"
  unfolding end_response_def
  by (erule a2r_after_close)
    (simp add: anthropicResponsesStreamTerminalState_def makeResponsesCompletedEvent_def a2r_accept
      zero_response_def)

lemma a2r_step_ok: "a2r_inv st \<Longrightarrow> a2r_ok st (AnthropicEventToResponsesEvents re st)"
  by (cases re) (simp add: AnthropicEventToResponsesEvents_def Let_def message_start_ok block_start_ok
      block_delta_ok block_stop_ok message_delta_ok anthToResHandleMessageStop_def end_response_ok
      a2r_ok_refl)

lemma a2r_finalize_ok: "a2r_inv st \<Longrightarrow> a2r_ok st (FinalizeAnthropicResponsesStream st)"
  by (simp add: FinalizeAnthropicResponsesStream_def end_response_ok a2r_ok_refl)

interpretation a2r: stream_protocol AnthropicEventToResponsesEvents a2r_inv a2r_view resp_accept
  using a2r_step_ok by unfold_locales (auto simp: a2r_ok_def)

abbreviation a2r_stream :: "int \<Rightarrow> (string \<times> AnthropicStreamEvent) list \<Rightarrow>
    A2RState \<times> ResponsesStreamEvent list" where
  "a2r_stream now es \<equiv>
     run_events AnthropicEventToResponsesEvents es (NewAnthropicEventToResponsesState now)"

definition resp_start :: resp_pos where
  "resp_start = \<lparr>rp_seq = 0, rp_index = 0, rp_type = [], rp_iid = [], rp_part = 0, rp_items = [],
     rp_created = False, rp_completed = False\<rparr>"

lemma a2r_new: "a2r_inv (NewAnthropicEventToResponsesState now)"
  "a2r_view (NewAnthropicEventToResponsesState now) = resp_start"
  by (simp_all add: NewAnthropicEventToResponsesState_def a2r_inv_def a2r_view_def resp_start_def)

text \<open>C2: Every event sequence, followed by the finalizer, is turned into a
  well-formed Responses stream: sequence numbers 0, 1, 2, ...; output items added and done one at a
  time with indices 0, 1, 2, ... and the same type and identifier at both ends; content parts
  numbered 0, 1, 2, ... inside their message; every delta addressed to the current item; and one
  terminal event at most, which carries exactly the items that were done.\<close>

theorem a2r_stream_well_formed:
  "scan_events resp_accept resp_start
     (snd (a2r_stream now es) @ snd (FinalizeAnthropicResponsesStream (fst (a2r_stream now es))))
   = Some (a2r_view (fst (FinalizeAnthropicResponsesStream (fst (a2r_stream now es)))))"
  using a2r.finished_accepted [OF a2r_new(1), of FinalizeAnthropicResponsesStream now es]
    a2r_finalize_ok by (simp add: a2r_ok_def a2r_new(2))

subsection \<open>The final response carries the streamed text\<close>

text \<open>
  The order of events an Anthropic upstream keeps: blocks one at a time, deltas inside a block and
  text deltas inside a text block. The position is the type of the open block.
\<close>

definition anth_source :: "string option \<Rightarrow> string \<times> AnthropicStreamEvent \<Rightarrow> string option option" where
  "anth_source p re =
     (let e = snd re; t = ae_Type e in
      if t = ''content_block_start'' then
        (case ae_ContentBlock e of None \<Rightarrow> None
         | Some b \<Rightarrow> if p = None then Some (Some (cb_Type b)) else None)
      else if t = ''content_block_delta'' then
        (case ae_Delta e of None \<Rightarrow> None
         | Some d \<Rightarrow> if (if ad_Type d = ''text_delta'' then p = Some ''text'' else p \<noteq> None)
                    then Some p else None)
      else if t = ''content_block_stop'' then (if p \<noteq> None then Some None else None)
      else if t = ''message_stop'' then None
      else Some p)"

definition anth_text_in :: "string \<times> AnthropicStreamEvent \<Rightarrow> string" where
  "anth_text_in re =
     (if ae_Type (snd re) = ''content_block_delta'' then
        (case ae_Delta (snd re) of None \<Rightarrow> []
         | Some d \<Rightarrow> if ad_Type d = ''text_delta'' then ad_Text d else [])
      else [])"

definition parts_text :: "ResponsesContentPart list \<Rightarrow> string" where
  "parts_text ps = concat (map cp_Text ps)"

definition items_text :: "ResponsesOutput list \<Rightarrow> string" where
  "items_text items = concat (map (\<lambda>i. parts_text (ro_Content i)) items)"

lemma parts_text_list [simp]:
  "parts_text [] = []" "parts_text (p # ps) = cp_Text p @ parts_text ps"
  "parts_text (ps @ qs) = parts_text ps @ parts_text qs"
  by (simp_all add: parts_text_def)

lemma items_text_list [simp]:
  "items_text [] = []" "items_text (i # is) = parts_text (ro_Content i) @ items_text is"
  "items_text (is @ js) = items_text is @ items_text js"
  by (simp_all add: items_text_def)

definition held_text :: "A2RState \<Rightarrow> string" where
  "held_text st = items_text (sr_Outputs st) @ parts_text (sr_CurrentContent st) @ sr_TextAccum st"

definition a2r_source_inv :: "string option \<Rightarrow> A2RState \<Rightarrow> bool" where
  "a2r_source_inv p st \<longleftrightarrow>
     (p = Some ''text'' \<longrightarrow> sr_CurrentItemType st = ''message'') \<and>
     (p \<noteq> Some ''text'' \<longrightarrow> sr_TextAccum st = []) \<and>
     (p = Some ''thinking'' \<longrightarrow> sr_CurrentItemType st = ''reasoning'') \<and>
     (p = Some ''tool_use'' \<longrightarrow> sr_CurrentItemType st = ''function_call'') \<and>
     (p \<noteq> Some ''thinking'' \<and> p \<noteq> Some ''tool_use'' \<longrightarrow>
        sr_CurrentItemType st = [] \<or> sr_CurrentItemType st = ''message'') \<and>
     (sr_CurrentItemType st \<noteq> ''message'' \<longrightarrow> sr_CurrentContent st = [])"

lemma close_held:
  assumes "a2r_source_inv None st"
  shows "held_text (fst (closeCurrentResponsesItem st)) = held_text st"
    "sr_TextAccum (fst (closeCurrentResponsesItem st)) = []"
    "sr_CurrentContent (fst (closeCurrentResponsesItem st)) = []"
  using assms
  by (auto simp: closeCurrentResponsesItem_def Let_def makeResponsesEvent_def held_text_def
      a2r_source_inv_def current_item_def zero_output_def)

lemma close_not_message_held:
  assumes "sr_CurrentItemType st \<noteq> ''message''" "sr_CurrentContent st = []" "sr_TextAccum st = []"
  shows "held_text (fst (closeCurrentResponsesItem st)) = held_text st"
  using assms
  by (auto simp: closeCurrentResponsesItem_def Let_def makeResponsesEvent_def held_text_def
      current_item_def zero_output_def)

lemmas a2r_emit = then_emit_def item_added_def makeResponsesEvent_def

lemma close_item_type_cases:
  assumes "a2r_source_inv None st"
  obtains s es where "closeCurrentResponsesItem st = (s, es)" "sr_CurrentItemType s = []"
    "held_text s = held_text st" "sr_TextAccum s = []" "sr_CurrentContent s = []"
proof (cases "closeCurrentResponsesItem st")
  case (Pair s es)
  with close_held [OF assms] closed_item_type [of st] show ?thesis
    by (intro that [of s es]) simp_all
qed

lemma start_thinking_held:
  assumes "a2r_source_inv None st"
  shows "a2r_source_inv (Some ''thinking'') (fst (start_thinking rnd st)) \<and>
    held_text (fst (start_thinking rnd st)) = held_text st"
proof -
  obtain s es where c: "closeCurrentResponsesItem st = (s, es)" "sr_CurrentItemType s = []"
    "held_text s = held_text st" "sr_TextAccum s = []" "sr_CurrentContent s = []"
    using assms by (rule close_item_type_cases)
  then show ?thesis
    unfolding c(3) [symmetric]
    by (simp add: start_thinking_def a2r_emit a2r_source_inv_def held_text_def Let_def)
qed

lemma start_tool_use_held:
  assumes "a2r_source_inv None st"
  shows "a2r_source_inv (Some ''tool_use'') (fst (start_tool_use rnd b st)) \<and>
    held_text (fst (start_tool_use rnd b st)) = held_text st"
proof -
  obtain s es where c: "closeCurrentResponsesItem st = (s, es)" "sr_CurrentItemType s = []"
    "held_text s = held_text st" "sr_TextAccum s = []" "sr_CurrentContent s = []"
    using assms by (rule close_item_type_cases)
  then show ?thesis
    unfolding c(3) [symmetric]
    by (simp add: start_tool_use_def a2r_emit a2r_source_inv_def held_text_def Let_def)
qed

lemma start_text_held:
  assumes "a2r_source_inv None st"
  shows "a2r_source_inv (Some ''text'') (fst (start_text rnd st)) \<and>
    held_text (fst (start_text rnd st)) = held_text st"
proof (cases "sr_CurrentItemType st = ''message''")
  case True
  with assms show ?thesis
    by (simp add: start_text_def open_message_def a2r_emit a2r_source_inv_def held_text_def)
next
  case False
  obtain s es where c: "closeCurrentResponsesItem st = (s, es)" "sr_CurrentItemType s = []"
    "held_text s = held_text st" "sr_TextAccum s = []" "sr_CurrentContent s = []"
    using assms by (rule close_item_type_cases)
  with False show ?thesis
    unfolding c(3) [symmetric]
    by (simp add: start_text_def open_message_def a2r_emit a2r_source_inv_def held_text_def Let_def)
qed

lemmas start_held = start_thinking_held start_text_held start_tool_use_held

lemma delta_held:
  assumes "a2r_source_inv p st" "anth_source p (rnd, e) = Some p'" "ae_Type e = ''content_block_delta''"
  shows "a2r_source_inv p' (fst (anthToResHandleContentBlockDelta e st)) \<and>
    held_text (fst (anthToResHandleContentBlockDelta e st)) = held_text st @ anth_text_in (rnd, e)"
  using assms
  by (auto simp: anthToResHandleContentBlockDelta_def anth_source_def anth_text_in_def Let_def
      a2r_source_inv_def held_text_def makeResponsesEvent_def split: option.splits if_splits)

lemma stop_held:
  assumes "a2r_source_inv p st" "p \<noteq> None"
  shows "a2r_source_inv None (fst (anthToResHandleContentBlockStop e st)) \<and>
    held_text (fst (anthToResHandleContentBlockStop e st)) = held_text st"
proof -
  have fresh: "sr_CurrentItemType st \<noteq> ''message'' \<Longrightarrow> sr_CurrentContent st = [] \<and> sr_TextAccum st = []"
    using assms unfolding a2r_source_inv_def by (metis option.sel)
  consider (reasoning) "sr_CurrentItemType st = ''reasoning''" | (call) "sr_CurrentItemType st = ''function_call''"
    | (message) "sr_CurrentItemType st = ''message''" | (none) "sr_CurrentItemType st = []"
    using assms(1) unfolding a2r_source_inv_def by blast
  then show ?thesis
  proof cases
    case none
    with fresh show ?thesis
      by (simp add: anthToResHandleContentBlockStop_def a2r_source_inv_def)
  qed (use fresh in \<open>simp_all add: anthToResHandleContentBlockStop_def a2r_emit
        closeCurrentResponsesItem_def a2r_source_inv_def held_text_def current_item_def
        zero_output_def output_text_part_def zero_part_def Let_def\<close>)
qed

lemma message_held:
  "held_text (fst (anthToResHandleMessageStart e st)) = held_text st"
  "a2r_source_inv p (fst (anthToResHandleMessageStart e st)) = a2r_source_inv p st"
  "held_text (fst (anthToResHandleMessageDelta e st)) = held_text st"
  "a2r_source_inv p (fst (anthToResHandleMessageDelta e st)) = a2r_source_inv p st"
  by (simp_all add: anthToResHandleMessageStart_def anthToResHandleMessageDelta_def held_text_def
      a2r_source_inv_def makeResponsesCreatedEvent_def Let_def split: option.split)

lemma a2r_step_held:
  assumes "a2r_source_inv p st" "anth_source p re = Some p'"
  shows "a2r_source_inv p' (fst (AnthropicEventToResponsesEvents re st)) \<and>
    held_text (fst (AnthropicEventToResponsesEvents re st)) = held_text st @ anth_text_in re"
proof (cases re)
  case (Pair rnd e)
  consider (start) "ae_Type e = ''content_block_start''" | (delta) "ae_Type e = ''content_block_delta''"
    | (stop) "ae_Type e = ''content_block_stop''"
    | (other) "ae_Type e \<notin> {''content_block_start'', ''content_block_delta'', ''content_block_stop''}"
    by blast
  then show ?thesis
  proof cases
    case start
    then obtain b where b: "ae_ContentBlock e = Some b" "p = None" "p' = Some (cb_Type b)"
      using assms(2) Pair by (auto simp: anth_source_def Let_def split: option.splits if_splits)
    have "a2r_source_inv (Some (cb_Type b)) st" if "cb_Type b \<notin> {''thinking'', ''text'', ''tool_use''}"
      using assms(1) b(2) that by (simp add: a2r_source_inv_def)
    with start b assms(1) start_held [of st] Pair show ?thesis
      by (auto simp: AnthropicEventToResponsesEvents_def anthToResHandleContentBlockStart_def
          anth_text_in_def)
  next
    case delta
    with delta_held [of p st rnd e p'] assms Pair show ?thesis
      by (simp add: AnthropicEventToResponsesEvents_def)
  next
    case stop
    with stop_held [of p st e] assms Pair show ?thesis
      by (auto simp: AnthropicEventToResponsesEvents_def anth_source_def anth_text_in_def Let_def
          split: if_splits)
  next
    case other
    with assms Pair show ?thesis
      by (auto simp: AnthropicEventToResponsesEvents_def anth_source_def anth_text_in_def message_held
          Let_def split: if_splits)
  qed
qed

lemma a2r_run_held:
  assumes "a2r_source_inv p st" "scan_events anth_source p es = Some p'"
  shows "a2r_source_inv p' (fst (run_events AnthropicEventToResponsesEvents es st)) \<and>
    held_text (fst (run_events AnthropicEventToResponsesEvents es st)) =
      held_text st @ concat (map anth_text_in es)"
  using assms
proof (induction es arbitrary: p st)
  case (Cons re es)
  then obtain q where q: "anth_source p re = Some q" "scan_events anth_source q es = Some p'"
    by (auto split: option.splits)
  from Cons.IH [OF conjunct1 [OF a2r_step_held [OF Cons.prems(1) q(1)]] q(2)]
    a2r_step_held [OF Cons.prems(1) q(1)]
  show ?case by (simp add: run_events_Cons del: run_events.simps(2))
qed simp

lemma end_response_text:
  assumes "a2r_source_inv None st"
  shows "\<exists>evs e r. snd (end_response st) = evs @ [e] \<and> re_Response e = Some r \<and>
    items_text (rr_Output r) = held_text st"
proof -
  have "sr_CurrentItemType (fst (closeCurrentResponsesItem st)) = []" by (rule closed_item_type)
  then show ?thesis
    using close_held [OF assms]
    by (cases "closeCurrentResponsesItem st")
      (auto simp: end_response_def then_emit_def makeResponsesCompletedEvent_def held_text_def
        zero_response_def split: prod.split)
qed

lemma source_step_completed:
  assumes "anth_source p re = Some p'"
  shows "sr_CompletedSent (fst (AnthropicEventToResponsesEvents re st)) = sr_CompletedSent st"
proof (cases re)
  case (Pair rnd e)
  have starts: "sr_CompletedSent (fst (anthToResHandleContentBlockStart rnd e st)) = sr_CompletedSent st"
    using close_flags(2) [of st]
    by (cases "closeCurrentResponsesItem st") (auto simp: anthToResHandleContentBlockStart_def
        start_thinking_def start_tool_use_def start_text_def open_message_def a2r_emit Let_def
        split: option.split)
  have stop: "sr_CompletedSent (fst (anthToResHandleContentBlockStop e st)) = sr_CompletedSent st"
    by (simp add: anthToResHandleContentBlockStop_def a2r_emit closeCurrentResponsesItem_def Let_def)
  have "sr_CompletedSent (fst (anthToResHandleContentBlockDelta e st)) = sr_CompletedSent st"
    "sr_CompletedSent (fst (anthToResHandleMessageStart e st)) = sr_CompletedSent st"
    "sr_CompletedSent (fst (anthToResHandleMessageDelta e st)) = sr_CompletedSent st"
    by (simp_all add: anthToResHandleContentBlockDelta_def anthToResHandleMessageStart_def
        anthToResHandleMessageDelta_def makeResponsesEvent_def makeResponsesCreatedEvent_def Let_def
        split: option.split)
  with assms Pair starts stop show ?thesis
    by (simp add: AnthropicEventToResponsesEvents_def anth_source_def Let_def split: if_splits)
qed

lemma source_run_completed:
  "scan_events anth_source p es = Some p' \<Longrightarrow>
   sr_CompletedSent (fst (run_events AnthropicEventToResponsesEvents es st)) = sr_CompletedSent st"
proof (induction es arbitrary: p st)
  case (Cons re es)
  then show ?case
    by (simp add: run_events_Cons source_step_completed split: option.splits del: run_events.simps(2))
qed simp

text \<open>C6: When the upstream keeps the order of Anthropic events, the terminal
  event of the stream carries a response whose message items hold, in order, exactly the text that
  was streamed.\<close>

theorem a2r_text_complete:
  assumes "scan_events anth_source None es = Some None" "ae_Type stop = ''message_stop''"
  shows "\<exists>evs e r. snd (a2r_stream now (es @ [(rnd, stop)])) = evs @ [e] \<and>
    re_Response e = Some r \<and> items_text (rr_Output r) = concat (map anth_text_in es)"
proof -
  let ?new = "NewAnthropicEventToResponsesState now"
  let ?run = "run_events AnthropicEventToResponsesEvents es ?new"
  have new: "a2r_source_inv None ?new" "held_text ?new = []" "\<not> sr_CompletedSent ?new"
    by (simp_all add: NewAnthropicEventToResponsesState_def a2r_source_inv_def held_text_def)
  have run: "a2r_source_inv None (fst ?run)" "held_text (fst ?run) = concat (map anth_text_in es)"
    using a2r_run_held [OF new(1) assms(1)] new(2) by simp_all
  have "AnthropicEventToResponsesEvents (rnd, stop) (fst ?run) = end_response (fst ?run)"
    using assms source_run_completed [OF assms(1), of ?new] new(3)
    by (simp add: AnthropicEventToResponsesEvents_def anthToResHandleMessageStop_def)
  with end_response_text [OF run(1)] run(2) show ?thesis
    by (simp add: run_events_append run_events_single) (metis append.assoc)
qed

definition start_event :: "string \<Rightarrow> string \<Rightarrow> string \<Rightarrow> AnthropicStreamEvent" where
  "start_event t cid name = zero_anth_event\<lparr>ae_Type := ''content_block_start'',
     ae_ContentBlock := Some (zero_block\<lparr>cb_Type := t, cb_ID := cid, cb_Name := name\<rparr>)\<rparr>"

definition text_delta_event :: "string \<Rightarrow> AnthropicStreamEvent" where
  "text_delta_event s = zero_anth_event\<lparr>ae_Type := ''content_block_delta'',
     ae_Delta := Some (zero_delta\<lparr>ad_Type := ''text_delta'', ad_Text := s\<rparr>)\<rparr>"

definition json_delta_event :: "string \<Rightarrow> AnthropicStreamEvent" where
  "json_delta_event s = zero_anth_event\<lparr>ae_Type := ''content_block_delta'',
     ae_Delta := Some (zero_delta\<lparr>ad_Type := ''input_json_delta'', ad_PartialJSON := s\<rparr>)\<rparr>"

definition stop_event :: AnthropicStreamEvent where
  "stop_event = zero_anth_event\<lparr>ae_Type := ''content_block_stop''\<rparr>"

lemmas anth_literals = start_event_def text_delta_event_def json_delta_event_def stop_event_def
  zero_anth_event_def zero_delta_def zero_block_def

theorem a2r_text_complete_witness:
  "\<exists>evs e r. snd (a2r_stream 0 ([(''a'', start_event ''text'' [] []), ([], text_delta_event ''hi''),
        ([], stop_event), (''b'', start_event ''thinking'' [] []), ([], stop_event)]
        @ [([], zero_anth_event\<lparr>ae_Type := ''message_stop''\<rparr>)])) = evs @ [e] \<and>
    re_Response e = Some r \<and> items_text (rr_Output r) = ''hi''"
  using a2r_text_complete [of "[(''a'', start_event ''text'' [] []), ([], text_delta_event ''hi''),
        ([], stop_event), (''b'', start_event ''thinking'' [] []), ([], stop_event)]"
      "zero_anth_event\<lparr>ae_Type := ''message_stop''\<rparr>" "[]" 0]
  by (simp add: anth_literals anth_source_def anth_text_in_def)

subsection \<open>Tool calls\<close>

definition is_json_delta :: "string \<times> AnthropicStreamEvent \<Rightarrow> bool" where
  "is_json_delta re \<longleftrightarrow> ae_Type (snd re) = ''content_block_delta'' \<and>
     (case ae_Delta (snd re) of None \<Rightarrow> False | Some d \<Rightarrow> ad_Type d = ''input_json_delta'')"

definition json_in :: "string \<times> AnthropicStreamEvent \<Rightarrow> string" where
  "json_in re = (case ae_Delta (snd re) of None \<Rightarrow> [] | Some d \<Rightarrow> ad_PartialJSON d)"

definition call_open :: "string \<Rightarrow> string \<Rightarrow> string \<Rightarrow> string \<Rightarrow> A2RState \<Rightarrow> bool" where
  "call_open iid cid name args st \<longleftrightarrow> sr_CurrentItemType st = ''function_call'' \<and>
     sr_CurrentItemID st = iid \<and> sr_CurrentCallID st = cid \<and> sr_CurrentName st = name \<and>
     sr_CurrentArgs st = args"

lemma call_started:
  assumes "sr_CurrentItemType st = [] \<longrightarrow> sr_CurrentArgs st = []"
    "ae_Type a = ''content_block_start''" "ae_ContentBlock a = Some b" "cb_Type b = ''tool_use''"
  shows "call_open (generateItemID rnd) (cb_ID b) (cb_Name b) []
    (fst (AnthropicEventToResponsesEvents (rnd, a) st))"
  using assms
  by (simp add: AnthropicEventToResponsesEvents_def anthToResHandleContentBlockStart_def
      start_tool_use_def closeCurrentResponsesItem_def a2r_emit call_open_def toResponsesCallID_def
      Let_def)

lemma call_deltas:
  "call_open iid cid name args st \<Longrightarrow> list_all is_json_delta ds \<Longrightarrow>
   call_open iid cid name (args @ concat (map json_in ds))
     (fst (run_events AnthropicEventToResponsesEvents ds st))"
proof (induction ds arbitrary: args st)
  case (Cons d ds)
  have "call_open iid cid name (args @ json_in d) (fst (AnthropicEventToResponsesEvents d st))"
    using Cons.prems
    by (cases d) (auto simp: is_json_delta_def AnthropicEventToResponsesEvents_def json_in_def
        anthToResHandleContentBlockDelta_def makeResponsesEvent_def call_open_def split: option.splits)
  from Cons.IH [OF this] Cons.prems show ?case
    by (simp add: run_events_Cons del: run_events.simps(2))
qed simp

lemma call_stopped:
  assumes "call_open iid cid name args st" "ae_Type e = ''content_block_stop''"
  shows "sr_Outputs (fst (AnthropicEventToResponsesEvents (rnd, e) st)) = sr_Outputs st @
    [zero_output\<lparr>ro_Type := ''function_call'', ro_ID := iid, ro_CallID := cid, ro_Name := name,
       ro_Arguments := (if args = [] then ''{}'' else args), ro_Status := ''completed''\<rparr>]"
  using assms
  by (simp add: call_open_def AnthropicEventToResponsesEvents_def anthToResHandleContentBlockStop_def
      a2r_emit closeCurrentResponsesItem_def current_item_def zero_output_def Let_def)

text \<open>A tool_use block whose input arrives in fragments becomes one
  function_call item of the final response, with the call identifier and name of the block and the
  concatenation of the fragments (or the empty object) as its arguments.\<close>

theorem a2r_tool_call:
  assumes "sr_CurrentItemType st = [] \<longrightarrow> sr_CurrentArgs st = []"
    and "ae_Type a = ''content_block_start''" "ae_ContentBlock a = Some b" "cb_Type b = ''tool_use''"
    and "list_all is_json_delta ds" "ae_Type e = ''content_block_stop''"
  shows "last (sr_Outputs (fst (run_events AnthropicEventToResponsesEvents
      ((rnd, a) # ds @ [(rnd', e)]) st))) =
    zero_output\<lparr>ro_Type := ''function_call'', ro_ID := generateItemID rnd, ro_CallID := cb_ID b,
      ro_Name := cb_Name b, ro_Arguments := (let s = concat (map json_in ds) in if s = [] then ''{}'' else s),
      ro_Status := ''completed''\<rparr>"
  using call_stopped [OF call_deltas [OF call_started [OF assms(1-4)] assms(5)] assms(6)]
  by (simp add: run_events_Cons run_events_append run_events_single Let_def del: run_events.simps(2))

theorem a2r_tool_call_witness:
  "last (sr_Outputs (fst (a2r_stream 0 ((''r'', start_event ''tool_use'' ''t1'' ''Bash'')
      # [([], json_delta_event ''{a''), ([], json_delta_event ''}'')] @ [([], stop_event)])))) =
    zero_output\<lparr>ro_Type := ''function_call'', ro_ID := generateItemID ''r'', ro_CallID := ''t1'',
      ro_Name := ''Bash'', ro_Arguments := ''{a}'', ro_Status := ''completed''\<rparr>"
  using a2r_tool_call [of "NewAnthropicEventToResponsesState 0" "start_event ''tool_use'' ''t1'' ''Bash''"
      "zero_block\<lparr>cb_Type := ''tool_use'', cb_ID := ''t1'', cb_Name := ''Bash''\<rparr>"
      "[([], json_delta_event ''{a''), ([], json_delta_event ''}'')]" stop_event "''r''" "[]"]
  by (simp add: anth_literals is_json_delta_def json_in_def NewAnthropicEventToResponsesState_def
      del: run_events.simps)

subsection \<open>A block type without a counterpart\<close>

text \<open>While a message item is open, the stop of a content block
  of a type the bridge does not convert ends a content part that was never added: an empty
  output_text.done and content_part.done are sent and an empty part enters the message.\<close>

theorem a2r_unhandled_block_ghost_part:
  assumes "t \<notin> {''thinking'', ''text'', ''tool_use''}"
  shows "map re_Type (snd (a2r_stream now
      [(r, start_event ''text'' [] []), (r, text_delta_event ''hi''), (r, stop_event),
       (r, start_event t [] []), (r, stop_event)])) =
    [''response.output_item.added'', ''response.content_part.added'', ''response.output_text.delta'',
     ''response.output_text.done'', ''response.content_part.done'',
     ''response.output_text.done'', ''response.content_part.done''] \<and>
    sr_CurrentContent (fst (a2r_stream now
      [(r, start_event ''text'' [] []), (r, text_delta_event ''hi''), (r, stop_event),
       (r, start_event t [] []), (r, stop_event)])) = [output_text_part ''hi'', output_text_part []]"
  using assms
  by (simp add: anth_literals AnthropicEventToResponsesEvents_def anthToResHandleContentBlockStart_def
      anthToResHandleContentBlockDelta_def anthToResHandleContentBlockStop_def start_text_def
      open_message_def closeCurrentResponsesItem_def a2r_emit NewAnthropicEventToResponsesState_def Let_def)

theorem a2r_unhandled_block_ghost_part_witness:
  "map re_Type (snd (a2r_stream 0
      [([], start_event ''text'' [] []), ([], text_delta_event ''hi''), ([], stop_event),
       ([], start_event ''server_tool_use'' [] []), ([], stop_event)])) =
    [''response.output_item.added'', ''response.content_part.added'', ''response.output_text.delta'',
     ''response.output_text.done'', ''response.content_part.done'',
     ''response.output_text.done'', ''response.content_part.done'']"
  using a2r_unhandled_block_ghost_part [where t = "''server_tool_use''" and r = "[]" and now = 0] by simp

subsection \<open>Round trip of the two non-streaming conversions\<close>











text \<open>The usage of an Anthropic response survives the trip to the OpenAI
  convention (cached tokens counted as input tokens) and back, token by token.\<close>

theorem a2r_usage_roundtrip:
  assumes "0 \<le> au_InputTokens (ar_Usage r)" "0 \<le> au_CacheReadInputTokens (ar_Usage r)"
  shows "let back = ar_Usage (ResponsesToAnthropic J (AnthropicToResponsesResponse rid rnd now r) m)
    in au_InputTokens back = au_InputTokens (ar_Usage r) \<and>
       au_OutputTokens back = au_OutputTokens (ar_Usage r) \<and>
       au_CacheReadInputTokens back = au_CacheReadInputTokens (ar_Usage r) \<and>
       au_CacheCreationInputTokens back = au_CacheCreationInputTokens (ar_Usage r)"
  using assms
  by (simp add: ResponsesToAnthropic_def AnthropicToResponsesResponse_def zero_response_def Let_def
      openai_usage_def anthropicUsageFromResponsesUsage_def zero_input_details_def)

theorem a2r_usage_roundtrip_witness:
  "au_InputTokens (ar_Usage (ResponsesToAnthropic plain_json (AnthropicToResponsesResponse [] (\<lambda>n. []) 0
      \<lparr>ar_ID = ''m'', ar_Type = ''message'', ar_Role = ''assistant'', ar_Content = [], ar_Model = ''x'',
       ar_StopReason = None, ar_StopSequence = None,
       ar_Usage = zero_usage\<lparr>au_InputTokens := 5, au_CacheReadInputTokens := 7\<rparr>\<rparr>) ''m'')) = 5"
  using a2r_usage_roundtrip [of "\<lparr>ar_ID = ''m'', ar_Type = ''message'', ar_Role = ''assistant'',
      ar_Content = [], ar_Model = ''x'', ar_StopReason = None, ar_StopSequence = None,
      ar_Usage = zero_usage\<lparr>au_InputTokens := 5, au_CacheReadInputTokens := 7\<rparr>\<rparr>" plain_json
      "[]" "\<lambda>n. []" 0 "''m''"]
  by (simp add: zero_usage_def Let_def)

end
