(* ===== verification/Resp_To_Chat.thy ===== *)
theory Resp_To_Chat
  imports Anthropic_To_Resp
begin

section \<open>Responses to Chat Completions: apicompat/responses_to_chatcompletions.go\<close>

text \<open>
  The bridge that serves a Chat Completions client from a Responses upstream: the non-streaming
  conversion, the stateful chunk converter with its finalizer, the usage mapping, and the
  \<open>BufferedResponseAccumulator\<close> that rebuilds the output of a stream for a client that did not ask
  for streaming. The identifier generated from random bytes is an argument.
\<close>

subsection \<open>Usage\<close>

definition promptDetailsFromResponses :: "ResponsesInputTokensDetails option \<Rightarrow> ChatTokenDetails option" where
  "promptDetailsFromResponses src =
     (case src of
        None \<Rightarrow> None
      | Some d \<Rightarrow>
          if it_CachedTokens d = 0 \<and> it_AudioTokens d = 0 \<and> it_CacheCreationTokens d = 0 \<and>
             it_CacheWriteTokens d = 0 then None
          else Some (zero_token_details\<lparr>td_CachedTokens := it_CachedTokens d,
                 td_AudioTokens := it_AudioTokens d,
                 td_CacheCreationTokens := it_CacheCreationTokens d,
                 td_CacheWriteTokens := it_CacheWriteTokens d\<rparr>))"

definition completionDetailsFromResponses ::
    "ResponsesOutputTokensDetails option \<Rightarrow> ChatTokenDetails option" where
  "completionDetailsFromResponses src =
     (case src of
        None \<Rightarrow> None
      | Some d \<Rightarrow>
          if ot_ReasoningTokens d = 0 \<and> ot_AudioTokens d = 0 \<and> ot_AcceptedPredictionTokens d = 0 \<and>
             ot_RejectedPredictionTokens d = 0 then None
          else Some (zero_token_details\<lparr>td_ReasoningTokens := ot_ReasoningTokens d,
                 td_AudioTokens := ot_AudioTokens d,
                 td_AcceptedPredictionTokens := ot_AcceptedPredictionTokens d,
                 td_RejectedPredictionTokens := ot_RejectedPredictionTokens d\<rparr>))"

definition chatUsageFromResponsesUsage :: "ResponsesUsage option \<Rightarrow> ChatUsage option" where
  "chatUsageFromResponsesUsage usage =
     (case usage of
        None \<Rightarrow> None
      | Some u \<Rightarrow>
          let details = promptDetailsFromResponses (ru_InputTokensDetails u);
              details = (if ru_CacheCreationInputTokens u > 0 then
                           (let d = (case details of None \<Rightarrow> zero_token_details | Some d \<Rightarrow> d)
                            in Some (if td_CacheWriteTokens d = 0 \<and> td_CacheCreationTokens d = 0
                                     then d\<lparr>td_CacheCreationTokens := ru_CacheCreationInputTokens u\<rparr>
                                     else d))
                         else details)
          in Some \<lparr>cu_PromptTokens = ru_InputTokens u, cu_CompletionTokens = ru_OutputTokens u,
                   cu_TotalTokens = ru_InputTokens u + ru_OutputTokens u,
                   cu_PromptTokensDetails = details,
                   cu_CompletionTokensDetails = completionDetailsFromResponses (ru_OutputTokensDetails u)\<rparr>)"

subsection \<open>Non-streaming conversion\<close>

definition generateChatCmplID :: "string \<Rightarrow> string" where
  "generateChatCmplID b = ''chatcmpl-'' @ hex_encode b"

definition responsesStatusToChatFinishReason ::
    "string \<Rightarrow> ResponsesIncompleteDetails option \<Rightarrow> ChatToolCall list \<Rightarrow> string" where
  "responsesStatusToChatFinishReason status details toolCalls =
     (if status = ''incomplete'' then
        (if details = Some ''max_output_tokens'' then ''length''
         else if details = Some ''content_filter'' then ''content_filter'' else ''stop'')
      else if status = ''completed'' then (if toolCalls \<noteq> [] then ''tool_calls'' else ''stop'')
      else ''stop'')"

text \<open>One turn of the loop over the output items: text, reasoning and tool calls so far.\<close>

definition chat_item :: "ResponsesOutput \<Rightarrow> string \<times> string \<times> ChatToolCall list \<Rightarrow>
    string \<times> string \<times> ChatToolCall list" where
  "chat_item item acc =
     (case acc of (contentText, reasoningText, toolCalls) \<Rightarrow>
        if ro_Type item = ''message'' then
          (contentText @ concat (output_texts (ro_Content item)), reasoningText, toolCalls)
        else if ro_Type item = ''function_call'' then
          (contentText, reasoningText, toolCalls @
             [\<lparr>tc_Index = None, tc_ID = ro_CallID item, tc_Type = ''function'',
               tc_Function = \<lparr>fc_Name = ro_Name item, fc_Arguments = ro_Arguments item\<rparr>\<rparr>])
        else if ro_Type item = ''reasoning'' then
          (contentText, reasoningText @ summary_text (ro_Summary item), toolCalls)
        else acc)"

definition ResponsesToChatCompletions ::
    "json_lib \<Rightarrow> string \<Rightarrow> int \<Rightarrow> ResponsesResponse \<Rightarrow> string \<Rightarrow> ChatCompletionsResponse" where
  "ResponsesToChatCompletions J rnd now resp model =
     (case fold chat_item (rr_Output resp) ([], [], []) of (contentText, reasoningText, toolCalls) \<Rightarrow>
        let msg = zero_message\<lparr>cm_Role := ''assistant'', cm_ToolCalls := toolCalls,
                    cm_Content := (if contentText = [] then [] else json_MarshalString J contentText),
                    cm_ReasoningContent := reasoningText\<rparr>
        in \<lparr>cr_ID = (if rr_ID resp = [] then generateChatCmplID rnd else rr_ID resp),
            cr_Object = ''chat.completion'', cr_Created = now, cr_Model = model,
            cr_Choices = [\<lparr>ch_Index = 0, ch_Message = msg,
              ch_FinishReason = responsesStatusToChatFinishReason (rr_Status resp)
                                  (rr_IncompleteDetails resp) toolCalls\<rparr>],
            cr_Usage = chatUsageFromResponsesUsage (rr_Usage resp),
            cr_SystemFingerprint = [], cr_ServiceTier = rr_ServiceTier resp\<rparr>)"

subsection \<open>Streaming\<close>

record R2CState =
  rc_ID :: string
  rc_Model :: string
  rc_Created :: int
  rc_ServiceTier :: string
  rc_SentRole :: bool
  rc_SawToolCall :: bool
  rc_SawText :: bool
  rc_Finalized :: bool
  rc_NextToolCallIndex :: int
  rc_OutputIndexToToolIndex :: "int \<Rightarrow> int option"
  rc_OutputIndexToArguments :: "int \<Rightarrow> string option"
  rc_IncludeUsage :: bool
  rc_Usage :: "ChatUsage option"

definition NewResponsesEventToChatState :: "string \<Rightarrow> int \<Rightarrow> R2CState" where
  "NewResponsesEventToChatState rnd now =
     \<lparr>rc_ID = generateChatCmplID rnd, rc_Model = [], rc_Created = now, rc_ServiceTier = [],
      rc_SentRole = False, rc_SawToolCall = False, rc_SawText = False, rc_Finalized = False,
      rc_NextToolCallIndex = 0, rc_OutputIndexToToolIndex = Map.empty,
      rc_OutputIndexToArguments = Map.empty, rc_IncludeUsage = False, rc_Usage = None\<rparr>"

definition chat_chunk :: "R2CState \<Rightarrow> ChatChunkChoice list \<Rightarrow> ChatUsage option \<Rightarrow> ChatCompletionsChunk" where
  "chat_chunk st choices usage =
     \<lparr>ck_ID = rc_ID st, ck_Object = ''chat.completion.chunk'', ck_Created = rc_Created st,
      ck_Model = rc_Model st, ck_Choices = choices, ck_Usage = usage, ck_SystemFingerprint = [],
      ck_ServiceTier = rc_ServiceTier st\<rparr>"

definition makeChatDeltaChunk :: "R2CState \<Rightarrow> ChatDelta \<Rightarrow> ChatCompletionsChunk" where
  "makeChatDeltaChunk st delta =
     chat_chunk st [\<lparr>cx_Index = 0, cx_Delta = delta, cx_FinishReason = None\<rparr>] None"

definition makeChatFinishChunk :: "R2CState \<Rightarrow> string \<Rightarrow> ChatCompletionsChunk" where
  "makeChatFinishChunk st finishReason =
     chat_chunk st [\<lparr>cx_Index = 0, cx_Delta = zero_chat_delta\<lparr>cd_Content := Some []\<rparr>,
                     cx_FinishReason = Some finishReason\<rparr>] None"

definition usage_chunks :: "R2CState \<Rightarrow> ChatCompletionsChunk list" where
  "usage_chunks st = (if rc_IncludeUsage st \<and> rc_Usage st \<noteq> None then [chat_chunk st [] (rc_Usage st)] else [])"

definition tool_delta :: "int \<Rightarrow> string \<Rightarrow> string \<Rightarrow> string \<Rightarrow> string \<Rightarrow> ChatDelta" where
  "tool_delta idx cid t name args = zero_chat_delta\<lparr>cd_ToolCalls :=
     [\<lparr>tc_Index = Some idx, tc_ID = cid, tc_Type = t,
       tc_Function = \<lparr>fc_Name = name, fc_Arguments = args\<rparr>\<rparr>]\<rparr>"

definition resToChatHandleCreated ::
    "ResponsesStreamEvent \<Rightarrow> R2CState \<Rightarrow> R2CState \<times> ChatCompletionsChunk list" where
  "resToChatHandleCreated evt st =
     (let st1 = (case re_Response evt of
                   None \<Rightarrow> st
                 | Some r \<Rightarrow>
                     st\<lparr>rc_ID := (if rr_ID r = [] then rc_ID st else rr_ID r),
                        rc_Model := (if rc_Model st = [] \<and> rr_Model r \<noteq> [] then rr_Model r else rc_Model st),
                        rc_ServiceTier := (if rr_ServiceTier r = [] then rc_ServiceTier st else rr_ServiceTier r)\<rparr>)
      in if rc_SentRole st1 then (st1, [])
         else (let st2 = st1\<lparr>rc_SentRole := True\<rparr>
               in (st2, [makeChatDeltaChunk st2 (zero_chat_delta\<lparr>cd_Role := ''assistant''\<rparr>)])))"

definition resToChatHandleTextDelta ::
    "ResponsesStreamEvent \<Rightarrow> R2CState \<Rightarrow> R2CState \<times> ChatCompletionsChunk list" where
  "resToChatHandleTextDelta evt st =
     (if re_Delta evt = [] then (st, [])
      else (let st1 = st\<lparr>rc_SawText := True\<rparr>
            in (st1, [makeChatDeltaChunk st1 (zero_chat_delta\<lparr>cd_Content := Some (re_Delta evt)\<rparr>)])))"

definition is_call_item :: "ResponsesOutput \<Rightarrow> bool" where
  "is_call_item item \<longleftrightarrow> ro_Type item = ''function_call'' \<or> ro_Type item = ''custom_tool_call''"

definition resToChatHandleOutputItemAdded ::
    "ResponsesStreamEvent \<Rightarrow> R2CState \<Rightarrow> R2CState \<times> ChatCompletionsChunk list" where
  "resToChatHandleOutputItemAdded evt st =
     (case re_Item evt of
        None \<Rightarrow> (st, [])
      | Some item \<Rightarrow>
          if \<not> is_call_item item then (st, [])
          else
            let idx = rc_NextToolCallIndex st;
                st1 = st\<lparr>rc_SawToolCall := True,
                  rc_OutputIndexToToolIndex := (rc_OutputIndexToToolIndex st)(re_OutputIndex evt \<mapsto> idx),
                  rc_NextToolCallIndex := idx + 1\<rparr>
            in (st1, [makeChatDeltaChunk st1
                        (tool_delta idx (ro_CallID item) ''function'' (ro_Name item) [])]))"

definition arguments_so_far :: "R2CState \<Rightarrow> int \<Rightarrow> string" where
  "arguments_so_far st oi = (case rc_OutputIndexToArguments st oi of None \<Rightarrow> [] | Some s \<Rightarrow> s)"

definition resToChatHandleFuncArgsDelta ::
    "ResponsesStreamEvent \<Rightarrow> R2CState \<Rightarrow> R2CState \<times> ChatCompletionsChunk list" where
  "resToChatHandleFuncArgsDelta evt st =
     (if re_Delta evt = [] then (st, [])
      else case rc_OutputIndexToToolIndex st (re_OutputIndex evt) of
        None \<Rightarrow> (st, [])
      | Some idx \<Rightarrow>
          let oi = re_OutputIndex evt;
              st1 = st\<lparr>rc_OutputIndexToArguments :=
                (rc_OutputIndexToArguments st)(oi \<mapsto> arguments_so_far st oi @ re_Delta evt)\<rparr>
          in (st1, [makeChatDeltaChunk st1 (tool_delta idx [] [] [] (re_Delta evt))]))"

definition completed_arguments :: "ResponsesStreamEvent \<Rightarrow> string" where
  "completed_arguments evt =
     (if re_Type evt = ''response.custom_tool_call_input.done'' then re_Input evt else re_Arguments evt)"

definition resToChatHandleFuncArgsDone ::
    "ResponsesStreamEvent \<Rightarrow> R2CState \<Rightarrow> R2CState \<times> ChatCompletionsChunk list" where
  "resToChatHandleFuncArgsDone evt st =
     (case rc_OutputIndexToToolIndex st (re_OutputIndex evt) of
        None \<Rightarrow> (st, [])
      | Some idx \<Rightarrow>
          let completed = completed_arguments evt;
              current = arguments_so_far st (re_OutputIndex evt)
          in if completed = [] \<or> \<not> go_HasPrefix completed current \<or> completed = current then (st, [])
             else (let st1 = st\<lparr>rc_OutputIndexToArguments :=
                         (rc_OutputIndexToArguments st)(re_OutputIndex evt \<mapsto> completed)\<rparr>
                   in (st1, [makeChatDeltaChunk st1
                               (tool_delta idx [] [] [] (drop (length current) completed))])))"

definition resToChatHandleReasoningDelta ::
    "ResponsesStreamEvent \<Rightarrow> R2CState \<Rightarrow> R2CState \<times> ChatCompletionsChunk list" where
  "resToChatHandleReasoningDelta evt st =
     (if re_Delta evt = [] then (st, [])
      else (st, [makeChatDeltaChunk st (zero_chat_delta\<lparr>cd_ReasoningContent := Some (re_Delta evt)\<rparr>)]))"

definition chat_finish_reason :: "ResponsesStreamEvent \<Rightarrow> R2CState \<Rightarrow> string" where
  "chat_finish_reason evt st =
     (case re_Response evt of
        None \<Rightarrow> if rc_SawToolCall st then ''tool_calls'' else ''stop''
      | Some r \<Rightarrow>
          if rr_Status r = ''incomplete'' then
            (if rr_IncompleteDetails r = Some ''max_output_tokens'' then ''length''
             else if rr_IncompleteDetails r = Some ''content_filter'' then ''content_filter'' else ''stop'')
          else if rr_Status r = ''completed'' then
            (if rc_SawToolCall st then ''tool_calls'' else ''stop'')
          else ''stop'')"

definition resToChatHandleCompleted ::
    "ResponsesStreamEvent \<Rightarrow> R2CState \<Rightarrow> R2CState \<times> ChatCompletionsChunk list" where
  "resToChatHandleCompleted evt st =
     (let st1 = st\<lparr>rc_Finalized := True,
                   rc_Usage := (case re_Usage evt of None \<Rightarrow> rc_Usage st
                                | Some u \<Rightarrow> chatUsageFromResponsesUsage (Some u))\<rparr>;
          st2 = (case re_Response evt of
                   None \<Rightarrow> st1
                 | Some r \<Rightarrow>
                     st1\<lparr>rc_Usage := (case rr_Usage r of None \<Rightarrow> rc_Usage st1
                                      | Some u \<Rightarrow> chatUsageFromResponsesUsage (Some u)),
                         rc_ServiceTier := (if rr_ServiceTier r = [] then rc_ServiceTier st1 else rr_ServiceTier r)\<rparr>)
      in (st2, makeChatFinishChunk st2 (chat_finish_reason evt st2) # usage_chunks st2))"

definition FinalizeResponsesChatStream :: "R2CState \<Rightarrow> R2CState \<times> ChatCompletionsChunk list" where
  "FinalizeResponsesChatStream st =
     (if rc_Finalized st then (st, [])
      else (let st1 = st\<lparr>rc_Finalized := True\<rparr>
            in (st1, makeChatFinishChunk st1 (if rc_SawToolCall st1 then ''tool_calls'' else ''stop'')
                     # usage_chunks st1)))"

definition ResponsesEventToChatChunks ::
    "ResponsesStreamEvent \<Rightarrow> R2CState \<Rightarrow> R2CState \<times> ChatCompletionsChunk list" where
  "ResponsesEventToChatChunks evt st =
     (let t = re_Type evt in
      if t = ''response.created'' then resToChatHandleCreated evt st
      else if t = ''response.output_text.delta'' then resToChatHandleTextDelta evt st
      else if t = ''response.output_item.added'' then resToChatHandleOutputItemAdded evt st
      else if t = ''response.function_call_arguments.delta''
            \<or> t = ''response.custom_tool_call_input.delta'' then resToChatHandleFuncArgsDelta evt st
      else if t = ''response.function_call_arguments.done''
            \<or> t = ''response.custom_tool_call_input.done'' then resToChatHandleFuncArgsDone evt st
      else if t = ''response.reasoning_summary_text.delta''
            \<or> t = ''response.reasoning_text.delta'' then resToChatHandleReasoningDelta evt st
      else if t = ''response.reasoning_summary_text.done'' then (st, [])
      else if is_terminal_type t then resToChatHandleCompleted evt st
      else (st, []))"

subsection \<open>BufferedResponseAccumulator\<close>

record bufferedFuncCall =
  bf_OutputIndex :: int
  bf_CallID :: string
  bf_Name :: string
  bf_Args :: string

record BufferedResponseAccumulator =
  ba_text :: string
  ba_reasoning :: string
  ba_funcCalls :: "bufferedFuncCall list"
  ba_outputIndexToFuncIdx :: "int \<Rightarrow> nat option"

definition NewBufferedResponseAccumulator :: BufferedResponseAccumulator where
  "NewBufferedResponseAccumulator =
     \<lparr>ba_text = [], ba_reasoning = [], ba_funcCalls = [], ba_outputIndexToFuncIdx = Map.empty\<rparr>"

definition set_args :: "(string \<Rightarrow> string) \<Rightarrow> int \<Rightarrow> BufferedResponseAccumulator \<Rightarrow> BufferedResponseAccumulator" where
  "set_args f oi a =
     (case ba_outputIndexToFuncIdx a oi of
        None \<Rightarrow> a
      | Some idx \<Rightarrow> a\<lparr>ba_funcCalls := (ba_funcCalls a)[idx :=
          (ba_funcCalls a ! idx)\<lparr>bf_Args := f (bf_Args (ba_funcCalls a ! idx))\<rparr>]\<rparr>)"

definition ProcessEvent :: "ResponsesStreamEvent \<Rightarrow> BufferedResponseAccumulator \<Rightarrow> BufferedResponseAccumulator" where
  "ProcessEvent event a =
     (let t = re_Type event in
      if t = ''response.output_text.delta'' then a\<lparr>ba_text := ba_text a @ re_Delta event\<rparr>
      else if t = ''response.output_item.added'' then
        (case re_Item event of
           None \<Rightarrow> a
         | Some item \<Rightarrow>
             if is_call_item item then
               a\<lparr>ba_outputIndexToFuncIdx :=
                   (ba_outputIndexToFuncIdx a)(re_OutputIndex event \<mapsto> length (ba_funcCalls a)),
                 ba_funcCalls := ba_funcCalls a @
                   [\<lparr>bf_OutputIndex = re_OutputIndex event, bf_CallID = ro_CallID item,
                     bf_Name = ro_Name item, bf_Args = []\<rparr>]\<rparr>
             else a)
      else if t = ''response.function_call_arguments.delta''
            \<or> t = ''response.custom_tool_call_input.delta'' then
        (if re_Delta event = [] then a else set_args (\<lambda>s. s @ re_Delta event) (re_OutputIndex event) a)
      else if t = ''response.function_call_arguments.done''
            \<or> t = ''response.custom_tool_call_input.done'' then
        (if completed_arguments event = [] then a
         else set_args (\<lambda>s. completed_arguments event) (re_OutputIndex event) a)
      else if t = ''response.reasoning_summary_text.delta''
            \<or> t = ''response.reasoning_text.delta'' then
        a\<lparr>ba_reasoning := ba_reasoning a @ re_Delta event\<rparr>
      else a)"

definition HasContent :: "BufferedResponseAccumulator \<Rightarrow> bool" where
  "HasContent a \<longleftrightarrow> ba_text a \<noteq> [] \<or> ba_funcCalls a \<noteq> [] \<or> ba_reasoning a \<noteq> []"

definition BuildOutput :: "BufferedResponseAccumulator \<Rightarrow> ResponsesOutput list" where
  "BuildOutput a =
     (if ba_reasoning a = [] then []
      else [zero_output\<lparr>ro_Type := ''reasoning'',
              ro_Summary := [\<lparr>sm_Type = ''summary_text'', sm_Text = ba_reasoning a\<rparr>]\<rparr>])
     @ (if ba_text a = [] then []
        else [zero_output\<lparr>ro_Type := ''message'', ro_Role := ''assistant'',
                ro_Content := [output_text_part (ba_text a)]\<rparr>])
     @ map (\<lambda>c. zero_output\<lparr>ro_Type := ''function_call'', ro_CallID := bf_CallID c,
                  ro_Name := bf_Name c, ro_Arguments := bf_Args c\<rparr>) (ba_funcCalls a)"

definition supplement_item ::
    "bufferedFuncCall list \<Rightarrow> int \<Rightarrow> ResponsesOutput \<Rightarrow> ResponsesOutput" where
  "supplement_item calls outputIndex item =
     (if ro_Type item \<noteq> ''function_call'' \<or> ro_Arguments item \<noteq> [] then item
      else case find (\<lambda>c. ro_CallID item \<noteq> [] \<and> ro_CallID item = bf_CallID c
                          \<or> bf_OutputIndex c = outputIndex) calls of
        None \<Rightarrow> item
      | Some c \<Rightarrow> if bf_Args c = [] then item else item\<lparr>ro_Arguments := bf_Args c\<rparr>)"

definition SupplementResponseOutput ::
    "BufferedResponseAccumulator \<Rightarrow> ResponsesResponse \<Rightarrow> ResponsesResponse" where
  "SupplementResponseOutput a resp =
     (if rr_Output resp = [] then
        (if HasContent a then resp\<lparr>rr_Output := BuildOutput a\<rparr> else resp)
      else resp\<lparr>rr_Output :=
             map (\<lambda>(i, item). supplement_item (ba_funcCalls a) (int i) item)
               (enumerate 0 (rr_Output resp))\<rparr>)"

subsection \<open>What a Chat Completions client assembles\<close>

type_synonym client_call = "string \<times> string \<times> string"

record client_message =
  cl_content :: string
  cl_reasoning :: string
  cl_calls :: "client_call list"

fun client_tools :: "client_call list \<Rightarrow> ChatToolCall list \<Rightarrow> client_call list option" where
  "client_tools calls [] = Some calls"
| "client_tools calls (tc # tcs) =
     (case tc_Index tc of
        None \<Rightarrow> None
      | Some i \<Rightarrow>
          if i = int (length calls) then
            client_tools (calls @ [(tc_ID tc, fc_Name (tc_Function tc), fc_Arguments (tc_Function tc))]) tcs
          else if 0 \<le> i \<and> i < int (length calls) then
            (case calls ! nat i of (cid, name, args) \<Rightarrow>
               client_tools (calls[nat i := (cid, name, args @ fc_Arguments (tc_Function tc))]) tcs)
          else None)"

definition opt_text :: "string option \<Rightarrow> string" where
  "opt_text s = (case s of None \<Rightarrow> [] | Some t \<Rightarrow> t)"

definition client_chunk :: "client_message \<Rightarrow> ChatCompletionsChunk \<Rightarrow> client_message option" where
  "client_chunk m ck =
     (case ck_Choices ck of
        [] \<Rightarrow> Some m
      | c # _ \<Rightarrow>
          (case client_tools (cl_calls m) (cd_ToolCalls (cx_Delta c)) of
             None \<Rightarrow> None
           | Some calls \<Rightarrow> Some \<lparr>cl_content = cl_content m @ opt_text (cd_Content (cx_Delta c)),
               cl_reasoning = cl_reasoning m @ opt_text (cd_ReasoningContent (cx_Delta c)),
               cl_calls = calls\<rparr>))"


text \<open>The message a buffering handler holds.\<close>

definition buffered_message :: "BufferedResponseAccumulator \<Rightarrow> client_message" where
  "buffered_message a = \<lparr>cl_content = ba_text a, cl_reasoning = ba_reasoning a,
     cl_calls = map (\<lambda>c. (bf_CallID c, bf_Name c, bf_Args c)) (ba_funcCalls a)\<rparr>"

text \<open>
  What the two paths rely on: an output index announces one call, and the complete arguments that
  end a call extend the fragments that preceded them.
\<close>

definition call_event_ok :: "ResponsesStreamEvent \<Rightarrow> BufferedResponseAccumulator \<Rightarrow> bool" where
  "call_event_ok e a \<longleftrightarrow>
     (if re_Type e = ''response.output_item.added'' then
        (case re_Item e of None \<Rightarrow> True
         | Some item \<Rightarrow> is_call_item item \<longrightarrow> ba_outputIndexToFuncIdx a (re_OutputIndex e) = None)
      else if re_Type e = ''response.function_call_arguments.done''
            \<or> re_Type e = ''response.custom_tool_call_input.done'' then
        (case ba_outputIndexToFuncIdx a (re_OutputIndex e) of None \<Rightarrow> True
         | Some i \<Rightarrow> completed_arguments e = [] \<or>
                    go_HasPrefix (completed_arguments e) (bf_Args (ba_funcCalls a ! i)))
      else True)"


text \<open>Both paths run side by side.\<close>

definition with_buffer :: "ResponsesStreamEvent \<Rightarrow> R2CState \<times> BufferedResponseAccumulator \<Rightarrow>
    (R2CState \<times> BufferedResponseAccumulator) \<times> ChatCompletionsChunk list" where
  "with_buffer e sa = ((fst (ResponsesEventToChatChunks e (fst sa)), ProcessEvent e (snd sa)),
     snd (ResponsesEventToChatChunks e (fst sa)))"

definition r2c_rel :: "R2CState \<Rightarrow> BufferedResponseAccumulator \<Rightarrow> bool" where
  "r2c_rel st a \<longleftrightarrow>
     rc_NextToolCallIndex st = int (length (ba_funcCalls a)) \<and>
     (\<forall>oi. rc_OutputIndexToToolIndex st oi = map_option int (ba_outputIndexToFuncIdx a oi)) \<and>
     (\<forall>oi. ba_outputIndexToFuncIdx a oi = None \<longrightarrow> arguments_so_far st oi = []) \<and>
     (\<forall>oi i. ba_outputIndexToFuncIdx a oi = Some i \<longrightarrow>
        i < length (ba_funcCalls a) \<and> arguments_so_far st oi = bf_Args (ba_funcCalls a ! i)) \<and>
     (\<forall>oi oj i. ba_outputIndexToFuncIdx a oi = Some i \<longrightarrow> ba_outputIndexToFuncIdx a oj = Some i \<longrightarrow> oi = oj)"

definition r2c_ok :: "R2CState \<Rightarrow> BufferedResponseAccumulator \<Rightarrow> R2CState \<times> ChatCompletionsChunk list \<Rightarrow>
    BufferedResponseAccumulator \<Rightarrow> bool" where
  "r2c_ok st a r a' \<longleftrightarrow> r2c_rel (fst r) a' \<and>
     scan_events client_chunk (buffered_message a) (snd r) = Some (buffered_message a')"

lemma r2c_ok_refl: "r2c_rel st a \<Longrightarrow> r2c_ok st a (st, []) a"
  by (simp add: r2c_ok_def)

lemma client_content_chunk [simp]:
  "client_chunk m (makeChatDeltaChunk st (zero_chat_delta\<lparr>cd_Role := r\<rparr>)) = Some m"
  "client_chunk m (makeChatDeltaChunk st (zero_chat_delta\<lparr>cd_Content := Some s\<rparr>)) =
     Some (m\<lparr>cl_content := cl_content m @ s\<rparr>)"
  "client_chunk m (makeChatDeltaChunk st (zero_chat_delta\<lparr>cd_ReasoningContent := Some s\<rparr>)) =
     Some (m\<lparr>cl_reasoning := cl_reasoning m @ s\<rparr>)"
  "client_chunk m (makeChatFinishChunk st f) = Some m"
  "client_chunk m (chat_chunk st [] u) = Some m"
  by (simp_all add: client_chunk_def makeChatDeltaChunk_def makeChatFinishChunk_def chat_chunk_def
      zero_chat_delta_def opt_text_def)

lemma client_tool_chunk [simp]:
  "client_chunk m (makeChatDeltaChunk st (tool_delta i cid t name args)) =
     (case client_tools (cl_calls m) [\<lparr>tc_Index = Some i, tc_ID = cid, tc_Type = t,
        tc_Function = \<lparr>fc_Name = name, fc_Arguments = args\<rparr>\<rparr>] of
        None \<Rightarrow> None | Some calls \<Rightarrow> Some (m\<lparr>cl_calls := calls\<rparr>))"
  by (simp add: client_chunk_def makeChatDeltaChunk_def chat_chunk_def tool_delta_def
      zero_chat_delta_def opt_text_def split: option.split)

lemma r2c_rel_frame:
  assumes "rc_NextToolCallIndex st' = rc_NextToolCallIndex st"
    "rc_OutputIndexToToolIndex st' = rc_OutputIndexToToolIndex st"
    "rc_OutputIndexToArguments st' = rc_OutputIndexToArguments st"
    "ba_funcCalls a' = ba_funcCalls a" "ba_outputIndexToFuncIdx a' = ba_outputIndexToFuncIdx a"
  shows "r2c_rel st' a' = r2c_rel st a"
  using assms by (simp add: r2c_rel_def arguments_so_far_def)

text \<open>New arguments for the call at an output index, on both sides.\<close>

lemma set_arguments_ok:
  assumes rel: "r2c_rel st a" and i: "ba_outputIndexToFuncIdx a oi = Some i"
    and f: "f (bf_Args (ba_funcCalls a ! i)) = bf_Args (ba_funcCalls a ! i) @ s"
    and t: "t = f (bf_Args (ba_funcCalls a ! i))"
  shows "r2c_ok st a (st\<lparr>rc_OutputIndexToArguments := (rc_OutputIndexToArguments st)(oi \<mapsto> t)\<rparr>,
      [makeChatDeltaChunk st' (tool_delta (int i) [] [] [] s)]) (set_args f oi a)"
proof -
  have len: "i < length (ba_funcCalls a)" using rel i by (simp add: r2c_rel_def)
  have "r2c_rel (st\<lparr>rc_OutputIndexToArguments := (rc_OutputIndexToArguments st)(oi \<mapsto> t)\<rparr>) (set_args f oi a)"
    using rel i by (auto simp: r2c_rel_def set_args_def t arguments_so_far_def nth_list_update)
  moreover have "scan_events client_chunk (buffered_message a)
      [makeChatDeltaChunk st' (tool_delta (int i) [] [] [] s)] = Some (buffered_message (set_args f oi a))"
    using len by (simp add: buffered_message_def set_args_def i f map_update)
  ultimately show ?thesis by (simp add: r2c_ok_def)
qed

lemma r2c_args_delta_ok:
  assumes "r2c_rel st a" "re_Delta e \<noteq> []"
  shows "r2c_ok st a (resToChatHandleFuncArgsDelta e st) (set_args (\<lambda>s. s @ re_Delta e) (re_OutputIndex e) a)"
proof (cases "ba_outputIndexToFuncIdx a (re_OutputIndex e)")
  case None
  then show ?thesis using assms
    by (simp add: resToChatHandleFuncArgsDelta_def r2c_rel_def set_args_def r2c_ok_def)
next
  case (Some i)
  then have "rc_OutputIndexToToolIndex st (re_OutputIndex e) = Some (int i)"
    "arguments_so_far st (re_OutputIndex e) = bf_Args (ba_funcCalls a ! i)"
    using assms(1) by (simp_all add: r2c_rel_def)
  with set_arguments_ok [OF assms(1) Some] assms(2) show ?thesis
    by (simp add: resToChatHandleFuncArgsDelta_def Let_def)
qed

lemma r2c_args_done_ok:
  assumes "r2c_rel st a" "call_event_ok e a"
    and "re_Type e = ''response.function_call_arguments.done'' \<or> re_Type e = ''response.custom_tool_call_input.done''"
  shows "r2c_ok st a (resToChatHandleFuncArgsDone e st)
    (if completed_arguments e = [] then a
     else set_args (\<lambda>s. completed_arguments e) (re_OutputIndex e) a)"
proof (cases "ba_outputIndexToFuncIdx a (re_OutputIndex e)")
  case None
  then show ?thesis using assms
    by (simp add: resToChatHandleFuncArgsDone_def r2c_rel_def set_args_def r2c_ok_def)
next
  case (Some i)
  let ?old = "bf_Args (ba_funcCalls a ! i)" and ?new = "completed_arguments e"
  have idx: "rc_OutputIndexToToolIndex st (re_OutputIndex e) = Some (int i)"
    "arguments_so_far st (re_OutputIndex e) = ?old" "i < length (ba_funcCalls a)"
    using assms(1) Some by (simp_all add: r2c_rel_def)
  have prefix: "?new = [] \<or> go_HasPrefix ?new ?old"
    using assms(2,3) Some by (auto simp: call_event_ok_def)
  show ?thesis
  proof (cases "?new = [] \<or> ?new = ?old")
    case True
    then have "set_args (\<lambda>s. ?new) (re_OutputIndex e) a = a" if "?new \<noteq> []"
      using that Some idx(3) by (simp add: set_args_def)
    with True show ?thesis
      using assms(1) idx by (auto simp: resToChatHandleFuncArgsDone_def Let_def intro: r2c_ok_refl)
  next
    case False
    have "?new = ?old @ drop (length ?old) ?new"
      using prefix False by (metis go_HasPrefix_drop)
    with set_arguments_ok [OF assms(1) Some, of "\<lambda>s. ?new" "drop (length ?old) ?new" ?new] False prefix idx
    show ?thesis by (simp add: resToChatHandleFuncArgsDone_def Let_def)
  qed
qed

lemma r2c_item_added_ok:
  assumes "r2c_rel st a" "call_event_ok e a" "re_Type e = ''response.output_item.added''"
  shows "r2c_ok st a (resToChatHandleOutputItemAdded e st) (ProcessEvent e a)"
proof (cases "re_Item e")
  case None
  then show ?thesis using assms by (simp add: resToChatHandleOutputItemAdded_def ProcessEvent_def r2c_ok_refl)
next
  case (Some item)
  show ?thesis
  proof (cases "is_call_item item")
    case False
    then show ?thesis using assms Some
      by (simp add: resToChatHandleOutputItemAdded_def ProcessEvent_def r2c_ok_refl)
  next
    case True
    then have fresh: "ba_outputIndexToFuncIdx a (re_OutputIndex e) = None"
      using assms(2,3) Some by (simp add: call_event_ok_def)
    have "r2c_rel (fst (resToChatHandleOutputItemAdded e st)) (ProcessEvent e a)"
      using assms(1,3) fresh True Some
      by (auto simp: resToChatHandleOutputItemAdded_def ProcessEvent_def r2c_rel_def Let_def
          arguments_so_far_def nth_append less_SucI split: if_splits)
    moreover have "scan_events client_chunk (buffered_message a) (snd (resToChatHandleOutputItemAdded e st)) =
        Some (buffered_message (ProcessEvent e a))"
      using assms(1,3) True Some
      by (simp add: resToChatHandleOutputItemAdded_def ProcessEvent_def r2c_rel_def Let_def
          buffered_message_def)
    ultimately show ?thesis by (simp add: r2c_ok_def)
  qed
qed

lemma usage_chunks_ok [simp]: "scan_events client_chunk m (usage_chunks st) = Some m"
  by (simp add: usage_chunks_def)

lemma r2c_created_ok: "r2c_rel st a \<Longrightarrow> r2c_ok st a (resToChatHandleCreated e st) a"
  by (auto simp: resToChatHandleCreated_def Let_def r2c_ok_def r2c_rel_def arguments_so_far_def
      split: option.split)

lemma r2c_completed_ok: "r2c_rel st a \<Longrightarrow> r2c_ok st a (resToChatHandleCompleted e st) a"
  by (simp add: resToChatHandleCompleted_def Let_def r2c_ok_def r2c_rel_def arguments_so_far_def
      split: option.split)


lemma r2c_text_ok:
  "r2c_rel st a \<Longrightarrow> r2c_ok st a (resToChatHandleTextDelta e st) (a\<lparr>ba_text := ba_text a @ re_Delta e\<rparr>)"
  "r2c_rel st a \<Longrightarrow>
   r2c_ok st a (resToChatHandleReasoningDelta e st) (a\<lparr>ba_reasoning := ba_reasoning a @ re_Delta e\<rparr>)"
  by (simp_all add: resToChatHandleTextDelta_def resToChatHandleReasoningDelta_def Let_def r2c_ok_def
      r2c_rel_def arguments_so_far_def buffered_message_def)

lemma r2c_step_ok:
  assumes "r2c_rel st a" "call_event_ok e a"
  shows "r2c_ok st a (ResponsesEventToChatChunks e st) (ProcessEvent e a)"
proof -
  consider (added) "re_Type e = ''response.output_item.added''"
    | (delta) "re_Type e = ''response.function_call_arguments.delta'' \<or> re_Type e = ''response.custom_tool_call_input.delta''"
    | (finished) "re_Type e = ''response.function_call_arguments.done'' \<or> re_Type e = ''response.custom_tool_call_input.done''"
    | (other) "re_Type e \<notin> {''response.output_item.added'', ''response.function_call_arguments.delta'',
        ''response.custom_tool_call_input.delta'', ''response.function_call_arguments.done'',
        ''response.custom_tool_call_input.done''}"
    by blast
  then show ?thesis
  proof cases
    case added
    with r2c_item_added_ok [OF assms added] show ?thesis by (simp add: ResponsesEventToChatChunks_def)
  next
    case delta
    then have "ResponsesEventToChatChunks e st = resToChatHandleFuncArgsDelta e st"
      "ProcessEvent e a = (if re_Delta e = [] then a else set_args (\<lambda>s. s @ re_Delta e) (re_OutputIndex e) a)"
      by (auto simp: ResponsesEventToChatChunks_def ProcessEvent_def)
    with r2c_args_delta_ok [OF assms(1)] assms(1) show ?thesis
      by (auto simp: resToChatHandleFuncArgsDelta_def intro: r2c_ok_refl)
  next
    case finished
    then have "ResponsesEventToChatChunks e st = resToChatHandleFuncArgsDone e st"
      "ProcessEvent e a = (if completed_arguments e = [] then a
         else set_args (\<lambda>s. completed_arguments e) (re_OutputIndex e) a)"
      by (auto simp: ResponsesEventToChatChunks_def ProcessEvent_def)
    with r2c_args_done_ok [OF assms finished] show ?thesis by simp
  next
    case other
    with assms(1) show ?thesis
      by (auto simp: ResponsesEventToChatChunks_def ProcessEvent_def Let_def is_terminal_type_def
          r2c_created_ok r2c_completed_ok r2c_text_ok r2c_ok_refl)
  qed
qed


interpretation r2c: guarded_protocol with_buffer "\<lambda>sa. r2c_rel (fst sa) (snd sa)"
  "\<lambda>sa. buffered_message (snd sa)" client_chunk "\<lambda>e sa. call_event_ok e (snd sa)"
  using r2c_step_ok by unfold_locales (auto simp: with_buffer_def r2c_ok_def)




definition text_delta :: "string \<Rightarrow> ResponsesStreamEvent" where
  "text_delta s = zero_resp_event\<lparr>re_Type := ''response.output_text.delta'', re_Delta := s\<rparr>"

lemmas resp_literals = call_added_def args_delta_def args_done_def text_delta_def zero_resp_event_def
  zero_output_def


subsection \<open>The buffered output reaches the client\<close>

lemma chat_calls:
  "fold chat_item (map (\<lambda>c. zero_output\<lparr>ro_Type := ''function_call'', ro_CallID := bf_CallID c,
     ro_Name := bf_Name c, ro_Arguments := bf_Args c\<rparr>) cs) (t, r, calls) =
   (t, r, calls @ map (\<lambda>c. \<lparr>tc_Index = None, tc_ID = bf_CallID c, tc_Type = ''function'',
     tc_Function = \<lparr>fc_Name = bf_Name c, fc_Arguments = bf_Args c\<rparr>\<rparr>) cs)"
  by (induction cs arbitrary: calls) (simp_all add: chat_item_def zero_output_def)

lemma chat_built_output:
  "fold chat_item (BuildOutput a) ([], [], []) = (ba_text a, ba_reasoning a,
     map (\<lambda>c. \<lparr>tc_Index = None, tc_ID = bf_CallID c, tc_Type = ''function'',
       tc_Function = \<lparr>fc_Name = bf_Name c, fc_Arguments = bf_Args c\<rparr>\<rparr>) (ba_funcCalls a))"
proof -
  let ?heads = "(if ba_reasoning a = [] then []
      else [zero_output\<lparr>ro_Type := ''reasoning'',
              ro_Summary := [\<lparr>sm_Type = ''summary_text'', sm_Text = ba_reasoning a\<rparr>]\<rparr>])
     @ (if ba_text a = [] then []
        else [zero_output\<lparr>ro_Type := ''message'', ro_Role := ''assistant'',
                ro_Content := [output_text_part (ba_text a)]\<rparr>])"
  have "fold chat_item ?heads ([], [], []) = (ba_text a, ba_reasoning a, [])"
    by (simp add: chat_item_def zero_output_def summary_text_def output_texts_def
        output_text_part_def zero_part_def)
  then show ?thesis
    by (simp only: BuildOutput_def append_assoc [symmetric] fold_append comp_apply chat_calls append_Nil)
qed

text \<open>When the terminal event carries an empty output, the
  non-streaming answer is built from the accumulator: the JSON of the accumulated text, the
  accumulated reasoning, and one tool call per accumulated call with its identifier, name and
  arguments.\<close>

theorem r2c_buffered_output_faithful:
  assumes "rr_Output r = []"
  shows "let choice = hd (cr_Choices (ResponsesToChatCompletions J rnd now (SupplementResponseOutput a r) m));
             msg = ch_Message choice; b = buffered_message a
    in cm_Content msg = (if cl_content b = [] then [] else json_MarshalString J (cl_content b)) \<and>
       cm_ReasoningContent msg = cl_reasoning b \<and>
       map (\<lambda>tc. (tc_ID tc, fc_Name (tc_Function tc), fc_Arguments (tc_Function tc))) (cm_ToolCalls msg) =
         cl_calls b \<and>
       (ch_FinishReason choice = ''tool_calls'' \<longleftrightarrow> rr_Status r = ''completed'' \<and> cl_calls b \<noteq> [])"
proof -
  have out: "rr_Output (SupplementResponseOutput a r) = BuildOutput a"
    using assms by (auto simp: SupplementResponseOutput_def HasContent_def BuildOutput_def)
  have frame: "rr_Status (SupplementResponseOutput a r) = rr_Status r"
    using assms by (simp add: SupplementResponseOutput_def)
  show ?thesis
    by (simp add: ResponsesToChatCompletions_def out chat_built_output Let_def zero_message_def
        buffered_message_def frame responsesStatusToChatFinishReason_def comp_def)
qed

theorem r2c_buffered_output_faithful_witness:
  "cm_Content (ch_Message (hd (cr_Choices (ResponsesToChatCompletions plain_json [] 0
     (SupplementResponseOutput (ProcessEvent (text_delta ''hi'') NewBufferedResponseAccumulator)
        zero_response) ''m'')))) = ''hi''"
  using r2c_buffered_output_faithful [of zero_response plain_json "[]" 0
      "ProcessEvent (text_delta ''hi'') NewBufferedResponseAccumulator" "''m''"]
  by (simp add: zero_response_def Let_def ProcessEvent_def text_delta_def zero_resp_event_def
      NewBufferedResponseAccumulator_def buffered_message_def plain_json_def)

subsection \<open>Finish chunks\<close>

definition is_finish :: "ChatCompletionsChunk \<Rightarrow> bool" where
  "is_finish ck \<longleftrightarrow> list_ex (\<lambda>c. cx_FinishReason c \<noteq> None) (ck_Choices ck)"

definition finishes :: "ChatCompletionsChunk list \<Rightarrow> nat" where
  "finishes cks = length (filter is_finish cks)"

lemma finishes_simps [simp]:
  "finishes [] = 0" "finishes (ck # cks) = (if is_finish ck then Suc (finishes cks) else finishes cks)"
  "finishes (cks @ cks') = finishes cks + finishes cks'"
  "\<not> is_finish (makeChatDeltaChunk st d)" "is_finish (makeChatFinishChunk st f)"
  "finishes (usage_chunks st) = 0"
  by (simp_all add: finishes_def is_finish_def makeChatDeltaChunk_def makeChatFinishChunk_def
      chat_chunk_def usage_chunks_def)

lemma r2c_step_finishes:
  "finishes (snd (ResponsesEventToChatChunks e st)) = (if is_terminal_type (re_Type e) then 1 else 0) \<and>
   rc_Finalized (fst (ResponsesEventToChatChunks e st)) =
     (rc_Finalized st \<or> is_terminal_type (re_Type e))"
proof (cases "is_terminal_type (re_Type e)")
  case True
  then have "ResponsesEventToChatChunks e st = resToChatHandleCompleted e st"
    by (auto simp: ResponsesEventToChatChunks_def is_terminal_type_def)
  with True show ?thesis by (simp add: resToChatHandleCompleted_def Let_def split: option.split)
next
  case False
  then show ?thesis
    by (auto simp: ResponsesEventToChatChunks_def Let_def resToChatHandleCreated_def
        resToChatHandleTextDelta_def resToChatHandleOutputItemAdded_def resToChatHandleFuncArgsDelta_def
        resToChatHandleFuncArgsDone_def resToChatHandleReasoningDelta_def split: option.split)
qed

lemma r2c_run_finishes:
  "finishes (snd (run_events ResponsesEventToChatChunks es st)) =
     length (filter (\<lambda>e. is_terminal_type (re_Type e)) es) \<and>
   rc_Finalized (fst (run_events ResponsesEventToChatChunks es st)) =
     (rc_Finalized st \<or> list_ex (\<lambda>e. is_terminal_type (re_Type e)) es)"
  by (induction es arbitrary: st)
    (simp_all add: run_events_Cons r2c_step_finishes del: run_events.simps(2))

text \<open>With the finalizer, a stream without a terminal event gets exactly one
  finish chunk and a stream with terminal events exactly one for each (a second terminal event
  is not suppressed).\<close>

theorem r2c_finish_count:
  "let run = run_events ResponsesEventToChatChunks es (NewResponsesEventToChatState rnd now)
   in finishes (snd run @ snd (FinalizeResponsesChatStream (fst run))) =
      max 1 (length (filter (\<lambda>e. is_terminal_type (re_Type e)) es))"
proof -
  let ?st = "NewResponsesEventToChatState rnd now" and ?T = "\<lambda>e. is_terminal_type (re_Type e)"
  have "\<not> rc_Finalized ?st" by (simp add: NewResponsesEventToChatState_def)
  moreover have "list_ex ?T es \<longleftrightarrow> filter ?T es \<noteq> []" by (induction es) auto
  ultimately show ?thesis
    using r2c_run_finishes [of es ?st]
    by (cases "filter ?T es") (simp_all add: Let_def FinalizeResponsesChatStream_def)
qed

subsection \<open>Usage\<close>

text \<open>The Chat Completions usage repeats the prompt and completion counts, their
  total and the cached prompt tokens, and a positive cache creation count is always visible as
  cache creation or cache write tokens.\<close>

theorem r2c_usage:
  "case chatUsageFromResponsesUsage (Some u) of
     None \<Rightarrow> False
   | Some c \<Rightarrow> cu_PromptTokens c = ru_InputTokens u \<and> cu_CompletionTokens c = ru_OutputTokens u \<and>
       cu_TotalTokens c = cu_PromptTokens c + cu_CompletionTokens c \<and>
       (case cu_PromptTokensDetails c of None \<Rightarrow> 0 | Some d \<Rightarrow> td_CachedTokens d) =
         (case ru_InputTokensDetails u of None \<Rightarrow> 0 | Some d \<Rightarrow> it_CachedTokens d) \<and>
       (ru_CacheCreationInputTokens u \<le> 0 \<or>
        (case cu_PromptTokensDetails c of None \<Rightarrow> False
         | Some d \<Rightarrow> td_CacheCreationTokens d \<noteq> 0 \<or> td_CacheWriteTokens d \<noteq> 0))"
  by (auto simp: chatUsageFromResponsesUsage_def promptDetailsFromResponses_def zero_token_details_def
      Let_def split: option.split)

theorem r2c_usage_witness:
  "case chatUsageFromResponsesUsage (Some (openai_usage 5 3 2 4)) of
     None \<Rightarrow> False
   | Some c \<Rightarrow> cu_PromptTokens c = 10 \<and> cu_TotalTokens c = 14 \<and>
       (case cu_PromptTokensDetails c of None \<Rightarrow> False
        | Some d \<Rightarrow> td_CacheCreationTokens d \<noteq> 0 \<or> td_CacheWriteTokens d \<noteq> 0)"
  using r2c_usage [of "openai_usage 5 3 2 4"]
  by (cases "chatUsageFromResponsesUsage (Some (openai_usage 5 3 2 4))") (auto simp: openai_usage_def)

subsection \<open>Missing arguments in the terminal output\<close>

lemma supplement_map:
  assumes "rr_Output r \<noteq> []"
  shows "length (rr_Output (SupplementResponseOutput a r)) = length (rr_Output r)"
    and "i < length (rr_Output r) \<Longrightarrow> rr_Output (SupplementResponseOutput a r) ! i =
      supplement_item (ba_funcCalls a) (int i) (rr_Output r ! i)"
  using assms by (simp_all add: SupplementResponseOutput_def nth_enumerate_eq)

text \<open>Supplementing a non-empty output keeps every item except for empty
  arguments of function calls: those are taken from the first accumulated call that has the same
  call identifier or the same output index, and stay empty when there is none.\<close>

theorem r2c_supplement:
  fixes a :: BufferedResponseAccumulator and r :: ResponsesResponse
  assumes "rr_Output r \<noteq> []" "i < length (rr_Output r)"
  defines "old \<equiv> rr_Output r ! i" and "new \<equiv> rr_Output (SupplementResponseOutput a r) ! i"
  shows "length (rr_Output (SupplementResponseOutput a r)) = length (rr_Output r) \<and>
    new\<lparr>ro_Arguments := []\<rparr> = old\<lparr>ro_Arguments := []\<rparr> \<and>
    (ro_Type old \<noteq> ''function_call'' \<or> ro_Arguments old \<noteq> [] \<longrightarrow> new = old) \<and>
    (\<forall>pre c post. ro_Type old = ''function_call'' \<longrightarrow> ro_Arguments old = [] \<longrightarrow>
       ba_funcCalls a = pre @ c # post \<longrightarrow>
       (ro_CallID old \<noteq> [] \<and> ro_CallID old = bf_CallID c \<or> bf_OutputIndex c = int i) \<longrightarrow>
       list_all (\<lambda>d. (ro_CallID old = [] \<or> ro_CallID old \<noteq> bf_CallID d) \<and> bf_OutputIndex d \<noteq> int i) pre \<longrightarrow>
       ro_Arguments new = bf_Args c)"
proof -
  have new: "new = supplement_item (ba_funcCalls a) (int i) old"
    using supplement_map(2) [OF assms(1,2)] by (simp add: old_def new_def)
  let ?P = "\<lambda>c. ro_CallID old \<noteq> [] \<and> ro_CallID old = bf_CallID c \<or> bf_OutputIndex c = int i"
  have "find ?P (pre @ c # post) = Some c" if "?P c"
    "list_all (\<lambda>d. (ro_CallID old = [] \<or> ro_CallID old \<noteq> bf_CallID d) \<and> bf_OutputIndex d \<noteq> int i) pre"
    for pre c post
    using that by (induction pre) auto
  note found = this
  have "ro_Arguments (supplement_item (pre @ c # post) (int i) old) = bf_Args c"
    if "ro_Type old = ''function_call''" "ro_Arguments old = []" "?P c"
      "list_all (\<lambda>d. (ro_CallID old = [] \<or> ro_CallID old \<noteq> bf_CallID d) \<and> bf_OutputIndex d \<noteq> int i) pre"
    for pre c post
    using found [OF that(3,4), of post] that(1,2) by (simp add: supplement_item_def)
  moreover have "(supplement_item cs j old)\<lparr>ro_Arguments := []\<rparr> = old\<lparr>ro_Arguments := []\<rparr>" for cs j
    by (simp add: supplement_item_def split: option.split)
  ultimately show ?thesis
    using supplement_map(1) [OF assms(1)] unfolding new by (simp add: supplement_item_def)
qed

definition lost_call :: "string \<Rightarrow> ResponsesOutput" where
  "lost_call cid = zero_output\<lparr>ro_Type := ''function_call'', ro_CallID := cid\<rparr>"

theorem r2c_supplement_witness:
  "ro_Arguments (rr_Output (SupplementResponseOutput
     (fold ProcessEvent [call_added 0 ''c'' ''f'', args_done 0 ''{}''] NewBufferedResponseAccumulator)
     (zero_response\<lparr>rr_Output := [lost_call ''c'']\<rparr>)) ! 0) = ''{}''"
  using conjunct2 [OF conjunct2 [OF conjunct2 [OF r2c_supplement
      [of "zero_response\<lparr>rr_Output := [lost_call ''c'']\<rparr>" 0
       "fold ProcessEvent [call_added 0 ''c'' ''f'', args_done 0 ''{}''] NewBufferedResponseAccumulator"]]],
      rule_format, of "[]" "\<lparr>bf_OutputIndex = 0, bf_CallID = ''c'', bf_Name = ''f'', bf_Args = ''{}''\<rparr>" "[]"]
  by (simp add: resp_literals lost_call_def zero_response_def ProcessEvent_def is_call_item_def
      NewBufferedResponseAccumulator_def set_args_def completed_arguments_def Let_def)

text \<open>An accumulated call that has only the position in common with an
  item is preferred to a later one with the item's call identifier: the second of two calls, alone
  in the terminal output, is given the arguments of the first.\<close>

theorem r2c_supplement_wrong_call:
  assumes "c1 \<noteq> c2" "s1 \<noteq> []"
  shows "rr_Output (SupplementResponseOutput
     (fold ProcessEvent [call_added 0 c1 n1, args_done 0 s1, call_added 1 c2 n2, args_done 1 s2]
        NewBufferedResponseAccumulator)
     (zero_response\<lparr>rr_Output := [lost_call c2]\<rparr>)) = [(lost_call c2)\<lparr>ro_Arguments := s1\<rparr>]"
  using assms
  by (simp add: resp_literals lost_call_def zero_response_def ProcessEvent_def is_call_item_def
      NewBufferedResponseAccumulator_def set_args_def completed_arguments_def
      SupplementResponseOutput_def supplement_item_def Let_def)

theorem r2c_supplement_wrong_call_witness:
  "rr_Output (SupplementResponseOutput
     (fold ProcessEvent [call_added 0 ''c1'' ''f'', args_done 0 ''{1}'', call_added 1 ''c2'' ''f'', args_done 1 ''{2}'']
        NewBufferedResponseAccumulator)
     (zero_response\<lparr>rr_Output := [lost_call ''c2'']\<rparr>)) = [(lost_call ''c2'')\<lparr>ro_Arguments := ''{1}''\<rparr>]"
  by (rule r2c_supplement_wrong_call) simp_all

end
