(* ===== verification/Failover.thy ===== *)
theory Failover
  imports Prelude
begin

section \<open>Account failover: handler/failover_loop.go and its request loop\<close>

text \<open>
  \<open>FailoverState\<close> is shared by the iterations of a gateway request's loop: it counts the switches
  between upstream accounts, the retries on one account and the vetoes of the profit gate, and
  keeps the accounts excluded from selection. Each method returns the new state, the action for
  the caller and the effects it had (sleeps, temporary unscheduling of an account).
  \<open>cc_iteration\<close> is one turn of the loop of \<open>GatewayHandler.ChatCompletions\<close>, where selection, slot,
  profit gate and upstream are the environment: its choice is the event of the iteration.
\<close>

subsection \<open>Errors and configuration\<close>

datatype NextAccountAction = NextAccountLegacyRetry | NextAccountRetry | NextAccountStop

text \<open>The fields of \<open>service.UpstreamFailoverError\<close> that the failover loop reads.\<close>

record UpstreamFailoverError =
  ue_StatusCode :: int
  ue_ForceCacheBilling :: bool
  ue_RetryableOnSameAccount :: bool
  ue_SameAccountRetryDelay :: go_duration
  ue_SameAccountRetryDeadline :: go_time
  ue_SameAccountRetryMax :: int
  ue_RequestScopedTransient :: bool
  ue_NextAccountAction :: NextAccountAction

definition ShouldRetryNextAccount :: "UpstreamFailoverError option \<Rightarrow> bool" where
  "ShouldRetryNextAccount e =
     (case e of None \<Rightarrow> False | Some err \<Rightarrow> ue_NextAccountAction err \<noteq> NextAccountStop)"

definition sameAccountRetryDelay :: go_duration where
  "sameAccountRetryDelay = 500000000"

definition maxRequestScopedRetryDelay :: go_duration where
  "maxRequestScopedRetryDelay = 8 * second"

definition singleAccountBackoffDelay :: go_duration where
  "singleAccountBackoffDelay = 2 * second"

definition maxProfitVetoAttempts :: int where
  "maxProfitVetoAttempts = 10"

subsection \<open>Retries on the same account\<close>

text \<open>The loop of \<open>sameAccountRetryDelayFor\<close>, with the iterations still to run.\<close>

fun double_delay :: "nat \<Rightarrow> go_duration \<Rightarrow> go_duration" where
  "double_delay 0 delay = delay"
| "double_delay (Suc n) delay =
     (if delay \<ge> go_div maxRequestScopedRetryDelay 2 then maxRequestScopedRetryDelay
      else double_delay n (delay * 2))"

definition sameAccountRetryDelayFor :: "UpstreamFailoverError option \<Rightarrow> int \<Rightarrow> go_duration" where
  "sameAccountRetryDelayFor e retryCount =
     (case e of
        None \<Rightarrow> sameAccountRetryDelay
      | Some err \<Rightarrow>
          if ue_SameAccountRetryDelay err > 0 then ue_SameAccountRetryDelay err
          else if \<not> ue_RequestScopedTransient err \<or> retryCount \<le> 1 then sameAccountRetryDelay
          else double_delay (nat (retryCount - 1)) sameAccountRetryDelay)"

definition sameAccountRetryDeadlineAllows :: "go_time \<Rightarrow> UpstreamFailoverError option \<Rightarrow> bool" where
  "sameAccountRetryDeadlineAllows now e =
     (case e of
        None \<Rightarrow> True
      | Some err \<Rightarrow> ue_SameAccountRetryDeadline err = zero_time \<or> now < ue_SameAccountRetryDeadline err)"

definition sameAccountRetryAllowed :: "go_time \<Rightarrow> UpstreamFailoverError option \<Rightarrow> int \<Rightarrow> int \<Rightarrow> bool" where
  "sameAccountRetryAllowed now e retryCount retryLimit =
     (case e of
        None \<Rightarrow> False
      | Some err \<Rightarrow>
          if \<not> ue_RetryableOnSameAccount err then False
          else if \<not> sameAccountRetryDeadlineAllows now e then False
          else if ue_SameAccountRetryMax err > 0 then
            (if retryLimit \<le> 0 then False
             else retryCount < (if ue_SameAccountRetryMax err < retryLimit
                                then ue_SameAccountRetryMax err else retryLimit))
          else if ue_SameAccountRetryDeadline err \<noteq> zero_time then True
          else retryLimit > 0 \<and> retryCount < retryLimit)"

text \<open>
  \<open>effectiveSameAccountRetryLimit\<close>; the account is given by its \<open>GetPoolModeRetryCount\<close>, which is
  configuration.
\<close>

definition effectiveSameAccountRetryLimit :: "UpstreamFailoverError option \<Rightarrow> int option \<Rightarrow> int" where
  "effectiveSameAccountRetryLimit e account =
     (case account of
        None \<Rightarrow> 0
      | Some limit \<Rightarrow>
          (case e of
             None \<Rightarrow> limit
           | Some err \<Rightarrow> if limit > 0 \<and> ue_SameAccountRetryMax err > 0 \<and> ue_SameAccountRetryMax err < limit
                         then ue_SameAccountRetryMax err else limit))"

definition needForceCacheBilling :: "bool \<Rightarrow> UpstreamFailoverError option \<Rightarrow> bool \<Rightarrow> bool" where
  "needForceCacheBilling bound e sameAccountRetry \<longleftrightarrow>
     bound \<and> \<not> sameAccountRetry \<or> (case e of None \<Rightarrow> False | Some err \<Rightarrow> ue_ForceCacheBilling err)"

subsection \<open>State\<close>

datatype FailoverAction = FailoverContinue | FailoverExhausted | FailoverCanceled

datatype failover_effect = Slept go_duration | TempUnscheduled int

text \<open>
  What a call sees of its surroundings: whether the request context is done, the clock, and
  whether the context survives a sleep.
\<close>

record failover_env =
  en_Done :: bool
  en_Now :: go_time
  en_Survives :: bool

record FailoverState =
  fs_SwitchCount :: int
  fs_MaxSwitches :: int
  fs_FailedAccountIDs :: "int set"
  fs_SameAccountRetryCount :: "int \<Rightarrow> int"
  fs_LastFailoverErr :: "UpstreamFailoverError option"
  fs_ForceCacheBilling :: bool
  fs_hasBoundSession :: bool
  fs_profitVetoedAccountIDs :: "int set"
  fs_profitVetoCount :: int

definition NewFailoverState :: "int \<Rightarrow> bool \<Rightarrow> FailoverState" where
  "NewFailoverState maxSwitches bound =
     \<lparr>fs_SwitchCount = 0, fs_MaxSwitches = maxSwitches, fs_FailedAccountIDs = {},
      fs_SameAccountRetryCount = (\<lambda>a. 0), fs_LastFailoverErr = None, fs_ForceCacheBilling = False,
      fs_hasBoundSession = bound, fs_profitVetoedAccountIDs = {}, fs_profitVetoCount = 0\<rparr>"

definition sleepWithContext :: "failover_env \<Rightarrow> go_duration \<Rightarrow> bool" where
  "sleepWithContext env d \<longleftrightarrow> d \<le> 0 \<or> en_Survives env"

definition RecordProfitVeto :: "int \<Rightarrow> FailoverState \<Rightarrow> FailoverState \<times> FailoverAction" where
  "RecordProfitVeto accountID s =
     (let s1 = s\<lparr>fs_FailedAccountIDs := insert accountID (fs_FailedAccountIDs s),
                 fs_profitVetoedAccountIDs := insert accountID (fs_profitVetoedAccountIDs s),
                 fs_profitVetoCount := fs_profitVetoCount s + 1\<rparr>
      in (s1, if fs_profitVetoCount s1 \<ge> maxProfitVetoAttempts then FailoverExhausted else FailoverContinue))"

definition allExclusionsAreProfitVetoed :: "FailoverState \<Rightarrow> bool" where
  "allExclusionsAreProfitVetoed s \<longleftrightarrow>
     fs_profitVetoedAccountIDs s \<noteq> {} \<and> fs_FailedAccountIDs s \<noteq> {} \<and>
     fs_FailedAccountIDs s \<subseteq> fs_profitVetoedAccountIDs s"

definition switch_account :: "failover_env \<Rightarrow> int \<Rightarrow> string \<Rightarrow> UpstreamFailoverError \<Rightarrow> FailoverState \<Rightarrow>
    FailoverState \<times> FailoverAction \<times> failover_effect list" where
  "switch_account env accountID platform err s =
     (let unsched = (if ue_RetryableOnSameAccount err then [TempUnscheduled accountID] else []);
          s1 = s\<lparr>fs_FailedAccountIDs := insert accountID (fs_FailedAccountIDs s)\<rparr>
      in if fs_SwitchCount s1 \<ge> fs_MaxSwitches s1 then (s1, FailoverExhausted, unsched)
         else
           let s2 = s1\<lparr>fs_SwitchCount := fs_SwitchCount s1 + 1\<rparr>;
               delay = (fs_SwitchCount s2 - 1) * second
           in if platform = ''antigravity'' then
                (if sleepWithContext env delay then (s2, FailoverContinue, unsched @ [Slept delay])
                 else (s2, FailoverCanceled, unsched @ [Slept delay]))
              else (s2, FailoverContinue, unsched))"

definition HandleFailoverError :: "failover_env \<Rightarrow> int \<Rightarrow> string \<Rightarrow> int \<Rightarrow> UpstreamFailoverError option \<Rightarrow>
    FailoverState \<Rightarrow> FailoverState \<times> FailoverAction \<times> failover_effect list" where
  "HandleFailoverError env accountID platform retryLimit e s =
     (if en_Done env then (s, FailoverCanceled, [])
      else
        let s1 = s\<lparr>fs_LastFailoverErr := e\<rparr>
        in case e of
             None \<Rightarrow> (s1, FailoverExhausted, [])
           | Some err \<Rightarrow>
               if \<not> ShouldRetryNextAccount e then (s1, FailoverExhausted, [])
               else
                 let retryCount = fs_SameAccountRetryCount s1 accountID;
                     sameAccountRetry = sameAccountRetryAllowed (en_Now env) e retryCount retryLimit;
                     s2 = s1\<lparr>fs_ForceCacheBilling :=
                       fs_ForceCacheBilling s1 \<or> needForceCacheBilling (fs_hasBoundSession s1) e sameAccountRetry\<rparr>
                 in if sameAccountRetry then
                      (let s3 = s2\<lparr>fs_SameAccountRetryCount :=
                             (fs_SameAccountRetryCount s2)(accountID := retryCount + 1)\<rparr>;
                           delay = sameAccountRetryDelayFor e (retryCount + 1)
                       in (s3, if sleepWithContext env delay then FailoverContinue else FailoverCanceled,
                           [Slept delay]))
                    else switch_account env accountID platform err s2)"

definition HandleSelectionExhausted :: "failover_env \<Rightarrow> FailoverState \<Rightarrow>
    FailoverState \<times> FailoverAction \<times> failover_effect list" where
  "HandleSelectionExhausted env s =
     (if en_Done env then (s, FailoverCanceled, [])
      else if (case fs_LastFailoverErr s of None \<Rightarrow> False | Some err \<Rightarrow> ue_StatusCode err = 503) \<and>
              fs_SwitchCount s \<le> fs_MaxSwitches s then
        (if allExclusionsAreProfitVetoed s then (s, FailoverExhausted, [])
         else if \<not> sleepWithContext env singleAccountBackoffDelay then
           (s, FailoverCanceled, [Slept singleAccountBackoffDelay])
         else (s\<lparr>fs_FailedAccountIDs := fs_profitVetoedAccountIDs s\<rparr>, FailoverContinue,
               [Slept singleAccountBackoffDelay]))
      else (s, FailoverExhausted, []))"

subsection \<open>The request loop of ChatCompletions\<close>

text \<open>
  What the environment does in one iteration: selection fails; no slot is free for the selected
  account; the profit gate rejects the account; the account belongs to another platform than a
  Gemini group; the upstream fails with a failover error (with bytes already written to the client
  or not) or with another error; or the request is served.
\<close>

datatype cc_event =
    Selection_Failed
  | Slot_Failed
  | Profit_Vetoed int
  | Platform_Mismatch int
  | Forward_Failover int string int UpstreamFailoverError bool
  | Forward_Failed
  | Forwarded

datatype cc_outcome = CC_ClientGone | CC_NoAccounts | CC_SlotError | CC_VetoExhausted | CC_Exhausted
  | CC_PartialResponse | CC_ForwardError | CC_Served

definition after_action :: "cc_outcome \<Rightarrow> FailoverState \<times> FailoverAction \<times> failover_effect list \<Rightarrow>
    FailoverState \<times> cc_outcome option \<times> failover_effect list" where
  "after_action exhausted r =
     (case r of (s, a, effs) \<Rightarrow>
        (s, (case a of FailoverContinue \<Rightarrow> None | FailoverExhausted \<Rightarrow> Some exhausted
             | FailoverCanceled \<Rightarrow> Some CC_ClientGone), effs))"

definition cc_iteration :: "bool \<Rightarrow> failover_env \<Rightarrow> cc_event \<Rightarrow> FailoverState \<Rightarrow>
    FailoverState \<times> cc_outcome option \<times> failover_effect list" where
  "cc_iteration done_at_top env ev s =
     (if done_at_top then (s, Some CC_ClientGone, [])
      else case ev of
        Selection_Failed \<Rightarrow>
          if fs_FailedAccountIDs s = {} then (s, Some CC_NoAccounts, [])
          else after_action CC_Exhausted (HandleSelectionExhausted env s)
      | Slot_Failed \<Rightarrow> (s, Some CC_SlotError, [])
      | Profit_Vetoed a \<Rightarrow>
          (case RecordProfitVeto a s of (s1, act) \<Rightarrow>
             (s1, if act = FailoverExhausted then Some CC_VetoExhausted else None, []))
      | Platform_Mismatch a \<Rightarrow>
          (s\<lparr>fs_FailedAccountIDs := insert a (fs_FailedAccountIDs s)\<rparr>, None, [])
      | Forward_Failover a platform limit err written \<Rightarrow>
          if written then (s, Some CC_PartialResponse, [])
          else after_action CC_Exhausted (HandleFailoverError env a platform limit (Some err) s)
      | Forward_Failed \<Rightarrow> (s, Some CC_ForwardError, [])
      | Forwarded \<Rightarrow> (s, Some CC_Served, []))"

fun cc_loop :: "(bool \<times> failover_env \<times> cc_event) list \<Rightarrow> FailoverState \<Rightarrow>
    FailoverState \<times> cc_outcome option \<times> failover_effect list" where
  "cc_loop [] s = (s, None, [])"
| "cc_loop ((d, env, ev) # rest) s =
     (case cc_iteration d env ev s of
        (s1, Some out, effs) \<Rightarrow> (s1, Some out, effs)
      | (s1, None, effs) \<Rightarrow>
          (case cc_loop rest s1 of (s2, out, effs') \<Rightarrow> (s2, out, effs @ effs')))"

subsection \<open>Retry delay\<close>

lemma double_delay_closed:
  "double_delay n (500000000 * 2 ^ k) =
     (if n = 0 then 500000000 * 2 ^ k else min (8 * second) (500000000 * 2 ^ (n + k)))"
proof (induction n arbitrary: k)
  case (Suc n)
  have div: "go_div maxRequestScopedRetryDelay 2 = 4 * second"
    by (simp add: maxRequestScopedRetryDelay_def go_div_nonneg)
  show ?case
  proof (cases "k \<ge> 3")
    case True
    then have "(2::int) ^ 3 \<le> 2 ^ k" by (intro power_increasing) simp_all
    moreover have "(2::int) ^ 3 \<le> 2 ^ (n + k)" using True by (intro power_increasing) simp_all
    moreover have "go_div 8000000000 2 = (4000000000 :: int)" by (simp add: go_div_nonneg)
    ultimately show ?thesis by (auto simp: maxRequestScopedRetryDelay_def min_def)
  next
    case False
    then have k: "k = 0 \<or> k = 1 \<or> k = 2" by linarith
    then have "\<not> 4 * second \<le> (500000000 * 2 ^ k :: int)" by auto
    moreover have "double_delay n (500000000 * 2 ^ k * 2) = double_delay n (500000000 * 2 ^ Suc k)"
      by (simp add: mult.commute mult.left_commute)
    moreover have "(500000000 * 2 ^ Suc k :: int) \<le> 8 * second"
      using k by auto
    ultimately show ?thesis
      using Suc.IH [of "Suc k"] by (simp add: div)
  qed
qed simp


text \<open>The delay before a retry on the same account is the one the error asks
  for, or half a second, doubled at each further retry of a request-scoped error and capped at eight
  seconds.\<close>

theorem failover_retry_delay:
  "sameAccountRetryDelayFor (Some err) retryCount =
     (if ue_SameAccountRetryDelay err > 0 then ue_SameAccountRetryDelay err
      else if ue_RequestScopedTransient err
        then min (8 * second) (500000000 * 2 ^ nat (max 0 (retryCount - 1)))
      else 500000000)"
  using double_delay_closed [of "nat (retryCount - 1)" 0]
  by (auto simp: sameAccountRetryDelayFor_def sameAccountRetryDelay_def max_def)

subsection \<open>Exclusions\<close>

lemma switch_account_frame:
  "fs_profitVetoedAccountIDs (fst (switch_account env a p err s)) = fs_profitVetoedAccountIDs s"
  "fs_profitVetoCount (fst (switch_account env a p err s)) = fs_profitVetoCount s"
  "fs_SameAccountRetryCount (fst (switch_account env a p err s)) = fs_SameAccountRetryCount s"
  "fs_MaxSwitches (fst (switch_account env a p err s)) = fs_MaxSwitches s"
  "fs_FailedAccountIDs (fst (switch_account env a p err s)) = insert a (fs_FailedAccountIDs s)"
  by (simp_all add: switch_account_def Let_def)

lemma HandleFailoverError_frame:
  "fs_profitVetoedAccountIDs (fst (HandleFailoverError env a p l e s)) = fs_profitVetoedAccountIDs s"
  "fs_profitVetoCount (fst (HandleFailoverError env a p l e s)) = fs_profitVetoCount s"
  "fs_MaxSwitches (fst (HandleFailoverError env a p l e s)) = fs_MaxSwitches s"
  "fs_FailedAccountIDs s \<subseteq> fs_FailedAccountIDs (fst (HandleFailoverError env a p l e s))"
  by (auto simp: HandleFailoverError_def Let_def switch_account_frame split: option.split)

lemma HandleSelectionExhausted_frame:
  "fst (HandleSelectionExhausted env s) =
     (if fst (snd (HandleSelectionExhausted env s)) = FailoverContinue
      then s\<lparr>fs_FailedAccountIDs := fs_profitVetoedAccountIDs s\<rparr> else s)"
  by (simp add: HandleSelectionExhausted_def)

lemma RecordProfitVeto_frame:
  "fst (RecordProfitVeto a s) = s\<lparr>fs_FailedAccountIDs := insert a (fs_FailedAccountIDs s),
     fs_profitVetoedAccountIDs := insert a (fs_profitVetoedAccountIDs s),
     fs_profitVetoCount := fs_profitVetoCount s + 1\<rparr>"
  by (simp add: RecordProfitVeto_def Let_def)

lemma after_action_fst [simp]: "fst (after_action o1 r) = fst r"
  by (cases r) (simp add: after_action_def)


lemma cc_vetoed_step:
  assumes "fs_profitVetoedAccountIDs s \<subseteq> fs_FailedAccountIDs s"
  shows "fs_profitVetoedAccountIDs s \<subseteq> fs_profitVetoedAccountIDs (fst (cc_iteration d env ev s)) \<and>
    fs_profitVetoedAccountIDs (fst (cc_iteration d env ev s)) \<subseteq> fs_FailedAccountIDs (fst (cc_iteration d env ev s))"
  using assms
  by (cases ev) (auto simp: cc_iteration_def HandleSelectionExhausted_frame RecordProfitVeto_def Let_def
      HandleFailoverError_frame(1) intro: HandleFailoverError_frame(4) [THEN subsetD])

lemma fst_cc_loop_Cons:
  "fst (cc_loop ((d, env, ev) # es) s) =
     (if fst (snd (cc_iteration d env ev s)) = None then fst (cc_loop es (fst (cc_iteration d env ev s)))
      else fst (cc_iteration d env ev s))"
  "fst (snd (cc_loop ((d, env, ev) # es) s)) =
     (if fst (snd (cc_iteration d env ev s)) = None then fst (snd (cc_loop es (fst (cc_iteration d env ev s))))
      else fst (snd (cc_iteration d env ev s)))"
  by (cases "cc_iteration d env ev s" rule: prod_cases3, simp split: option.split prod.split)+

lemma cc_loop_vetoed:
  "fs_profitVetoedAccountIDs s \<subseteq> fs_FailedAccountIDs s \<Longrightarrow>
   fs_profitVetoedAccountIDs s \<subseteq> fs_profitVetoedAccountIDs (fst (cc_loop es s)) \<and>
   fs_profitVetoedAccountIDs (fst (cc_loop es s)) \<subseteq> fs_FailedAccountIDs (fst (cc_loop es s))"
proof (induction es arbitrary: s)
  case (Cons e es)
  obtain d env ev where e: "e = (d, env, ev)" by (cases e) auto
  have step: "fs_profitVetoedAccountIDs s \<subseteq> fs_profitVetoedAccountIDs (fst (cc_iteration d env ev s))"
    "fs_profitVetoedAccountIDs (fst (cc_iteration d env ev s)) \<subseteq> fs_FailedAccountIDs (fst (cc_iteration d env ev s))"
    using cc_vetoed_step [OF Cons.prems] by blast+
  from Cons.IH [OF step(2)] step show ?case
    unfolding e fst_cc_loop_Cons by (auto simp del: cc_loop.simps)
qed simp

text \<open>In every run of the request loop, an account rejected by the
  profit gate stays excluded from selection for the rest of the request, whatever happens in between
  (the backoff that clears the exclusions included).\<close>

theorem failover_veto_is_permanent:
  assumes "fst (snd (cc_loop (before @ [(False, env, Profit_Vetoed a)] @ after) (NewFailoverState m b))) = None"
  shows "a \<in> fs_FailedAccountIDs (fst (cc_loop (before @ [(False, env, Profit_Vetoed a)] @ after) (NewFailoverState m b)))"
proof -
  have split: "fst (cc_loop (xs @ ys) s) = fst (cc_loop ys (fst (cc_loop xs s))) \<and>
      fst (snd (cc_loop xs s)) = None" if "fst (snd (cc_loop (xs @ ys) s)) = None" for xs ys s
    using that
  proof (induction xs arbitrary: s)
    case (Cons x xs)
    then show ?case
      by (cases x rule: prod_cases3) (auto simp: fst_cc_loop_Cons simp del: cc_loop.simps split: if_splits)
  qed simp
  let ?s1 = "fst (cc_loop before (NewFailoverState m b))"
  let ?s2 = "fst (cc_loop [(False, env, Profit_Vetoed a)] ?s1)"
  have s: "fst (cc_loop (before @ [(False, env, Profit_Vetoed a)] @ after) (NewFailoverState m b)) =
      fst (cc_loop after ?s2)"
    using split [OF assms] split [of "before @ [(False, env, Profit_Vetoed a)]" after] assms
      split [of before "[(False, env, Profit_Vetoed a)]" "NewFailoverState m b"]
    by simp
  have "fs_profitVetoedAccountIDs (NewFailoverState m b) \<subseteq> fs_FailedAccountIDs (NewFailoverState m b)"
    by (simp add: NewFailoverState_def)
  then have "fs_profitVetoedAccountIDs ?s1 \<subseteq> fs_FailedAccountIDs ?s1"
    using cc_loop_vetoed by blast
  then have "fs_profitVetoedAccountIDs ?s2 \<subseteq> fs_FailedAccountIDs ?s2"
    using cc_loop_vetoed by blast
  then have "fs_profitVetoedAccountIDs ?s2 \<subseteq> fs_FailedAccountIDs (fst (cc_loop after ?s2))"
    using cc_loop_vetoed by blast
  moreover have "a \<in> fs_profitVetoedAccountIDs ?s2"
    by (simp add: fst_cc_loop_Cons cc_iteration_def RecordProfitVeto_def Let_def del: cc_loop.simps(2))
  ultimately show ?thesis unfolding s by blast
qed


theorem failover_veto_is_permanent_witness:
  "7 \<in> fs_FailedAccountIDs (fst (cc_loop ([] @ [(False, \<lparr>en_Done = False, en_Now = 0, en_Survives = True\<rparr>, Profit_Vetoed 7)]
     @ [(False, \<lparr>en_Done = False, en_Now = 0, en_Survives = True\<rparr>, Profit_Vetoed 8)]) (NewFailoverState 3 False)))"
  by (rule failover_veto_is_permanent)
    (simp add: cc_iteration_def RecordProfitVeto_def NewFailoverState_def maxProfitVetoAttempts_def Let_def)

subsection \<open>The loop ends\<close>













definition calm :: failover_env where
  "calm = \<lparr>en_Done = False, en_Now = 0, en_Survives = True\<rparr>"

definition status_503 :: UpstreamFailoverError where
  "status_503 = \<lparr>ue_StatusCode = 503, ue_ForceCacheBilling = False, ue_RetryableOnSameAccount = False,
     ue_SameAccountRetryDelay = 0, ue_SameAccountRetryDeadline = zero_time, ue_SameAccountRetryMax = 0,
     ue_RequestScopedTransient = False, ue_NextAccountAction = NextAccountLegacyRetry\<rparr>"

lemmas failover_eval = cc_iteration_def after_action_def HandleFailoverError_def switch_account_def
  HandleSelectionExhausted_def RecordProfitVeto_def NewFailoverState_def maxProfitVetoAttempts_def
  ShouldRetryNextAccount_def sameAccountRetryAllowed_def needForceCacheBilling_def
  allExclusionsAreProfitVetoed_def sleepWithContext_def singleAccountBackoffDelay_def calm_def
  status_503_def Let_def


subsection \<open>Accounts of another platform\<close>

text \<open>With a foreign-platform account as the only candidate after a 503,
  the loop never ends: skipping the account and clearing the exclusions alternate for ever, without
  an upstream request, each round waiting two seconds.\<close>

theorem failover_mismatch_livelock:
  assumes "fs_LastFailoverErr s = Some err" "ue_StatusCode err = 503"
    and "fs_SwitchCount s \<le> fs_MaxSwitches s" "fs_FailedAccountIDs s = {}" "fs_profitVetoedAccountIDs s = {}"
    and "\<not> en_Done env" "en_Survives env"
  shows "cc_loop (concat (replicate n [(False, env, Platform_Mismatch a), (False, env, Selection_Failed)])) s =
    (s, None, replicate n (Slept (2 * second)))"
proof (induction n)
  case (Suc n)
  have s: "s\<lparr>fs_FailedAccountIDs := {}\<rparr> = s" using assms(4) by (cases s) simp
  have "cc_iteration False env (Platform_Mismatch a) s = (s\<lparr>fs_FailedAccountIDs := {a}\<rparr>, None, [])"
    using assms(4) by (simp add: cc_iteration_def)
  moreover have "cc_iteration False env Selection_Failed (s\<lparr>fs_FailedAccountIDs := {a}\<rparr>) =
      (s, None, [Slept (2 * second)])"
    using assms s by (simp add: cc_iteration_def HandleSelectionExhausted_def after_action_def
        allExclusionsAreProfitVetoed_def sleepWithContext_def singleAccountBackoffDelay_def)
  ultimately show ?case using Suc.IH by simp
qed simp

theorem failover_mismatch_livelock_witness:
  "let s = fst (cc_loop [(False, calm, Forward_Failover 1 ''gemini'' 3 status_503 False),
                         (False, calm, Selection_Failed)] (NewFailoverState 3 False))
   in fst (snd (cc_loop (concat (replicate 1000 [(False, calm, Platform_Mismatch 2), (False, calm, Selection_Failed)])) s)) = None"
proof -
  let ?s = "fst (cc_loop [(False, calm, Forward_Failover 1 ''gemini'' 3 status_503 False),
                         (False, calm, Selection_Failed)] (NewFailoverState 3 False))"
  have "fs_LastFailoverErr ?s = Some status_503" "fs_SwitchCount ?s \<le> fs_MaxSwitches ?s"
    "fs_FailedAccountIDs ?s = {}" "fs_profitVetoedAccountIDs ?s = {}"
    by (simp_all add: failover_eval)
  then show ?thesis
    using failover_mismatch_livelock [of ?s status_503 calm 1000 2]
    by (simp add: Let_def status_503_def calm_def del: cc_loop.simps)
qed

end
