(* ===== verification/Proxy_Circuit.thy ===== *)
theory Proxy_Circuit
  imports Prelude
begin

section \<open>The proxy stream circuit: service/openai_proxy_stream_circuit.go\<close>

text \<open>
  An in-process circuit breaker keyed by proxy: stream disconnects of a proxy are counted in a
  window, a burst counts once, and at the threshold the proxy is quarantined. Each method holds the
  mutex for its whole body, so it is one atomic step on the state. The nil receiver is \<open>None\<close>.
  Go iterates over a map in an unspecified order: operations that iterate take the order \<open>ks\<close> of
  the keys as an argument.
\<close>

record circuit_settings =
  cs_disabled :: bool
  cs_failureThreshold :: int
  cs_failureWindow :: go_duration
  cs_quarantineTTL :: go_duration
  cs_collapseInterval :: go_duration
  cs_maxEntries :: int

record circuit_entry =
  ce_failureCount :: int
  ce_windowStart :: go_time
  ce_lastFailureAt :: go_time
  ce_blockedUntil :: go_time
  ce_lastTouched :: go_time

definition zero_entry :: circuit_entry where
  "zero_entry = \<lparr>ce_failureCount = 0, ce_windowStart = zero_time, ce_lastFailureAt = zero_time,
     ce_blockedUntil = zero_time, ce_lastTouched = zero_time\<rparr>"

record circuit =
  ci_settings :: circuit_settings
  ci_entries :: "int \<Rightarrow> circuit_entry option"

definition default_settings :: circuit_settings where
  "default_settings = \<lparr>cs_disabled = False, cs_failureThreshold = 2, cs_failureWindow = minute,
     cs_quarantineTTL = 10 * minute, cs_collapseInterval = 3 * second, cs_maxEntries = 4096\<rparr>"

text \<open>The fields of the gateway configuration that the resolver reads.\<close>

record circuit_config =
  cf_Disabled :: bool
  cf_FailureThreshold :: int
  cf_WindowSeconds :: int
  cf_TTLSeconds :: int

definition resolveSettings :: "circuit_config option \<Rightarrow> circuit_settings" where
  "resolveSettings cfg =
     (case cfg of
        None \<Rightarrow> default_settings
      | Some c \<Rightarrow> default_settings\<lparr>cs_disabled := cf_Disabled c,
          cs_failureThreshold := (if cf_FailureThreshold c > 0 then cf_FailureThreshold c
                                  else cs_failureThreshold default_settings),
          cs_failureWindow := (if cf_WindowSeconds c > 0 then cf_WindowSeconds c * second
                               else cs_failureWindow default_settings),
          cs_quarantineTTL := (if cf_TTLSeconds c > 0 then cf_TTLSeconds c * second
                               else cs_quarantineTTL default_settings)\<rparr>)"

definition newCircuit :: "circuit_settings \<Rightarrow> circuit" where
  "newCircuit s =
     \<lparr>ci_settings = s\<lparr>
        cs_failureThreshold := (if cs_failureThreshold s \<le> 0 then 2 else cs_failureThreshold s),
        cs_failureWindow := (if cs_failureWindow s \<le> 0 then minute else cs_failureWindow s),
        cs_quarantineTTL := (if cs_quarantineTTL s \<le> 0 then 10 * minute else cs_quarantineTTL s),
        cs_maxEntries := (if cs_maxEntries s \<le> 0 then 4096 else cs_maxEntries s),
        cs_collapseInterval := (if cs_collapseInterval s < 0 then 0 else cs_collapseInterval s)\<rparr>,
      ci_entries = Map.empty\<rparr>"

subsection \<open>Eviction\<close>

definition evictable :: "circuit_settings \<Rightarrow> go_time \<Rightarrow> circuit_entry \<Rightarrow> bool" where
  "evictable s now e \<longleftrightarrow>
     ce_blockedUntil e = zero_time \<and> time_sub now (ce_lastTouched e) > cs_failureWindow s \<or>
     ce_blockedUntil e \<noteq> zero_time \<and> \<not> now < ce_blockedUntil e"

text \<open>The search for the oldest entry; 0 is the sentinel for no proxy yet.\<close>

definition older :: "(int \<Rightarrow> circuit_entry option) \<Rightarrow> int \<Rightarrow> int \<times> go_time \<Rightarrow> int \<times> go_time" where
  "older m k acc =
     (case m k of
        None \<Rightarrow> acc
      | Some e \<Rightarrow> (case acc of (oldestProxyID, oldest) \<Rightarrow>
          if oldestProxyID = 0 \<or> ce_lastTouched e < oldest then (k, ce_lastTouched e) else acc))"

definition ensureCapacityLocked :: "int list \<Rightarrow> go_time \<Rightarrow> circuit \<Rightarrow> circuit" where
  "ensureCapacityLocked ks now c =
     (if int (length ks) < cs_maxEntries (ci_settings c) then c
      else
        let entries1 = (\<lambda>k. case ci_entries c k of None \<Rightarrow> None
                            | Some e \<Rightarrow> if evictable (ci_settings c) now e then None else Some e);
            ks1 = filter (\<lambda>k. entries1 k \<noteq> None) ks
        in if int (length ks1) < cs_maxEntries (ci_settings c) then c\<lparr>ci_entries := entries1\<rparr>
           else (case fold (older entries1) ks1 (0, zero_time) of (oldestProxyID, oldest) \<Rightarrow>
                   if oldestProxyID > 0 then c\<lparr>ci_entries := entries1(oldestProxyID := None)\<rparr>
                   else c\<lparr>ci_entries := entries1\<rparr>))"

subsection \<open>Operations\<close>

definition window_entry :: "circuit_settings \<Rightarrow> go_time \<Rightarrow> circuit_entry \<Rightarrow> circuit_entry" where
  "window_entry s now e =
     (if ce_windowStart e = zero_time \<or> now < ce_windowStart e
         \<or> time_sub now (ce_windowStart e) > cs_failureWindow s
      then e\<lparr>ce_failureCount := 0, ce_windowStart := now, ce_blockedUntil := zero_time\<rparr> else e)"

definition collapses :: "circuit_settings \<Rightarrow> go_time \<Rightarrow> circuit_entry \<Rightarrow> bool" where
  "collapses s now e \<longleftrightarrow> cs_collapseInterval s > 0 \<and> ce_lastFailureAt e \<noteq> zero_time \<and>
     time_sub now (ce_lastFailureAt e) \<ge> 0 \<and> time_sub now (ce_lastFailureAt e) < cs_collapseInterval s"

definition recordFailure :: "int list \<Rightarrow> int \<Rightarrow> go_time \<Rightarrow> circuit option \<Rightarrow>
    circuit option \<times> bool \<times> go_time" where
  "recordFailure ks proxyID now oc =
     (case oc of
        None \<Rightarrow> (None, False, zero_time)
      | Some c \<Rightarrow>
          if cs_disabled (ci_settings c) \<or> proxyID \<le> 0 then (Some c, False, zero_time)
          else
            let s = ci_settings c;
                found = ci_entries c proxyID;
                entry = (case found of None \<Rightarrow> zero_entry | Some e \<Rightarrow> e)
            in if found \<noteq> None \<and> now < ce_blockedUntil entry then
                 (Some (c\<lparr>ci_entries := (ci_entries c)(proxyID \<mapsto> entry\<lparr>ce_lastTouched := now\<rparr>)\<rparr>),
                  False, ce_blockedUntil entry)
               else
                 let c1 = (if found = None then ensureCapacityLocked ks now c else c);
                     entry1 = window_entry s now entry
                 in if collapses s now entry1 then
                      (Some (c1\<lparr>ci_entries := (ci_entries c1)(proxyID \<mapsto> entry1\<lparr>ce_lastTouched := now\<rparr>)\<rparr>),
                       False, zero_time)
                    else
                      let entry2 = entry1\<lparr>ce_failureCount := ce_failureCount entry1 + 1,
                                          ce_lastFailureAt := now, ce_lastTouched := now\<rparr>;
                          tripped = (ce_failureCount entry2 \<ge> cs_failureThreshold s);
                          entry3 = (if tripped then entry2\<lparr>ce_blockedUntil := now + cs_quarantineTTL s\<rparr>
                                    else entry2)
                      in (Some (c1\<lparr>ci_entries := (ci_entries c1)(proxyID \<mapsto> entry3)\<rparr>),
                          tripped, ce_blockedUntil entry3))"

definition recordSuccess :: "int \<Rightarrow> circuit option \<Rightarrow> circuit option \<times> bool" where
  "recordSuccess proxyID oc =
     (case oc of
        None \<Rightarrow> (None, False)
      | Some c \<Rightarrow>
          if proxyID \<le> 0 then (Some c, False)
          else if ci_entries c proxyID = None then (Some c, False)
          else (Some (c\<lparr>ci_entries := (ci_entries c)(proxyID := None)\<rparr>), True))"

definition isBlocked :: "int \<Rightarrow> go_time \<Rightarrow> circuit option \<Rightarrow> circuit option \<times> bool" where
  "isBlocked proxyID now oc =
     (case oc of
        None \<Rightarrow> (None, False)
      | Some c \<Rightarrow>
          if cs_disabled (ci_settings c) \<or> proxyID \<le> 0 then (Some c, False)
          else (case ci_entries c proxyID of
                  None \<Rightarrow> (Some c, False)
                | Some e \<Rightarrow>
                    if ce_blockedUntil e = zero_time then (Some c, False)
                    else if \<not> now < ce_blockedUntil e
                      then (Some (c\<lparr>ci_entries := (ci_entries c)(proxyID := None)\<rparr>), False)
                    else (Some c, True)))"

definition activeBlockCount :: "int list \<Rightarrow> go_time \<Rightarrow> circuit option \<Rightarrow> int" where
  "activeBlockCount ks now oc =
     (case oc of
        None \<Rightarrow> 0
      | Some c \<Rightarrow>
          if cs_disabled (ci_settings c) then 0
          else int (length (filter (\<lambda>k. case ci_entries c k of None \<Rightarrow> False
                      | Some e \<Rightarrow> ce_blockedUntil e \<noteq> zero_time \<and> now < ce_blockedUntil e) ks)))"

subsection \<open>Callers in the gateway service\<close>

record circuit_account =
  ca_Platform :: string
  ca_ProxyID :: "int option"

definition circuitProxyID :: "circuit_account option \<Rightarrow> int option" where
  "circuitProxyID account =
     (case account of
        None \<Rightarrow> None
      | Some a \<Rightarrow>
          if ca_Platform a \<noteq> ''openai'' then None
          else (case ca_ProxyID a of None \<Rightarrow> None | Some p \<Rightarrow> if p \<le> 0 then None else Some p))"

text \<open>The kinds of stream error the recorder distinguishes.\<close>

datatype stream_error = No_Error | Context_Canceled | Context_DeadlineExceeded | Other_Error

definition recordDisconnect :: "int list \<Rightarrow> circuit_account option \<Rightarrow> stream_error \<Rightarrow> go_time \<Rightarrow>
    circuit option \<Rightarrow> circuit option \<times> (int \<times> go_time) option" where
  "recordDisconnect ks account streamErr now oc =
     (case circuitProxyID account of
        None \<Rightarrow> (oc, None)
      | Some proxyID \<Rightarrow>
          if streamErr \<noteq> Other_Error then (oc, None)
          else (case recordFailure ks proxyID now oc of (oc', tripped, until) \<Rightarrow>
                  (oc', if tripped then Some (proxyID, until) else None)))"

definition clearDisconnect :: "circuit_account option \<Rightarrow> circuit option \<Rightarrow> circuit option" where
  "clearDisconnect account oc =
     (case circuitProxyID account of
        None \<Rightarrow> oc
      | Some proxyID \<Rightarrow> (if oc = None then oc else fst (recordSuccess proxyID oc)))"

definition isQuarantined :: "bool \<Rightarrow> circuit_account option \<Rightarrow> go_time \<Rightarrow> circuit option \<Rightarrow>
    circuit option \<times> bool" where
  "isQuarantined bypassed account now oc =
     (case circuitProxyID account of
        None \<Rightarrow> (oc, False)
      | Some proxyID \<Rightarrow>
          if bypassed then (oc, False)
          else if oc = None then (oc, False) else isBlocked proxyID now oc)"

text \<open>
  The rate limit of the fail-open warning: \<open>prev\<close> is what \<open>Load\<close> returned and \<open>current\<close> the value at
  the compare-and-swap. The result is the new value and whether the warning is logged.
\<close>

definition logFailOpen :: "int \<Rightarrow> int \<Rightarrow> int \<Rightarrow> int \<times> bool" where
  "logFailOpen now prev current =
     (if now - prev < 5 * second then (current, False)
      else if current \<noteq> prev then (current, False)
      else (now, True))"

subsection \<open>The table is bounded\<close>

definition valid_order :: "int list \<Rightarrow> circuit \<Rightarrow> bool" where
  "valid_order ks c \<longleftrightarrow> distinct ks \<and> set ks = dom (ci_entries c)"

definition circuit_wf :: "circuit \<Rightarrow> bool" where
  "circuit_wf c \<longleftrightarrow> finite (dom (ci_entries c)) \<and> (\<forall>k \<in> dom (ci_entries c). 0 < k) \<and>
     0 < cs_maxEntries (ci_settings c) \<and> int (card (dom (ci_entries c))) \<le> cs_maxEntries (ci_settings c)"

lemma fold_older:
  assumes "ks \<noteq> []" "\<forall>k \<in> set ks. m k \<noteq> None \<and> 0 < k"
  shows "case fold (older m) ks (0, t) of (k, l) \<Rightarrow>
    k \<in> set ks \<and> l = ce_lastTouched (the (m k)) \<and> (\<forall>j \<in> set ks. l \<le> ce_lastTouched (the (m j)))"
  using assms
proof (induction ks rule: rev_induct)
  case (snoc x xs)
  obtain e where e: "m x = Some e" using snoc.prems by auto
  show ?case
  proof (cases "xs = []")
    case True
    then show ?thesis using e by (simp add: older_def)
  next
    case False
    then have "case fold (older m) xs (0, t) of (k, l) \<Rightarrow>
      k \<in> set xs \<and> l = ce_lastTouched (the (m k)) \<and> (\<forall>j \<in> set xs. l \<le> ce_lastTouched (the (m j)))"
      using snoc by simp
    then obtain k l where f: "fold (older m) xs (0, t) = (k, l)" "k \<in> set xs" "l = ce_lastTouched (the (m k))"
      "\<forall>j \<in> set xs. l \<le> ce_lastTouched (the (m j))" by (auto split: prod.splits)
    moreover from f have "fold (older m) (xs @ [x]) (0, t) = older m x (k, l)" by simp
    moreover have "k \<noteq> 0" using snoc.prems(2) \<open>k \<in> set xs\<close> by auto
    ultimately show ?thesis
      using e by (auto simp: older_def [of m x])
  qed
qed simp

lemma ensureCapacityLocked_frame:
  "ci_settings (ensureCapacityLocked ks now c) = ci_settings c"
  "ci_entries (ensureCapacityLocked ks now c) k \<in> {None, ci_entries c k}"
  by (auto simp: ensureCapacityLocked_def Let_def split: prod.split option.split)

lemma ensureCapacityLocked_room:
  assumes "circuit_wf c" "valid_order ks c"
  shows "circuit_wf (ensureCapacityLocked ks now c) \<and>
    int (card (dom (ci_entries (ensureCapacityLocked ks now c)))) < cs_maxEntries (ci_settings c)"
proof -
  let ?c = "ensureCapacityLocked ks now c" and ?max = "cs_maxEntries (ci_settings c)"
  let ?m = "\<lambda>k. case ci_entries c k of None \<Rightarrow> None
     | Some e \<Rightarrow> if evictable (ci_settings c) now e then None else Some e"
  let ?ks = "filter (\<lambda>k. ?m k \<noteq> None) ks"
  have sub: "dom (ci_entries ?c) \<subseteq> dom (ci_entries c)"
  proof
    fix k assume "k \<in> dom (ci_entries ?c)"
    then show "k \<in> dom (ci_entries c)"
      using ensureCapacityLocked_frame(2) [of ks now c k] by (auto simp: dom_def)
  qed
  have len: "card (dom (ci_entries c)) = length ks"
    using assms(2) by (metis valid_order_def distinct_card)
  have dom_m: "dom ?m = set ?ks"
    using assms(2) by (auto simp: valid_order_def dom_def split: option.splits)
  have card_m: "card (dom ?m) = length ?ks"
    unfolding dom_m using assms(2) by (intro distinct_card) (simp add: valid_order_def)
  have "int (card (dom (ci_entries ?c))) < ?max"
  proof (cases "int (length ks) < ?max \<or> int (length ?ks) < ?max")
    case True
    then show ?thesis using len card_m by (auto simp: ensureCapacityLocked_def Let_def)
  next
    case False
    have max: "0 < ?max" using assms(1) by (simp add: circuit_wf_def)
    with False have ne: "?ks \<noteq> []" by (metis list.size(3) of_nat_0)
    have pos: "\<forall>k \<in> set ?ks. ?m k \<noteq> None \<and> 0 < k"
      using assms by (auto simp: circuit_wf_def valid_order_def)
    obtain k l where f: "fold (older ?m) ?ks (0, zero_time) = (k, l)" by fastforce
    then have k: "k \<in> set ?ks" using fold_older [OF ne pos, of zero_time] by simp
    then have "0 < k" using pos by blast
    then have c': "ci_entries ?c = ?m(k := None)"
      using False f by (simp add: ensureCapacityLocked_def Let_def)
    have "card (dom (?m(k := None))) = card (dom ?m) - 1"
      using k dom_m by (simp add: dom_fun_upd del: set_filter)
    moreover have "length ?ks \<le> length ks" by simp
    moreover have "int (length ks) \<le> ?max" using assms(1) len by (simp add: circuit_wf_def)
    moreover have "0 < length ?ks" using ne by simp
    ultimately show ?thesis unfolding c' using card_m by linarith
  qed
  with assms(1) sub show ?thesis
    by (auto simp: circuit_wf_def ensureCapacityLocked_frame(1) dest: finite_subset)
qed

lemma card_dom_upd:
  "finite (dom m) \<Longrightarrow> card (dom (m(k \<mapsto> v))) = (if m k = None then Suc (card (dom m)) else card (dom m))"
  by (simp add: card_insert_if domIff)

lemma recordFailure_wf:
  assumes "circuit_wf c" "valid_order ks c" "recordFailure ks p now (Some c) = (Some c', t, u)"
  shows "circuit_wf c' \<and> ci_settings c' = ci_settings c"
proof -
  have store: "circuit_wf (d\<lparr>ci_entries := (ci_entries d)(p \<mapsto> e)\<rparr>)"
    if "circuit_wf d" "0 < p" "ci_entries d p \<noteq> None \<or> int (card (dom (ci_entries d))) < cs_maxEntries (ci_settings d)"
    for d e
    using that by (auto simp: circuit_wf_def card_dom_upd simp del: dom_fun_upd) (auto simp: circuit_wf_def)
  let ?d = "if ci_entries c p = None then ensureCapacityLocked ks now c else c"
  have d: "circuit_wf ?d" "ci_settings ?d = ci_settings c"
    "ci_entries ?d p \<noteq> None \<or> int (card (dom (ci_entries ?d))) < cs_maxEntries (ci_settings ?d)"
    using assms(1) ensureCapacityLocked_room [OF assms(1,2)] ensureCapacityLocked_frame(1)
    by (auto simp del: not_None_eq)
  show ?thesis
  proof (cases "cs_disabled (ci_settings c) \<or> p \<le> 0")
    case True
    then show ?thesis using assms(1,3) by (auto simp: recordFailure_def)
  next
    case False
    then obtain e where "c' = c\<lparr>ci_entries := (ci_entries c)(p \<mapsto> e)\<rparr> \<and> ci_entries c p \<noteq> None \<or>
        c' = ?d\<lparr>ci_entries := (ci_entries ?d)(p \<mapsto> e)\<rparr>"
      using assms(3) by (auto simp: recordFailure_def Let_def simp del: fun_upd_apply split: if_splits)
    then show ?thesis using store [of c] store [of ?d] assms(1) d False by auto
  qed
qed

inductive circuit_step :: "circuit \<Rightarrow> circuit \<Rightarrow> bool" where
  step_failure: "valid_order ks c \<Longrightarrow> recordFailure ks p now (Some c) = (Some c', t, u) \<Longrightarrow> circuit_step c c'"
| step_success: "recordSuccess p (Some c) = (Some c', r) \<Longrightarrow> circuit_step c c'"
| step_check: "isBlocked p now (Some c) = (Some c', b) \<Longrightarrow> circuit_step c c'"

lemma remove_wf: "circuit_wf c \<Longrightarrow> circuit_wf (c\<lparr>ci_entries := (ci_entries c)(p := None)\<rparr>)"
proof -
  assume wf: "circuit_wf c"
  have "card (dom (ci_entries c) - {p}) \<le> card (dom (ci_entries c))"
    using wf by (intro card_mono) (auto simp: circuit_wf_def)
  with wf show ?thesis by (auto simp: circuit_wf_def)
qed

lemma circuit_step_wf: "circuit_step c c' \<Longrightarrow> circuit_wf c \<Longrightarrow> circuit_wf c' \<and> ci_settings c' = ci_settings c"
proof (induction rule: circuit_step.induct)
  case (step_failure ks c p now c' t u)
  then show ?case using recordFailure_wf by blast
next
  case (step_success p c c' r)
  then show ?case using remove_wf [of c p] by (auto simp: recordSuccess_def split: if_splits)
next
  case (step_check p now c c' b)
  then show ?case using remove_wf [of c p] by (auto simp: isBlocked_def split: if_splits option.splits)
qed

text \<open>C17: Whatever sequence of failures, successes and checks the circuit sees, it never
  holds more entries than its maximum, and only for positive proxy identifiers.\<close>

theorem circuit_bounded:
  assumes "circuit_step\<^sup>*\<^sup>* (newCircuit s) c"
  shows "finite (dom (ci_entries c)) \<and> (\<forall>k \<in> dom (ci_entries c). 0 < k) \<and>
    int (card (dom (ci_entries c))) \<le> (if cs_maxEntries s \<le> 0 then 4096 else cs_maxEntries s)"
proof -
  have new: "circuit_wf (newCircuit s)" by (simp add: circuit_wf_def newCircuit_def)
  have "circuit_wf c \<and> ci_settings c = ci_settings (newCircuit s)"
    using assms by (induction rule: rtranclp_induct) (auto simp: new dest: circuit_step_wf)
  then show ?thesis by (auto simp: circuit_wf_def newCircuit_def)
qed

subsection \<open>Tripping\<close>

fun fail_run :: "int \<Rightarrow> (int list \<times> go_time) list \<Rightarrow> circuit option \<Rightarrow> circuit option \<times> bool list" where
  "fail_run p [] c = (c, [])"
| "fail_run p ((ks, now) # es) c =
     (case recordFailure ks p now c of (c1, tripped, until) \<Rightarrow>
        case fail_run p es c1 of (c2, flags) \<Rightarrow> (c2, tripped # flags))"

lemma snd_fail_run_Cons:
  "recordFailure ks p now c = (c1, tripped, until) \<Longrightarrow>
   snd (fail_run p ((ks, now) # es) c) = tripped # snd (fail_run p es c1)"
  by (simp split: prod.split)

text \<open>Consecutive disconnects are at least \<open>gap\<close> apart and all within \<open>window\<close> of \<open>start\<close>.\<close>

fun spaced :: "go_duration \<Rightarrow> go_duration \<Rightarrow> go_time \<Rightarrow> go_time \<Rightarrow> go_time list \<Rightarrow> bool" where
  "spaced gap window start prev [] \<longleftrightarrow> True"
| "spaced gap window start prev (t # ts) \<longleftrightarrow>
     prev + gap \<le> t \<and> prev \<le> t \<and> t \<le> start + window \<and> spaced gap window start t ts"

lemma counted_failure:
  assumes "\<not> cs_disabled (ci_settings c)" "0 < p" "ci_entries c p = Some e"
    and "ce_blockedUntil e = zero_time" "ce_windowStart e = start" "ce_lastFailureAt e = prev"
    and "zero_time < start" "start \<le> prev" "prev + cs_collapseInterval (ci_settings c) \<le> t" "prev \<le> t"
      "t \<le> start + cs_failureWindow (ci_settings c)" "cs_collapseInterval (ci_settings c) \<le> 2 ^ 63 - 1"
  shows "\<exists>c' u. recordFailure ks p t (Some c) =
      (Some c', ce_failureCount e + 1 \<ge> cs_failureThreshold (ci_settings c), u) \<and>
    ci_settings c' = ci_settings c \<and>
    (ce_failureCount e + 1 < cs_failureThreshold (ci_settings c) \<longrightarrow>
       ci_entries c' p = Some (e\<lparr>ce_failureCount := ce_failureCount e + 1, ce_lastFailureAt := t, ce_lastTouched := t\<rparr>))"
proof -
  have "window_entry (ci_settings c) t e = e"
    using assms by (auto simp: window_entry_def time_sub_def)
  moreover have "\<not> collapses (ci_settings c) t e"
    using assms by (auto simp: collapses_def time_sub_def)
  moreover have "\<not> t < zero_time" using assms by simp
  ultimately show ?thesis
    using assms(1-6) by (simp add: recordFailure_def Let_def)
qed

lemma fail_run_counts:
  assumes "\<not> cs_disabled (ci_settings c)" "0 < p" "ci_entries c p = Some e"
    and "ce_blockedUntil e = zero_time" "ce_windowStart e = start" "ce_lastFailureAt e = prev"
    and "zero_time < start" "start \<le> prev" "cs_collapseInterval (ci_settings c) \<le> 2 ^ 63 - 1"
    and "spaced (cs_collapseInterval (ci_settings c)) (cs_failureWindow (ci_settings c)) start prev (map snd es)"
    and "0 \<le> ce_failureCount e" "ce_failureCount e + int (length es) \<le> cs_failureThreshold (ci_settings c)"
  shows "snd (fail_run p es (Some c)) =
    map (\<lambda>i. ce_failureCount e + int i + 1 = cs_failureThreshold (ci_settings c)) [0..<length es]"
  using assms
proof (induction es arbitrary: c e prev)
  case (Cons x es)
  obtain ks t where x: "x = (ks, t)" by fastforce
  have t: "prev + cs_collapseInterval (ci_settings c) \<le> t" "prev \<le> t"
    "t \<le> start + cs_failureWindow (ci_settings c)"
    "spaced (cs_collapseInterval (ci_settings c)) (cs_failureWindow (ci_settings c)) start t (map snd es)"
    using Cons.prems(10) by (simp_all add: x)
  obtain c' u where r: "recordFailure ks p t (Some c) =
      (Some c', ce_failureCount e + 1 \<ge> cs_failureThreshold (ci_settings c), u)"
    "ci_settings c' = ci_settings c"
    "ce_failureCount e + 1 < cs_failureThreshold (ci_settings c) \<longrightarrow>
       ci_entries c' p = Some (e\<lparr>ce_failureCount := ce_failureCount e + 1, ce_lastFailureAt := t, ce_lastTouched := t\<rparr>)"
    using counted_failure [OF Cons.prems(1-8) t(1-3) Cons.prems(9), of ks] by blast
  have first: "(ce_failureCount e + 1 \<ge> cs_failureThreshold (ci_settings c)) =
      (ce_failureCount e + 1 = cs_failureThreshold (ci_settings c))"
    using Cons.prems(12) by auto
  show ?case
  proof (cases "es = []")
    case True
    then show ?thesis using r(1) first by (simp add: x snd_fail_run_Cons)
  next
    case False
    then have "ce_failureCount e + 1 < cs_failureThreshold (ci_settings c)"
      using Cons.prems(12) by (cases es) auto
    with Cons.IH [of c' "e\<lparr>ce_failureCount := ce_failureCount e + 1, ce_lastFailureAt := t, ce_lastTouched := t\<rparr>" t]
      r(2,3) Cons.prems t
    have "snd (fail_run p es (Some c')) =
      map (\<lambda>i. ce_failureCount e + 1 + int i + 1 = cs_failureThreshold (ci_settings c)) [0..<length es]"
      by simp
    with r(1) first show ?thesis
      by (simp add: x snd_fail_run_Cons upt_conv_Cons map_Suc_upt [symmetric] comp_def algebra_simps
          del: upt_Suc fail_run.simps)
  qed
qed simp

lemma first_failure:
  assumes "\<not> cs_disabled (ci_settings c)" "0 < p" "ci_entries c p = None" "zero_time < t"
    and "1 < cs_failureThreshold (ci_settings c)"
  shows "\<exists>c'. recordFailure ks p t (Some c) = (Some c', False, zero_time) \<and>
    ci_settings c' = ci_settings c \<and> ci_entries c' p = Some \<lparr>ce_failureCount = 1, ce_windowStart = t,
      ce_lastFailureAt = t, ce_blockedUntil = zero_time, ce_lastTouched = t\<rparr>"
  using assms ensureCapacityLocked_frame(1) [of ks t c]
  by (simp add: recordFailure_def Let_def window_entry_def collapses_def zero_entry_def)

text \<open>C18: Disconnects of a proxy without a record, each at least the collapse
  interval after the one before and all within the failure window, trip the circuit exactly at
  the threshold: no earlier one does.\<close>

theorem circuit_trips_at_threshold:
  assumes "\<not> cs_disabled (ci_settings c)" "0 < p" "ci_entries c p = None" "zero_time < t"
    and "1 < cs_failureThreshold (ci_settings c)" "cs_collapseInterval (ci_settings c) \<le> 2 ^ 63 - 1"
    and "spaced (cs_collapseInterval (ci_settings c)) (cs_failureWindow (ci_settings c)) t t (map snd es)"
    and "1 + int (length es) = cs_failureThreshold (ci_settings c)"
  shows "snd (fail_run p ((ks, t) # es) (Some c)) = replicate (length es) False @ [True]"
proof -
  obtain c' where c': "recordFailure ks p t (Some c) = (Some c', False, zero_time)"
    "ci_settings c' = ci_settings c"
    "ci_entries c' p = Some \<lparr>ce_failureCount = 1, ce_windowStart = t, ce_lastFailureAt = t,
       ce_blockedUntil = zero_time, ce_lastTouched = t\<rparr>"
    using first_failure [OF assms(1-5)] by blast
  have "snd (fail_run p es (Some c')) =
      map (\<lambda>i. 1 + int i + 1 = cs_failureThreshold (ci_settings c)) [0..<length es]"
    using fail_run_counts [OF _ assms(2) c'(3), of t t es] assms c'(2) by simp
  moreover obtain n where n: "length es = Suc n" using assms(5,8) by (cases es) auto
  ultimately have "snd (fail_run p es (Some c')) = map (\<lambda>i. i = n) [0..<Suc n]"
    using assms(8) by (auto simp: n simp del: upt_Suc)
  moreover have "map (\<lambda>i. i = n) [0..<n] = replicate n False"
    by (intro replicate_eqI) auto
  ultimately show ?thesis
    by (simp add: n snd_fail_run_Cons [OF c'(1)] del: fail_run.simps)
qed

theorem circuit_trips_at_threshold_witness:
  "snd (fail_run 7 (([], 1000 * second) # [([7], 1005 * second)]) (Some (newCircuit default_settings))) =
   replicate (length [([7::int], 1005 * second :: int)]) False @ [True]"
  by (rule circuit_trips_at_threshold)
    (simp_all add: newCircuit_def default_settings_def zero_time_def)

text \<open>Any number of disconnects of one proxy within the collapse interval
  of the first do not trip the circuit when the threshold is at least two.\<close>

theorem circuit_burst_counts_once:
  assumes "\<not> cs_disabled (ci_settings c)" "0 < p" "ci_entries c p = None" "zero_time < t"
    and "1 < cs_failureThreshold (ci_settings c)" "0 < cs_collapseInterval (ci_settings c)"
    and "\<forall>(ks', u) \<in> set es. t \<le> u \<and> u < t + cs_collapseInterval (ci_settings c)"
  shows "\<not> list_ex (\<lambda>b. b) (snd (fail_run p ((ks, t) # es) (Some c)))"
proof -
  have quiet: "\<not> list_ex (\<lambda>b. b) (snd (fail_run p es (Some d)))"
    if "ci_settings d = ci_settings c" "ci_entries d p = Some e" "ce_blockedUntil e = zero_time"
      "ce_lastFailureAt e = t" "ce_failureCount e \<le> 1"
      "\<forall>(ks', u) \<in> set es. t \<le> u \<and> u < t + cs_collapseInterval (ci_settings c)" for d e es
    using that
  proof (induction es arbitrary: d e)
    case (Cons x es)
    obtain ks' u where x: "x = (ks', u)" by fastforce
    let ?e = "window_entry (ci_settings c) u e"
    have u: "t \<le> u" "u < t + cs_collapseInterval (ci_settings c)" using Cons.prems(6) by (simp_all add: x)
    have e: "ce_blockedUntil ?e = zero_time" "ce_lastFailureAt ?e = t" "ce_failureCount ?e \<le> 1"
      using Cons.prems by (simp_all add: window_entry_def)
    have "collapses (ci_settings c) u ?e"
      using u e(2) assms(4,6) by (auto simp: collapses_def time_sub_def)
    then have "recordFailure ks' p u (Some d) = (Some (d\<lparr>ci_entries := (ci_entries d)(p \<mapsto>
        ?e\<lparr>ce_lastTouched := u\<rparr>)\<rparr>), False, zero_time)"
      using Cons.prems assms(1,2,4) u by (simp add: recordFailure_def Let_def)
    with Cons.IH [of "d\<lparr>ci_entries := (ci_entries d)(p \<mapsto> ?e\<lparr>ce_lastTouched := u\<rparr>)\<rparr>"
        "?e\<lparr>ce_lastTouched := u\<rparr>"] Cons.prems e
    show ?case by (simp add: x snd_fail_run_Cons del: fail_run.simps)
  qed simp
  obtain c' where c': "recordFailure ks p t (Some c) = (Some c', False, zero_time)"
    "ci_settings c' = ci_settings c"
    "ci_entries c' p = Some \<lparr>ce_failureCount = 1, ce_windowStart = t, ce_lastFailureAt = t,
       ce_blockedUntil = zero_time, ce_lastTouched = t\<rparr>"
    using first_failure [OF assms(1-5)] by blast
  with quiet [OF c'(2,3)] assms(7) show ?thesis
    by (simp add: snd_fail_run_Cons [OF c'(1)] del: fail_run.simps)
qed

theorem circuit_burst_counts_once_witness:
  "\<not> list_ex (\<lambda>b. b) (snd (fail_run 7 (([], 1000 * second) # [([7], 1001 * second), ([7], 1002 * second)])
      (Some (newCircuit default_settings))))"
  by (rule circuit_burst_counts_once)
    (simp_all add: newCircuit_def default_settings_def zero_time_def)


subsection \<open>Quarantine\<close>

definition quarantines :: "int \<Rightarrow> go_time \<Rightarrow> circuit \<Rightarrow> bool" where
  "quarantines p until c \<longleftrightarrow> (case ci_entries c p of None \<Rightarrow> False | Some e \<Rightarrow> ce_blockedUntil e = until)"

text \<open>
  What may happen during a quarantine: disconnects of any proxy (a new one only while the table has
  room, so that nothing is evicted), checks of any proxy, successes of the other proxies.
\<close>

inductive during_quarantine :: "int \<Rightarrow> go_time \<Rightarrow> circuit \<Rightarrow> circuit \<Rightarrow> bool" for p until where
  dq_failure: "recordFailure ks q now (Some c) = (Some c', t, u) \<Longrightarrow> now < until \<Longrightarrow>
     int (length ks) < cs_maxEntries (ci_settings c) \<Longrightarrow> during_quarantine p until c c'"
| dq_success: "recordSuccess q (Some c) = (Some c', r) \<Longrightarrow> q \<noteq> p \<Longrightarrow> during_quarantine p until c c'"
| dq_check: "isBlocked q now (Some c) = (Some c', b) \<Longrightarrow> now < until \<Longrightarrow> during_quarantine p until c c'"

lemma during_quarantine_keeps:
  "during_quarantine p until c c' \<Longrightarrow> quarantines p until c \<Longrightarrow>
   quarantines p until c' \<and> ci_settings c' = ci_settings c"
proof (induction rule: during_quarantine.induct)
  case (dq_failure ks q now c c' t u)
  have room: "ensureCapacityLocked ks now c = c" using dq_failure(3) by (simp add: ensureCapacityLocked_def)
  show ?case
  proof (cases "q = p")
    case True
    with dq_failure room show ?thesis
      by (auto simp: recordFailure_def quarantines_def Let_def split: if_splits option.splits)
  next
    case False
    have "ci_entries c' p = ci_entries c p \<and> ci_settings c' = ci_settings c"
      using dq_failure(1) room False
      by (auto simp: recordFailure_def Let_def split: if_splits)
    with dq_failure(4) show ?thesis by (simp add: quarantines_def)
  qed
next
  case (dq_success q c c' r)
  then show ?case by (auto simp: recordSuccess_def quarantines_def split: if_splits)
next
  case (dq_check q now c c' b)
  then show ?case
    by (cases "q = p") (auto simp: isBlocked_def quarantines_def split: if_splits option.splits)
qed

text \<open>A disconnect that trips the circuit quarantines the proxy for exactly the
  configured time: through any disconnects, checks and successes of other proxies that do not force
  an eviction, the proxy is reported blocked at every time before now plus the quarantine time and at no
  time from then on.\<close>

theorem circuit_quarantine:
  assumes "recordFailure ks p now (Some c) = (Some c1, True, until)" "zero_time < until"
    and "(during_quarantine p until)\<^sup>*\<^sup>* c1 c2"
  shows "until = now + cs_quarantineTTL (ci_settings c) \<and> snd (isBlocked p t (Some c2)) = (t < until)"
proof -
  have trip: "0 < p" "\<not> cs_disabled (ci_settings c1)" "until = now + cs_quarantineTTL (ci_settings c)"
    "quarantines p until c1"
    using assms(1) ensureCapacityLocked_frame(1) [of ks now c]
    by (auto simp: recordFailure_def Let_def quarantines_def split: if_splits)
  have "quarantines p until c2 \<and> ci_settings c2 = ci_settings c1"
    using assms(3)
    by (induction rule: rtranclp_induct) (use trip(4) during_quarantine_keeps in \<open>auto\<close>)
  then show ?thesis
    using trip assms(2) by (auto simp: isBlocked_def quarantines_def split: option.splits)
qed

definition two_strikes :: circuit where
  "two_strikes = the (fst (fail_run 7 [([], 1000 * second)] (Some (newCircuit default_settings))))"

theorem circuit_quarantine_witness:
  "snd (isBlocked 7 (1604 * second) (fst (recordFailure [7] 7 (1005 * second) (Some two_strikes)))) \<and>
   \<not> snd (isBlocked 7 (1605 * second) (fst (recordFailure [7] 7 (1005 * second) (Some two_strikes))))"
proof -
  obtain c1 where c1: "recordFailure [7] 7 (1005 * second) (Some two_strikes) = (Some c1, True, 1605 * second)"
    by (simp add: two_strikes_def recordFailure_def newCircuit_def default_settings_def
        ensureCapacityLocked_def window_entry_def collapses_def zero_entry_def zero_time_def time_sub_def
        Let_def)
  show ?thesis
    using circuit_quarantine [OF c1, of c1 "1604 * second"] circuit_quarantine [OF c1, of c1 "1605 * second"] c1
    by (simp add: zero_time_def)
qed

theorem circuit_bounded_witness:
  "int (card (dom (ci_entries two_strikes))) \<le> 4096"
proof -
  obtain c1 u where r: "recordFailure [] 7 (1000 * second) (Some (newCircuit default_settings)) = (Some c1, False, u)"
    by (simp add: recordFailure_def newCircuit_def default_settings_def
        ensureCapacityLocked_def window_entry_def collapses_def zero_entry_def zero_time_def Let_def)
  then have "two_strikes = c1" by (simp add: two_strikes_def)
  moreover have "circuit_step (newCircuit default_settings) c1"
    by (rule step_failure [OF _ r]) (simp add: valid_order_def newCircuit_def)
  ultimately have "circuit_step\<^sup>*\<^sup>* (newCircuit default_settings) two_strikes" by simp
  from circuit_bounded [OF this] show ?thesis by (simp add: default_settings_def)
qed

text \<open>The number of active blocks is the number of proxies that a check would
  report as blocked at that time; in particular it is positive exactly when some proxy is withheld.\<close>

theorem circuit_active_count:
  assumes "circuit_wf c" "valid_order ks c"
  shows "activeBlockCount ks now (Some c) = int (card {p. snd (isBlocked p now (Some c))})"
proof (cases "cs_disabled (ci_settings c)")
  case True
  then show ?thesis by (simp add: activeBlockCount_def isBlocked_def)
next
  case False
  let ?P = "\<lambda>k. case ci_entries c k of None \<Rightarrow> False
    | Some e \<Rightarrow> ce_blockedUntil e \<noteq> zero_time \<and> now < ce_blockedUntil e"
  have "{p. snd (isBlocked p now (Some c))} = set (filter ?P ks)"
    using assms False
    by (auto simp: isBlocked_def valid_order_def circuit_wf_def dom_def split: option.splits if_splits)
  moreover have "distinct (filter ?P ks)" using assms(2) by (simp add: valid_order_def)
  ultimately show ?thesis using False by (simp add: activeBlockCount_def distinct_card del: set_filter)
qed

definition busy_circuit :: circuit where
  "busy_circuit = (newCircuit default_settings)\<lparr>ci_entries :=
     [7 \<mapsto> zero_entry\<lparr>ce_blockedUntil := 1600 * second\<rparr>, 9 \<mapsto> zero_entry\<lparr>ce_failureCount := 1\<rparr>]\<rparr>"

theorem circuit_active_count_witness:
  "int (card {p. snd (isBlocked p (1000 * second) (Some busy_circuit))}) = 1"
proof -
  have "circuit_wf busy_circuit" "valid_order [7, 9] busy_circuit"
    by (auto simp: circuit_wf_def valid_order_def busy_circuit_def newCircuit_def default_settings_def)
  moreover have "activeBlockCount [7, 9] (1000 * second) (Some busy_circuit) = 1"
    by (simp add: activeBlockCount_def busy_circuit_def newCircuit_def default_settings_def zero_entry_def
        zero_time_def)
  ultimately show ?thesis using circuit_active_count [of busy_circuit "[7, 9]" "1000 * second"] by simp
qed

end
