(* ===== verification/Idempotency_Repo.thy ===== *)
theory Idempotency_Repo
  imports Prelude
begin

section \<open>The idempotency records: repository/idempotency_repo.go\<close>

text \<open>
  The PostgreSQL table \<open>idempotency_records\<close> (migration 057: unique index on scope and key hash)
  and the statements of the repository, each one atomic. The table is a list of rows in storage
  order with the sequence behind the \<open>BIGSERIAL\<close> column, which an INSERT advances even when it
  conflicts. A call can also fail: before the statement took effect, or after it (the reply is
  lost); which of these happens is an argument. \<open>sqlnow\<close> is the database's \<open>NOW()\<close>.

  The Go interface \<open>IdempotencyRepository\<close> is a record of functions on the state of the store, and
  the locale \<open>idempotency_repository\<close> states what the coordinator relies on.
\<close>

record IdempotencyRecord =
  ir_ID :: int
  ir_Scope :: string
  ir_KeyHash :: string
  ir_Fingerprint :: string
  ir_Status :: string
  ir_ResponseStatus :: "int option"
  ir_ResponseBody :: "string option"
  ir_ErrorReason :: "string option"
  ir_LockedUntil :: "go_time option"
  ir_ExpiresAt :: go_time
  ir_CreatedAt :: go_time
  ir_UpdatedAt :: go_time

definition status_processing :: string where "status_processing = ''processing''"
definition status_succeeded :: string where "status_succeeded = ''succeeded''"
definition status_failed_retryable :: string where "status_failed_retryable = ''failed_retryable''"

lemmas idem_status = status_processing_def status_succeeded_def status_failed_retryable_def

record idem_table =
  it_rows :: "IdempotencyRecord list"
  it_seq :: int

definition is_key :: "string \<Rightarrow> string \<Rightarrow> IdempotencyRecord \<Rightarrow> bool" where
  "is_key scope hash r \<longleftrightarrow> ir_Scope r = scope \<and> ir_KeyHash r = hash"

text \<open>
  \<open>INSERT ... ON CONFLICT DO NOTHING RETURNING\<close>: the assigned identifier, or \<open>None\<close> when no row is
  returned.
\<close>

definition insert_processing :: "string \<Rightarrow> string \<Rightarrow> string \<Rightarrow> string \<Rightarrow> go_time option \<Rightarrow> go_time \<Rightarrow>
    go_time \<Rightarrow> idem_table \<Rightarrow> idem_table \<times> int option" where
  "insert_processing scope hash fp status locked expires sqlnow t =
     (if list_ex (is_key scope hash) (it_rows t) then (t\<lparr>it_seq := it_seq t + 1\<rparr>, None)
      else (t\<lparr>it_seq := it_seq t + 1,
              it_rows := it_rows t @
                [\<lparr>ir_ID = it_seq t, ir_Scope = scope, ir_KeyHash = hash, ir_Fingerprint = fp,
                  ir_Status = status, ir_ResponseStatus = None, ir_ResponseBody = None,
                  ir_ErrorReason = None, ir_LockedUntil = locked, ir_ExpiresAt = expires,
                  ir_CreatedAt = sqlnow, ir_UpdatedAt = sqlnow\<rparr>]\<rparr>,
            Some (it_seq t)))"

definition select_by_key :: "string \<Rightarrow> string \<Rightarrow> idem_table \<Rightarrow> idem_table \<times> IdempotencyRecord option" where
  "select_by_key scope hash t = (t, find (is_key scope hash) (it_rows t))"

text \<open>\<open>UPDATE ... WHERE\<close>, with the number of rows affected.\<close>

definition update_where :: "(IdempotencyRecord \<Rightarrow> bool) \<Rightarrow> (IdempotencyRecord \<Rightarrow> IdempotencyRecord) \<Rightarrow>
    idem_table \<Rightarrow> idem_table \<times> nat" where
  "update_where P f t =
     (t\<lparr>it_rows := map (\<lambda>r. if P r then f r else r) (it_rows t)\<rparr>, length (filter P (it_rows t)))"

definition reclaimable :: "int \<Rightarrow> string \<Rightarrow> go_time \<Rightarrow> IdempotencyRecord \<Rightarrow> bool" where
  "reclaimable rid fromStatus now r \<longleftrightarrow> ir_ID r = rid \<and> ir_Status r = fromStatus \<and>
     (case ir_LockedUntil r of None \<Rightarrow> True | Some l \<Rightarrow> l \<le> now)"

definition update_reclaim :: "int \<Rightarrow> string \<Rightarrow> go_time \<Rightarrow> go_time \<Rightarrow> go_time \<Rightarrow> go_time \<Rightarrow>
    idem_table \<Rightarrow> idem_table \<times> bool" where
  "update_reclaim rid fromStatus now newLocked newExpires sqlnow t =
     (case update_where (reclaimable rid fromStatus now)
             (\<lambda>r. r\<lparr>ir_Status := status_processing, ir_LockedUntil := Some newLocked,
                   ir_ErrorReason := None, ir_UpdatedAt := sqlnow, ir_ExpiresAt := newExpires\<rparr>) t
      of (t', n) \<Rightarrow> (t', n > 0))"

definition update_extend :: "int \<Rightarrow> string \<Rightarrow> go_time \<Rightarrow> go_time \<Rightarrow> go_time \<Rightarrow>
    idem_table \<Rightarrow> idem_table \<times> bool" where
  "update_extend rid fp newLocked newExpires sqlnow t =
     (case update_where (\<lambda>r. ir_ID r = rid \<and> ir_Status r = status_processing \<and> ir_Fingerprint r = fp)
             (\<lambda>r. r\<lparr>ir_LockedUntil := Some newLocked, ir_ExpiresAt := newExpires, ir_UpdatedAt := sqlnow\<rparr>) t
      of (t', n) \<Rightarrow> (t', n > 0))"

definition update_succeeded :: "int \<Rightarrow> int \<Rightarrow> string \<Rightarrow> go_time \<Rightarrow> go_time \<Rightarrow> idem_table \<Rightarrow> idem_table \<times> unit" where
  "update_succeeded rid responseStatus responseBody expires sqlnow t =
     (fst (update_where (\<lambda>r. ir_ID r = rid)
        (\<lambda>r. r\<lparr>ir_Status := status_succeeded, ir_ResponseStatus := Some responseStatus,
              ir_ResponseBody := Some responseBody, ir_ErrorReason := None, ir_LockedUntil := None,
              ir_ExpiresAt := expires, ir_UpdatedAt := sqlnow\<rparr>) t), ())"

definition update_failed :: "int \<Rightarrow> string \<Rightarrow> go_time \<Rightarrow> go_time \<Rightarrow> go_time \<Rightarrow> idem_table \<Rightarrow> idem_table \<times> unit" where
  "update_failed rid reason locked expires sqlnow t =
     (fst (update_where (\<lambda>r. ir_ID r = rid)
        (\<lambda>r. r\<lparr>ir_Status := status_failed_retryable, ir_ErrorReason := Some reason,
              ir_LockedUntil := Some locked, ir_ExpiresAt := expires, ir_UpdatedAt := sqlnow\<rparr>) t), ())"

text \<open>\<open>DeleteExpired\<close>: the victims are the first \<open>limit\<close> expired rows in the order of expiry.\<close>

definition delete_expired :: "go_time \<Rightarrow> int \<Rightarrow> idem_table \<Rightarrow> idem_table \<times> int" where
  "delete_expired now limit t =
     (let n = nat (if limit \<le> 0 then 500 else limit);
          victims = map ir_ID (take n (sort_key ir_ExpiresAt (filter (\<lambda>r. ir_ExpiresAt r \<le> now) (it_rows t))));
          rest = filter (\<lambda>r. ir_ID r \<notin> set victims) (it_rows t)
      in (t\<lparr>it_rows := rest\<rparr>, int (length (it_rows t)) - int (length rest)))"

subsection \<open>The interface\<close>

text \<open>The interface \<open>IdempotencyRepository\<close> of the service package, as the coordinator calls it.\<close>

record 's idem_repo =
  CreateProcessing :: "db_fault \<Rightarrow> go_time \<Rightarrow> string \<Rightarrow> string \<Rightarrow> string \<Rightarrow> go_time \<Rightarrow> go_time \<Rightarrow> 's \<Rightarrow>
    's \<times> int option option"
  GetByScopeAndKeyHash :: "db_fault \<Rightarrow> string \<Rightarrow> string \<Rightarrow> 's \<Rightarrow> 's \<times> IdempotencyRecord option option"
  TryReclaim :: "db_fault \<Rightarrow> go_time \<Rightarrow> int \<Rightarrow> string \<Rightarrow> go_time \<Rightarrow> go_time \<Rightarrow> go_time \<Rightarrow> 's \<Rightarrow> 's \<times> bool option"
  ExtendProcessingLock :: "db_fault \<Rightarrow> go_time \<Rightarrow> int \<Rightarrow> string \<Rightarrow> go_time \<Rightarrow> go_time \<Rightarrow> 's \<Rightarrow> 's \<times> bool option"
  MarkSucceeded :: "db_fault \<Rightarrow> go_time \<Rightarrow> int \<Rightarrow> int \<Rightarrow> string \<Rightarrow> go_time \<Rightarrow> 's \<Rightarrow> 's \<times> unit option"
  MarkFailedRetryable :: "db_fault \<Rightarrow> go_time \<Rightarrow> int \<Rightarrow> string \<Rightarrow> go_time \<Rightarrow> go_time \<Rightarrow> 's \<Rightarrow> 's \<times> unit option"
  DeleteExpired :: "db_fault \<Rightarrow> go_time \<Rightarrow> int \<Rightarrow> 's \<Rightarrow> 's \<times> int option"

definition sql_repo :: "idem_table idem_repo" where
  "sql_repo =
     \<lparr>CreateProcessing = (\<lambda>fault sqlnow scope hash fp locked expires.
        run_sql fault (insert_processing scope hash fp status_processing (Some locked) expires sqlnow)),
      GetByScopeAndKeyHash = (\<lambda>fault scope hash. run_sql fault (select_by_key scope hash)),
      TryReclaim = (\<lambda>fault sqlnow rid fromStatus now locked expires.
        run_sql fault (update_reclaim rid fromStatus now locked expires sqlnow)),
      ExtendProcessingLock = (\<lambda>fault sqlnow rid fp locked expires.
        run_sql fault (update_extend rid fp locked expires sqlnow)),
      MarkSucceeded = (\<lambda>fault sqlnow rid code body expires.
        run_sql fault (update_succeeded rid code body expires sqlnow)),
      MarkFailedRetryable = (\<lambda>fault sqlnow rid reason locked expires.
        run_sql fault (update_failed rid reason locked expires sqlnow)),
      DeleteExpired = (\<lambda>fault now limit. run_sql fault (delete_expired now limit))\<rparr>"

subsection \<open>What a client of the interface relies on\<close>

definition new_record :: "int \<Rightarrow> go_time \<Rightarrow> string \<Rightarrow> string \<Rightarrow> string \<Rightarrow> go_time \<Rightarrow> go_time \<Rightarrow> IdempotencyRecord" where
  "new_record rid sqlnow scope hash fp locked expires =
     \<lparr>ir_ID = rid, ir_Scope = scope, ir_KeyHash = hash, ir_Fingerprint = fp,
      ir_Status = status_processing, ir_ResponseStatus = None, ir_ResponseBody = None,
      ir_ErrorReason = None, ir_LockedUntil = Some locked, ir_ExpiresAt = expires,
      ir_CreatedAt = sqlnow, ir_UpdatedAt = sqlnow\<rparr>"

text \<open>
  The store is seen as a map from keys to records. A statement takes effect or not; without a fault
  it takes effect and its result is returned.
\<close>

locale idempotency_repository =
  fixes R :: "'s idem_repo"
    and inv :: "'s \<Rightarrow> bool"
    and rec :: "'s \<Rightarrow> string \<times> string \<Rightarrow> IdempotencyRecord option"
  assumes id_nonzero: "inv s \<Longrightarrow> rec s k = Some r \<Longrightarrow> ir_ID r \<noteq> 0"
    and create_taken: "inv s \<Longrightarrow> rec s (scope, hash) = Some r \<Longrightarrow>
      CreateProcessing R fault sqlnow scope hash fp locked expires s = (s', created) \<Longrightarrow>
      inv s' \<and> rec s' = rec s \<and> (created = None \<or> created = Some None) \<and> (fault = Db_Ok \<longrightarrow> created \<noteq> None)"
    and create_new: "inv s \<Longrightarrow> rec s (scope, hash) = None \<Longrightarrow>
      CreateProcessing R fault sqlnow scope hash fp locked expires s = (s', created) \<Longrightarrow>
      inv s' \<and> (fault = Db_Ok \<longrightarrow> created \<noteq> None) \<and>
      (rec s' = rec s \<and> created = None \<or>
       (\<exists>i. rec s' = (rec s)((scope, hash) \<mapsto> new_record i sqlnow scope hash fp locked expires) \<and>
            (created = None \<or> created = Some (Some i))))"
    and get_law: "inv s \<Longrightarrow> GetByScopeAndKeyHash R fault scope hash s = (s', found) \<Longrightarrow>
      inv s' \<and> rec s' = rec s \<and> (found = None \<or> found = Some (rec s (scope, hash))) \<and>
      (fault = Db_Ok \<longrightarrow> found \<noteq> None)"
    and reclaim_law: "inv s \<Longrightarrow> rec s k = Some r \<Longrightarrow>
      TryReclaim R fault sqlnow (ir_ID r) from now locked expires s = (s', taken) \<Longrightarrow>
      inv s' \<and> (fault = Db_Ok \<longrightarrow> taken \<noteq> None) \<and>
      (if reclaimable (ir_ID r) from now r
       then rec s' = rec s \<and> taken = None \<or>
            rec s' = (rec s)(k \<mapsto> r\<lparr>ir_Status := status_processing, ir_LockedUntil := Some locked,
              ir_ErrorReason := None, ir_UpdatedAt := sqlnow, ir_ExpiresAt := expires\<rparr>) \<and>
            (taken = None \<or> taken = Some True)
       else rec s' = rec s \<and> (taken = None \<or> taken = Some False))"
    and succeed_law: "inv s \<Longrightarrow> rec s k = Some r \<Longrightarrow>
      MarkSucceeded R fault sqlnow (ir_ID r) code body expires s = (s', ok1) \<Longrightarrow>
      inv s' \<and> (fault = Db_Ok \<longrightarrow> ok1 \<noteq> None) \<and>
      (rec s' = rec s \<and> ok1 = None \<or>
       rec s' = (rec s)(k \<mapsto> r\<lparr>ir_Status := status_succeeded, ir_ResponseStatus := Some code,
         ir_ResponseBody := Some body, ir_ErrorReason := None, ir_LockedUntil := None,
         ir_ExpiresAt := expires, ir_UpdatedAt := sqlnow\<rparr>))"
    and fail_law: "inv s \<Longrightarrow> rec s k = Some r \<Longrightarrow>
      MarkFailedRetryable R fault sqlnow (ir_ID r) reason locked expires s = (s', ok2) \<Longrightarrow>
      inv s' \<and> (fault = Db_Ok \<longrightarrow> ok2 \<noteq> None) \<and>
      (rec s' = rec s \<and> ok2 = None \<or>
       rec s' = (rec s)(k \<mapsto> r\<lparr>ir_Status := status_failed_retryable, ir_ErrorReason := Some reason,
         ir_LockedUntil := Some locked, ir_ExpiresAt := expires, ir_UpdatedAt := sqlnow\<rparr>))"

subsection \<open>The SQL implementation\<close>

definition table_wf :: "idem_table \<Rightarrow> bool" where
  "table_wf t \<longleftrightarrow> 0 < it_seq t \<and> distinct (map ir_ID (it_rows t)) \<and>
     distinct (map (\<lambda>r. (ir_Scope r, ir_KeyHash r)) (it_rows t)) \<and>
     (\<forall>r \<in> set (it_rows t). 0 < ir_ID r \<and> ir_ID r < it_seq t)"

definition table_rec :: "idem_table \<Rightarrow> string \<times> string \<Rightarrow> IdempotencyRecord option" where
  "table_rec t k = find (is_key (fst k) (snd k)) (it_rows t)"

lemma find_is_key_Some:
  "find (is_key sc h) rs = Some r \<Longrightarrow> r \<in> set rs \<and> ir_Scope r = sc \<and> ir_KeyHash r = h"
  by (induction rs) (auto simp: is_key_def split: if_splits)

lemma find_is_key_None: "find (is_key sc h) rs = None \<longleftrightarrow> \<not> list_ex (is_key sc h) rs"
  by (induction rs) auto

lemma table_rec_in: "table_rec t k = Some r \<Longrightarrow> r \<in> set (it_rows t) \<and> k = (ir_Scope r, ir_KeyHash r)"
  by (cases k) (auto simp: table_rec_def dest: find_is_key_Some)

text \<open>An update of the row with a given identifier changes exactly the record of its key.\<close>

lemma find_update_same:
  assumes "\<And>r. f r = r \<or> is_key sc h (f r) = is_key sc h r"
  shows "find (is_key sc h) (map (\<lambda>r. if P r then f r else r) rs) =
    map_option (\<lambda>r. if P r then f r else r) (find (is_key sc h) rs)"
  using assms by (induction rs) (auto, metis+)

lemma update_where_rec:
  assumes "table_wf t" "table_rec t k = Some r" "\<And>x. P x \<Longrightarrow> ir_ID x = ir_ID r"
    and f: "\<And>x. ir_ID (f x) = ir_ID x \<and> ir_Scope (f x) = ir_Scope x \<and> ir_KeyHash (f x) = ir_KeyHash x"
  shows "table_wf (fst (update_where P f t)) \<and>
    table_rec (fst (update_where P f t)) = (if P r then (table_rec t)(k \<mapsto> f r) else table_rec t) \<and>
    (snd (update_where P f t) > 0) = P r"
proof -
  have r: "r \<in> set (it_rows t)" "k = (ir_Scope r, ir_KeyHash r)" using table_rec_in [OF assms(2)] by auto
  have only: "x = r" if "x \<in> set (it_rows t)" "P x" for x
    using assms(1) that r(1) assms(3) by (auto simp: table_wf_def distinct_map inj_on_def)
  have "table_wf (fst (update_where P f t))"
  proof -
    have "ir_ID \<circ> (\<lambda>r. if P r then f r else r) = ir_ID"
      "(\<lambda>r. (ir_Scope r, ir_KeyHash r)) \<circ> (\<lambda>r. if P r then f r else r) = (\<lambda>r. (ir_Scope r, ir_KeyHash r))"
      using f by (simp_all add: fun_eq_iff)
    then show ?thesis using assms(1) f by (auto simp: table_wf_def update_where_def)
  qed
  moreover have "table_rec (fst (update_where P f t)) j =
      (if P r then (table_rec t)(k \<mapsto> f r) else table_rec t) j" for j
  proof -
    have "table_rec (fst (update_where P f t)) j = map_option (\<lambda>x. if P x then f x else x) (table_rec t j)"
      unfolding table_rec_def update_where_def using f
      by (simp add: find_update_same is_key_def)
    moreover have "map_option (\<lambda>x. if P x then f x else x) (table_rec t j) = table_rec t j"
      if "j \<noteq> k \<or> \<not> P r"
    proof (cases "table_rec t j")
      case (Some x)
      then have "\<not> P x" using table_rec_in [of t j x] only r(2) that by auto
      with Some show ?thesis by simp
    qed simp
    ultimately show ?thesis using assms(2) by auto
  qed
  moreover have "(snd (update_where P f t) > 0) = P r"
    using r(1) only by (auto simp: update_where_def filter_empty_conv)
  ultimately show ?thesis by blast
qed

lemma run_sql_cases:
  assumes "run_sql fault stmt s = (s', res)"
  shows "(s' = s \<and> res = None \<and> fault \<noteq> Db_Ok) \<or>
    (s' = fst (stmt s) \<and> (res = None \<and> fault \<noteq> Db_Ok \<or> res = Some (snd (stmt s))))"
  using assms by (cases fault) (auto simp: run_sql_def split: prod.splits)

lemma insert_rec:
  assumes "table_wf t"
  shows "table_wf (fst (insert_processing sc h fp status_processing (Some l) e sqlnow t)) \<and>
    (table_rec t (sc, h) \<noteq> None \<longrightarrow>
       table_rec (fst (insert_processing sc h fp status_processing (Some l) e sqlnow t)) = table_rec t \<and>
       snd (insert_processing sc h fp status_processing (Some l) e sqlnow t) = None) \<and>
    (table_rec t (sc, h) = None \<longrightarrow>
       table_rec (fst (insert_processing sc h fp status_processing (Some l) e sqlnow t)) =
         (table_rec t)((sc, h) \<mapsto> new_record (it_seq t) sqlnow sc h fp l e) \<and>
       snd (insert_processing sc h fp status_processing (Some l) e sqlnow t) = Some (it_seq t))"
proof (cases "list_ex (is_key sc h) (it_rows t)")
  case True
  then have "table_rec t (sc, h) \<noteq> None" by (simp add: table_rec_def find_is_key_None)
  with True assms show ?thesis
    by (auto simp: insert_processing_def table_wf_def table_rec_def fun_eq_iff)
next
  case False
  have find_app: "find P (xs @ [x]) = (case find P xs of None \<Rightarrow> if P x then Some x else None | Some y \<Rightarrow> Some y)"
    for P xs and x :: IdempotencyRecord
    by (induction xs) auto
  have none: "table_rec t (sc, h) = None" using False by (simp add: table_rec_def find_is_key_None)
  have "table_rec (fst (insert_processing sc h fp status_processing (Some l) e sqlnow t)) j =
      ((table_rec t)((sc, h) \<mapsto> new_record (it_seq t) sqlnow sc h fp l e)) j" for j
    using none False
    by (cases j) (auto simp: insert_processing_def table_rec_def find_app is_key_def new_record_def
        split: option.split)
  moreover have "(sc, h) \<notin> (\<lambda>r. (ir_Scope r, ir_KeyHash r)) ` set (it_rows t)"
    using False by (auto simp: list_ex_iff is_key_def)
  ultimately show ?thesis
    using assms none False by (auto simp: insert_processing_def table_wf_def fun_eq_iff)
qed

lemma sql_reclaim:
  assumes "table_wf t" "table_rec t k = Some r"
  shows "let t' = fst (update_reclaim (ir_ID r) from now l e sqlnow t) in table_wf t' \<and>
    table_rec t' = (if reclaimable (ir_ID r) from now r
      then (table_rec t)(k \<mapsto> r\<lparr>ir_Status := status_processing, ir_LockedUntil := Some l,
        ir_ErrorReason := None, ir_UpdatedAt := sqlnow, ir_ExpiresAt := e\<rparr>) else table_rec t) \<and>
    snd (update_reclaim (ir_ID r) from now l e sqlnow t) = reclaimable (ir_ID r) from now r"
proof -
  have side: "reclaimable (ir_ID r) from now x \<Longrightarrow> ir_ID x = ir_ID r" for x
    by (simp add: reclaimable_def)
  show ?thesis
    using update_where_rec [OF assms side, where f = "\<lambda>r. r\<lparr>ir_Status := status_processing, ir_LockedUntil := Some l,
        ir_ErrorReason := None, ir_UpdatedAt := sqlnow, ir_ExpiresAt := e\<rparr>"]
    by (auto simp: update_reclaim_def Let_def case_prod_beta)
qed

lemma sql_succeeded:
  assumes "table_wf t" "table_rec t k = Some r"
  shows "let t' = fst (update_succeeded (ir_ID r) code body e sqlnow t) in table_wf t' \<and>
    table_rec t' = (table_rec t)(k \<mapsto> r\<lparr>ir_Status := status_succeeded, ir_ResponseStatus := Some code,
      ir_ResponseBody := Some body, ir_ErrorReason := None, ir_LockedUntil := None,
      ir_ExpiresAt := e, ir_UpdatedAt := sqlnow\<rparr>)"
  using update_where_rec [OF assms, of "\<lambda>x. ir_ID x = ir_ID r"
      "\<lambda>r. r\<lparr>ir_Status := status_succeeded, ir_ResponseStatus := Some code,
      ir_ResponseBody := Some body, ir_ErrorReason := None, ir_LockedUntil := None,
      ir_ExpiresAt := e, ir_UpdatedAt := sqlnow\<rparr>"]
  by (simp add: update_succeeded_def Let_def)

lemma sql_failed:
  assumes "table_wf t" "table_rec t k = Some r"
  shows "let t' = fst (update_failed (ir_ID r) reason l e sqlnow t) in table_wf t' \<and>
    table_rec t' = (table_rec t)(k \<mapsto> r\<lparr>ir_Status := status_failed_retryable,
      ir_ErrorReason := Some reason, ir_LockedUntil := Some l, ir_ExpiresAt := e, ir_UpdatedAt := sqlnow\<rparr>)"
  using update_where_rec [OF assms, of "\<lambda>x. ir_ID x = ir_ID r"
      "\<lambda>r. r\<lparr>ir_Status := status_failed_retryable,
      ir_ErrorReason := Some reason, ir_LockedUntil := Some l, ir_ExpiresAt := e, ir_UpdatedAt := sqlnow\<rparr>"]
  by (simp add: update_failed_def Let_def)

interpretation sql_idem: idempotency_repository sql_repo table_wf table_rec
proof
  fix s k r assume "table_wf s" "table_rec s k = Some r"
  then show "ir_ID r \<noteq> 0" using table_rec_in [of s k r] by (auto simp: table_wf_def)
next
  fix s s' scope hash r fault sqlnow fp locked expires res
  assume wf: "table_wf s" and "table_rec s (scope, hash) = Some r"
    and "CreateProcessing sql_repo fault sqlnow scope hash fp locked expires s = (s', res)"
  then show "table_wf s' \<and> table_rec s' = table_rec s \<and> (res = None \<or> res = Some None) \<and>
      (fault = Db_Ok \<longrightarrow> res \<noteq> None)"
    using insert_rec [OF wf, of scope hash fp locked expires sqlnow]
    by (auto simp: sql_repo_def dest!: run_sql_cases)
next
  fix s s' scope hash fault sqlnow fp locked expires res
  assume wf: "table_wf s" and "table_rec s (scope, hash) = None"
    and "CreateProcessing sql_repo fault sqlnow scope hash fp locked expires s = (s', res)"
  then show "table_wf s' \<and> (fault = Db_Ok \<longrightarrow> res \<noteq> None) \<and>
      (table_rec s' = table_rec s \<and> res = None \<or>
       (\<exists>i. table_rec s' = (table_rec s)((scope, hash) \<mapsto> new_record i sqlnow scope hash fp locked expires) \<and>
            (res = None \<or> res = Some (Some i))))"
    using insert_rec [OF wf, of scope hash fp locked expires sqlnow]
    by (auto simp: sql_repo_def dest!: run_sql_cases)
next
  fix s s' fault scope hash res
  assume "table_wf s" "GetByScopeAndKeyHash sql_repo fault scope hash s = (s', res)"
  then show "table_wf s' \<and> table_rec s' = table_rec s \<and>
      (res = None \<or> res = Some (table_rec s (scope, hash))) \<and> (fault = Db_Ok \<longrightarrow> res \<noteq> None)"
    by (auto simp: sql_repo_def select_by_key_def table_rec_def dest!: run_sql_cases)
next
  fix s s' k r fault sqlnow "from" now locked expires res
  assume wf: "table_wf s" "table_rec s k = Some r"
    and "TryReclaim sql_repo fault sqlnow (ir_ID r) from now locked expires s = (s', res)"
  then show "table_wf s' \<and> (fault = Db_Ok \<longrightarrow> res \<noteq> None) \<and>
      (if reclaimable (ir_ID r) from now r
       then table_rec s' = table_rec s \<and> res = None \<or>
            table_rec s' = (table_rec s)(k \<mapsto> r\<lparr>ir_Status := status_processing, ir_LockedUntil := Some locked,
              ir_ErrorReason := None, ir_UpdatedAt := sqlnow, ir_ExpiresAt := expires\<rparr>) \<and>
            (res = None \<or> res = Some True)
       else table_rec s' = table_rec s \<and> (res = None \<or> res = Some False))"
    using sql_reclaim [OF wf, of "from" now locked expires sqlnow]
    by (auto simp: sql_repo_def Let_def dest!: run_sql_cases)
next
  fix s s' k r fault sqlnow code body expires res
  assume wf: "table_wf s" "table_rec s k = Some r"
    and "MarkSucceeded sql_repo fault sqlnow (ir_ID r) code body expires s = (s', res)"
  then show "table_wf s' \<and> (fault = Db_Ok \<longrightarrow> res \<noteq> None) \<and>
      (table_rec s' = table_rec s \<and> res = None \<or>
       table_rec s' = (table_rec s)(k \<mapsto> r\<lparr>ir_Status := status_succeeded, ir_ResponseStatus := Some code,
         ir_ResponseBody := Some body, ir_ErrorReason := None, ir_LockedUntil := None,
         ir_ExpiresAt := expires, ir_UpdatedAt := sqlnow\<rparr>))"
    using sql_succeeded [OF wf, of code body expires sqlnow]
    by (auto simp: sql_repo_def Let_def dest!: run_sql_cases)
next
  fix s s' k r fault sqlnow reason locked expires res
  assume wf: "table_wf s" "table_rec s k = Some r"
    and "MarkFailedRetryable sql_repo fault sqlnow (ir_ID r) reason locked expires s = (s', res)"
  then show "table_wf s' \<and> (fault = Db_Ok \<longrightarrow> res \<noteq> None) \<and>
      (table_rec s' = table_rec s \<and> res = None \<or>
       table_rec s' = (table_rec s)(k \<mapsto> r\<lparr>ir_Status := status_failed_retryable, ir_ErrorReason := Some reason,
         ir_LockedUntil := Some locked, ir_ExpiresAt := expires, ir_UpdatedAt := sqlnow\<rparr>))"
    using sql_failed [OF wf, of reason locked expires sqlnow]
    by (auto simp: sql_repo_def Let_def dest!: run_sql_cases)
qed


subsection \<open>Cleanup\<close>

lemma sorted_take_le:
  "sorted_wrt R xs \<Longrightarrow> x \<in> set (take n xs) \<Longrightarrow> y \<in> set (drop n xs) \<Longrightarrow> R x y"
  by (metis append_take_drop_id sorted_wrt_append)

text \<open>The cleanup removes only expired records, never more than the limit
  (500 by default) and never one that expires after an expired record it keeps; the table stays
  well formed and the count it reports is the number of records removed.\<close>

theorem idem_delete_expired:
  fixes t :: idem_table and limit :: int and now :: go_time
  assumes "table_wf t"
  defines "lim \<equiv> if limit \<le> 0 then 500 else limit"
    and "gone \<equiv> set (it_rows t) - set (it_rows (fst (delete_expired now limit t)))"
  shows "table_wf (fst (delete_expired now limit t)) \<and>
    set (it_rows (fst (delete_expired now limit t))) \<subseteq> set (it_rows t) \<and>
    snd (delete_expired now limit t) = int (card gone) \<and> int (card gone) \<le> lim \<and>
    (\<forall>r \<in> gone. ir_ExpiresAt r \<le> now) \<and>
    (\<forall>r \<in> gone. \<forall>k \<in> set (it_rows (fst (delete_expired now limit t))).
       ir_ExpiresAt k \<le> now \<longrightarrow> ir_ExpiresAt r \<le> ir_ExpiresAt k)"
proof -
  let ?rows = "it_rows t" and ?exp = "filter (\<lambda>r. ir_ExpiresAt r \<le> now) (it_rows t)"
  let ?s = "sort_key ir_ExpiresAt ?exp"
  let ?v = "take (nat lim) ?s"
  let ?rest = "filter (\<lambda>r. ir_ID r \<notin> set (map ir_ID ?v)) ?rows"
  have inj: "inj_on ir_ID (set ?rows)" "distinct ?rows"
    using assms(1) by (auto simp: table_wf_def distinct_map)
  have sub: "set ?v \<subseteq> set ?rows" using set_take_subset [of "nat lim" ?s] by auto
  have rest: "set ?rest = set ?rows - set ?v"
    using inj(1) sub by (auto dest: inj_onD)
  have res: "fst (delete_expired now limit t) = t\<lparr>it_rows := ?rest\<rparr>"
    "snd (delete_expired now limit t) = int (length ?rows) - int (length ?rest)"
    by (simp_all add: delete_expired_def lim_def Let_def)
  have gone: "gone = set ?v" using rest sub by (auto simp: gone_def res(1) simp del: set_filter)
  have dv: "distinct ?v" using inj(2) by simp
  have "card gone = length ?v" using gone dv distinct_card by metis
  then have lim: "int (card gone) \<le> lim" by (auto simp: lim_def)
  have "length ?rest = card (set ?rows - set ?v)"
    using inj(2) rest by (metis distinct_card distinct_filter)
  moreover have "card (set ?rows - set ?v) = card (set ?rows) - card (set ?v)"
    using sub by (intro card_Diff_subset) simp_all
  moreover have "card (set ?v) \<le> card (set ?rows)" using sub by (intro card_mono) simp_all
  ultimately have count: "int (length ?rows) - int (length ?rest) = int (card gone)"
    using gone inj(2) by (simp add: distinct_card)
  have expired: "\<forall>r \<in> gone. ir_ExpiresAt r \<le> now"
    unfolding gone using set_take_subset [of "nat lim" ?s] by auto
  have "sorted_wrt (\<lambda>x y. ir_ExpiresAt x \<le> ir_ExpiresAt y) ?s"
    using sorted_sort_key [of ir_ExpiresAt ?exp] by (simp add: sorted_map)
  then have order: "ir_ExpiresAt r \<le> ir_ExpiresAt k"
    if "r \<in> gone" "k \<in> set ?rest" "ir_ExpiresAt k \<le> now" for r k
  proof -
    have "k \<in> set ?s" "k \<notin> set ?v" using that rest by auto
    then have "k \<in> set (drop (nat lim) ?s)" by (metis UnE append_take_drop_id set_append)
    with that(1) show ?thesis using sorted_take_le [OF \<open>sorted_wrt _ ?s\<close>] gone by simp
  qed
  have "table_wf (t\<lparr>it_rows := ?rest\<rparr>)"
    using assms(1) by (auto simp: table_wf_def intro: distinct_map_filter)
  then show ?thesis using res rest count lim expired order by (auto simp del: set_filter)
qed

definition sample_row :: "int \<Rightarrow> string \<Rightarrow> go_time \<Rightarrow> IdempotencyRecord" where
  "sample_row rid hash expires = (new_record rid 0 ''s'' hash ''fp'' 0 expires)"

theorem idem_delete_expired_witness:
  "snd (delete_expired 10 1 \<lparr>it_rows = [sample_row 1 ''a'' 9, sample_row 2 ''b'' 5, sample_row 3 ''c'' 20], it_seq = 4\<rparr>) = 1"
proof -
  let ?t = "\<lparr>it_rows = [sample_row 1 ''a'' 9, sample_row 2 ''b'' 5, sample_row 3 ''c'' 20], it_seq = 4\<rparr>"
  have "table_wf ?t" by (simp add: table_wf_def sample_row_def new_record_def)
  from idem_delete_expired [OF this, of 10 1]
  have "snd (delete_expired 10 1 ?t) = int (card (set (it_rows ?t) - set (it_rows (fst (delete_expired 10 1 ?t)))))"
    by simp
  then show ?thesis
    by (simp add: delete_expired_def sample_row_def new_record_def Let_def)
qed

end
