(* ===== verification/Idempotency.thy ===== *)
theory Idempotency
  imports Idempotency_Repo
begin

section \<open>The idempotency coordinator: service/idempotency.go\<close>

text \<open>
  \<open>IdempotencyCoordinator.Execute\<close> makes a write request take effect once per client key: it claims
  a record, runs the operation, stores the answer and replays it. \<open>Execute\<close> is cut at its calls of
  the repository and of the operation into the steps \<open>exec_step\<close> of a machine whose program counter
  \<open>exec_pc\<close> says what is called next, so that several requests can be interleaved; \<open>exec_run\<close> is the
  machine run alone. Metrics and audit logging are left out.

  SHA-256, JSON and the redaction of secrets (\<open>logredact.RedactText\<close>) are arguments.
\<close>

subsection \<open>Configuration and errors\<close>

record IdempotencyConfig =
  ic_DefaultTTL :: go_duration
  ic_SystemOperationTTL :: go_duration
  ic_ProcessingTimeout :: go_duration
  ic_FailedRetryBackoff :: go_duration
  ic_MaxStoredResponseLen :: int
  ic_ObserveOnly :: bool

definition DefaultIdempotencyConfig :: IdempotencyConfig where
  "DefaultIdempotencyConfig = \<lparr>ic_DefaultTTL = 24 * hour, ic_SystemOperationTTL = hour,
     ic_ProcessingTimeout = 30 * second, ic_FailedRetryBackoff = 5 * second,
     ic_MaxStoredResponseLen = 64 * 1024, ic_ObserveOnly = True\<rparr>"

definition DefaultWriteIdempotencyTTL :: "IdempotencyConfig option \<Rightarrow> go_duration" where
  "DefaultWriteIdempotencyTTL coordinator =
     (case coordinator of
        None \<Rightarrow> ic_DefaultTTL DefaultIdempotencyConfig
      | Some cfg \<Rightarrow> if ic_DefaultTTL cfg > 0 then ic_DefaultTTL cfg else ic_DefaultTTL DefaultIdempotencyConfig)"

definition DefaultSystemOperationIdempotencyTTL :: "IdempotencyConfig option \<Rightarrow> go_duration" where
  "DefaultSystemOperationIdempotencyTTL coordinator =
     (case coordinator of
        None \<Rightarrow> ic_SystemOperationTTL DefaultIdempotencyConfig
      | Some cfg \<Rightarrow> if ic_SystemOperationTTL cfg > 0 then ic_SystemOperationTTL cfg
                   else ic_SystemOperationTTL DefaultIdempotencyConfig)"

text \<open>\<open>Exec_Error\<close> is an error of the operation, with its reason (\<open>infraerrors.Reason\<close>).\<close>

datatype idem_error = Executor_Nil | Key_Required | Key_Invalid | Key_Conflict
  | In_Progress "int option" | Retry_Backoff "int option" | Store_Unavailable | Scope_Required
  | Payload_Invalid | Exec_Error string

record ('p, 'd) idem_lib =
  il_sha256 :: "string \<Rightarrow> string"
  il_MarshalPayload :: "'p \<Rightarrow> string option"
  il_MarshalData :: "'d \<Rightarrow> string option"
  il_UnmarshalData :: "string \<Rightarrow> 'd option"
  il_EmptyObject :: 'd
  il_RedactText :: "string \<Rightarrow> string"

subsection \<open>Keys and fingerprints\<close>

definition NormalizeIdempotencyKey :: "string \<Rightarrow> idem_error + string" where
  "NormalizeIdempotencyKey raw =
     (let key = go_TrimSpace raw in
      if key = [] then Inr []
      else if length key > 128 then Inl Key_Invalid
      else if list_ex (\<lambda>c. (of_char c :: nat) < 33 \<or> (of_char c :: nat) > 126) key then Inl Key_Invalid
      else Inr key)"

definition HashIdempotencyKey :: "('p, 'd) idem_lib \<Rightarrow> string \<Rightarrow> string" where
  "HashIdempotencyKey L key = hex_encode (il_sha256 L key)"

definition newline :: string where "newline = [char_of (10::nat)]"

definition BuildIdempotencyFingerprint :: "('p, 'd) idem_lib \<Rightarrow> string \<Rightarrow> string \<Rightarrow> string \<Rightarrow> 'p \<Rightarrow>
    idem_error + string" where
  "BuildIdempotencyFingerprint L mthd route actorScope payload =
     (let mthd = (if mthd = [] then ''POST'' else mthd);
          route = (if route = [] then ''/'' else route);
          actorScope = (if actorScope = [] then ''anonymous'' else actorScope)
      in case il_MarshalPayload L payload of
           None \<Rightarrow> Inl Payload_Invalid
         | Some raw \<Rightarrow> Inr (hex_encode (il_sha256 L
             (map ascii_upper mthd @ newline @ route @ newline @ actorScope @ newline @ raw))))"

subsection \<open>The stored response\<close>

text \<open>\<open>utf8.ValidString\<close>: well-formed UTF-8 without overlong forms and surrogates.\<close>

definition cont_byte :: "nat \<Rightarrow> bool" where
  "cont_byte b \<longleftrightarrow> 128 \<le> b \<and> b \<le> 191"

fun utf8_valid :: "nat list \<Rightarrow> bool" where
  "utf8_valid [] \<longleftrightarrow> True"
| "utf8_valid (a # bs) \<longleftrightarrow>
     (if a < 128 then utf8_valid bs
      else case bs of
        [] \<Rightarrow> False
      | b # cs \<Rightarrow>
          if 194 \<le> a \<and> a \<le> 223 then cont_byte b \<and> utf8_valid cs
          else (case cs of
            [] \<Rightarrow> False
          | c # ds \<Rightarrow>
              if 224 \<le> a \<and> a \<le> 239 then
                (if a = 224 then 160 \<le> b \<and> b \<le> 191 else if a = 237 then 128 \<le> b \<and> b \<le> 159 else cont_byte b)
                \<and> cont_byte c \<and> utf8_valid ds
              else (case ds of
                [] \<Rightarrow> False
              | d # es \<Rightarrow>
                  240 \<le> a \<and> a \<le> 244 \<and>
                  (if a = 240 then 144 \<le> b \<and> b \<le> 191 else if a = 244 then 128 \<le> b \<and> b \<le> 143 else cont_byte b)
                  \<and> cont_byte c \<and> cont_byte d \<and> utf8_valid es)))"

definition ValidString :: "string \<Rightarrow> bool" where
  "ValidString s = utf8_valid (map of_char s)"

fun shrink_to_valid :: "nat \<Rightarrow> string \<Rightarrow> nat" where
  "shrink_to_valid 0 s = 0"
| "shrink_to_valid (Suc n) s = (if ValidString (take (Suc n) s) then Suc n else shrink_to_valid n s)"

definition truncateUTF8 :: "string \<Rightarrow> int \<Rightarrow> string" where
  "truncateUTF8 s maxBytes =
     (if maxBytes \<le> 0 \<or> int (length s) \<le> maxBytes then s
      else take (shrink_to_valid (nat maxBytes) s) s)"

definition truncation_mark :: string where "truncation_mark = ''...(truncated)''"

definition marshalStoredResponse :: "('p, 'd) idem_lib \<Rightarrow> IdempotencyConfig \<Rightarrow> 'd \<Rightarrow> string option" where
  "marshalStoredResponse L cfg dat =
     (case il_MarshalData L dat of
        None \<Rightarrow> None
      | Some raw \<Rightarrow>
          let redacted = il_RedactText L raw in
          Some (if ic_MaxStoredResponseLen cfg > 0 \<and> int (length redacted) > ic_MaxStoredResponseLen cfg
                then truncateUTF8 redacted (ic_MaxStoredResponseLen cfg) @ truncation_mark
                else redacted))"

definition decodeStoredResponse :: "('p, 'd) idem_lib \<Rightarrow> string option \<Rightarrow> 'd option" where
  "decodeStoredResponse L stored =
     (case stored of
        None \<Rightarrow> Some (il_EmptyObject L)
      | Some s \<Rightarrow> if go_TrimSpace s = [] then Some (il_EmptyObject L) else il_UnmarshalData L s)"

text \<open>
  \<open>conflictWithRetryAfter\<close>: the seconds are \<open>int(d.Seconds())\<close>, which truncates; the float64 in
  between is exact enough for the durations of weeks that occur here.
\<close>

definition retry_after :: "go_time option \<Rightarrow> go_time \<Rightarrow> int option" where
  "retry_after lockedUntil now =
     (case lockedUntil of
        None \<Rightarrow> None
      | Some l \<Rightarrow> let sec = go_div (time_sub l now) second in Some (if sec \<le> 0 then 1 else sec))"

subsection \<open>Execute\<close>

record 'p idem_options =
  io_Scope :: string
  io_ActorScope :: string
  io_Method :: string
  io_Route :: string
  io_IdempotencyKey :: string
  io_Payload :: 'p
  io_TTL :: go_duration
  io_RequireKey :: bool

text \<open>What \<open>Execute\<close> computes before its first repository call.\<close>

record idem_request =
  rq_Scope :: string
  rq_KeyHash :: string
  rq_Fingerprint :: string
  rq_Now :: go_time
  rq_LockedUntil :: go_time
  rq_ExpiresAt :: go_time

datatype 'd idem_result = Result_Data 'd bool | Result_Error idem_error

datatype 'd exec_pc =
    Call_Direct
  | Call_Create
  | Call_Get
  | Call_Reclaim_Expired IdempotencyRecord
  | Call_Get_Again
  | Call_Reclaim_Failed IdempotencyRecord
  | Call_Operation int
  | Call_Mark_Failed int string go_time
  | Call_Mark_Succeeded int 'd string
  | Returned "'d idem_result"

text \<open>
  The environment of a step: what the database does, the database clock, the clock of the service
  and the outcome of the operation.
\<close>

record 'd exec_env =
  ev_db :: db_fault
  ev_sqlnow :: go_time
  ev_now :: go_time
  ev_op :: "string + 'd"

definition fail_with :: "idem_error \<Rightarrow> 'd exec_pc" where
  "fail_with e = Returned (Result_Error e)"

definition Execute_start :: "('p, 'd) idem_lib \<Rightarrow> IdempotencyConfig \<Rightarrow> bool \<Rightarrow> bool \<Rightarrow> 'p idem_options \<Rightarrow>
    go_time \<Rightarrow> idem_request option \<times> 'd exec_pc" where
  "Execute_start L cfg has_operation has_repo opts now =
     (if \<not> has_operation then (None, fail_with Executor_Nil)
      else case NormalizeIdempotencyKey (io_IdempotencyKey opts) of
        Inl e \<Rightarrow> (None, fail_with e)
      | Inr key \<Rightarrow>
          if key = [] then
            (None, if io_RequireKey opts \<and> \<not> ic_ObserveOnly cfg then fail_with Key_Required else Call_Direct)
          else if \<not> has_repo then (None, fail_with Store_Unavailable)
          else if io_Scope opts = [] then (None, fail_with Scope_Required)
          else (case BuildIdempotencyFingerprint L (io_Method opts) (io_Route opts) (io_ActorScope opts)
                       (io_Payload opts) of
                  Inl e \<Rightarrow> (None, fail_with e)
                | Inr fp \<Rightarrow>
                    let ttl = (if io_TTL opts \<le> 0 then ic_DefaultTTL cfg else io_TTL opts)
                    in (Some \<lparr>rq_Scope = io_Scope opts, rq_KeyHash = HashIdempotencyKey L key,
                          rq_Fingerprint = fp, rq_Now = now, rq_LockedUntil = now + ic_ProcessingTimeout cfg,
                          rq_ExpiresAt = now + ttl\<rparr>, Call_Create)))"

text \<open>The switch on the status of an existing record.\<close>

definition existing_status :: "('p, 'd) idem_lib \<Rightarrow> idem_request \<Rightarrow> IdempotencyRecord \<Rightarrow> 'd exec_pc" where
  "existing_status L rq existing =
     (if ir_Status existing = status_succeeded then
        (case decodeStoredResponse L (ir_ResponseBody existing) of
           None \<Rightarrow> fail_with Store_Unavailable
         | Some dat \<Rightarrow> Returned (Result_Data dat True))
      else if ir_Status existing = status_processing then
        fail_with (In_Progress (retry_after (ir_LockedUntil existing) (rq_Now rq)))
      else if ir_Status existing = status_failed_retryable then
        (if (case ir_LockedUntil existing of None \<Rightarrow> False | Some l \<Rightarrow> l > rq_Now rq)
         then fail_with (Retry_Backoff (retry_after (ir_LockedUntil existing) (rq_Now rq)))
         else Call_Reclaim_Failed existing)
      else fail_with Key_Conflict)"

definition claimed :: "int \<Rightarrow> 'd exec_pc" where
  "claimed rid = (if rid = 0 then fail_with Store_Unavailable else Call_Operation rid)"

definition after_get :: "('p, 'd) idem_lib \<Rightarrow> idem_request \<Rightarrow> bool \<Rightarrow> IdempotencyRecord option option \<Rightarrow>
    'd exec_pc" where
  "after_get L rq again res =
     (case res of
        None \<Rightarrow> fail_with Store_Unavailable
      | Some None \<Rightarrow> fail_with Store_Unavailable
      | Some (Some existing) \<Rightarrow>
          if ir_Fingerprint existing \<noteq> rq_Fingerprint rq then fail_with Key_Conflict
          else if \<not> again \<and> \<not> ir_ExpiresAt existing > rq_Now rq then Call_Reclaim_Expired existing
          else existing_status L rq existing)"

definition after_operation :: "('p, 'd) idem_lib \<Rightarrow> IdempotencyConfig \<Rightarrow> int \<Rightarrow> 'd exec_env \<Rightarrow> 'd exec_pc" where
  "after_operation L cfg rid env =
     (case ev_op env of
        Inl reason \<Rightarrow>
          Call_Mark_Failed rid reason (ev_now env + ic_FailedRetryBackoff cfg)
      | Inr dat \<Rightarrow>
          (case marshalStoredResponse L cfg dat of
             None \<Rightarrow> fail_with Store_Unavailable
           | Some body \<Rightarrow> Call_Mark_Succeeded rid dat body))"

definition stored_reason :: "string \<Rightarrow> string" where
  "stored_reason reason = (if reason = [] then ''EXECUTION_FAILED'' else reason)"

definition exec_step :: "('p, 'd) idem_lib \<Rightarrow> IdempotencyConfig \<Rightarrow> 's idem_repo \<Rightarrow> idem_request \<Rightarrow>
    'd exec_env \<Rightarrow> 's \<Rightarrow> 'd exec_pc \<Rightarrow> 's \<times> 'd exec_pc" where
  "exec_step L cfg R rq env s pc =
     (case pc of
        Returned r \<Rightarrow> (s, Returned r)
      | Call_Direct \<Rightarrow>
          (s, case ev_op env of Inl reason \<Rightarrow> fail_with (Exec_Error reason)
              | Inr dat \<Rightarrow> Returned (Result_Data dat False))
      | Call_Create \<Rightarrow>
          (case CreateProcessing R (ev_db env) (ev_sqlnow env) (rq_Scope rq) (rq_KeyHash rq)
                  (rq_Fingerprint rq) (rq_LockedUntil rq) (rq_ExpiresAt rq) s of
             (s', None) \<Rightarrow> (s', fail_with Store_Unavailable)
           | (s', Some None) \<Rightarrow> (s', Call_Get)
           | (s', Some (Some rid)) \<Rightarrow> (s', claimed rid))
      | Call_Get \<Rightarrow>
          (case GetByScopeAndKeyHash R (ev_db env) (rq_Scope rq) (rq_KeyHash rq) s of
             (s', res) \<Rightarrow> (s', after_get L rq False res))
      | Call_Reclaim_Expired existing \<Rightarrow>
          (case TryReclaim R (ev_db env) (ev_sqlnow env) (ir_ID existing) (ir_Status existing)
                  (rq_Now rq) (rq_LockedUntil rq) (rq_ExpiresAt rq) s of
             (s', None) \<Rightarrow> (s', fail_with Store_Unavailable)
           | (s', Some True) \<Rightarrow> (s', claimed (ir_ID existing))
           | (s', Some False) \<Rightarrow> (s', Call_Get_Again))
      | Call_Get_Again \<Rightarrow>
          (case GetByScopeAndKeyHash R (ev_db env) (rq_Scope rq) (rq_KeyHash rq) s of
             (s', res) \<Rightarrow> (s', after_get L rq True res))
      | Call_Reclaim_Failed existing \<Rightarrow>
          (case TryReclaim R (ev_db env) (ev_sqlnow env) (ir_ID existing) status_failed_retryable
                  (rq_Now rq) (rq_LockedUntil rq) (rq_ExpiresAt rq) s of
             (s', None) \<Rightarrow> (s', fail_with Store_Unavailable)
           | (s', Some True) \<Rightarrow> (s', claimed (ir_ID existing))
           | (s', Some False) \<Rightarrow>
               (s', fail_with (In_Progress (retry_after (ir_LockedUntil existing) (rq_Now rq)))))
      | Call_Operation rid \<Rightarrow> (s, after_operation L cfg rid env)
      | Call_Mark_Failed rid reason backoffUntil \<Rightarrow>
          (fst (MarkFailedRetryable R (ev_db env) (ev_sqlnow env) rid (stored_reason reason) backoffUntil
                  (rq_ExpiresAt rq) s),
           fail_with (Exec_Error reason))
      | Call_Mark_Succeeded rid dat body \<Rightarrow>
          (case MarkSucceeded R (ev_db env) (ev_sqlnow env) rid 200 body (rq_ExpiresAt rq) s of
             (s', None) \<Rightarrow> (s', fail_with Store_Unavailable)
           | (s', Some u) \<Rightarrow> (s', Returned (Result_Data dat False))))"

fun exec_run :: "('p, 'd) idem_lib \<Rightarrow> IdempotencyConfig \<Rightarrow> 's idem_repo \<Rightarrow> idem_request \<Rightarrow>
    'd exec_env list \<Rightarrow> 's \<Rightarrow> 'd exec_pc \<Rightarrow> 's \<times> 'd exec_pc" where
  "exec_run L cfg R rq [] s pc = (s, pc)"
| "exec_run L cfg R rq (env # envs) s pc =
     (case exec_step L cfg R rq env s pc of (s', pc') \<Rightarrow> exec_run L cfg R rq envs s' pc')"

subsection \<open>Interleaved requests\<close>

text \<open>
  Several requests share the store: a schedule says which request takes the next step. The log
  records each run of an operation and whether it succeeded.
\<close>

record ('s, 'd) idem_system =
  sy_store :: 's
  sy_pc :: "nat \<Rightarrow> 'd exec_pc"
  sy_log :: "(nat \<times> bool) list"

definition runs_operation :: "'d exec_pc \<Rightarrow> bool" where
  "runs_operation pc = (case pc of Call_Operation rid \<Rightarrow> True | Call_Direct \<Rightarrow> True | _ \<Rightarrow> False)"

definition system_step :: "('p, 'd) idem_lib \<Rightarrow> IdempotencyConfig \<Rightarrow> 's idem_repo \<Rightarrow> (nat \<Rightarrow> idem_request) \<Rightarrow>
    nat \<times> 'd exec_env \<Rightarrow> ('s, 'd) idem_system \<Rightarrow> ('s, 'd) idem_system" where
  "system_step L cfg R rqs choice sy =
     (case choice of (i, env) \<Rightarrow>
        case exec_step L cfg R (rqs i) env (sy_store sy) (sy_pc sy i) of (s', pc') \<Rightarrow>
          \<lparr>sy_store = s', sy_pc = (sy_pc sy)(i := pc'),
           sy_log = (if runs_operation (sy_pc sy i)
                     then sy_log sy @ [(i, case ev_op env of Inl r \<Rightarrow> False | Inr d \<Rightarrow> True)]
                     else sy_log sy)\<rparr>)"

fun system_run :: "('p, 'd) idem_lib \<Rightarrow> IdempotencyConfig \<Rightarrow> 's idem_repo \<Rightarrow> (nat \<Rightarrow> idem_request) \<Rightarrow>
    (nat \<times> 'd exec_env) list \<Rightarrow> ('s, 'd) idem_system \<Rightarrow> ('s, 'd) idem_system" where
  "system_run L cfg R rqs [] sy = sy"
| "system_run L cfg R rqs (c # cs) sy = system_run L cfg R rqs cs (system_step L cfg R rqs c sy)"

subsection \<open>Execute returns\<close>

fun pc_rank :: "'d exec_pc \<Rightarrow> nat" where
  "pc_rank Call_Create = 7"
| "pc_rank Call_Get = 6"
| "pc_rank (Call_Reclaim_Expired r) = 5"
| "pc_rank Call_Get_Again = 4"
| "pc_rank (Call_Reclaim_Failed r) = 3"
| "pc_rank (Call_Operation i) = 2"
| "pc_rank Call_Direct = 1"
| "pc_rank (Call_Mark_Failed i s t) = 1"
| "pc_rank (Call_Mark_Succeeded i d b) = 1"
| "pc_rank (Returned r) = 0"

lemma fail_with_rank [simp]: "pc_rank (fail_with e) = 0"
  by (simp add: fail_with_def)

lemma existing_status_rank: "pc_rank (existing_status L rq r) \<le> 3"
  by (simp add: existing_status_def split: option.split)

lemma after_get_rank: "pc_rank (after_get L rq again res) \<le> (if again then 3 else 5)"
  by (auto simp: after_get_def existing_status_rank split: option.split
      intro: le_trans [OF existing_status_rank])

lemma claimed_rank: "pc_rank (claimed i) \<le> 2"
  by (simp add: claimed_def)

lemma after_operation_rank: "pc_rank (after_operation L cfg i env) \<le> 1"
  by (simp add: after_operation_def split: sum.split option.split)

lemma rank_less:
  "pc_rank (after_get L rq False res) < 6" "pc_rank (after_get L rq True res) < 4"
  "pc_rank (after_operation L cfg i env) < 2"
  using after_get_rank [of L rq False res] after_get_rank [of L rq True res]
    after_operation_rank [of L cfg i env] by simp_all

lemma claimed_less: "pc_rank (claimed i) < 7" "pc_rank (claimed i) < 5" "pc_rank (claimed i) < 3"
  by (simp_all add: claimed_def)

lemma exec_step_rank:
  "0 < pc_rank pc \<Longrightarrow> pc_rank (snd (exec_step L cfg R rq env s pc)) < pc_rank pc"
  by (cases pc) (auto simp: exec_step_def rank_less claimed_less split: prod.split option.split bool.split sum.split)

lemma exec_run_returned: "exec_run L cfg R rq envs s (Returned r) = (s, Returned r)"
  by (induction envs) (simp_all add: exec_step_def)

lemma exec_run_rank:
  "pc_rank pc \<le> length envs \<Longrightarrow> \<exists>r. snd (exec_run L cfg R rq envs s pc) = Returned r"
proof (induction envs arbitrary: s pc)
  case Nil
  then show ?case by (cases pc) auto
next
  case (Cons env envs)
  show ?case
  proof (cases "pc_rank pc = 0")
    case True
    then obtain r where "pc = Returned r" by (cases pc) auto
    then show ?thesis using exec_run_returned [of L cfg R rq "env # envs" s r] by simp
  next
    case False
    then have "pc_rank (snd (exec_step L cfg R rq env s pc)) \<le> length envs"
      using exec_step_rank [of pc L cfg R rq env s] Cons.prems by simp
    from Cons.IH [OF this] show ?thesis by (simp split: prod.split) (metis snd_conv)
  qed
qed

text \<open>With any repository, whatever the database, the clock and the
  operation do, Execute returns after at most seven calls.\<close>

theorem idem_execute_returns:
  assumes "7 \<le> length envs"
  shows "\<exists>r. snd (exec_run L cfg R rq envs s (snd (Execute_start L cfg has_op has_repo opts now))) = Returned r"
proof -
  have "pc_rank (snd (Execute_start L cfg has_op has_repo opts now)) \<le> 7"
    by (simp add: Execute_start_def Let_def split: sum.split)
  with assms show ?thesis by (intro exec_run_rank) simp
qed


definition byte_lib :: "(string, string) idem_lib" where
  "byte_lib = \<lparr>il_sha256 = (\<lambda>s. s), il_MarshalPayload = Some, il_MarshalData = Some,
     il_UnmarshalData = (\<lambda>s. if take (length truncation_mark) (rev s) = rev truncation_mark then None else Some s),
     il_EmptyObject = ''{}'', il_RedactText = (\<lambda>s. s)\<rparr>"

definition env_ok :: "string + 'd \<Rightarrow> 'd exec_env" where
  "env_ok op1 = \<lparr>ev_db = Db_Ok, ev_sqlnow = 0, ev_now = 0, ev_op = op1\<rparr>"

definition empty_table :: idem_table where
  "empty_table = \<lparr>it_rows = [], it_seq = 1\<rparr>"

definition sample_request :: idem_request where
  "sample_request = \<lparr>rq_Scope = ''s'', rq_KeyHash = ''h'', rq_Fingerprint = ''fp'', rq_Now = 0,
     rq_LockedUntil = 30, rq_ExpiresAt = 100\<rparr>"

theorem idem_execute_returns_witness:
  "\<exists>r. snd (exec_run byte_lib DefaultIdempotencyConfig sql_repo sample_request
      (replicate 7 (env_ok (Inr ''ok''))) empty_table
      (snd (Execute_start byte_lib DefaultIdempotencyConfig True True
        \<lparr>io_Scope = ''s'', io_ActorScope = [], io_Method = [], io_Route = [], io_IdempotencyKey = ''k'',
         io_Payload = [], io_TTL = 0, io_RequireKey = True\<rparr> 0))) = Returned r"
  by (rule idem_execute_returns) simp

subsection \<open>One request at a time\<close>

context idempotency_repository
begin

text \<open>A first request with a working store runs the operation and stores the answer.\<close>

lemma fresh_success:
  assumes "inv s" "rec s (rq_Scope rq, rq_KeyHash rq) = None"
    and "ev_db e1 = Db_Ok" "ev_db e3 = Db_Ok" "ev_op e2 = Inr dat"
    and "marshalStoredResponse L cfg dat = Some body"
  shows "\<exists>s' r. exec_run L cfg R rq [e1, e2, e3] s Call_Create = (s', Returned (Result_Data dat False)) \<and>
    inv s' \<and> rec s' (rq_Scope rq, rq_KeyHash rq) = Some r \<and> ir_Status r = status_succeeded \<and>
    ir_Fingerprint r = rq_Fingerprint rq \<and> ir_ResponseBody r = Some body \<and> ir_ExpiresAt r = rq_ExpiresAt rq"
proof -
  let ?k = "(rq_Scope rq, rq_KeyHash rq)"
  obtain s1 res1 where c: "CreateProcessing R Db_Ok (ev_sqlnow e1) (rq_Scope rq) (rq_KeyHash rq)
      (rq_Fingerprint rq) (rq_LockedUntil rq) (rq_ExpiresAt rq) s = (s1, res1)" by fastforce
  obtain i where i: "inv s1" "res1 = Some (Some i)"
    "rec s1 ?k = Some (new_record i (ev_sqlnow e1) (rq_Scope rq) (rq_KeyHash rq) (rq_Fingerprint rq)
       (rq_LockedUntil rq) (rq_ExpiresAt rq))"
    using create_new [OF assms(1,2) c] by auto
  let ?r = "new_record i (ev_sqlnow e1) (rq_Scope rq) (rq_KeyHash rq) (rq_Fingerprint rq)
       (rq_LockedUntil rq) (rq_ExpiresAt rq)"
  have id: "ir_ID ?r = i" by (simp add: new_record_def)
  then have "i \<noteq> 0" using id_nonzero [OF i(1,3)] by simp
  obtain s2 res2 where m: "MarkSucceeded R Db_Ok (ev_sqlnow e3) i 200 body (rq_ExpiresAt rq) s1 = (s2, res2)"
    by fastforce
  have m': "inv s2" "res2 \<noteq> None" "rec s2 ?k = Some (?r\<lparr>ir_Status := status_succeeded,
      ir_ResponseStatus := Some 200, ir_ResponseBody := Some body, ir_ErrorReason := None,
      ir_LockedUntil := None, ir_ExpiresAt := rq_ExpiresAt rq, ir_UpdatedAt := ev_sqlnow e3\<rparr>)"
    using succeed_law [OF i(1,3), of Db_Ok "ev_sqlnow e3" 200 body "rq_ExpiresAt rq" s2 res2] m id by auto
  have "exec_run L cfg R rq [e1, e2, e3] s Call_Create = (s2, Returned (Result_Data dat False))"
    using c i(2) \<open>i \<noteq> 0\<close> m m'(2) assms(3-6)
    by (auto simp: exec_step_def claimed_def after_operation_def)
  with m'(1,3) show ?thesis by (simp add: new_record_def)
qed

text \<open>A request that finds an unexpired record of the same payload decides by its status alone.\<close>

lemma existing_record:
  assumes "inv s" "rec s (rq_Scope rq, rq_KeyHash rq) = Some r"
    and "ev_db e1 = Db_Ok" "ev_db e2 = Db_Ok" "rq_Now rq < ir_ExpiresAt r"
  shows "\<exists>s'. exec_run L cfg R rq [e1, e2] s Call_Create =
      (s', if ir_Fingerprint r \<noteq> rq_Fingerprint rq then fail_with Key_Conflict else existing_status L rq r) \<and>
    inv s' \<and> rec s' = rec s"
proof -
  obtain s1 res1 where c: "CreateProcessing R Db_Ok (ev_sqlnow e1) (rq_Scope rq) (rq_KeyHash rq)
      (rq_Fingerprint rq) (rq_LockedUntil rq) (rq_ExpiresAt rq) s = (s1, res1)" by fastforce
  have c': "inv s1" "rec s1 = rec s" "res1 = Some None" using create_taken [OF assms(1,2) c] by auto
  obtain s2 res2 where g: "GetByScopeAndKeyHash R Db_Ok (rq_Scope rq) (rq_KeyHash rq) s1 = (s2, res2)"
    by fastforce
  have "inv s2" "rec s2 = rec s" "res2 = Some (Some r)"
    using get_law [OF c'(1) g] c'(2) assms(2) by auto
  with c c' g assms(3-5) show ?thesis by (auto simp: exec_step_def after_get_def)
qed

lemma replay_after_success:
  assumes "inv s" "rec s (rq_Scope rq, rq_KeyHash rq) = None"
    and "ev_db e1 = Db_Ok" "ev_db e3 = Db_Ok" "ev_op e2 = Inr dat"
    and "marshalStoredResponse L cfg dat = Some body"
    and "rq_Scope rq2 = rq_Scope rq" "rq_KeyHash rq2 = rq_KeyHash rq" "rq_Now rq2 < rq_ExpiresAt rq"
    and "ev_db d1 = Db_Ok" "ev_db d2 = Db_Ok"
  shows "\<exists>s1 s2. exec_run L cfg R rq [e1, e2, e3] s Call_Create = (s1, Returned (Result_Data dat False)) \<and>
    exec_run L cfg R rq2 [d1, d2] s1 Call_Create =
      (s2, if rq_Fingerprint rq2 \<noteq> rq_Fingerprint rq then fail_with Key_Conflict
           else case decodeStoredResponse L (Some body) of None \<Rightarrow> fail_with Store_Unavailable
             | Some dat' \<Rightarrow> Returned (Result_Data dat' True)) \<and>
    rec s2 = rec s1"
proof -
  obtain s1 r where one: "exec_run L cfg R rq [e1, e2, e3] s Call_Create = (s1, Returned (Result_Data dat False))"
    "inv s1" "rec s1 (rq_Scope rq2, rq_KeyHash rq2) = Some r" "ir_Status r = status_succeeded"
    "ir_Fingerprint r = rq_Fingerprint rq" "ir_ResponseBody r = Some body" "ir_ExpiresAt r = rq_ExpiresAt rq"
    using fresh_success [OF assms(1-6)] assms(7,8) by auto
  from existing_record [OF one(2,3) assms(10,11), of L cfg] one assms(9)
  obtain s2 where "exec_run L cfg R rq2 [d1, d2] s1 Call_Create =
      (s2, if ir_Fingerprint r \<noteq> rq_Fingerprint rq2 then fail_with Key_Conflict else existing_status L rq2 r)"
    "rec s2 = rec s1" by auto
  with one show ?thesis by (auto simp: existing_status_def)
qed

end



text \<open>An answer longer than the configured maximum is stored cut off
  with a mark that is not JSON: every repetition of the request before expiry is answered with a store
  error instead of the stored answer, although the operation has succeeded.\<close>

theorem idem_long_response_not_replayed:
  assumes "table_wf t" "table_rec t (rq_Scope rq, rq_KeyHash rq) = None"
    and "ev_db e1 = Db_Ok" "ev_db e3 = Db_Ok" "ev_op e2 = Inr dat" "il_MarshalData L dat = Some raw"
    and "0 < ic_MaxStoredResponseLen cfg" "ic_MaxStoredResponseLen cfg < int (length (il_RedactText L raw))"
    and not_json: "\<And>x. il_UnmarshalData L (x @ truncation_mark) = None"
    and "go_TrimSpace (truncateUTF8 (il_RedactText L raw) (ic_MaxStoredResponseLen cfg) @ truncation_mark) \<noteq> []"
    and "rq_Now rq < rq_ExpiresAt rq" "ev_db d1 = Db_Ok" "ev_db d2 = Db_Ok"
  shows "\<exists>t1 t2. exec_run L cfg sql_repo rq [e1, e2, e3] t Call_Create = (t1, Returned (Result_Data dat False)) \<and>
    exec_run L cfg sql_repo rq [d1, d2] t1 Call_Create = (t2, fail_with Store_Unavailable)"
proof -
  let ?body = "truncateUTF8 (il_RedactText L raw) (ic_MaxStoredResponseLen cfg) @ truncation_mark"
  have body: "marshalStoredResponse L cfg dat = Some ?body"
    using assms(6-8) by (simp add: marshalStoredResponse_def)
  have "decodeStoredResponse L (Some ?body) = None"
    using assms(9,10) by (simp add: decodeStoredResponse_def)
  with sql_idem.replay_after_success [OF assms(1-5) body refl refl assms(11-13)]
  show ?thesis by (auto simp del: exec_run.simps)
qed

lemma trim_byte_simps:
  "first_prefix (map rev space_encodings) (c # s) = None \<Longrightarrow> trim_start (map rev space_encodings) (c # s) = c # s"
  "first_prefix space_encodings (c # s) = None \<Longrightarrow> trim_start space_encodings (c # s) = c # s"
  by (simp_all add: trim_start.simps)

theorem idem_long_response_not_replayed_witness:
  "\<exists>t1 t2. exec_run byte_lib (DefaultIdempotencyConfig\<lparr>ic_MaxStoredResponseLen := 1\<rparr>) sql_repo sample_request
      [env_ok (Inr ''ok''), env_ok (Inr ''ok''), env_ok (Inr ''ok'')] empty_table Call_Create =
      (t1, Returned (Result_Data ''ok'' False)) \<and>
    exec_run byte_lib (DefaultIdempotencyConfig\<lparr>ic_MaxStoredResponseLen := 1\<rparr>) sql_repo sample_request
      [env_ok (Inr ''ok''), env_ok (Inr ''ok'')] t1 Call_Create = (t2, fail_with Store_Unavailable)"
proof (rule idem_long_response_not_replayed [where raw = "''ok''"])
  show "go_TrimSpace (truncateUTF8 (il_RedactText byte_lib ''ok'')
      (ic_MaxStoredResponseLen (DefaultIdempotencyConfig\<lparr>ic_MaxStoredResponseLen := 1\<rparr>)) @ truncation_mark) \<noteq> []"
    by (simp add: truncateUTF8_def byte_lib_def ValidString_def truncation_mark_def go_TrimSpace_def
        trim_start.simps space_encodings_def byte_def go_CutPrefix_def go_HasPrefix_def char_of_def
        upt_conv_Cons)
qed (simp_all add: empty_table_def table_wf_def table_rec_def env_ok_def byte_lib_def sample_request_def
    truncation_mark_def)

text \<open>A record left in processing blocks its key until it expires, even long after
  its lock has run out: every request with the same payload before the expiry is refused as in progress,
  with the advice to retry in one second, and changes no record.\<close>

theorem idem_stuck_processing:
  assumes "table_wf t" "table_rec t (rq_Scope rq, rq_KeyHash rq) = Some r"
    and "ir_Status r = status_processing" "ir_Fingerprint r = rq_Fingerprint rq"
    and "ir_LockedUntil r = Some l" "l \<le> rq_Now rq" "rq_Now rq < ir_ExpiresAt r"
    and "ev_db e1 = Db_Ok" "ev_db e2 = Db_Ok"
  shows "\<exists>t'. exec_run L cfg sql_repo rq [e1, e2] t Call_Create = (t', fail_with (In_Progress (Some 1))) \<and>
    table_rec t' = table_rec t"
proof -
  have "go_div (time_sub l (rq_Now rq)) second \<le> 0"
    using assms(6) by (intro go_div_nonpos) (simp_all add: time_sub_def)
  then have "existing_status L rq r = fail_with (In_Progress (Some 1))"
    using assms(3,5) by (simp add: existing_status_def idem_status retry_after_def Let_def)
  with sql_idem.existing_record [OF assms(1,2,8,9,7), of L cfg] assms(4)
  show ?thesis by (auto simp del: exec_run.simps)
qed

theorem idem_stuck_processing_witness:
  "\<exists>t'. exec_run byte_lib DefaultIdempotencyConfig sql_repo (sample_request\<lparr>rq_Now := 50\<rparr>)
      [env_ok (Inr ''ok''), env_ok (Inr ''ok'')] \<lparr>it_rows = [sample_row 1 ''h'' 100], it_seq = 2\<rparr> Call_Create =
      (t', fail_with (In_Progress (Some 1))) \<and>
    table_rec t' = table_rec \<lparr>it_rows = [sample_row 1 ''h'' 100], it_seq = 2\<rparr>"
  by (rule idem_stuck_processing [where r = "sample_row 1 ''h'' 100" and l = 0])
    (simp_all add: table_wf_def table_rec_def sample_row_def new_record_def sample_request_def env_ok_def
      is_key_def)

subsection \<open>Concurrent requests\<close>

definition owner_of :: "'d exec_pc \<Rightarrow> int option" where
  "owner_of pc = (case pc of Call_Operation i \<Rightarrow> Some i | Call_Mark_Failed i s t \<Rightarrow> Some i
     | Call_Mark_Succeeded i d b \<Rightarrow> Some i | _ \<Rightarrow> None)"

definition may_fail :: "'d exec_pc \<Rightarrow> bool" where
  "may_fail pc = (case pc of Call_Operation i \<Rightarrow> True | Call_Mark_Failed i s t \<Rightarrow> True | _ \<Rightarrow> False)"

definition pc_of_record :: "IdempotencyRecord \<Rightarrow> 'd exec_pc \<Rightarrow> bool" where
  "pc_of_record r pc = (case pc of
      Call_Direct \<Rightarrow> False | Call_Reclaim_Expired e \<Rightarrow> False | Call_Get_Again \<Rightarrow> False
    | Call_Reclaim_Failed e \<Rightarrow> ir_ID e = ir_ID r
    | Call_Operation i \<Rightarrow> i = ir_ID r | Call_Mark_Failed i s t \<Rightarrow> i = ir_ID r
    | Call_Mark_Succeeded i d b \<Rightarrow> i = ir_ID r | _ \<Rightarrow> True)"

definition successes :: "(nat \<times> bool) list \<Rightarrow> nat" where
  "successes lg = length (filter snd lg)"

text \<open>
  The invariant of one key: the record expires after every request's clock; at most one request
  owns it, and then it is in processing; after a success nobody can turn it back.
\<close>

definition single_owner :: "(nat \<Rightarrow> 'd exec_pc) \<Rightarrow> bool" where
  "single_owner pcs = (\<forall>i j. owner_of (pcs i) \<noteq> None \<longrightarrow> owner_of (pcs j) \<noteq> None \<longrightarrow> i = j)"

definition key_inv :: "(nat \<Rightarrow> idem_request) \<Rightarrow> IdempotencyRecord option \<Rightarrow> (nat \<Rightarrow> 'd exec_pc) \<Rightarrow>
    (nat \<times> bool) list \<Rightarrow> bool" where
  "key_inv rqs ro pcs lg = (case ro of
      None \<Rightarrow> lg = [] \<and> (\<forall>i. pcs i = Call_Create \<or> (\<exists>x. pcs i = Returned x))
    | Some r \<Rightarrow>
        (\<forall>i. rq_Now (rqs i) < ir_ExpiresAt r) \<and> (\<forall>i. pc_of_record r (pcs i)) \<and>
        single_owner pcs \<and>
        (\<forall>i. owner_of (pcs i) \<noteq> None \<longrightarrow> ir_Status r = status_processing) \<and>
        successes lg \<le> 1 \<and>
        (successes lg = 1 \<longrightarrow> ir_Status r \<noteq> status_failed_retryable \<and> (\<forall>i. \<not> may_fail (pcs i))))"

lemma single_owner_move:
  assumes "single_owner pcs" "owner_of pc \<noteq> None \<longrightarrow> owner_of (pcs i) \<noteq> None"
  shows "single_owner (pcs(i := pc))"
  using assms unfolding single_owner_def fun_upd_apply by metis

lemma single_owner_first:
  assumes "\<And>j. owner_of (pcs j) = None"
  shows "single_owner (pcs(i := pc))"
  by (simp add: single_owner_def assms)

lemma single_ownerD: "single_owner pcs \<Longrightarrow> owner_of (pcs i) \<noteq> None \<Longrightarrow> owner_of (pcs j) \<noteq> None \<Longrightarrow> i = j"
  by (simp add: single_owner_def)

lemmas pc_kinds = owner_of_def may_fail_def pc_of_record_def fail_with_def claimed_def

lemma existing_status_kinds:
  "owner_of (existing_status L rq r) = None" "\<not> may_fail (existing_status L rq r)"
  "pc_of_record r (existing_status L rq r)"
  by (simp_all add: existing_status_def pc_kinds split: option.split)

lemma after_operation_kinds:
  "owner_of (after_operation L cfg i env) = None \<or> owner_of (after_operation L cfg i env) = Some i"
  "pc_of_record r (after_operation L cfg (ir_ID r) env)"
  "ev_op env = Inr d \<Longrightarrow> \<not> may_fail (after_operation L cfg i env)"
  by (simp_all add: after_operation_def pc_kinds split: sum.split option.split)

text \<open>A step that leaves the record and gives up or keeps ownership.\<close>

lemma key_inv_move:
  assumes "key_inv rqs (Some r) pcs lg" "pc_of_record r pc"
    and "owner_of pc \<noteq> None \<longrightarrow> owner_of (pcs i) \<noteq> None" "may_fail pc \<longrightarrow> may_fail (pcs i)"
  shows "key_inv rqs (Some r) (pcs(i := pc)) lg"
  using assms single_owner_move [of pcs pc i] by (auto simp: key_inv_def)

lemma key_inv_update:
  assumes "key_inv rqs (Some r) pcs lg" "ir_ID r' = ir_ID r" "\<forall>i. rq_Now (rqs i) < ir_ExpiresAt r'"
    and "pc_of_record r pc" "owner_of pc = None"
    and "owner_of (pcs i) \<noteq> None" "successes lg = 1 \<longrightarrow> ir_Status r' \<noteq> status_failed_retryable"
  shows "key_inv rqs (Some r') (pcs(i := pc)) lg"
proof -
  have "pc_of_record r' q = pc_of_record r q" for q :: "'a exec_pc"
    using assms(2) by (cases q) (simp_all add: pc_of_record_def)
  moreover have "\<not> may_fail pc" using assms(5) by (auto simp: owner_of_def may_fail_def split: exec_pc.splits)
  moreover have "owner_of ((pcs(i := pc)) j) = None" for j
    using assms(1,5,6) single_ownerD [of pcs i j] by (cases "owner_of (pcs j)") (auto simp: key_inv_def)
  ultimately show ?thesis
    using assms single_owner_move [of pcs pc i] by (auto simp: key_inv_def)
qed


lemma may_fail_owner: "may_fail pc \<Longrightarrow> owner_of pc \<noteq> None"
  by (simp add: pc_kinds split: exec_pc.splits)

text \<open>An operation runs: the log grows, and a success was the first one.\<close>

lemma key_inv_operation:
  assumes "key_inv rqs (Some r) pcs lg" "pcs i = Call_Operation (ir_ID r)"
  shows "key_inv rqs (Some r) (pcs(i := after_operation L cfg (ir_ID r) env))
    (lg @ [(i, case ev_op env of Inl x \<Rightarrow> False | Inr d \<Rightarrow> True)])"
proof -
  let ?pc = "after_operation L cfg (ir_ID r) env"
  have own: "owner_of (pcs i) \<noteq> None" "may_fail (pcs i)" using assms(2) by (simp_all add: pc_kinds)
  then have "successes lg \<noteq> 1" "ir_Status r = status_processing" and le: "successes lg \<le> 1"
    using assms(1) by (auto simp: key_inv_def)
  then have zero: "successes lg = 0" by simp
  have moved: "key_inv rqs (Some r) (pcs(i := ?pc)) lg"
    using after_operation_kinds(2) own by (intro key_inv_move [OF assms(1)]) auto
  show ?thesis
  proof (cases "ev_op env")
    case (Inl x)
    with moved show ?thesis by (simp add: key_inv_def successes_def)
  next
    case (Inr d)
    have "\<not> may_fail ((pcs(i := ?pc)) j)" for j
    proof (cases "j = i")
      case False
      have "owner_of (pcs j) \<noteq> None \<Longrightarrow> i = j"
        using assms(1) own(1) single_ownerD [of pcs i j] by (simp add: key_inv_def)
      with False may_fail_owner [of "pcs j"] show ?thesis by (metis fun_upd_other)
    qed (simp only: fun_upd_same after_operation_kinds(3) [OF Inr] not_False_eq_True)
    with moved zero \<open>ir_Status r = status_processing\<close> Inr show ?thesis
      by (simp add: key_inv_def successes_def idem_status del: fun_upd_apply)
  qed
qed

text \<open>A record that could be reclaimed has no owner.\<close>

lemma key_inv_reclaim:
  assumes "key_inv rqs (Some r) pcs lg" "ir_Status r = status_failed_retryable"
    and "ir_ID r' = ir_ID r" "ir_Status r' = status_processing" "\<forall>i. rq_Now (rqs i) < ir_ExpiresAt r'"
    and "pc_of_record r pc"
  shows "key_inv rqs (Some r') (pcs(i := pc)) lg"
proof -
  have free: "owner_of (pcs j) = None" for j
    using assms(1,2) by (auto simp: key_inv_def idem_status)
  have zero: "successes lg = 0" using assms(1,2) by (auto simp: key_inv_def)
  have same: "pc_of_record r' q = pc_of_record r q" for q :: "'a exec_pc"
    using assms(3) by (cases q) (simp_all add: pc_of_record_def)
  show ?thesis
    using assms zero same free single_owner_first [of pcs i pc, OF free] by (simp add: key_inv_def)
qed

lemma key_inv_safe:
  assumes "key_inv rqs ro pcs lg"
  shows "successes lg \<le> 1 \<and> (\<forall>i j. owner_of (pcs i) \<noteq> None \<longrightarrow> owner_of (pcs j) \<noteq> None \<longrightarrow> i = j)"
proof (cases ro)
  case None
  then have "owner_of (pcs i) = None" for i
    using assms by (auto simp: key_inv_def owner_of_def dest!: spec [of _ i])
  with None assms show ?thesis by (simp add: key_inv_def successes_def)
next
  case (Some r)
  with assms show ?thesis by (simp add: key_inv_def single_owner_def)
qed

context idempotency_repository
begin

lemma key_step_none:
  assumes "inv s" "rec s k = None" "key_inv rqs None pcs lg"
    and "\<And>j. (rq_Scope (rqs j), rq_KeyHash (rqs j)) = k" "\<And>i j. rq_Now (rqs i) < rq_ExpiresAt (rqs j)"
    and "exec_step L cfg R (rqs i) env s (pcs i) = (s', pc')"
  shows "inv s' \<and> key_inv rqs (rec s' k) (pcs(i := pc')) lg \<and> \<not> runs_operation (pcs i)"
proof (cases "pcs i = Call_Create")
  case False
  then obtain x where x: "pcs i = Returned x" using assms(3) by (auto simp: key_inv_def)
  with assms(6) have "s' = s" "pc' = Returned x" by (simp_all add: exec_step_def)
  with x assms(1-3) show ?thesis by (simp add: key_inv_def runs_operation_def)
next
  case True
  let ?rq = "rqs i"
  obtain s1 res where c: "CreateProcessing R (ev_db env) (ev_sqlnow env) (rq_Scope ?rq) (rq_KeyHash ?rq)
      (rq_Fingerprint ?rq) (rq_LockedUntil ?rq) (rq_ExpiresAt ?rq) s = (s1, res)" by fastforce
  have s1: "inv s1" "rec s1 k = None \<and> res = None \<or>
      (\<exists>i. rec s1 k = Some (new_record i (ev_sqlnow env) (rq_Scope ?rq) (rq_KeyHash ?rq) (rq_Fingerprint ?rq)
         (rq_LockedUntil ?rq) (rq_ExpiresAt ?rq)) \<and> (res = None \<or> res = Some (Some i)))"
    using create_new [OF assms(1) _ c] assms(2,4) by auto
  have others: "\<forall>j. pcs j = Call_Create \<or> (\<exists>x. pcs j = Returned x)" "lg = []"
    using assms(3) by (simp_all add: key_inv_def)
  have quiet: "owner_of (pcs j) = None" "\<not> may_fail (pcs j)" "pc_of_record r (pcs j)" for j r
    using others(1) [rule_format, of j] by (auto simp: pc_kinds)
  have step: "s' = s1" "pc' = (case res of None \<Rightarrow> fail_with Store_Unavailable | Some None \<Rightarrow> Call_Get
      | Some (Some rid) \<Rightarrow> claimed rid)"
    using assms(6) True c by (auto simp: exec_step_def split: option.splits)
  from s1(2) show ?thesis
  proof
    assume "rec s1 k = None \<and> res = None"
    with step others s1(1) True show ?thesis
      by (auto simp: key_inv_def fail_with_def runs_operation_def)
  next
    assume "\<exists>i. rec s1 k = Some (new_record i (ev_sqlnow env) (rq_Scope ?rq) (rq_KeyHash ?rq) (rq_Fingerprint ?rq)
         (rq_LockedUntil ?rq) (rq_ExpiresAt ?rq)) \<and> (res = None \<or> res = Some (Some i))"
    then obtain rid where rid: "rec s1 k = Some (new_record rid (ev_sqlnow env) (rq_Scope ?rq) (rq_KeyHash ?rq)
        (rq_Fingerprint ?rq) (rq_LockedUntil ?rq) (rq_ExpiresAt ?rq))" "res = None \<or> res = Some (Some rid)" by blast
    then have "rid \<noteq> 0" using id_nonzero [OF s1(1) rid(1)] by (simp add: new_record_def)
    then have pc': "pc' = fail_with Store_Unavailable \<or> pc' = Call_Operation rid"
      using rid(2) step(2) by (auto simp: claimed_def)
    have "key_inv rqs (rec s1 k) (pcs(i := pc')) lg"
      using pc' quiet others(2) assms(5) single_owner_first [of pcs i pc', OF quiet(1)]
      by (auto simp: rid(1) key_inv_def new_record_def successes_def pc_of_record_def fail_with_def)
    with s1(1) step(1) True show ?thesis by (simp add: runs_operation_def)
  qed
qed

lemma key_step_some:
  assumes "inv s" "rec s k = Some r" "key_inv rqs (Some r) pcs lg"
    and "\<And>j. (rq_Scope (rqs j), rq_KeyHash (rqs j)) = k" "\<And>i j. rq_Now (rqs i) < rq_ExpiresAt (rqs j)"
    and "exec_step L cfg R (rqs i) env s (pcs i) = (s', pc')" "\<not> runs_operation (pcs i)"
  shows "inv s' \<and> key_inv rqs (rec s' k) (pcs(i := pc')) lg"
proof -
  note inv = assms(3)
  have key: "rec s (rq_Scope (rqs i), rq_KeyHash (rqs i)) = Some r" using assms(2,4) by simp
  have kind: "pc_of_record r (pcs i)" using inv by (simp add: key_inv_def)
  have idle: "key_inv rqs (Some r) (pcs(i := pc')) lg"
    if "pc_of_record r pc'" "owner_of pc' = None" "\<not> may_fail pc'"
    using that by (intro key_inv_move [OF inv]) auto
  have failed: "key_inv rqs (Some r) (pcs(i := pc')) lg" if "pc' = fail_with e" for e
    using that by (intro idle) (simp_all add: pc_kinds)
  show ?thesis
  proof (cases "pcs i")
    case Call_Create
    obtain s1 res where c: "CreateProcessing R (ev_db env) (ev_sqlnow env) (rq_Scope (rqs i)) (rq_KeyHash (rqs i))
        (rq_Fingerprint (rqs i)) (rq_LockedUntil (rqs i)) (rq_ExpiresAt (rqs i)) s = (s1, res)" by fastforce
    have s1: "inv s1" "rec s1 k = Some r" "res = None \<or> res = Some None"
      using create_taken [OF assms(1) key c] assms(2) by auto
    have "s' = s1" "pc' = fail_with Store_Unavailable \<or> pc' = Call_Get"
      using assms(6) Call_Create c s1(3) by (auto simp: exec_step_def)
    with s1 failed idle show ?thesis by (auto simp: pc_kinds)
  next
    case Call_Get
    obtain s1 res where g: "GetByScopeAndKeyHash R (ev_db env) (rq_Scope (rqs i)) (rq_KeyHash (rqs i)) s = (s1, res)"
      by fastforce
    have s1: "inv s1" "rec s1 k = Some r" "res = None \<or> res = Some (Some r)"
      using get_law [OF assms(1) g] key assms(2) by auto
    have "rq_Now (rqs i) < ir_ExpiresAt r" using inv by (simp add: key_inv_def)
    then have "pc' = fail_with Store_Unavailable \<or> pc' = fail_with Key_Conflict \<or> pc' = existing_status L (rqs i) r"
      using assms(6) Call_Get g s1(3) by (auto simp: exec_step_def after_get_def)
    then have "key_inv rqs (Some r) (pcs(i := pc')) lg"
      using failed idle existing_status_kinds by metis
    moreover have "s' = s1" using assms(6) Call_Get g by (simp add: exec_step_def)
    ultimately show ?thesis using s1 by simp
  next
    case (Call_Reclaim_Failed e)
    have e: "ir_ID e = ir_ID r" using kind Call_Reclaim_Failed by (simp add: pc_of_record_def)
    obtain s1 res where t: "TryReclaim R (ev_db env) (ev_sqlnow env) (ir_ID r) status_failed_retryable
        (rq_Now (rqs i)) (rq_LockedUntil (rqs i)) (rq_ExpiresAt (rqs i)) s = (s1, res)" by fastforce
    have step: "s' = s1" "pc' = (case res of None \<Rightarrow> fail_with Store_Unavailable | Some True \<Rightarrow> claimed (ir_ID r)
        | Some False \<Rightarrow> fail_with (In_Progress (retry_after (ir_LockedUntil e) (rq_Now (rqs i)))))"
      using assms(6) Call_Reclaim_Failed t e by (auto simp: exec_step_def split: option.splits bool.splits)
    let ?r = "r\<lparr>ir_Status := status_processing, ir_LockedUntil := Some (rq_LockedUntil (rqs i)),
        ir_ErrorReason := None, ir_UpdatedAt := ev_sqlnow env, ir_ExpiresAt := rq_ExpiresAt (rqs i)\<rparr>"
    have res: "inv s1" "rec s1 k = Some r \<and> (res = None \<or> res = Some False) \<or>
        ir_Status r = status_failed_retryable \<and> rec s1 k = Some ?r \<and> (res = None \<or> res = Some True)"
      using reclaim_law [OF assms(1,2) t] assms(2) by (auto simp: reclaimable_def split: if_splits)
    have "pc_of_record r pc'" using step(2) by (auto simp: pc_kinds split: option.split bool.split)
    moreover have "\<forall>j. rq_Now (rqs j) < ir_ExpiresAt ?r" using assms(5) by simp
    ultimately have "ir_Status r = status_failed_retryable \<Longrightarrow> key_inv rqs (Some ?r) (pcs(i := pc')) lg"
      by (intro key_inv_reclaim [OF inv]) simp_all
    moreover have "res = None \<or> res = Some False \<Longrightarrow> key_inv rqs (Some r) (pcs(i := pc')) lg"
      using step(2) failed by auto
    ultimately show ?thesis using res step(1) by auto
  next
    case (Call_Mark_Failed rid reason until)
    have own: "rid = ir_ID r" "owner_of (pcs i) \<noteq> None" "may_fail (pcs i)"
      using kind Call_Mark_Failed by (simp_all add: pc_kinds)
    then have zero: "successes lg \<noteq> 1" using inv by (auto simp: key_inv_def)
    obtain s1 res where m: "MarkFailedRetryable R (ev_db env) (ev_sqlnow env) (ir_ID r) (stored_reason reason) until
        (rq_ExpiresAt (rqs i)) s = (s1, res)" by fastforce
    have step: "s' = s1" "pc' = fail_with (Exec_Error reason)"
      using assms(6) Call_Mark_Failed m own(1) by (auto simp: exec_step_def)
    have upd: "key_inv rqs (Some r') (pcs(i := pc')) lg"
      if "ir_ID r' = ir_ID r" "ir_ExpiresAt r' = rq_ExpiresAt (rqs i)" for r'
      using that step(2) own(2) zero assms(5) by (intro key_inv_update [OF inv]) (simp_all add: pc_kinds)
    show ?thesis
      using fail_law [OF assms(1,2) m] assms(2) failed [OF step(2)] upd step(1) by auto
  next
    case (Call_Mark_Succeeded rid dat body)
    have own: "rid = ir_ID r" "owner_of (pcs i) \<noteq> None"
      using kind Call_Mark_Succeeded by (simp_all add: pc_kinds)
    obtain s1 res where m: "MarkSucceeded R (ev_db env) (ev_sqlnow env) (ir_ID r) 200 body
        (rq_ExpiresAt (rqs i)) s = (s1, res)" by fastforce
    have step: "s' = s1" "pc' = fail_with Store_Unavailable \<or> pc' = Returned (Result_Data dat False)"
      using assms(6) Call_Mark_Succeeded m own(1) by (auto simp: exec_step_def split: option.splits)
    have upd: "key_inv rqs (Some r') (pcs(i := pc')) lg"
      if "ir_ID r' = ir_ID r" "ir_ExpiresAt r' = rq_ExpiresAt (rqs i)" "ir_Status r' = status_succeeded" for r'
      using that step(2) own(2) assms(5)
      by (intro key_inv_update [OF inv]) (auto simp: pc_kinds idem_status)
    have "key_inv rqs (Some r) (pcs(i := pc')) lg"
      using step(2) by (intro idle) (auto simp: pc_kinds)
    then show ?thesis
      using succeed_law [OF assms(1,2) m] assms(2) upd step(1) by auto
  qed (use assms kind in \<open>auto simp: exec_step_def pc_of_record_def runs_operation_def fun_upd_idem\<close>)
qed

lemma key_system_step:
  assumes "inv (sy_store sy)" "key_inv rqs (rec (sy_store sy) k) (sy_pc sy) (sy_log sy)"
    and "\<And>j. (rq_Scope (rqs j), rq_KeyHash (rqs j)) = k" "\<And>i j. rq_Now (rqs i) < rq_ExpiresAt (rqs j)"
  shows "inv (sy_store (system_step L cfg R rqs c sy)) \<and>
    key_inv rqs (rec (sy_store (system_step L cfg R rqs c sy)) k) (sy_pc (system_step L cfg R rqs c sy))
      (sy_log (system_step L cfg R rqs c sy))"
proof -
  obtain i env where c: "c = (i, env)" by fastforce
  obtain s' pc' where e: "exec_step L cfg R (rqs i) env (sy_store sy) (sy_pc sy i) = (s', pc')" by fastforce
  show ?thesis
  proof (cases "rec (sy_store sy) k")
    case None
    with key_step_none [where pcs = "sy_pc sy" and i = i and rqs = rqs and k = k, OF assms(1) None _ assms(3,4) e] assms(2) show ?thesis
      by (simp add: c system_step_def e)
  next
    case (Some r)
    show ?thesis
    proof (cases "runs_operation (sy_pc sy i)")
      case False
      with key_step_some [where pcs = "sy_pc sy" and i = i and rqs = rqs and k = k, OF assms(1) Some _ assms(3,4) e] assms(2) Some show ?thesis
        by (simp add: c system_step_def e)
    next
      case True
      have "pc_of_record r (sy_pc sy i)" using assms(2) Some by (simp add: key_inv_def)
      with True have op: "sy_pc sy i = Call_Operation (ir_ID r)"
        by (auto simp: runs_operation_def pc_of_record_def split: exec_pc.splits)
      with e have "s' = sy_store sy" "pc' = after_operation L cfg (ir_ID r) env"
        by (auto simp: exec_step_def)
      with key_inv_operation [where pcs = "sy_pc sy" and i = i, OF _ op] assms(1,2) Some True show ?thesis
        by (simp add: c system_step_def e)
    qed
  qed
qed

lemma key_system_run:
  assumes "inv (sy_store sy)" "key_inv rqs (rec (sy_store sy) k) (sy_pc sy) (sy_log sy)"
    and "\<And>j. (rq_Scope (rqs j), rq_KeyHash (rqs j)) = k" "\<And>i j. rq_Now (rqs i) < rq_ExpiresAt (rqs j)"
  shows "key_inv rqs (rec (sy_store (system_run L cfg R rqs cs sy)) k) (sy_pc (system_run L cfg R rqs cs sy))
      (sy_log (system_run L cfg R rqs cs sy))"
  using assms(1,2)
proof (induction cs arbitrary: sy)
  case (Cons c cs)
  then show ?case using key_system_step [OF Cons.prems assms(3,4), of L cfg c] by simp
qed simp

lemma at_most_once:
  fixes L :: "('p, 'd) idem_lib" and cfg :: IdempotencyConfig and cs :: "(nat \<times> 'd exec_env) list"
    and rqs :: "nat \<Rightarrow> idem_request"
  assumes "inv s" "rec s k = None"
    and "\<And>j. (rq_Scope (rqs j), rq_KeyHash (rqs j)) = k" "\<And>i j. rq_Now (rqs i) < rq_ExpiresAt (rqs j)"
  defines "sy \<equiv> system_run L cfg R rqs cs \<lparr>sy_store = s, sy_pc = (\<lambda>i. Call_Create), sy_log = []\<rparr>"
  shows "successes (sy_log sy) \<le> 1 \<and>
    (\<forall>i j. owner_of (sy_pc sy i) \<noteq> None \<longrightarrow> owner_of (sy_pc sy j) \<noteq> None \<longrightarrow> i = j)"
proof -
  have start: "key_inv rqs (rec s k) (\<lambda>i. Call_Create) []" by (simp add: key_inv_def assms(2))
  have "key_inv rqs (rec (sy_store sy) k) (sy_pc sy) (sy_log sy)"
    unfolding sy_def by (rule key_system_run) (use assms(1,3,4) start in simp_all)
  then show ?thesis by (rule key_inv_safe)
qed

end

text \<open>C4: However the steps of any number of concurrent requests with one key interleave,
  and whichever database calls fail or lose their reply, the operation succeeds at most once and never
  runs in two requests at a time, as long as no request sees the record of another expired.\<close>

theorem idem_at_most_once:
  fixes L :: "('p, 'd) idem_lib" and cfg :: IdempotencyConfig and cs :: "(nat \<times> 'd exec_env) list"
    and rqs :: "nat \<Rightarrow> idem_request"
  assumes "table_wf t" "table_rec t (scope, hash) = None"
    and "\<forall>j. rq_Scope (rqs j) = scope \<and> rq_KeyHash (rqs j) = hash"
    and "\<forall>i j. rq_Now (rqs i) < rq_ExpiresAt (rqs j)"
  defines "sy \<equiv> system_run L cfg sql_repo rqs cs \<lparr>sy_store = t, sy_pc = (\<lambda>i. Call_Create), sy_log = []\<rparr>"
  shows "successes (sy_log sy) \<le> 1 \<and>
    (\<forall>i j. owner_of (sy_pc sy i) \<noteq> None \<longrightarrow> owner_of (sy_pc sy j) \<noteq> None \<longrightarrow> i = j)"
  unfolding sy_def using assms(1-4) by (intro sql_idem.at_most_once [where k = "(scope, hash)"]) auto

theorem idem_at_most_once_witness:
  "successes (sy_log (system_run byte_lib DefaultIdempotencyConfig sql_repo (\<lambda>i. sample_request)
      [(0, env_ok (Inr ''a'')), (1, env_ok (Inr ''b'')), (0, env_ok (Inr ''a'')), (1, env_ok (Inr ''b''))]
      \<lparr>sy_store = empty_table, sy_pc = (\<lambda>i. Call_Create), sy_log = []\<rparr>)) \<le> 1"
  using idem_at_most_once [of empty_table "''s''" "''h''" "\<lambda>i. sample_request" byte_lib DefaultIdempotencyConfig
      "[(0, env_ok (Inr ''a'')), (1, env_ok (Inr ''b'')), (0, env_ok (Inr ''a'')), (1, env_ok (Inr ''b''))]"]
  by (simp add: empty_table_def table_wf_def table_rec_def sample_request_def del: system_run.simps)

subsection \<open>A table of one record\<close>

lemma one_row_steps:
  assumes "is_key (rq_Scope rq) (rq_KeyHash rq) r" "ev_db env = Db_Ok"
  shows "exec_step L cfg sql_repo rq env \<lparr>it_rows = [r], it_seq = sq\<rparr> Call_Create =
      (\<lparr>it_rows = [r], it_seq = sq + 1\<rparr>, Call_Get)"
    and "exec_step L cfg sql_repo rq env \<lparr>it_rows = [r], it_seq = sq\<rparr> Call_Get =
      (\<lparr>it_rows = [r], it_seq = sq\<rparr>, after_get L rq False (Some (Some r)))"
    and "ir_LockedUntil r = None \<Longrightarrow> ir_ID r = ir_ID e \<Longrightarrow> ir_Status r = ir_Status e \<Longrightarrow> ir_ID e \<noteq> 0 \<Longrightarrow>
      exec_step L cfg sql_repo rq env \<lparr>it_rows = [r], it_seq = sq\<rparr> (Call_Reclaim_Expired e) =
      (\<lparr>it_rows = [r\<lparr>ir_Status := status_processing, ir_LockedUntil := Some (rq_LockedUntil rq),
         ir_ErrorReason := None, ir_UpdatedAt := ev_sqlnow env, ir_ExpiresAt := rq_ExpiresAt rq\<rparr>], it_seq = sq\<rparr>,
       Call_Operation (ir_ID e))"
    and "ir_ID r = rid \<Longrightarrow>
      exec_step L cfg sql_repo rq env \<lparr>it_rows = [r], it_seq = sq\<rparr> (Call_Mark_Succeeded rid dat body) =
      (\<lparr>it_rows = [r\<lparr>ir_Status := status_succeeded, ir_ResponseStatus := Some 200, ir_ResponseBody := Some body,
         ir_ErrorReason := None, ir_LockedUntil := None, ir_ExpiresAt := rq_ExpiresAt rq,
         ir_UpdatedAt := ev_sqlnow env\<rparr>], it_seq = sq\<rparr>, Returned (Result_Data dat False))"
  using assms
  by (simp_all add: exec_step_def sql_repo_def run_sql_def insert_processing_def select_by_key_def
      update_reclaim_def update_succeeded_def update_where_def reclaimable_def claimed_def)

lemma operation_step:
  assumes "marshalStoredResponse L cfg dat = Some body"
  shows "exec_step L cfg R rq (env_ok (Inr dat)) s (Call_Operation rid) = (s, Call_Mark_Succeeded rid dat body)"
  by (simp add: exec_step_def after_operation_def env_ok_def assms)

text \<open>Two requests that both find the record of an earlier success expired can both
  run the operation: the second reclaims the record after the first has already completed, because the
  reclaim compares the status but not the expiry it had read.\<close>

theorem idem_expired_race:
  assumes "rq_Scope rq = ir_Scope old" "rq_KeyHash rq = ir_KeyHash old" "rq_Fingerprint rq = ir_Fingerprint old"
    and "ir_Status old = status_succeeded" "ir_LockedUntil old = None" "ir_ExpiresAt old \<le> rq_Now rq"
    and "ir_ID old \<noteq> 0" "marshalStoredResponse L cfg dat = Some body"
  shows "let sy = system_run L cfg sql_repo (\<lambda>i. rq)
           (map (\<lambda>i. (i, env_ok (Inr dat))) [0, 0, 1, 1, 0, 0, 0, 1, 1, 1])
           \<lparr>sy_store = \<lparr>it_rows = [old], it_seq = sq\<rparr>, sy_pc = (\<lambda>i. Call_Create), sy_log = []\<rparr>
    in sy_log sy = [(0, True), (1, True)] \<and> sy_pc sy 0 = Returned (Result_Data dat False) \<and>
       sy_pc sy 1 = Returned (Result_Data dat False)"
proof -
  have key: "is_key (rq_Scope rq) (rq_KeyHash rq) old" using assms(1,2) by (simp add: is_key_def)
  have get: "after_get L rq False (Some (Some old)) = Call_Reclaim_Expired old"
    using assms(3,6) by (simp add: after_get_def)
  have ok: "ev_db (env_ok x) = Db_Ok" "ev_op (env_ok x) = x" for x :: "string + 'b"
    by (simp_all add: env_ok_def)
  show ?thesis
    using assms(4,5,7)
    by (simp add: system_step_def one_row_steps key [unfolded is_key_def] is_key_def get ok
        operation_step [OF assms(8)] runs_operation_def)
qed

theorem idem_expired_race_witness:
  "sy_log (system_run byte_lib DefaultIdempotencyConfig sql_repo
      (\<lambda>i. sample_request\<lparr>rq_Now := 50, rq_LockedUntil := 80, rq_ExpiresAt := 150\<rparr>)
      (map (\<lambda>i. (i, env_ok (Inr ''{}''))) [0, 0, 1, 1, 0, 0, 0, 1, 1, 1])
      \<lparr>sy_store = \<lparr>it_rows = [(new_record 1 0 ''s'' ''h'' ''fp'' 0 40)\<lparr>ir_Status := status_succeeded,
         ir_LockedUntil := None\<rparr>], it_seq = 2\<rparr>,
       sy_pc = (\<lambda>i. Call_Create), sy_log = []\<rparr>) = [(0, True), (1, True)]"
proof -
  have "marshalStoredResponse byte_lib DefaultIdempotencyConfig ''{}'' = Some ''{}''"
    by (simp add: marshalStoredResponse_def byte_lib_def DefaultIdempotencyConfig_def)
  from idem_expired_race [OF _ _ _ _ _ _ _ this,
      of "sample_request\<lparr>rq_Now := 50, rq_LockedUntil := 80, rq_ExpiresAt := 150\<rparr>"
        "(new_record 1 0 ''s'' ''h'' ''fp'' 0 40)\<lparr>ir_Status := status_succeeded, ir_LockedUntil := None\<rparr>" 2]
  show ?thesis
    by (simp add: Let_def sample_request_def new_record_def del: system_run.simps)
qed

end
