(* ===== verification/Payment_Order.thy ===== *)
theory Payment_Order
  imports Complex_Main Prelude
begin

section \<open>Payment orders, redeem codes and the tables they live in\<close>

text \<open>
  One order (table \<open>payment_orders\<close>, schema \<open>ent/schema/payment_order.go\<close>, of which the fields that
  the fulfilment and refund code reads or writes are kept), the redeem codes, the users and the audit
  log of the order. \<open>Float\<close> columns are NUMERIC in the database; amounts are rational numbers here, so
  binary rounding is not modelled.

  The statements the services send through ent are functions on the store: an UPDATE with a WHERE
  clause reports whether it matched, and every UPDATE of the order sets \<open>updated_at\<close> (the schema's
  \<open>UpdateDefault\<close>). A transaction is one atomic statement.
\<close>

datatype order_status =
    OrderStatusPending | OrderStatusPaid | OrderStatusRecharging | OrderStatusCompleted
  | OrderStatusExpired | OrderStatusCancelled | OrderStatusFailed | OrderStatusRefundRequested
  | OrderStatusRefunding | OrderStatusRefundPending | OrderStatusPartiallyRefunded
  | OrderStatusRefunded | OrderStatusRefundFailed

definition psIsRefundStatus :: "order_status \<Rightarrow> bool" where
  "psIsRefundStatus s \<longleftrightarrow> (case s of
       OrderStatusRefundRequested \<Rightarrow> True | OrderStatusRefunding \<Rightarrow> True | OrderStatusRefundPending \<Rightarrow> True
     | OrderStatusPartiallyRefunded \<Rightarrow> True | OrderStatusRefunded \<Rightarrow> True | OrderStatusRefundFailed \<Rightarrow> True
     | _ \<Rightarrow> False)"

text \<open>The provider snapshot of an order, as \<open>psOrderProviderSnapshot\<close> reads it from JSON.\<close>

record paymentOrderProviderSnapshot =
  sn_SchemaVersion :: int
  sn_ProviderInstanceID :: string
  sn_ProviderKey :: string
  sn_PaymentMode :: string
  sn_MerchantAppID :: string
  sn_MerchantID :: string
  sn_Currency :: string

record PaymentOrder =
  po_ID :: int
  po_UserID :: int
  po_Amount :: rat
  po_PayAmount :: rat
  po_RechargeCode :: string
  po_PaymentType :: string
  po_PaymentTradeNo :: string
  po_OrderType :: string
  po_SubscriptionGroupID :: "int option"
  po_SubscriptionDays :: "int option"
  po_ProviderKey :: "string option"
  po_ProviderSnapshot :: "paymentOrderProviderSnapshot option"
  po_Status :: order_status
  po_RefundAmount :: rat
  po_RefundReason :: "string option"
  po_ForceRefund :: bool
  po_RefundRequestReason :: "string option"
  po_PaidAt :: "go_time option"
  po_CompletedAt :: "go_time option"
  po_FailedAt :: "go_time option"
  po_FailedReason :: "string option"
  po_UpdatedAt :: go_time

subsection \<open>Currencies\<close>

definition zero_decimal_currencies :: "string list" where
  "zero_decimal_currencies = [''BIF'', ''CLP'', ''DJF'', ''GNF'', ''JPY'', ''KMF'', ''KRW'', ''MGA'', ''PYG'',
     ''RWF'', ''VND'', ''VUV'', ''XAF'', ''XOF'', ''XPF'']"

definition three_decimal_currencies :: "string list" where
  "three_decimal_currencies = [''BHD'', ''IQD'', ''JOD'', ''KWD'', ''LYD'', ''OMR'', ''TND'']"

definition NormalizePaymentCurrency :: "string \<Rightarrow> string option" where
  "NormalizePaymentCurrency raw =
     (let currency = go_ToUpper (go_TrimSpace raw) in
      if currency = [] then Some ''CNY''
      else if length currency \<noteq> 3 then None
      else if list_ex (\<lambda>c. (of_char c :: nat) < 65 \<or> (of_char c :: nat) > 90) currency then None
      else Some currency)"

text \<open>\<open>paymentCurrencyAmountUnitFor\<close>: the digits of the API's minor unit and those that amounts may have.\<close>

definition paymentCurrencyAmountUnitFor :: "string \<Rightarrow> nat \<times> nat" where
  "paymentCurrencyAmountUnitFor currency =
     (case NormalizePaymentCurrency currency of
        None \<Rightarrow> (2, 2)
      | Some c \<Rightarrow> if c \<in> set zero_decimal_currencies then (0, 0)
                 else if c = ''ISK'' \<or> c = ''UGX'' then (2, 0)
                 else if c \<in> set three_decimal_currencies then (3, 3)
                 else (2, 2))"

definition CurrencyMinorUnit :: "string \<Rightarrow> nat" where
  "CurrencyMinorUnit currency = fst (paymentCurrencyAmountUnitFor currency)"

definition PaymentOrderCurrency :: "PaymentOrder \<Rightarrow> string" where
  "PaymentOrderCurrency o1 =
     (case po_ProviderSnapshot o1 of
        None \<Rightarrow> ''CNY''
      | Some sn \<Rightarrow> (case NormalizePaymentCurrency (sn_Currency sn) of None \<Rightarrow> ''CNY'' | Some c \<Rightarrow> c))"

definition paymentAmountToleranceForCurrency :: "string \<Rightarrow> rat" where
  "paymentAmountToleranceForCurrency currency =
     (let minorUnit = CurrencyMinorUnit currency
      in if minorUnit \<le> 2 then 1 / 100 else 1 / (2 * 10 ^ minorUnit))"

subsection \<open>Tables\<close>

datatype redeem_status = StatusUnused | StatusUsed | StatusExpired | StatusOther string

record RedeemCode =
  rd_Code :: string
  rd_Type :: string
  rd_Value :: rat
  rd_Status :: redeem_status
  rd_UsedBy :: "int option"
  rd_ExpiresAt :: "go_time option"
  rd_GroupID :: "int option"

definition IsUsed :: "RedeemCode \<Rightarrow> bool" where
  "IsUsed c \<longleftrightarrow> rd_Status c = StatusUsed"

definition IsExpiredAt :: "go_time \<Rightarrow> RedeemCode \<Rightarrow> bool" where
  "IsExpiredAt now c \<longleftrightarrow> rd_Status c = StatusExpired \<or>
     rd_Status c = StatusUnused \<and> (case rd_ExpiresAt c of None \<Rightarrow> False | Some e \<Rightarrow> \<not> e > now)"

definition CanUse :: "go_time \<Rightarrow> RedeemCode \<Rightarrow> bool" where
  "CanUse now c \<longleftrightarrow> rd_Status c = StatusUnused \<and> \<not> IsExpiredAt now c"

record pay_user =
  pu_Balance :: rat
  pu_TotalRecharged :: rat

text \<open>
  \<open>ps_audit\<close> holds the actions logged for the order (unique per order and action since migration 131)
  with the detail that code reads back. Subscriptions are seen through the number of times the order
  extended one, whether the subscription of the order's user carries the order's note, and the
  number of affiliate rebates accrued, by the fulfilment of the order and by public redemptions of its code.
\<close>

record audit_detail =
  ad_DeductionRollbackOK :: bool

record pay_store =
  ps_order :: PaymentOrder
  ps_codes :: "string \<Rightarrow> RedeemCode option"
  ps_users :: "int \<Rightarrow> pay_user option"
  ps_audit :: "string \<Rightarrow> audit_detail option"
  ps_assigned :: nat
  ps_note :: bool
  ps_rebates :: nat
  ps_redeem_rebates :: nat

subsection \<open>Statements\<close>

definition get_order :: "pay_store \<Rightarrow> pay_store \<times> PaymentOrder" where
  "get_order s = (s, ps_order s)"

definition update_order :: "(PaymentOrder \<Rightarrow> bool) \<Rightarrow> (PaymentOrder \<Rightarrow> PaymentOrder) \<Rightarrow> go_time \<Rightarrow>
    pay_store \<Rightarrow> pay_store \<times> bool" where
  "update_order P f now s =
     (if P (ps_order s) then (s\<lparr>ps_order := (f (ps_order s))\<lparr>po_UpdatedAt := now\<rparr>\<rparr>, True) else (s, False))"

text \<open>An INSERT into the audit log fails when the action is already logged for the order.\<close>

definition insert_audit :: "string \<Rightarrow> audit_detail \<Rightarrow> pay_store \<Rightarrow> pay_store \<times> bool" where
  "insert_audit action detail s =
     (if ps_audit s action \<noteq> None then (s, False)
      else (s\<lparr>ps_audit := (ps_audit s)(action \<mapsto> detail)\<rparr>, True))"

definition hasAuditLog :: "string \<Rightarrow> pay_store \<Rightarrow> bool" where
  "hasAuditLog action s \<longleftrightarrow> ps_audit s action \<noteq> None"

definition UpdateBalance :: "int \<Rightarrow> rat \<Rightarrow> pay_store \<Rightarrow> pay_store \<times> bool" where
  "UpdateBalance uid amount s =
     (case ps_users s uid of
        None \<Rightarrow> (s, False)
      | Some u \<Rightarrow> (s\<lparr>ps_users := (ps_users s)(uid \<mapsto>
          u\<lparr>pu_Balance := pu_Balance u + amount,
            pu_TotalRecharged := (if amount > 0 then pu_TotalRecharged u + amount else pu_TotalRecharged u)\<rparr>)\<rparr>, True))"

definition ApplyRedeemBalanceAdjustment :: "int \<Rightarrow> rat \<Rightarrow> pay_store \<Rightarrow> pay_store \<times> bool" where
  "ApplyRedeemBalanceAdjustment uid delta s =
     (case ps_users s uid of
        None \<Rightarrow> (s, False)
      | Some u \<Rightarrow> (s\<lparr>ps_users := (ps_users s)(uid \<mapsto> u\<lparr>pu_Balance := max (pu_Balance u + delta) 0\<rparr>)\<rparr>, True))"

text \<open>\<open>DeductAvailableBalance\<close>: takes at most the positive balance and returns what it took.\<close>

definition DeductAvailableBalance :: "int \<Rightarrow> rat \<Rightarrow> pay_store \<Rightarrow> pay_store \<times> rat option" where
  "DeductAvailableBalance uid amount s =
     (if amount < 0 then (s, None)
      else case ps_users s uid of
        None \<Rightarrow> (s, None)
      | Some u \<Rightarrow>
          let taken = min amount (max (pu_Balance u) 0)
          in (s\<lparr>ps_users := (ps_users s)(uid \<mapsto> u\<lparr>pu_Balance := pu_Balance u - taken\<rparr>)\<rparr>, Some taken))"

text \<open>\<open>redeemCodeRepository.Use\<close>: only an unused code is taken.\<close>

definition UseCode :: "string \<Rightarrow> int \<Rightarrow> pay_store \<Rightarrow> pay_store \<times> bool" where
  "UseCode code uid s =
     (case ps_codes s code of
        None \<Rightarrow> (s, False)
      | Some c \<Rightarrow> if rd_Status c = StatusUnused
                 then (s\<lparr>ps_codes := (ps_codes s)(code \<mapsto> c\<lparr>rd_Status := StatusUsed, rd_UsedBy := Some uid\<rparr>)\<rparr>, True)
                 else (s, False))"

definition insert_code :: "RedeemCode \<Rightarrow> pay_store \<Rightarrow> pay_store \<times> bool" where
  "insert_code c s =
     (if ps_codes s (rd_Code c) \<noteq> None then (s, False)
      else (s\<lparr>ps_codes := (ps_codes s)(rd_Code c \<mapsto> c)\<rparr>, True))"

lemmas pay_statements = get_order_def update_order_def insert_audit_def UpdateBalance_def
  ApplyRedeemBalanceAdjustment_def DeductAvailableBalance_def UseCode_def insert_code_def

text \<open>A sample: a pending balance order of 5 by user 7.\<close>

definition sample_store :: pay_store where
  "sample_store =
     \<lparr>ps_order = \<lparr>po_ID = 1, po_UserID = 7, po_Amount = 5, po_PayAmount = 5, po_RechargeCode = ''PAY1'',
        po_PaymentType = ''stripe'', po_PaymentTradeNo = [], po_OrderType = ''balance'',
        po_SubscriptionGroupID = None, po_SubscriptionDays = None, po_ProviderKey = None,
        po_ProviderSnapshot = None, po_Status = OrderStatusPending, po_RefundAmount = 0,
        po_RefundReason = None, po_ForceRefund = False, po_RefundRequestReason = None, po_PaidAt = None,
        po_CompletedAt = None, po_FailedAt = None, po_FailedReason = None, po_UpdatedAt = 0\<rparr>,
      ps_codes = Map.empty, ps_users = [7 \<mapsto> \<lparr>pu_Balance = 10, pu_TotalRecharged = 0\<rparr>],
      ps_audit = Map.empty, ps_assigned = 0, ps_note = False, ps_rebates = 0, ps_redeem_rebates = 0\<rparr>"

end
