(* ===== verification/Interleaving.thy ===== *)
theory Interleaving
  imports Main
begin

section \<open>Interleaved workers on one store\<close>

text \<open>
  Requests, webhooks and background jobs of several processes act on one database. A worker is a
  program counter; a schedule says which worker takes its next step and what the step meets in its
  environment (faults, clocks, answers of other services). Each step is atomic on the store.

  The locale \<open>interleaving\<close> is rely-guarantee reasoning for such systems: each step keeps an
  invariant of the store, establishes the assertion of its own next program counter, and changes
  the store only in ways (\<open>later\<close>) that keep the assertions of all other workers.
\<close>

record ('s, 'p) workers =
  wk_store :: 's
  wk_pc :: "nat \<Rightarrow> 'p"

definition work_step :: "('e \<Rightarrow> 's \<Rightarrow> 'p \<Rightarrow> 's \<times> 'p) \<Rightarrow> nat \<times> 'e \<Rightarrow> ('s, 'p) workers \<Rightarrow> ('s, 'p) workers" where
  "work_step step choice w =
     (case choice of (i, env) \<Rightarrow>
        case step env (wk_store w) (wk_pc w i) of (s', pc') \<Rightarrow>
          \<lparr>wk_store = s', wk_pc = (wk_pc w)(i := pc')\<rparr>)"

fun work_run :: "('e \<Rightarrow> 's \<Rightarrow> 'p \<Rightarrow> 's \<times> 'p) \<Rightarrow> (nat \<times> 'e) list \<Rightarrow> ('s, 'p) workers \<Rightarrow> ('s, 'p) workers" where
  "work_run step [] w = w"
| "work_run step (c # cs) w = work_run step cs (work_step step c w)"

text \<open>One worker alone.\<close>

fun run_alone :: "('e \<Rightarrow> 's \<Rightarrow> 'p \<Rightarrow> 's \<times> 'p) \<Rightarrow> 'e list \<Rightarrow> 's \<Rightarrow> 'p \<Rightarrow> 's \<times> 'p" where
  "run_alone step [] s pc = (s, pc)"
| "run_alone step (e # es) s pc = (case step e s pc of (s', pc') \<Rightarrow> run_alone step es s' pc')"

text \<open>
  \<open>settles step good n s pc Q\<close>: a worker that runs alone for at least \<open>n\<close> steps in good
  environments ends in a store with \<open>Q\<close>.
\<close>

definition settles :: "('e \<Rightarrow> 's \<Rightarrow> 'p \<Rightarrow> 's \<times> 'p) \<Rightarrow> ('e \<Rightarrow> bool) \<Rightarrow> nat \<Rightarrow> 's \<Rightarrow> 'p \<Rightarrow> ('s \<Rightarrow> bool) \<Rightarrow> bool" where
  "settles step good n s pc Q \<longleftrightarrow>
     (\<forall>es. n \<le> length es \<longrightarrow> (\<forall>e\<in>set es. good e) \<longrightarrow> Q (fst (run_alone step es s pc)))"

lemma settles_step:
  assumes "\<And>e. good e \<Longrightarrow> settles step good n (fst (step e s pc)) (snd (step e s pc)) Q"
  shows "settles step good (Suc n) s pc Q"
  unfolding settles_def
proof (intro allI impI)
  fix es assume es: "Suc n \<le> length es" "\<forall>e\<in>set es. good e"
  then obtain e es' where "es = e # es'" by (cases es) auto
  with es assms [of e] show "Q (fst (run_alone step es s pc))"
    by (auto simp: settles_def split: prod.split)
qed

lemma run_alone_stopped: "(\<And>e. step e s pc = (s, pc)) \<Longrightarrow> run_alone step es s pc = (s, pc)"
  by (induction es) simp_all

lemma settles_stopped: "(\<And>e. step e s pc = (s, pc)) \<Longrightarrow> Q s \<Longrightarrow> settles step good n s pc Q"
  by (simp add: settles_def run_alone_stopped)

lemma settles_mono: "settles step good n s pc Q \<Longrightarrow> n \<le> m \<Longrightarrow> settles step good m s pc Q"
  by (simp add: settles_def)

locale interleaving =
  fixes step :: "'e \<Rightarrow> 's \<Rightarrow> 'p \<Rightarrow> 's \<times> 'p"
    and inv :: "'s \<Rightarrow> bool"
    and asserted :: "'s \<Rightarrow> 'p \<Rightarrow> bool"
    and later :: "'s \<Rightarrow> 's \<Rightarrow> bool"
  assumes step_keeps: "inv s \<Longrightarrow> asserted s pc \<Longrightarrow> step e s pc = (s', pc') \<Longrightarrow>
      inv s' \<and> asserted s' pc' \<and> later s s'"
    and later_keeps: "asserted s pc \<Longrightarrow> later s s' \<Longrightarrow> asserted s' pc"
begin

lemma work_step_keeps:
  assumes "inv (wk_store w)" "\<forall>i. asserted (wk_store w) (wk_pc w i)"
  shows "inv (wk_store (work_step step c w)) \<and>
    (\<forall>i. asserted (wk_store (work_step step c w)) (wk_pc (work_step step c w) i))"
proof -
  obtain i env where c: "c = (i, env)" by fastforce
  obtain s' pc' where e: "step env (wk_store w) (wk_pc w i) = (s', pc')" by fastforce
  have "inv s' \<and> asserted s' pc' \<and> later (wk_store w) s'"
    using step_keeps [OF assms(1) _ e] assms(2) by blast
  then show ?thesis
    using assms(2) later_keeps by (auto simp: c work_step_def e)
qed

lemma work_run_keeps:
  assumes "inv (wk_store w)" "\<forall>i. asserted (wk_store w) (wk_pc w i)"
  shows "inv (wk_store (work_run step cs w)) \<and>
    (\<forall>i. asserted (wk_store (work_run step cs w)) (wk_pc (work_run step cs w) i))"
  using assms
proof (induction cs arbitrary: w)
  case (Cons c cs)
  then show ?case using work_step_keeps [of w c] by simp
qed simp

end

end
