(* ===== verification/Payment_Fulfillment.thy ===== *)
theory Payment_Fulfillment
  imports Payment_Order Interleaving
begin

section \<open>Fulfilment of paid orders: service/payment\_fulfillment.go\<close>

text \<open>
  A paid notification confirms an order, and whoever holds the fulfilment lease of the order redeems
  the order's code (a balance order) or assigns the subscription, accrues the affiliate rebate and
  completes the order. Webhooks of the provider, the expiry job, users who cancel or redeem and
  administrators who retry do this concurrently, and a worker can die between any two statements.

  A worker is a program counter whose steps are the calls of the Go functions to the database, to
  Redis and to the services not modelled; \<open>pay_step\<close> is one such call with the code up to the next.
  What a call meets is in \<open>pay_env\<close>.
\<close>

subsection \<open>Checks of a notification\<close>

text \<open>A \<open>float64\<close> from a provider: a number, or NaN or an infinity.\<close>

datatype go_float = Finite rat | Not_Finite

definition isValidProviderAmount :: "go_float \<Rightarrow> bool" where
  "isValidProviderAmount a \<longleftrightarrow> (case a of Finite x \<Rightarrow> x > 0 | Not_Finite \<Rightarrow> False)"

record PaymentNotification =
  pn_TradeNo :: string
  pn_Amount :: go_float
  pn_Status :: string
  pn_Metadata :: "(string \<times> string) list"
  pn_ProviderKey :: string

definition expectedNotificationProviderKey :: "string \<Rightarrow> string \<Rightarrow> string \<Rightarrow> string \<Rightarrow> string" where
  "expectedNotificationProviderKey registryKey orderPaymentType orderProviderKey instanceProviderKey =
     (if go_TrimSpace instanceProviderKey \<noteq> [] then go_TrimSpace instanceProviderKey
      else if go_TrimSpace orderProviderKey \<noteq> [] then go_TrimSpace orderProviderKey
      else if go_TrimSpace registryKey \<noteq> [] then go_TrimSpace registryKey
      else go_TrimSpace orderPaymentType)"

definition expectedNotificationProviderKeyForOrder :: "string \<Rightarrow> PaymentOrder \<Rightarrow> string \<Rightarrow> string" where
  "expectedNotificationProviderKeyForOrder registryKey o1 instanceProviderKey =
     (let key = (case po_ProviderKey o1 of None \<Rightarrow> [] | Some k \<Rightarrow> k);
          key = (case po_ProviderSnapshot o1 of
                   None \<Rightarrow> key | Some sn \<Rightarrow> if sn_ProviderKey sn \<noteq> [] then sn_ProviderKey sn else key)
      in expectedNotificationProviderKey registryKey (po_PaymentType o1) key instanceProviderKey)"

text \<open>A map lookup that yields the empty string for a missing key.\<close>

definition meta :: "(string \<times> string) list \<Rightarrow> string \<Rightarrow> string" where
  "meta m k = go_TrimSpace (case map_of m k of None \<Rightarrow> [] | Some v \<Rightarrow> v)"

text \<open>One comparison of \<open>validateProviderSnapshotMetadata\<close>: nothing expected, or present and equal.\<close>

definition meta_matches :: "string \<Rightarrow> string \<Rightarrow> bool" where
  "meta_matches expected actual \<longleftrightarrow>
     (go_TrimSpace expected = [] \<or> actual \<noteq> [] \<and> go_EqualFold (go_TrimSpace expected) actual)"

definition validateProviderSnapshotMetadata :: "PaymentOrder \<Rightarrow> string \<Rightarrow> (string \<times> string) list \<Rightarrow> bool" where
  "validateProviderSnapshotMetadata o1 providerKey m \<longleftrightarrow>
     (if m = [] then True
      else case po_ProviderSnapshot o1 of
        None \<Rightarrow> True
      | Some sn \<Rightarrow>
          let pk = go_TrimSpace providerKey in
          if pk = ''wxpay'' then
            meta_matches (sn_MerchantAppID sn) (meta m ''appid'') \<and>
            meta_matches (sn_MerchantID sn) (meta m ''mchid'') \<and>
            meta_matches (sn_Currency sn) (go_ToUpper (meta m ''currency'')) \<and>
            (meta m ''trade_state'' = [] \<or> go_EqualFold (meta m ''trade_state'') ''SUCCESS'')
          else if pk = ''alipay'' then meta_matches (sn_MerchantAppID sn) (meta m ''app_id'')
          else if pk = ''easypay'' then meta_matches (sn_MerchantID sn) (meta m ''pid'')
          else if pk = ''stripe'' then meta_matches (sn_Currency sn) (go_ToUpper (meta m ''currency''))
          else if pk = ''airwallex'' then
            meta_matches (sn_MerchantID sn) (meta m ''account_id'') \<and>
            meta_matches (sn_Currency sn) (go_ToUpper (meta m ''currency'')) \<and>
            (meta m ''status'' = [] \<or> go_EqualFold (meta m ''status'') ''SUCCEEDED'')
          else True)"

text \<open>The checks of \<open>confirmPayment\<close> between reading the order and \<open>toPaid\<close>.\<close>

definition notification_accepted :: "string \<Rightarrow> string \<Rightarrow> PaymentNotification \<Rightarrow> PaymentOrder \<Rightarrow> bool" where
  "notification_accepted registryKey instanceKey n o1 \<longleftrightarrow>
     (let expected = expectedNotificationProviderKeyForOrder registryKey o1 instanceKey;
          pk = go_TrimSpace (pn_ProviderKey n)
      in (expected = [] \<or> pk = [] \<or> go_EqualFold expected pk) \<and>
         validateProviderSnapshotMetadata o1 (pn_ProviderKey n) (pn_Metadata n) \<and>
         isValidProviderAmount (pn_Amount n) \<and>
         (case pn_Amount n of Not_Finite \<Rightarrow> False
          | Finite paid \<Rightarrow> \<not> \<bar>paid - po_PayAmount o1\<bar> > paymentAmountToleranceForCurrency (PaymentOrderCurrency o1)))"

subsection \<open>Statements\<close>

definition paymentGrace :: go_duration where "paymentGrace = 5 * minute"
definition paymentFulfillmentLeaseDuration :: go_duration where "paymentFulfillmentLeaseDuration = 5 * minute"

definition may_be_paid :: "go_time \<Rightarrow> PaymentOrder \<Rightarrow> bool" where
  "may_be_paid now o1 \<longleftrightarrow> po_Status o1 = OrderStatusPending \<or> po_Status o1 = OrderStatusCancelled \<or>
     po_Status o1 = OrderStatusExpired \<and> po_UpdatedAt o1 \<ge> now - paymentGrace"

definition toPaid :: "string \<Rightarrow> rat \<Rightarrow> go_time \<Rightarrow> pay_store \<Rightarrow> pay_store \<times> bool" where
  "toPaid tradeNo paid now = update_order (may_be_paid now)
     (\<lambda>o1. o1\<lparr>po_Status := OrderStatusPaid, po_PayAmount := paid, po_PaymentTradeNo := tradeNo,
             po_PaidAt := Some now, po_FailedAt := None, po_FailedReason := None\<rparr>) now"

definition may_be_leased :: "go_time \<Rightarrow> PaymentOrder \<Rightarrow> bool" where
  "may_be_leased now o1 \<longleftrightarrow> po_Status o1 = OrderStatusPaid \<or> po_Status o1 = OrderStatusFailed \<or>
     po_Status o1 = OrderStatusRecharging \<and> po_UpdatedAt o1 \<le> now - paymentFulfillmentLeaseDuration"

definition acquire_lease :: "go_time \<Rightarrow> pay_store \<Rightarrow> pay_store \<times> bool" where
  "acquire_lease now = update_order (may_be_leased now)
     (\<lambda>o1. o1\<lparr>po_Status := OrderStatusRecharging, po_FailedAt := None, po_FailedReason := None\<rparr>) now"

definition holds_lease :: "go_time \<Rightarrow> PaymentOrder \<Rightarrow> bool" where
  "holds_lease version o1 \<longleftrightarrow> po_Status o1 = OrderStatusRecharging \<and> po_UpdatedAt o1 = version"

definition markCompleted :: "go_time \<Rightarrow> go_time \<Rightarrow> pay_store \<Rightarrow> pay_store \<times> bool" where
  "markCompleted version now = update_order (holds_lease version)
     (\<lambda>o1. o1\<lparr>po_Status := OrderStatusCompleted, po_CompletedAt := Some now\<rparr>) now"

definition markFailed :: "go_time \<Rightarrow> string \<Rightarrow> go_time \<Rightarrow> pay_store \<Rightarrow> pay_store \<times> bool" where
  "markFailed version reason now = update_order (holds_lease version)
     (\<lambda>o1. o1\<lparr>po_Status := OrderStatusFailed, po_FailedAt := Some now, po_FailedReason := Some reason\<rparr>) now"

definition cancel_order :: "order_status \<Rightarrow> go_time \<Rightarrow> pay_store \<Rightarrow> pay_store \<times> bool" where
  "cancel_order status now = update_order (\<lambda>o1. po_Status o1 = OrderStatusPending)
     (\<lambda>o1. o1\<lparr>po_Status := status\<rparr>) now"

text \<open>
  The transaction of \<open>RedeemService.redeem\<close>: take the code, grant its value, or roll back. Codes of
  other types than balance grant something outside this model, whose success is \<open>granted\<close>.
\<close>

definition redeem_tx :: "int \<Rightarrow> RedeemCode \<Rightarrow> bool \<Rightarrow> pay_store \<Rightarrow> pay_store \<times> bool" where
  "redeem_tx uid c granted s =
     (case UseCode (rd_Code c) uid s of
        (s1, False) \<Rightarrow> (s, False)
      | (s1, True) \<Rightarrow>
          (case (if rd_Type c = ''balance'' then
                   (if rd_Value c < 0 then ApplyRedeemBalanceAdjustment uid (rd_Value c) s1
                    else UpdateBalance uid (rd_Value c) s1)
                 else (s1, granted)) of
             (s2, True) \<Rightarrow> (s2, True)
           | (s2, False) \<Rightarrow> (s, False)))"

text \<open>
  \<open>tryAccrueAffiliateRebateForRedeem\<close> after a public redemption; an error is only logged. Nothing records that
  this rebate was accrued.
\<close>

definition redeem_rebate :: "rat option \<Rightarrow> pay_store \<Rightarrow> pay_store \<times> unit" where
  "redeem_rebate rebate s =
     (case rebate of
        None \<Rightarrow> (s, ())
      | Some r \<Rightarrow> (if r > 0 then s\<lparr>ps_redeem_rebates := ps_redeem_rebates s + 1\<rparr> else s, ()))"

text \<open>The transaction of \<open>ensurePaymentSubscriptionAssigned\<close>; \<open>ok\<close> is the outcome of the assignment.\<close>

definition assign_tx :: "bool \<Rightarrow> pay_store \<Rightarrow> pay_store \<times> bool" where
  "assign_tx ok s =
     (let logged = (\<lambda>t. t\<lparr>ps_audit := (ps_audit t)(''SUBSCRIPTION_ASSIGNED'' \<mapsto> \<lparr>ad_DeductionRollbackOK = True\<rparr>)\<rparr>)
      in if hasAuditLog ''SUBSCRIPTION_ASSIGNED'' s \<or> hasAuditLog ''SUBSCRIPTION_SUCCESS'' s then (s, True)
         else if ps_note s then (logged s, True)
         else if ok then (logged (s\<lparr>ps_assigned := ps_assigned s + 1, ps_note := True\<rparr>), True)
         else (s, False))"

text \<open>
  The transaction of \<open>applyAffiliateRebateForOrder\<close>: claim the audit row, accrue, and rename the row when
  nothing was accrued; \<open>rebate\<close> is the accrued amount or an error, on which all is rolled back.
\<close>

definition rebate_tx :: "rat option \<Rightarrow> pay_store \<Rightarrow> pay_store \<times> bool" where
  "rebate_tx rebate s =
     (let logged = (\<lambda>a t. t\<lparr>ps_audit := (ps_audit t)(a \<mapsto> \<lparr>ad_DeductionRollbackOK = True\<rparr>)\<rparr>)
      in if hasAuditLog ''AFFILIATE_REBATE_APPLIED'' s \<or> hasAuditLog ''AFFILIATE_REBATE_SKIPPED'' s then (s, True)
         else case rebate of
           None \<Rightarrow> (s, False)
         | Some r \<Rightarrow>
             if r \<le> 0 then (logged ''AFFILIATE_REBATE_SKIPPED'' s, True)
             else (logged ''AFFILIATE_REBATE_APPLIED'' (s\<lparr>ps_rebates := ps_rebates s + 1\<rparr>), True))"

definition affiliateRebateBaseAmount :: "PaymentOrder \<Rightarrow> rat" where
  "affiliateRebateBaseAmount o1 =
     (if po_OrderType o1 = ''balance'' \<or> po_OrderType o1 = ''subscription'' then po_Amount o1 else 0)"

subsection \<open>Decisions\<close>

datatype redeemAction = redeemActionCreate | redeemActionRedeem | redeemActionSkipCompleted

definition resolveRedeemAction :: "RedeemCode option \<Rightarrow> redeemAction" where
  "resolveRedeemAction existing =
     (case existing of
        None \<Rightarrow> redeemActionCreate
      | Some c \<Rightarrow> if IsUsed c then redeemActionSkipCompleted else redeemActionRedeem)"

definition validatePaymentRedeemCode :: "PaymentOrder \<Rightarrow> RedeemCode \<Rightarrow> bool" where
  "validatePaymentRedeemCode o1 c \<longleftrightarrow>
     rd_Code c = po_RechargeCode o1 \<and> rd_Type c = ''balance'' \<and>
     \<not> \<bar>rd_Value c - po_Amount o1\<bar> > 1 / 100000000 \<and>
     (case rd_Status c of
        StatusUnused \<Rightarrow> rd_UsedBy c = None
      | StatusUsed \<Rightarrow> rd_UsedBy c = Some (po_UserID o1)
      | _ \<Rightarrow> False)"

text \<open>\<open>CreateCode\<close> on the literal that \<open>doBalance\<close> builds.\<close>

definition payment_code :: "PaymentOrder \<Rightarrow> RedeemCode" where
  "payment_code o1 = \<lparr>rd_Code = go_TrimSpace (po_RechargeCode o1), rd_Type = ''balance'', rd_Value = po_Amount o1,
     rd_Status = StatusUnused, rd_UsedBy = None, rd_ExpiresAt = None, rd_GroupID = None\<rparr>"

definition CreateCode :: "PaymentOrder \<Rightarrow> pay_store \<Rightarrow> pay_store \<times> bool" where
  "CreateCode o1 s =
     (if rd_Code (payment_code o1) = [] \<or> rd_Value (payment_code o1) = 0 then (s, False)
      else insert_code (payment_code o1) s)"

definition can_fulfill :: "PaymentOrder \<Rightarrow> bool" where
  "can_fulfill o1 \<longleftrightarrow> po_Status o1 = OrderStatusPaid \<or> po_Status o1 = OrderStatusFailed \<or>
     po_Status o1 = OrderStatusRecharging"

subsection \<open>Workers\<close>

datatype pay_error = Pay_Not_Found | Pay_Invalid_Status | Pay_Missing_Subscription | Pay_Conflict
  | Pay_Db_Error | Pay_Rejected | Pay_Failed string | Pay_Forbidden

text \<open>Who redeems: a worker of the order under its lease, or a user.\<close>

datatype redeemer = Payment PaymentOrder go_time | Public int string

datatype pay_pc =
    Notify PaymentNotification
  | Confirm_Get PaymentNotification
  | To_Paid PaymentOrder string rat
  | Already_Processed
  | Fulfil_Type
  | Fulfil_Get bool
  | Lease_Acquire bool PaymentOrder
  | Lease_Taken
  | Lease_Reload bool PaymentOrder
  | Bal_Lookup PaymentOrder go_time
  | Bal_Create PaymentOrder go_time
  | Redeem_Lock redeemer
  | Redeem_Find redeemer
  | Redeem_User redeemer RedeemCode
  | Redeem_Use redeemer RedeemCode
  | Redeem_Rebate redeemer RedeemCode
  | Redeem_Reload redeemer
  | Sub_Group PaymentOrder go_time
  | Sub_Assign PaymentOrder go_time
  | Sub_Caches PaymentOrder go_time
  | Rebate bool PaymentOrder go_time
  | Complete bool PaymentOrder go_time
  | Complete_Reload go_time
  | Complete_Audit bool
  | Fail_Order go_time string
  | Cancel_Get "int option"
  | Expire_Get
  | Verify_Get int
  | Check_Paid "order_status option" PaymentOrder
  | Persist_Trade PaymentNotification string
  | Cancel_Update order_status
  | Retry_Get
  | Stop "pay_error option"

text \<open>
  What a step meets: the database, the clock, the provider key of the order's instance and of the
  registry, the answer of a lock, a group, an assignment or a cache (\<open>pe_answer\<close>), what the provider
  says when asked about the order (a valid payment after at most one repeated query, or nothing),
  the reference it was asked with, and the affiliate service.
\<close>

record pay_env =
  pe_db :: db_fault
  pe_now :: go_time
  pe_registry_key :: string
  pe_instance_key :: string
  pe_answer :: bool
  pe_query_ref :: string
  pe_provider_paid :: "PaymentNotification option"
  pe_affiliate :: bool
  pe_rebate :: "rat option"

definition paymentOrderShouldPersistUpstreamTradeNo :: "string \<Rightarrow> string \<Rightarrow> string \<Rightarrow> bool" where
  "paymentOrderShouldPersistUpstreamTradeNo queryRef upstreamTradeNo currentTradeNo \<longleftrightarrow>
     go_TrimSpace upstreamTradeNo \<noteq> [] \<and>
     \<not> go_EqualFold (go_TrimSpace upstreamTradeNo) (go_TrimSpace currentTradeNo) \<and>
     \<not> go_EqualFold (go_TrimSpace upstreamTradeNo) (go_TrimSpace queryRef)"

text \<open>A failed redemption ends a public call and fails the order of a payment worker.\<close>

definition redeem_failed :: "redeemer \<Rightarrow> pay_pc" where
  "redeem_failed r = (case r of Payment o1 v \<Rightarrow> Fail_Order v ''redeem'' | Public uid code \<Rightarrow> Stop (Some (Pay_Failed ''redeem'')))"

definition redeem_code_of :: "redeemer \<Rightarrow> string" where
  "redeem_code_of r = (case r of Payment o1 v \<Rightarrow> po_RechargeCode o1 | Public uid code \<Rightarrow> code)"

definition redeem_user_of :: "redeemer \<Rightarrow> int" where
  "redeem_user_of r = (case r of Payment o1 v \<Rightarrow> po_UserID o1 | Public uid code \<Rightarrow> uid)"

text \<open>A redemption for a payment carries the mark that skips the rebate of redemptions.\<close>

definition redeem_accrues :: "redeemer \<Rightarrow> RedeemCode \<Rightarrow> bool" where
  "redeem_accrues r c \<longleftrightarrow> (case r of Payment o1 v \<Rightarrow> False | Public uid code \<Rightarrow> True) \<and> rd_Type c = ''balance'' \<and> rd_Value c > 0"

definition after_rebate :: "bool \<Rightarrow> PaymentOrder \<Rightarrow> pay_env \<Rightarrow> bool" where
  "after_rebate sub o1 env \<longleftrightarrow> affiliateRebateBaseAmount o1 \<le> 0 \<or> \<not> pe_affiliate env"

subsection \<open>Notification steps\<close>

definition notify_step :: "pay_env \<Rightarrow> pay_store \<Rightarrow> pay_pc \<Rightarrow> pay_store \<times> pay_pc" where
  "notify_step env s pc =
     (case pc of
        Notify n \<Rightarrow>
          if pn_Status n \<noteq> ''success'' then (s, Stop None)
          else (case run_sql (pe_db env) get_order s of
             (s', None) \<Rightarrow> (s', Stop (Some Pay_Db_Error))
           | (s', Some o1) \<Rightarrow> (s', Confirm_Get n))
      | Confirm_Get n \<Rightarrow>
          (case run_sql (pe_db env) get_order s of
             (s', None) \<Rightarrow> (s', Stop None)
           | (s', Some o1) \<Rightarrow>
               (s', if notification_accepted (pe_registry_key env) (pe_instance_key env) n o1
                    then (case pn_Amount n of Finite paid \<Rightarrow> To_Paid o1 (pn_TradeNo n) paid
                          | Not_Finite \<Rightarrow> Stop (Some Pay_Rejected))
                    else Stop (Some Pay_Rejected)))
      | To_Paid o1 tradeNo paid \<Rightarrow>
          (case run_sql (pe_db env) (toPaid tradeNo paid (pe_now env)) s of
             (s', None) \<Rightarrow> (s', Stop (Some Pay_Db_Error))
           | (s', Some True) \<Rightarrow> (s', Fulfil_Type)
           | (s', Some False) \<Rightarrow> (s', Already_Processed))
      | Already_Processed \<Rightarrow>
          (case run_sql (pe_db env) get_order s of
             (s', None) \<Rightarrow> (s', Stop None)
           | (s', Some cur) \<Rightarrow> (s', if can_fulfill cur then Fulfil_Type else Stop None))
      | _ \<Rightarrow> (s, pc))"

subsection \<open>Lease steps\<close>

definition lease_step :: "pay_env \<Rightarrow> pay_store \<Rightarrow> pay_pc \<Rightarrow> pay_store \<times> pay_pc" where
  "lease_step env s pc =
     (case pc of
        Fulfil_Type \<Rightarrow>
          (case run_sql (pe_db env) get_order s of
             (s', None) \<Rightarrow> (s', Stop (Some Pay_Db_Error))
           | (s', Some o1) \<Rightarrow> (s', Fulfil_Get (po_OrderType o1 = ''subscription'')))
      | Fulfil_Get sub \<Rightarrow>
          (case run_sql (pe_db env) get_order s of
             (s', None) \<Rightarrow> (s', Stop (Some Pay_Not_Found))
           | (s', Some o1) \<Rightarrow>
               (s', if po_Status o1 = OrderStatusCompleted then Stop None
                    else if psIsRefundStatus (po_Status o1) then Stop (Some Pay_Invalid_Status)
                    else if \<not> can_fulfill o1 then Stop (Some Pay_Invalid_Status)
                    else if sub \<and> (po_SubscriptionGroupID o1 = None \<or> po_SubscriptionDays o1 = None)
                      then Stop (Some Pay_Missing_Subscription)
                    else Lease_Acquire sub o1))
      | Lease_Acquire sub o1 \<Rightarrow>
          (case run_sql (pe_db env) (acquire_lease (pe_now env)) s of
             (s', None) \<Rightarrow> (s', Stop (Some Pay_Db_Error))
           | (s', Some True) \<Rightarrow> (s', Lease_Reload sub o1)
           | (s', Some False) \<Rightarrow> (s', Lease_Taken))
      | Lease_Taken \<Rightarrow>
          (case run_sql (pe_db env) get_order s of
             (s', None) \<Rightarrow> (s', Stop (Some Pay_Db_Error))
           | (s', Some cur) \<Rightarrow>
               (s', if po_Status cur = OrderStatusCompleted then Stop None else Stop (Some Pay_Conflict)))
      | Lease_Reload sub o1 \<Rightarrow>
          (case run_sql (pe_db env) get_order s of
             (s', None) \<Rightarrow> (s', Stop (Some Pay_Db_Error))
           | (s', Some claimed) \<Rightarrow>
               (s', if po_Status claimed \<noteq> OrderStatusRecharging then Stop (Some Pay_Conflict)
                    else if sub then Sub_Group o1 (po_UpdatedAt claimed)
                    else Bal_Lookup o1 (po_UpdatedAt claimed)))
      | _ \<Rightarrow> (s, pc))"

subsection \<open>Balance and subscription steps\<close>

definition redeem_step :: "pay_env \<Rightarrow> pay_store \<Rightarrow> pay_pc \<Rightarrow> pay_store \<times> pay_pc" where
  "redeem_step env s pc =
     (case pc of
        Bal_Lookup o1 v \<Rightarrow>
          (case run_sql (pe_db env) (\<lambda>t. (t, ps_codes t (po_RechargeCode o1))) s of
             (s', None) \<Rightarrow> (s', Fail_Order v ''lookup payment redeem code'')
           | (s', Some existing) \<Rightarrow>
               (s', if (case existing of None \<Rightarrow> False | Some c \<Rightarrow> \<not> validatePaymentRedeemCode o1 c)
                    then Fail_Order v ''payment redeem code''
                    else case resolveRedeemAction existing of
                        redeemActionSkipCompleted \<Rightarrow> Rebate False o1 v
                      | redeemActionCreate \<Rightarrow> Bal_Create o1 v
                      | redeemActionRedeem \<Rightarrow> Redeem_Lock (Payment o1 v)))
      | Bal_Create o1 v \<Rightarrow>
          (case run_sql (pe_db env) (CreateCode o1) s of
             (s', Some True) \<Rightarrow> (s', Redeem_Lock (Payment o1 v))
           | (s', _) \<Rightarrow> (s', Fail_Order v ''create redeem code''))
      | Redeem_Lock r \<Rightarrow> (s, if pe_answer env then Redeem_Find r else redeem_failed r)
      | Redeem_Find r \<Rightarrow>
          (case run_sql (pe_db env) (\<lambda>t. (t, ps_codes t (redeem_code_of r))) s of
             (s', Some (Some c)) \<Rightarrow>
               (s', if IsExpiredAt (pe_now env) c \<or> \<not> CanUse (pe_now env) c then redeem_failed r
                    else if rd_Type c = ''balance'' \<or> rd_Type c = ''concurrency'' \<or>
                            rd_Type c = ''subscription'' \<and> rd_GroupID c \<noteq> None
                      then Redeem_User r c
                    else redeem_failed r)
           | (s', _) \<Rightarrow> (s', redeem_failed r))
      | Redeem_User r c \<Rightarrow>
          (case run_sql (pe_db env) (\<lambda>t. (t, ps_users t (redeem_user_of r))) s of
             (s', Some (Some u)) \<Rightarrow> (s', Redeem_Use r c)
           | (s', _) \<Rightarrow> (s', redeem_failed r))
      | Redeem_Use r c \<Rightarrow>
          (case run_sql (pe_db env) (redeem_tx (redeem_user_of r) c (pe_answer env)) s of
             (s', Some True) \<Rightarrow> (s', if redeem_accrues r c then Redeem_Rebate r c else Redeem_Reload r)
           | (s', _) \<Rightarrow> (s', redeem_failed r))
      | Redeem_Rebate r c \<Rightarrow>
          (if pe_affiliate env then fst (run_sql (pe_db env) (redeem_rebate (pe_rebate env)) s) else s, Redeem_Reload r)
      | Redeem_Reload r \<Rightarrow>
          (case run_sql (pe_db env) (\<lambda>t. (t, ps_codes t (redeem_code_of r))) s of
             (s', Some (Some c)) \<Rightarrow>
               (s', case r of Payment o1 v \<Rightarrow> Rebate False o1 v | Public uid code \<Rightarrow> Stop None)
           | (s', _) \<Rightarrow> (s', redeem_failed r))
      | Sub_Group o1 v \<Rightarrow> (s, if pe_answer env then Sub_Assign o1 v else Fail_Order v ''group'')
      | Sub_Assign o1 v \<Rightarrow>
          (case run_sql (pe_db env) (assign_tx (pe_answer env)) s of
             (s', Some True) \<Rightarrow> (s', Sub_Caches o1 v)
           | (s', _) \<Rightarrow> (s', Fail_Order v ''assign subscription''))
      | Sub_Caches o1 v \<Rightarrow> (s, if pe_answer env then Rebate True o1 v else Fail_Order v ''invalidate subscription cache'')
      | _ \<Rightarrow> (s, pc))"

subsection \<open>Completion steps\<close>

definition complete_step :: "pay_env \<Rightarrow> pay_store \<Rightarrow> pay_pc \<Rightarrow> pay_store \<times> pay_pc" where
  "complete_step env s pc =
     (case pc of
        Rebate sub o1 v \<Rightarrow>
          if after_rebate sub o1 env then (s, Complete sub o1 v)
          else (case run_sql (pe_db env) (rebate_tx (pe_rebate env)) s of
             (s', Some True) \<Rightarrow> (s', Complete sub o1 v)
           | (s', _) \<Rightarrow> (s', Fail_Order v ''affiliate rebate''))
      | Complete sub o1 v \<Rightarrow>
          (case run_sql (pe_db env) (markCompleted v (pe_now env)) s of
             (s', None) \<Rightarrow> (s', Fail_Order v ''mark completed'')
           | (s', Some True) \<Rightarrow> (s', Complete_Audit sub)
           | (s', Some False) \<Rightarrow> (s', Complete_Reload v))
      | Complete_Reload v \<Rightarrow>
          (case run_sql (pe_db env) get_order s of
             (s', None) \<Rightarrow> (s', Fail_Order v ''lease lost'')
           | (s', Some cur) \<Rightarrow>
               (s', if po_Status cur = OrderStatusCompleted then Stop None else Fail_Order v ''lease lost''))
      | Complete_Audit sub \<Rightarrow>
          (case run_sql (pe_db env) (insert_audit (if sub then ''SUBSCRIPTION_SUCCESS'' else ''RECHARGE_SUCCESS'')
                 \<lparr>ad_DeductionRollbackOK = True\<rparr>) s of
             (s', res) \<Rightarrow> (s', Stop None))
      | Fail_Order v reason \<Rightarrow>
          (case run_sql (pe_db env) (markFailed v reason (pe_now env)) s of
             (s', res) \<Rightarrow> (s', Stop (Some (Pay_Failed reason))))
      | _ \<Rightarrow> (s, pc))"

subsection \<open>Cancellation, expiry, reconciliation and retry steps\<close>

definition check_or_cancel :: "order_status \<Rightarrow> PaymentOrder \<Rightarrow> pay_pc" where
  "check_or_cancel target o1 =
     (if po_PaymentTradeNo o1 \<noteq> [] \<or> po_PaymentType o1 \<noteq> [] then Check_Paid (Some target) o1
      else Cancel_Update target)"

definition lifecycle_step :: "pay_env \<Rightarrow> pay_store \<Rightarrow> pay_pc \<Rightarrow> pay_store \<times> pay_pc" where
  "lifecycle_step env s pc =
     (case pc of
        Cancel_Get user \<Rightarrow>
          (case run_sql (pe_db env) get_order s of
             (s', None) \<Rightarrow> (s', Stop (Some Pay_Not_Found))
           | (s', Some o1) \<Rightarrow>
               (s', if user \<noteq> None \<and> user \<noteq> Some (po_UserID o1) then Stop (Some Pay_Forbidden)
                    else if po_Status o1 \<noteq> OrderStatusPending then Stop (Some Pay_Invalid_Status)
                    else check_or_cancel OrderStatusCancelled o1))
      | Expire_Get \<Rightarrow>
          (case run_sql (pe_db env) get_order s of
             (s', None) \<Rightarrow> (s', Stop (Some Pay_Db_Error))
           | (s', Some o1) \<Rightarrow>
               (s', if po_Status o1 = OrderStatusPending \<and> pe_answer env
                    then check_or_cancel OrderStatusExpired o1 else Stop None))
      | Verify_Get user \<Rightarrow>
          (case run_sql (pe_db env) get_order s of
             (s', None) \<Rightarrow> (s', Stop (Some Pay_Not_Found))
           | (s', Some o1) \<Rightarrow>
               (s', if user \<noteq> po_UserID o1 then Stop (Some Pay_Forbidden)
                    else if po_Status o1 = OrderStatusPending \<or> po_Status o1 = OrderStatusExpired
                      then Check_Paid None o1 else Stop None))
      | Check_Paid target o1 \<Rightarrow>
          (s, case pe_provider_paid env of
             None \<Rightarrow> (case target of None \<Rightarrow> Stop None | Some st \<Rightarrow> Cancel_Update st)
           | Some n \<Rightarrow>
               if paymentOrderShouldPersistUpstreamTradeNo (pe_query_ref env) (pn_TradeNo n) (po_PaymentTradeNo o1)
               then Persist_Trade n (go_TrimSpace (pn_TradeNo n))
               else Notify (n\<lparr>pn_TradeNo := po_PaymentTradeNo o1, pn_Status := ''success''\<rparr>))
      | Persist_Trade n tradeNo \<Rightarrow>
          (fst (run_sql (pe_db env) (update_order (\<lambda>o1. True) (\<lambda>o1. o1\<lparr>po_PaymentTradeNo := tradeNo\<rparr>) (pe_now env)) s),
           Notify (n\<lparr>pn_TradeNo := tradeNo, pn_Status := ''success''\<rparr>))
      | Cancel_Update target \<Rightarrow>
          (case run_sql (pe_db env) (cancel_order target (pe_now env)) s of
             (s', None) \<Rightarrow> (s', Stop (Some Pay_Db_Error))
           | (s', Some u) \<Rightarrow> (s', Stop None))
      | Retry_Get \<Rightarrow>
          (case run_sql (pe_db env) get_order s of
             (s', None) \<Rightarrow> (s', Stop (Some Pay_Not_Found))
           | (s', Some o1) \<Rightarrow>
               (s', if po_PaidAt o1 = None then Stop (Some Pay_Invalid_Status)
                    else if psIsRefundStatus (po_Status o1) then Stop (Some Pay_Invalid_Status)
                    else if po_Status o1 = OrderStatusCompleted then Stop (Some Pay_Invalid_Status)
                    else if \<not> can_fulfill o1 then Stop (Some Pay_Invalid_Status)
                    else Fulfil_Type))
      | _ \<Rightarrow> (s, pc))"

text \<open>Each program counter is stepped by one group.\<close>

definition pay_step :: "pay_env \<Rightarrow> pay_store \<Rightarrow> pay_pc \<Rightarrow> pay_store \<times> pay_pc" where
  "pay_step env s pc =
     (case pc of
        Notify n \<Rightarrow> notify_step env s pc | Confirm_Get n \<Rightarrow> notify_step env s pc
      | To_Paid o1 t p \<Rightarrow> notify_step env s pc | Already_Processed \<Rightarrow> notify_step env s pc
      | Fulfil_Type \<Rightarrow> lease_step env s pc | Fulfil_Get b \<Rightarrow> lease_step env s pc
      | Lease_Acquire b o1 \<Rightarrow> lease_step env s pc | Lease_Taken \<Rightarrow> lease_step env s pc
      | Lease_Reload b o1 \<Rightarrow> lease_step env s pc
      | Rebate b o1 v \<Rightarrow> complete_step env s pc | Complete b o1 v \<Rightarrow> complete_step env s pc
      | Complete_Reload v \<Rightarrow> complete_step env s pc | Complete_Audit b \<Rightarrow> complete_step env s pc
      | Fail_Order v r \<Rightarrow> complete_step env s pc
      | Cancel_Get u \<Rightarrow> lifecycle_step env s pc | Expire_Get \<Rightarrow> lifecycle_step env s pc
      | Verify_Get u \<Rightarrow> lifecycle_step env s pc | Check_Paid t o1 \<Rightarrow> lifecycle_step env s pc
      | Persist_Trade n t \<Rightarrow> lifecycle_step env s pc | Cancel_Update t \<Rightarrow> lifecycle_step env s pc
      | Retry_Get \<Rightarrow> lifecycle_step env s pc
      | _ \<Rightarrow> redeem_step env s pc)"

end
