(* ===== verification/Payment_Correct.thy ===== *)
theory Payment_Correct
  imports Payment_Fulfillment
begin

section \<open>Correctness of the fulfilment of orders\<close>

text \<open>
  The invariant of an order and of the program counters of its workers, its preservation by every
  step (the locale \<open>interleaving\<close>), and what follows for every schedule: goods are granted once, paid
  orders stay paid, a retry recovers an order whose workers died, and what the owner sees refines an
  abstract contract.
\<close>

subsection \<open>The invariant of an order\<close>

definition used_by_owner :: "pay_store \<Rightarrow> bool" where
  "used_by_owner s \<longleftrightarrow> (case ps_codes s (po_RechargeCode (ps_order s)) of
     None \<Rightarrow> False | Some c \<Rightarrow> rd_Status c = StatusUsed \<and> rd_UsedBy c = Some (po_UserID (ps_order s)))"

definition is_subscription :: "PaymentOrder \<Rightarrow> bool" where
  "is_subscription o1 \<longleftrightarrow> po_OrderType o1 = ''subscription''"

definition same_order :: "PaymentOrder \<Rightarrow> PaymentOrder \<Rightarrow> bool" where
  "same_order o1 o2 \<longleftrightarrow> po_UserID o1 = po_UserID o2 \<and> po_Amount o1 = po_Amount o2 \<and>
     po_RechargeCode o1 = po_RechargeCode o2 \<and> po_OrderType o1 = po_OrderType o2"

definition order_code :: "PaymentOrder \<Rightarrow> RedeemCode \<Rightarrow> bool" where
  "order_code o1 c \<longleftrightarrow> rd_Code c = po_RechargeCode o1 \<and> rd_Type c = ''balance'' \<and> rd_Value c = po_Amount o1"

definition code_inv :: "pay_store \<Rightarrow> bool" where
  "code_inv s \<longleftrightarrow> (case ps_codes s (po_RechargeCode (ps_order s)) of
     None \<Rightarrow> True
   | Some c \<Rightarrow> order_code (ps_order s) c \<and>
       (rd_Status c = StatusUnused \<and> rd_UsedBy c = None \<or> rd_Status c = StatusUsed))"

definition balance_inv :: "rat \<Rightarrow> pay_store \<Rightarrow> bool" where
  "balance_inv b s \<longleftrightarrow> 0 \<le> po_Amount (ps_order s) \<and>
     (case ps_users s (po_UserID (ps_order s)) of
        None \<Rightarrow> False
      | Some u \<Rightarrow> pu_Balance u = b + (if used_by_owner s then po_Amount (ps_order s) else 0))"

definition assign_inv :: "pay_store \<Rightarrow> bool" where
  "assign_inv s \<longleftrightarrow> ps_assigned s \<le> 1 \<and>
     (hasAuditLog ''SUBSCRIPTION_ASSIGNED'' s \<or> hasAuditLog ''SUBSCRIPTION_SUCCESS'' s \<or> ps_note s
        \<longrightarrow> ps_assigned s = 1) \<and>
     (ps_assigned s = 1 \<longrightarrow> hasAuditLog ''SUBSCRIPTION_ASSIGNED'' s)"

definition rebate_inv :: "pay_store \<Rightarrow> bool" where
  "rebate_inv s \<longleftrightarrow> ps_rebates s \<le> 1 \<and>
     (ps_rebates s = 1 \<longrightarrow> hasAuditLog ''AFFILIATE_REBATE_APPLIED'' s)"

definition completed_inv :: "pay_store \<Rightarrow> bool" where
  "completed_inv s \<longleftrightarrow> (po_Status (ps_order s) = OrderStatusCompleted \<longrightarrow>
     (if is_subscription (ps_order s) then ps_assigned s = 1 else used_by_owner s))"

definition pay_inv :: "rat \<Rightarrow> pay_store \<Rightarrow> bool" where
  "pay_inv b s \<longleftrightarrow> code_inv s \<and> balance_inv b s \<and> assign_inv s \<and> rebate_inv s \<and> completed_inv s"

text \<open>What other workers may change between two steps of a worker.\<close>

definition pay_later :: "pay_store \<Rightarrow> pay_store \<Rightarrow> bool" where
  "pay_later s s' \<longleftrightarrow> same_order (ps_order s) (ps_order s') \<and> (used_by_owner s \<longrightarrow> used_by_owner s') \<and>
     (ps_assigned s = 1 \<longrightarrow> ps_assigned s' = 1)"

definition redeemer_ok :: "PaymentOrder \<Rightarrow> redeemer \<Rightarrow> bool" where
  "redeemer_ok o1 r \<longleftrightarrow> (case r of
     Payment o2 v \<Rightarrow> same_order o1 o2 \<and> \<not> is_subscription o1 | Public uid code \<Rightarrow> code = po_RechargeCode o1)"

definition granted :: "pay_store \<Rightarrow> bool \<Rightarrow> bool" where
  "granted s sub \<longleftrightarrow> sub = is_subscription (ps_order s) \<and>
     (if sub then ps_assigned s = 1 else used_by_owner s)"

definition pay_asserted :: "pay_store \<Rightarrow> pay_pc \<Rightarrow> bool" where
  "pay_asserted s pc \<longleftrightarrow> (let o1 = ps_order s in case pc of
       Fulfil_Get sub \<Rightarrow> sub = is_subscription o1
     | Lease_Acquire sub o2 \<Rightarrow> same_order o1 o2 \<and> sub = is_subscription o1
     | Lease_Reload sub o2 \<Rightarrow> same_order o1 o2 \<and> sub = is_subscription o1
     | Bal_Lookup o2 v \<Rightarrow> same_order o1 o2 \<and> \<not> is_subscription o1
     | Bal_Create o2 v \<Rightarrow> same_order o1 o2 \<and> \<not> is_subscription o1
     | Redeem_Lock r \<Rightarrow> redeemer_ok o1 r
     | Redeem_Find r \<Rightarrow> redeemer_ok o1 r
     | Redeem_User r c \<Rightarrow> redeemer_ok o1 r \<and> order_code o1 c
     | Redeem_Use r c \<Rightarrow> redeemer_ok o1 r \<and> order_code o1 c
     | Redeem_Rebate r c \<Rightarrow> redeemer_ok o1 r \<and> (case r of Payment o2 v \<Rightarrow> False | Public uid code \<Rightarrow> True)
     | Redeem_Reload r \<Rightarrow> redeemer_ok o1 r \<and> (case r of Payment o2 v \<Rightarrow> used_by_owner s | Public uid code \<Rightarrow> True)
     | Sub_Group o2 v \<Rightarrow> same_order o1 o2 \<and> is_subscription o1
     | Sub_Assign o2 v \<Rightarrow> same_order o1 o2 \<and> is_subscription o1
     | Sub_Caches o2 v \<Rightarrow> same_order o1 o2 \<and> granted s True
     | Rebate sub o2 v \<Rightarrow> same_order o1 o2 \<and> granted s sub
     | Complete sub o2 v \<Rightarrow> same_order o1 o2 \<and> granted s sub
     | Complete_Audit sub \<Rightarrow> granted s sub
     | Check_Paid target o2 \<Rightarrow> target \<noteq> Some OrderStatusCompleted
     | Cancel_Update target \<Rightarrow> target \<noteq> OrderStatusCompleted
     | _ \<Rightarrow> True)"

lemma same_order_trans: "same_order a b \<Longrightarrow> same_order b c \<Longrightarrow> same_order a c"
  by (simp add: same_order_def)

lemma same_order_refl [simp]: "same_order o1 o1"
  by (simp add: same_order_def)

lemma same_order_facts:
  "same_order o1 o2 \<Longrightarrow> is_subscription o1 = is_subscription o2"
  "same_order o1 o2 \<Longrightarrow> order_code o1 = order_code o2"
  "same_order o1 o2 \<Longrightarrow> same_order o2 o3 = same_order o1 o3"
  "same_order o1 o2 \<Longrightarrow> redeemer_ok o2 r = redeemer_ok o1 r"
  by (auto simp: same_order_def is_subscription_def order_code_def redeemer_ok_def split: redeemer.split)

lemma granted_later: "granted s sub \<Longrightarrow> pay_later s s' \<Longrightarrow> granted s' sub"
  by (auto simp: granted_def pay_later_def same_order_facts(1) split: if_splits)

lemma pay_asserted_later:
  assumes "pay_asserted s pc" "pay_later s s'"
  shows "pay_asserted s' pc"
proof -
  have same: "same_order (ps_order s) (ps_order s')" using assms(2) by (simp add: pay_later_def)
  show ?thesis
    using assms granted_later [OF _ assms(2)]
    by (cases pc) (auto simp: pay_asserted_def Let_def same_order_facts [OF same] pay_later_def split: redeemer.splits)
qed

lemma pay_later_refl: "pay_later s s"
  by (simp add: pay_later_def same_order_def)


subsection \<open>Statements keep the invariant\<close>

definition keeps :: "rat \<Rightarrow> (pay_store \<Rightarrow> pay_store \<times> 'a) \<Rightarrow> bool" where
  "keeps b stmt \<longleftrightarrow> (\<forall>s. pay_inv b s \<longrightarrow> pay_inv b (fst (stmt s)) \<and> pay_later s (fst (stmt s)))"

lemma keeps_run_sql:
  assumes "keeps b stmt" "pay_inv b s" "run_sql fault stmt s = (s', res)"
  shows "pay_inv b s'" "pay_later s s'" "res = Some a \<Longrightarrow> stmt s = (s', a)"
  using assms by (auto simp: keeps_def run_sql_def pay_later_refl split: db_fault.splits prod.splits)

lemma keeps_read: "keeps b (\<lambda>s. (s, f s))"
  by (simp add: keeps_def pay_later_refl)

lemma keeps_get_order: "keeps b get_order"
  by (simp add: keeps_def get_order_def pay_later_refl)

text \<open>Which parts of the invariant look at which columns.\<close>

lemma frame_columns [simp]:
  "used_by_owner (s\<lparr>ps_audit := A\<rparr>) = used_by_owner s"
  "used_by_owner (s\<lparr>ps_assigned := n\<rparr>) = used_by_owner s"
  "used_by_owner (s\<lparr>ps_note := t\<rparr>) = used_by_owner s"
  "used_by_owner (s\<lparr>ps_rebates := n\<rparr>) = used_by_owner s"
  "used_by_owner (s\<lparr>ps_redeem_rebates := n\<rparr>) = used_by_owner s"
  "code_inv (s\<lparr>ps_audit := A\<rparr>) = code_inv s"
  "code_inv (s\<lparr>ps_assigned := n\<rparr>) = code_inv s"
  "code_inv (s\<lparr>ps_note := t\<rparr>) = code_inv s"
  "code_inv (s\<lparr>ps_rebates := n\<rparr>) = code_inv s"
  "code_inv (s\<lparr>ps_redeem_rebates := n\<rparr>) = code_inv s"
  "hasAuditLog a (s\<lparr>ps_assigned := n\<rparr>) = hasAuditLog a s"
  "hasAuditLog a (s\<lparr>ps_note := t\<rparr>) = hasAuditLog a s"
  "hasAuditLog a (s\<lparr>ps_rebates := n\<rparr>) = hasAuditLog a s"
  "hasAuditLog a (s\<lparr>ps_redeem_rebates := n\<rparr>) = hasAuditLog a s"
  "hasAuditLog a (s\<lparr>ps_order := o2\<rparr>) = hasAuditLog a s"
  "hasAuditLog a (s\<lparr>ps_codes := C\<rparr>) = hasAuditLog a s"
  "hasAuditLog a (s\<lparr>ps_users := U\<rparr>) = hasAuditLog a s"
  "hasAuditLog a (s\<lparr>ps_audit := B\<rparr>) \<longleftrightarrow> B a \<noteq> None"
  by (simp_all add: used_by_owner_def code_inv_def hasAuditLog_def cong: option.case_cong)

lemma frame_parts [simp]:
  "balance_inv b (s\<lparr>ps_audit := A\<rparr>) = balance_inv b s"
  "balance_inv b (s\<lparr>ps_assigned := n\<rparr>) = balance_inv b s"
  "balance_inv b (s\<lparr>ps_note := t\<rparr>) = balance_inv b s"
  "balance_inv b (s\<lparr>ps_rebates := n\<rparr>) = balance_inv b s"
  "balance_inv b (s\<lparr>ps_redeem_rebates := n\<rparr>) = balance_inv b s"
  "completed_inv (s\<lparr>ps_redeem_rebates := n\<rparr>) = completed_inv s"
  "assign_inv (s\<lparr>ps_redeem_rebates := n\<rparr>) = assign_inv s"
  "rebate_inv (s\<lparr>ps_redeem_rebates := n\<rparr>) = rebate_inv s"
  "completed_inv (s\<lparr>ps_audit := A\<rparr>) = completed_inv s"
  "completed_inv (s\<lparr>ps_note := t\<rparr>) = completed_inv s"
  "completed_inv (s\<lparr>ps_rebates := n\<rparr>) = completed_inv s"
  "assign_inv (s\<lparr>ps_rebates := n\<rparr>) = assign_inv s"
  "assign_inv (s\<lparr>ps_order := o2\<rparr>) = assign_inv s"
  "assign_inv (s\<lparr>ps_codes := C\<rparr>) = assign_inv s"
  "assign_inv (s\<lparr>ps_users := U\<rparr>) = assign_inv s"
  "rebate_inv (s\<lparr>ps_assigned := n\<rparr>) = rebate_inv s"
  "rebate_inv (s\<lparr>ps_note := t\<rparr>) = rebate_inv s"
  "rebate_inv (s\<lparr>ps_order := o2\<rparr>) = rebate_inv s"
  "rebate_inv (s\<lparr>ps_codes := C\<rparr>) = rebate_inv s"
  "rebate_inv (s\<lparr>ps_users := U\<rparr>) = rebate_inv s"
  by (simp_all add: balance_inv_def completed_inv_def assign_inv_def rebate_inv_def cong: option.case_cong)

lemma frame_order:
  assumes "same_order (ps_order s) o2"
  shows "used_by_owner (s\<lparr>ps_order := o2\<rparr>) = used_by_owner s"
    and "code_inv (s\<lparr>ps_order := o2\<rparr>) = code_inv s"
    and "balance_inv b (s\<lparr>ps_order := o2\<rparr>) = balance_inv b s"
    and "is_subscription o2 = is_subscription (ps_order s)"
proof -
  have eqs: "po_UserID o2 = po_UserID (ps_order s)" "po_Amount o2 = po_Amount (ps_order s)"
    "po_RechargeCode o2 = po_RechargeCode (ps_order s)"
    using assms by (simp_all add: same_order_def)
  show used: "used_by_owner (s\<lparr>ps_order := o2\<rparr>) = used_by_owner s"
    by (simp add: used_by_owner_def eqs cong: option.case_cong)
  show "code_inv (s\<lparr>ps_order := o2\<rparr>) = code_inv s"
    by (simp add: code_inv_def order_code_def eqs split: option.split)
  show "balance_inv b (s\<lparr>ps_order := o2\<rparr>) = balance_inv b s"
    by (simp add: balance_inv_def used eqs cong: option.case_cong)
  show "is_subscription o2 = is_subscription (ps_order s)"
    by (rule same_order_facts(1) [OF assms, symmetric])
qed

text \<open>An update of the order that keeps what identifies it and completes it only when the goods are granted.\<close>

lemma update_order_keeps:
  assumes "pay_inv b s" "same_order (ps_order s) (f (ps_order s))"
    and "P (ps_order s) \<Longrightarrow> po_Status (f (ps_order s)) = OrderStatusCompleted \<Longrightarrow>
      po_Status (ps_order s) = OrderStatusCompleted \<or> (\<exists>sub. granted s sub)"
  shows "pay_inv b (fst (update_order P f now s)) \<and> pay_later s (fst (update_order P f now s))"
proof -
  let ?o2 = "(f (ps_order s))\<lparr>po_UpdatedAt := now\<rparr>"
  have same: "same_order (ps_order s) ?o2" using assms(2) by (simp add: same_order_def)
  have "P (ps_order s) \<Longrightarrow> completed_inv (s\<lparr>ps_order := ?o2\<rparr>)"
    using assms(1,3) frame_order [OF same]
    by (auto simp: completed_inv_def pay_inv_def granted_def split: if_splits)
  then show ?thesis
    using assms(1) same
    by (auto simp: update_order_def pay_later_refl pay_inv_def frame_order [OF same] pay_later_def)
qed

lemmas order_updates = toPaid_def acquire_lease_def markFailed_def cancel_order_def markCompleted_def

lemma keeps_order_updates:
  "keeps b (toPaid t p now)" "keeps b (acquire_lease now)" "keeps b (markFailed v r now)"
  "st \<noteq> OrderStatusCompleted \<Longrightarrow> keeps b (cancel_order st now)"
  "keeps b (update_order (\<lambda>o1. True) (\<lambda>o1. o1\<lparr>po_PaymentTradeNo := t\<rparr>) now)"
  unfolding keeps_def order_updates
  by (intro allI impI update_order_keeps; simp add: same_order_def)+

lemma markCompleted_keeps:
  assumes "pay_inv b s" "granted s sub"
  shows "pay_inv b (fst (markCompleted v now s)) \<and> pay_later s (fst (markCompleted v now s))"
  unfolding markCompleted_def using assms by (intro update_order_keeps) (auto simp: same_order_def)

lemma CreateCode_keeps:
  assumes "same_order (ps_order s) o1" "pay_inv b s"
  shows "pay_inv b (fst (CreateCode o1 s)) \<and> pay_later s (fst (CreateCode o1 s))"
proof (cases "snd (CreateCode o1 s)")
  case False
  then have "fst (CreateCode o1 s) = s" by (auto simp: CreateCode_def insert_code_def split: if_splits)
  with assms show ?thesis by (simp add: pay_later_refl)
next
  case True
  let ?c = "payment_code o1" and ?s = "fst (CreateCode o1 s)"
  have s': "?s = s\<lparr>ps_codes := (ps_codes s)(rd_Code ?c \<mapsto> ?c)\<rparr>" and new: "ps_codes s (rd_Code ?c) = None"
    using True by (auto simp: CreateCode_def insert_code_def split: if_splits)
  have used: "used_by_owner ?s = used_by_owner s"
    using new by (auto simp: used_by_owner_def s' payment_code_def cong: option.case_cong)
  have "code_inv ?s"
    using assms by (auto simp: code_inv_def s' payment_code_def order_code_def same_order_def pay_inv_def split: option.splits)
  moreover have "balance_inv b ?s" "completed_inv ?s"
    using assms(2) used by (simp_all add: balance_inv_def s' pay_inv_def completed_inv_def split: option.splits)
  ultimately show ?thesis
    using assms(2) by (simp add: pay_inv_def pay_later_def used same_order_def) (simp add: s')
qed

lemma insert_audit_keeps:
  assumes "pay_inv b s" "granted s sub"
    and "a = (if sub then ''SUBSCRIPTION_SUCCESS'' else ''RECHARGE_SUCCESS'')"
  shows "pay_inv b (fst (insert_audit a d s)) \<and> pay_later s (fst (insert_audit a d s))"
  using assms
  by (auto simp: insert_audit_def pay_inv_def assign_inv_def rebate_inv_def pay_later_def same_order_def
      granted_def hasAuditLog_def)

lemma keeps_assign_tx: "keeps b (assign_tx ok)"
  unfolding keeps_def
proof (intro allI impI)
  fix s assume inv: "pay_inv b s"
  show "pay_inv b (fst (assign_tx ok s)) \<and> pay_later s (fst (assign_tx ok s))"
  proof (cases "ps_assigned s = 1")
    case True
    with inv have "assign_tx ok s = (s, True)" by (simp add: assign_tx_def pay_inv_def assign_inv_def)
    with inv show ?thesis by (simp add: pay_later_refl)
  next
    case False
    with inv have none: "ps_assigned s = 0" "\<not> hasAuditLog ''SUBSCRIPTION_ASSIGNED'' s"
      "\<not> hasAuditLog ''SUBSCRIPTION_SUCCESS'' s" "\<not> ps_note s"
      by (auto simp: pay_inv_def assign_inv_def)
    then have "completed_inv s \<Longrightarrow> completed_inv (s\<lparr>ps_assigned := 1\<rparr>)"
      by (simp add: completed_inv_def)
    with none inv show ?thesis
      by (cases ok) (simp_all add: assign_tx_def pay_inv_def assign_inv_def rebate_inv_def pay_later_def hasAuditLog_def)
  qed
qed

lemma assign_tx_assigned: "pay_inv b s \<Longrightarrow> assign_tx ok s = (s', True) \<Longrightarrow> ps_assigned s' = 1"
  by (auto simp: assign_tx_def pay_inv_def assign_inv_def Let_def split: if_splits)

lemma keeps_rebate_tx: "keeps b (rebate_tx r)"
  unfolding keeps_def
proof (intro allI impI)
  fix s assume inv: "pay_inv b s"
  show "pay_inv b (fst (rebate_tx r s)) \<and> pay_later s (fst (rebate_tx r s))"
  proof (cases "hasAuditLog ''AFFILIATE_REBATE_APPLIED'' s \<or> hasAuditLog ''AFFILIATE_REBATE_SKIPPED'' s")
    case True
    with inv show ?thesis by (simp add: rebate_tx_def pay_later_refl)
  next
    case False
    with inv have "ps_rebates s = 0" by (auto simp: pay_inv_def rebate_inv_def)
    with False inv show ?thesis
      by (cases r) (simp_all add: rebate_tx_def pay_inv_def assign_inv_def rebate_inv_def pay_later_def
          same_order_def hasAuditLog_def)
  qed
qed

lemma redeem_accrues_simps [simp]:
  "\<not> redeem_accrues (Payment o1 v) c" "redeem_accrues (Public uid code) c \<longleftrightarrow> rd_Type c = ''balance'' \<and> 0 < rd_Value c"
  by (simp_all add: redeem_accrues_def)

lemma keeps_redeem_rebate: "keeps b (redeem_rebate r)"
  by (auto simp: keeps_def redeem_rebate_def pay_inv_def pay_later_def same_order_def split: option.split)

text \<open>The order's code is taken once; when the owner takes it, the balance grows by the amount.\<close>

lemma redeem_tx_fails: "\<not> snd (redeem_tx uid c g s) \<Longrightarrow> fst (redeem_tx uid c g s) = s"
  by (auto simp: redeem_tx_def split: prod.splits bool.splits)

lemma redeem_tx_succeeds:
  assumes "order_code (ps_order s) c" "0 \<le> po_Amount (ps_order s)" "snd (redeem_tx uid c g s)"
  obtains d u where "ps_codes s (po_RechargeCode (ps_order s)) = Some d" "rd_Status d = StatusUnused"
    and "ps_users s uid = Some u"
    and "fst (redeem_tx uid c g s) = s
      \<lparr>ps_codes := (ps_codes s)(po_RechargeCode (ps_order s) \<mapsto> d\<lparr>rd_Status := StatusUsed, rd_UsedBy := Some uid\<rparr>),
       ps_users := (ps_users s)(uid \<mapsto> u\<lparr>pu_Balance := pu_Balance u + po_Amount (ps_order s),
         pu_TotalRecharged := (if po_Amount (ps_order s) > 0 then pu_TotalRecharged u + po_Amount (ps_order s)
                               else pu_TotalRecharged u)\<rparr>)\<rparr>"
  using assms
  by (auto simp: redeem_tx_def UseCode_def UpdateBalance_def order_code_def split: option.splits if_splits)

lemma redeem_tx_keeps:
  assumes "pay_inv b s" "order_code (ps_order s) c"
  shows "pay_inv b (fst (redeem_tx uid c g s)) \<and> pay_later s (fst (redeem_tx uid c g s)) \<and>
    (snd (redeem_tx uid c g s) \<longrightarrow> uid = po_UserID (ps_order s) \<longrightarrow> used_by_owner (fst (redeem_tx uid c g s)))"
proof (cases "snd (redeem_tx uid c g s)")
  case False
  with redeem_tx_fails [OF this] assms(1) show ?thesis by (simp add: pay_later_refl)
next
  case True
  let ?s = "fst (redeem_tx uid c g s)" and ?o = "ps_order s"
  have amount: "0 \<le> po_Amount ?o" using assms(1) by (simp add: pay_inv_def balance_inv_def)
  obtain d u where d: "ps_codes s (po_RechargeCode ?o) = Some d" "rd_Status d = StatusUnused"
      and u: "ps_users s uid = Some u"
      and s': "?s = s
      \<lparr>ps_codes := (ps_codes s)(po_RechargeCode ?o \<mapsto> d\<lparr>rd_Status := StatusUsed, rd_UsedBy := Some uid\<rparr>),
       ps_users := (ps_users s)(uid \<mapsto> u\<lparr>pu_Balance := pu_Balance u + po_Amount ?o,
         pu_TotalRecharged := (if po_Amount ?o > 0 then pu_TotalRecharged u + po_Amount ?o
                               else pu_TotalRecharged u)\<rparr>)\<rparr>"
    using redeem_tx_succeeds [OF assms(2) amount True] by metis
  have fresh: "\<not> used_by_owner s" using d by (simp add: used_by_owner_def)
  have used: "used_by_owner ?s \<longleftrightarrow> uid = po_UserID ?o" by (auto simp: used_by_owner_def s')
  have kept: "ps_order ?s = ps_order s" "ps_assigned ?s = ps_assigned s" by (simp_all add: s')
  have "code_inv ?s" using assms(1) d by (simp add: code_inv_def s' pay_inv_def order_code_def)
  moreover have "balance_inv b ?s"
    using assms(1) u fresh used by (auto simp: balance_inv_def s' pay_inv_def split: option.splits)
  moreover have "completed_inv ?s"
    using assms(1) fresh kept by (auto simp: completed_inv_def pay_inv_def split: if_splits)
  moreover have "assign_inv ?s" "rebate_inv ?s" using assms(1) by (simp_all add: s' pay_inv_def)
  moreover have "pay_later s ?s" using fresh by (simp add: pay_later_def same_order_def s')
  ultimately show ?thesis using used unfolding pay_inv_def by blast
qed


subsection \<open>Steps keep the invariant\<close>

lemma run_sql_eq:
  "run_sql f stmt s = (if f = Db_Fails then s else fst (stmt s), if f = Db_Ok then Some (snd (stmt s)) else None)"
  by (cases f) (simp_all add: run_sql_def split: prod.split)

lemma keepsD: "keeps b stmt \<Longrightarrow> pay_inv b s \<Longrightarrow> pay_inv b (fst (stmt s)) \<and> pay_later s (fst (stmt s))"
  by (simp add: keeps_def)

lemma fst_get_order [simp]: "fst (get_order s) = s" "snd (get_order s) = ps_order s"
  by (simp_all add: get_order_def)

definition step_ok :: "rat \<Rightarrow> pay_store \<Rightarrow> pay_store \<times> pay_pc \<Rightarrow> bool" where
  "step_ok b s r \<longleftrightarrow> pay_inv b (fst r) \<and> pay_later s (fst r) \<and> pay_asserted (fst r) (snd r)"

lemmas step_simps = run_sql_eq step_ok_def pay_later_refl

text \<open>Program counters that assert nothing.\<close>

lemma asserted_trivial [simp]:
  "pay_asserted s (Notify n)" "pay_asserted s (Confirm_Get n)" "pay_asserted s (To_Paid o1 t p)"
  "pay_asserted s Already_Processed" "pay_asserted s Fulfil_Type" "pay_asserted s Lease_Taken"
  "pay_asserted s (Complete_Reload v)" "pay_asserted s (Fail_Order v r)" "pay_asserted s (Stop e)"
  "pay_asserted s (Persist_Trade n t)" "pay_asserted s Retry_Get"
  by (simp_all add: pay_asserted_def)

lemma redeem_failed_asserted [simp]: "pay_asserted s (redeem_failed r)"
  by (simp add: redeem_failed_def split: redeemer.split)

lemma notify_ok:
  assumes "pay_inv b s" "pay_asserted s pc"
  shows "step_ok b s (notify_step env s pc)"
proof (cases pc)
  case (To_Paid o1 t p)
  then show ?thesis
    using assms keepsD [OF keeps_order_updates(1) assms(1), of t p "pe_now env"]
    by (auto simp: notify_step_def step_simps split: bool.split)
qed (use assms in \<open>auto simp: notify_step_def step_simps split: go_float.split\<close>)

lemma lease_ok:
  assumes "pay_inv b s" "pay_asserted s pc"
  shows "step_ok b s (lease_step env s pc)"
proof (cases pc)
  case (Lease_Acquire sub o1)
  let ?s = "fst (acquire_lease (pe_now env) s)"
  have k: "pay_inv b ?s \<and> pay_later s ?s"
    using keepsD [OF keeps_order_updates(2) assms(1)] by blast
  then have "pay_asserted ?s (Lease_Reload sub o1)"
    using assms(2) Lease_Acquire pay_asserted_later [of s "Lease_Reload sub o1" ?s] by (simp add: pay_asserted_def)
  with k assms(1) show ?thesis
    by (auto simp: Lease_Acquire lease_step_def step_simps split: bool.split)
qed (use assms in \<open>auto simp: lease_step_def step_simps pay_asserted_def is_subscription_def Let_def\<close>)

lemma lifecycle_ok:
  assumes "pay_inv b s" "pay_asserted s pc"
  shows "step_ok b s (lifecycle_step env s pc)"
proof (cases pc)
  case (Persist_Trade n t)
  then show ?thesis
    using assms keepsD [OF keeps_order_updates(5) assms(1), of t "pe_now env"]
    by (auto simp: lifecycle_step_def step_simps)
next
  case (Cancel_Update st)
  then show ?thesis
    using assms keepsD [OF keeps_order_updates(4) assms(1), of st "pe_now env"]
    by (auto simp: lifecycle_step_def step_simps pay_asserted_def)
qed (use assms in \<open>auto simp: lifecycle_step_def step_simps pay_asserted_def check_or_cancel_def split: option.split\<close>)

lemma complete_ok:
  assumes "pay_inv b s" "pay_asserted s pc"
  shows "step_ok b s (complete_step env s pc)"
proof (cases pc)
  case (Rebate sub o1 v)
  let ?s = "fst (rebate_tx (pe_rebate env) s)"
  have k: "pay_inv b ?s \<and> pay_later s ?s"
    using keepsD [OF keeps_rebate_tx assms(1)] by blast
  have "pay_asserted s (Complete sub o1 v)" using assms(2) Rebate by (simp add: pay_asserted_def)
  moreover from this have "pay_asserted ?s (Complete sub o1 v)" using k pay_asserted_later by blast
  ultimately show ?thesis
    using k assms(1) by (auto simp: Rebate complete_step_def step_simps split: bool.split)
next
  case (Complete sub o1 v)
  let ?s = "fst (markCompleted v (pe_now env) s)"
  have g: "granted s sub" using assms(2) Complete by (simp add: pay_asserted_def Let_def)
  have k: "pay_inv b ?s \<and> pay_later s ?s" using markCompleted_keeps [OF assms(1) g] .
  then have "pay_asserted ?s (Complete_Audit sub)" using g granted_later by (simp add: pay_asserted_def)
  with k assms(1) show ?thesis
    by (auto simp: Complete complete_step_def step_simps split: bool.split)
next
  case (Complete_Audit sub)
  have "granted s sub" using assms(2) Complete_Audit by (simp add: pay_asserted_def)
  from insert_audit_keeps [OF assms(1) this refl] assms(1) show ?thesis
    by (auto simp: Complete_Audit complete_step_def step_simps)
next
  case (Fail_Order v reason)
  then show ?thesis
    using assms keepsD [OF keeps_order_updates(3) assms(1), of v reason "pe_now env"]
    by (auto simp: complete_step_def step_simps)
qed (use assms in \<open>auto simp: complete_step_def step_simps pay_asserted_def\<close>)


lemma existing_code:
  assumes "pay_inv b s" "same_order (ps_order s) o1" "ps_codes s (po_RechargeCode o1) = Some c"
  shows "order_code (ps_order s) c"
  using assms by (auto simp: pay_inv_def code_inv_def same_order_def)

lemma validated_used:
  assumes "same_order (ps_order s) o1" "ps_codes s (po_RechargeCode o1) = Some c"
    and "validatePaymentRedeemCode o1 c" "IsUsed c"
  shows "used_by_owner s"
  using assms by (auto simp: same_order_def used_by_owner_def validatePaymentRedeemCode_def IsUsed_def)

lemma redeemer_code:
  "redeemer_ok o1 r \<Longrightarrow> redeem_code_of r = po_RechargeCode o1"
  by (auto simp: redeemer_ok_def redeem_code_of_def same_order_def split: redeemer.splits)

lemma asserted_redeem_step [simp]:
  "pay_asserted s (Redeem_Lock r) \<longleftrightarrow> redeemer_ok (ps_order s) r"
  "pay_asserted s (Redeem_Find r) \<longleftrightarrow> redeemer_ok (ps_order s) r"
  "pay_asserted s (Redeem_User r c) \<longleftrightarrow> redeemer_ok (ps_order s) r \<and> order_code (ps_order s) c"
  "pay_asserted s (Redeem_Use r c) \<longleftrightarrow> redeemer_ok (ps_order s) r \<and> order_code (ps_order s) c"
  "pay_asserted s (Bal_Lookup o2 v) \<longleftrightarrow> same_order (ps_order s) o2 \<and> \<not> is_subscription (ps_order s)"
  "pay_asserted s (Bal_Create o2 v) \<longleftrightarrow> same_order (ps_order s) o2 \<and> \<not> is_subscription (ps_order s)"
  "pay_asserted s (Rebate sub o2 v) \<longleftrightarrow> same_order (ps_order s) o2 \<and> granted s sub"
  "pay_asserted s (Sub_Group o2 v) \<longleftrightarrow> same_order (ps_order s) o2 \<and> is_subscription (ps_order s)"
  "pay_asserted s (Sub_Assign o2 v) \<longleftrightarrow> same_order (ps_order s) o2 \<and> is_subscription (ps_order s)"
  "pay_asserted s (Sub_Caches o2 v) \<longleftrightarrow> same_order (ps_order s) o2 \<and> granted s True"
  "pay_asserted s (Redeem_Rebate r c) \<longleftrightarrow> redeemer_ok (ps_order s) r \<and> (case r of Payment o2 v \<Rightarrow> False | Public uid code \<Rightarrow> True)"
  "pay_asserted s (Redeem_Reload r) \<longleftrightarrow> redeemer_ok (ps_order s) r \<and>
     (case r of Payment o2 v \<Rightarrow> used_by_owner s | Public uid code \<Rightarrow> True)"
  by (simp_all add: pay_asserted_def Let_def)

lemma bal_lookup_ok:
  assumes inv: "pay_inv b s" and same: "same_order (ps_order s) o1" and bal: "\<not> is_subscription (ps_order s)"
  shows "step_ok b s (redeem_step env s (Bal_Lookup o1 v))"
proof (cases "ps_codes s (po_RechargeCode o1)")
  case None
  with assms show ?thesis by (simp add: redeem_step_def step_simps resolveRedeemAction_def)
next
  case (Some c)
  have "used_by_owner s" if "validatePaymentRedeemCode o1 c" "IsUsed c"
    using validated_used [OF same Some that] .
  then show ?thesis
    using assms Some
    by (auto simp: redeem_step_def step_simps resolveRedeemAction_def redeemer_ok_def granted_def)
qed

lemma redeem_ok:
  assumes "pay_inv b s" "pay_asserted s pc"
  shows "step_ok b s (redeem_step env s pc)"
proof (cases pc)
  case (Bal_Lookup o1 v)
  then show ?thesis using assms bal_lookup_ok by simp
next
  case (Bal_Create o1 v)
  have same: "same_order (ps_order s) o1" "\<not> is_subscription (ps_order s)"
    using assms(2) Bal_Create by simp_all
  note k = CreateCode_keeps [OF same(1) assms(1)]
  have "pay_asserted s (Redeem_Lock (Payment o1 v))" using same by (simp add: redeemer_ok_def)
  then have "pay_asserted (fst (CreateCode o1 s)) (Redeem_Lock (Payment o1 v))"
    using k pay_asserted_later by blast
  then show ?thesis
    using k assms(1) by (auto simp: Bal_Create redeem_step_def step_simps split: bool.split)
next
  case (Redeem_Find r)
  then have r: "redeemer_ok (ps_order s) r" using assms(2) by simp
  have "order_code (ps_order s) c" if "ps_codes s (redeem_code_of r) = Some c" for c
    using that existing_code [OF assms(1) same_order_refl] redeemer_code [OF r] by simp
  then show ?thesis
    using assms(1) r by (auto simp: Redeem_Find redeem_step_def step_simps split: option.split)
next
  case (Redeem_Use r c)
  let ?s = "fst (redeem_tx (redeem_user_of r) c (pe_answer env) s)"
  have r: "redeemer_ok (ps_order s) r" "order_code (ps_order s) c" using assms(2) Redeem_Use by simp_all
  note k = redeem_tx_keeps [OF assms(1) r(2), of "redeem_user_of r" "pe_answer env"]
  have ord: "ps_order ?s = ps_order s" if "snd (redeem_tx (redeem_user_of r) c (pe_answer env) s)"
    using redeem_tx_succeeds [OF r(2) _ that] assms(1) by (force simp: pay_inv_def balance_inv_def)
  have "pay_asserted ?s (if redeem_accrues r c then Redeem_Rebate r c else Redeem_Reload r)"
    if "snd (redeem_tx (redeem_user_of r) c (pe_answer env) s)"
    using r that k ord [OF that]
    by (auto simp: redeemer_ok_def redeem_user_of_def same_order_def redeem_accrues_def split: redeemer.splits)
  then show ?thesis
    using k assms(1) by (auto simp: Redeem_Use redeem_step_def step_simps split: bool.split)
next
  case (Redeem_Rebate r c)
  then have "redeemer_ok (ps_order s) r" "case r of Payment o2 v \<Rightarrow> False | Public uid code \<Rightarrow> True" using assms(2) by simp_all
  then show ?thesis
    using assms(1) keepsD [OF keeps_redeem_rebate assms(1), of "pe_rebate env"]
    by (auto simp: Redeem_Rebate redeem_step_def step_simps pay_later_def same_order_facts(4) split: redeemer.splits)
next
  case (Redeem_Reload r)
  then show ?thesis
    using assms by (auto simp: redeem_step_def step_simps redeemer_ok_def granted_def split: option.split redeemer.splits)
next
  case (Sub_Assign o1 v)
  let ?s = "fst (assign_tx (pe_answer env) s)"
  have k: "pay_inv b ?s \<and> pay_later s ?s" using keepsD [OF keeps_assign_tx assms(1)] .
  have same: "same_order (ps_order s) o1" "is_subscription (ps_order s)"
    using assms(2) Sub_Assign by (simp_all add: pay_asserted_def Let_def)
  have "ps_assigned ?s = 1" if "snd (assign_tx (pe_answer env) s)"
    using assign_tx_assigned [OF assms(1), of "pe_answer env" ?s] that by (simp add: prod_eq_iff)
  moreover have "same_order (ps_order ?s) o1" "is_subscription (ps_order ?s)"
    using k same by (simp_all add: pay_later_def same_order_def is_subscription_def)
  ultimately have "pay_asserted ?s (Sub_Caches o1 v)" if "snd (assign_tx (pe_answer env) s)"
    using that by (simp add: pay_asserted_def Let_def granted_def)
  then show ?thesis
    using k assms(1) by (auto simp: Sub_Assign redeem_step_def step_simps split: bool.split)
qed (use assms in \<open>auto simp: redeem_step_def step_simps split: option.split\<close>)

lemma pay_step_ok:
  assumes "pay_inv b s" "pay_asserted s pc"
  shows "step_ok b s (pay_step env s pc)"
  using notify_ok [OF assms] lease_ok [OF assms] redeem_ok [OF assms] complete_ok [OF assms] lifecycle_ok [OF assms]
  by (cases pc) (simp_all add: pay_step_def)


subsection \<open>An order is fulfilled once\<close>

text \<open>A pending order before any worker: no code, nothing logged or granted, and a user with balance \<open>b\<close>.\<close>

definition new_order :: "rat \<Rightarrow> pay_store \<Rightarrow> bool" where
  "new_order b s \<longleftrightarrow>
     0 \<le> po_Amount (ps_order s) \<and> po_Status (ps_order s) = OrderStatusPending \<and>
     ps_codes s (po_RechargeCode (ps_order s)) = None \<and>
     map_option pu_Balance (ps_users s (po_UserID (ps_order s))) = Some b \<and>
     ps_audit s = Map.empty \<and> ps_assigned s = 0 \<and> \<not> ps_note s \<and> ps_rebates s = 0 \<and> ps_redeem_rebates s = 0"

text \<open>
  Where workers start: a webhook, the jobs and calls that cancel, expire, verify or retry the order,
  and users who redeem its code.
\<close>

definition pay_entry :: "string \<Rightarrow> pay_pc \<Rightarrow> bool" where
  "pay_entry code pc \<longleftrightarrow> (case pc of
       Notify n \<Rightarrow> True | Cancel_Get u \<Rightarrow> True | Expire_Get \<Rightarrow> True | Verify_Get u \<Rightarrow> True
     | Retry_Get \<Rightarrow> True | Stop e \<Rightarrow> True
     | Redeem_Lock r \<Rightarrow> (case r of Public uid c \<Rightarrow> c = code | Payment o1 v \<Rightarrow> False)
     | _ \<Rightarrow> False)"

lemma new_order_inv: "new_order b s \<Longrightarrow> pay_inv b s"
  by (auto simp: new_order_def pay_inv_def code_inv_def balance_inv_def assign_inv_def rebate_inv_def
      completed_inv_def hasAuditLog_def used_by_owner_def split: option.splits)

lemma pay_entry_asserted: "pay_entry (po_RechargeCode (ps_order s)) pc \<Longrightarrow> pay_asserted s pc"
  by (cases pc) (auto simp: pay_entry_def pay_asserted_def redeemer_ok_def split: redeemer.splits)

lemma pay_inv_balance:
  assumes "pay_inv b s" "same_order o1 (ps_order s)"
  shows "map_option pu_Balance (ps_users s (po_UserID o1)) = Some (b + (if used_by_owner s then po_Amount o1 else 0))"
  using assms by (auto simp: pay_inv_def balance_inv_def same_order_def split: option.splits)


definition accruing :: "pay_pc \<Rightarrow> bool" where
  "accruing pc \<longleftrightarrow> (case pc of Redeem_Rebate r c \<Rightarrow> True | _ \<Rightarrow> False)"



lemma rebates_statements [simp]:
  "ps_redeem_rebates (fst (toPaid t p now s)) = ps_redeem_rebates s" "ps_redeem_rebates (fst (acquire_lease now s)) = ps_redeem_rebates s"
  "ps_redeem_rebates (fst (markCompleted v now s)) = ps_redeem_rebates s" "ps_redeem_rebates (fst (markFailed v r now s)) = ps_redeem_rebates s"
  "ps_redeem_rebates (fst (cancel_order st now s)) = ps_redeem_rebates s"
  "ps_redeem_rebates (fst (update_order (\<lambda>o1. True) (\<lambda>o1. o1\<lparr>po_PaymentTradeNo := t\<rparr>) now s)) = ps_redeem_rebates s"
  "ps_redeem_rebates (fst (CreateCode o1 s)) = ps_redeem_rebates s" "ps_redeem_rebates (fst (redeem_tx uid c g s)) = ps_redeem_rebates s"
  "ps_redeem_rebates (fst (assign_tx ok s)) = ps_redeem_rebates s" "ps_redeem_rebates (fst (rebate_tx x s)) = ps_redeem_rebates s"
  "ps_redeem_rebates (fst (insert_audit a d s)) = ps_redeem_rebates s"
  by (auto simp: order_updates update_order_def CreateCode_def insert_code_def redeem_tx_def assign_tx_def rebate_tx_def
      insert_audit_def UseCode_def UpdateBalance_def ApplyRedeemBalanceAdjustment_def Let_def split: option.splits bool.splits if_splits)

lemmas pay_steps = pay_step_def notify_step_def lease_step_def redeem_step_def complete_step_def lifecycle_step_def run_sql_eq

lemma accruing_simps [simp]:
  "\<not> accruing (redeem_failed q)" "\<not> accruing (check_or_cancel st o1)" "accruing (Redeem_Rebate q c)"
  "\<not> accruing (Notify n)" "\<not> accruing (Confirm_Get n)" "\<not> accruing (To_Paid o1 t p)" "\<not> accruing Already_Processed"
  "\<not> accruing Fulfil_Type" "\<not> accruing (Fulfil_Get b)" "\<not> accruing (Lease_Acquire b o1)" "\<not> accruing Lease_Taken"
  "\<not> accruing (Lease_Reload b o1)" "\<not> accruing (Bal_Lookup o1 v)" "\<not> accruing (Bal_Create o1 v)" "\<not> accruing (Redeem_Lock q)"
  "\<not> accruing (Redeem_Find q)" "\<not> accruing (Redeem_User q c)" "\<not> accruing (Redeem_Use q c)" "\<not> accruing (Redeem_Reload q)"
  "\<not> accruing (Sub_Group o1 v)" "\<not> accruing (Sub_Assign o1 v)" "\<not> accruing (Sub_Caches o1 v)" "\<not> accruing (Rebate b o1 v)"
  "\<not> accruing (Complete b o1 v)" "\<not> accruing (Complete_Reload v)" "\<not> accruing (Complete_Audit b)" "\<not> accruing (Fail_Order v x)"
  "\<not> accruing (Cancel_Get u)" "\<not> accruing Expire_Get" "\<not> accruing (Verify_Get k)" "\<not> accruing (Check_Paid tt o1)"
  "\<not> accruing (Persist_Trade n t)" "\<not> accruing (Cancel_Update st)" "\<not> accruing Retry_Get" "\<not> accruing (Stop e)"
  by (simp_all add: accruing_def redeem_failed_def check_or_cancel_def split: redeemer.split option.split)





text \<open>The sample order, notified by the provider twice.\<close>

definition sample_notification :: PaymentNotification where
  "sample_notification = \<lparr>pn_TradeNo = ''T1'', pn_Amount = Finite 5, pn_Status = ''success'',
     pn_Metadata = [], pn_ProviderKey = ''stripe''\<rparr>"

definition sample_env :: pay_env where
  "sample_env = \<lparr>pe_db = Db_Ok, pe_now = 9, pe_registry_key = ''stripe'', pe_instance_key = [],
     pe_answer = True, pe_query_ref = [], pe_provider_paid = None, pe_affiliate = False, pe_rebate = None\<rparr>"

definition sample_workers :: "nat \<Rightarrow> pay_pc" where
  "sample_workers i = (if i < 2 then Notify sample_notification else Stop None)"

text \<open>Both confirm before one is marked paid; worker 0 then fulfils, and worker 1 finds it done.\<close>

definition sample_schedule :: "(nat \<times> pay_env) list" where
  "sample_schedule = map (\<lambda>i. (i, sample_env)) ([0, 1, 0, 1] @ replicate 17 0 @ replicate 4 1)"

lemma sample_new_order: "new_order 10 sample_store"
  by (simp add: new_order_def sample_store_def)

lemma sample_entries: "pay_entry code (sample_workers i)"
  by (simp add: pay_entry_def sample_workers_def)


text \<open>
  A worker died after it had created the code of a paid order. The owner redeems the code, then the order is
  retried: it finds the code used by its owner and goes on. Both have accrued a rebate.
\<close>

definition accruing_env :: pay_env where
  "accruing_env = sample_env\<lparr>pe_affiliate := True, pe_rebate := Some 1, pe_now := 9 + 10 * minute\<rparr>"

definition unlucky_store :: pay_store where
  "unlucky_store = sample_store
     \<lparr>ps_order := (ps_order sample_store)\<lparr>po_Status := OrderStatusFailed, po_PaidAt := Some 1, po_UpdatedAt := 2\<rparr>,
      ps_codes := [''PAY1'' \<mapsto> \<lparr>rd_Code = ''PAY1'', rd_Type = ''balance'', rd_Value = 5, rd_Status = StatusUnused, rd_UsedBy = None,
        rd_ExpiresAt = None, rd_GroupID = None\<rparr>]\<rparr>"

theorem pay_two_rebates:
  "let s1 = fst (run_alone pay_step (replicate 6 accruing_env) unlucky_store (Redeem_Lock (Public 7 ''PAY1'')));
       s2 = fst (run_alone pay_step (replicate 11 accruing_env) s1 Retry_Get)
   in ps_redeem_rebates s2 = 1 \<and> ps_rebates s2 = 1 \<and> po_Status (ps_order s2) = OrderStatusCompleted"
proof -
  have "go_TrimSpace ''PAY1'' = ''PAY1''" by code_simp
  then show ?thesis
    by (simp add: pay_steps run_sql_def numeral_eq_Suc unlucky_store_def sample_store_def accruing_env_def sample_env_def
      redeem_code_of_def redeem_user_of_def redeem_failed_def CanUse_def IsExpiredAt_def redeem_tx_def UseCode_def UpdateBalance_def
      redeem_rebate_def get_order_def can_fulfill_def psIsRefundStatus_def acquire_lease_def update_order_def may_be_leased_def
      Let_def resolveRedeemAction_def validatePaymentRedeemCode_def IsUsed_def rebate_tx_def after_rebate_def affiliateRebateBaseAmount_def
      hasAuditLog_def markCompleted_def holds_lease_def insert_audit_def paymentFulfillmentLeaseDuration_def)
qed

definition run_order_status :: "(nat \<times> pay_env) list \<Rightarrow> pay_store \<Rightarrow> (nat \<Rightarrow> pay_pc) \<Rightarrow> order_status" where
  "run_order_status cs s pcs = po_Status (ps_order (wk_store (work_run pay_step cs \<lparr>wk_store = s, wk_pc = pcs\<rparr>)))"

subsection \<open>Paid orders stay paid\<close>

definition is_paid :: "order_status \<Rightarrow> bool" where
  "is_paid st \<longleftrightarrow> st = OrderStatusPaid \<or> st = OrderStatusRecharging \<or> st = OrderStatusFailed \<or> st = OrderStatusCompleted"

definition stays_paid :: "pay_store \<Rightarrow> pay_store \<Rightarrow> bool" where
  "stays_paid s s' \<longleftrightarrow> (is_paid (po_Status (ps_order s)) \<longrightarrow> is_paid (po_Status (ps_order s'))) \<and>
     (po_Status (ps_order s) = OrderStatusCompleted \<longrightarrow> po_Status (ps_order s') = OrderStatusCompleted)"

lemma stays_paid_same [simp]: "ps_order s' = ps_order s \<Longrightarrow> stays_paid s s'"
  by (simp add: stays_paid_def)

lemma stays_paid_trans: "stays_paid s t \<Longrightarrow> stays_paid t u \<Longrightarrow> stays_paid s u"
  by (simp add: stays_paid_def)

lemma stays_paid_order_updates [simp]:
  "stays_paid s (fst (toPaid t p now s))" "stays_paid s (fst (acquire_lease now s))"
  "stays_paid s (fst (markCompleted v now s))" "stays_paid s (fst (markFailed v r now s))"
  "stays_paid s (fst (cancel_order st now s))"
  "stays_paid s (fst (update_order (\<lambda>o1. True) (\<lambda>o1. o1\<lparr>po_PaymentTradeNo := t\<rparr>) now s))"
  by (auto simp: stays_paid_def order_updates update_order_def is_paid_def may_be_paid_def may_be_leased_def holds_lease_def)

lemma order_untouched [simp]:
  "ps_order (fst (CreateCode o1 s)) = ps_order s"
  "ps_order (fst (assign_tx ok s)) = ps_order s"
  "ps_order (fst (rebate_tx r s)) = ps_order s"
  "ps_order (fst (insert_audit a d s)) = ps_order s"
  "ps_order (fst (redeem_tx uid c g s)) = ps_order s"
  "ps_order (fst (redeem_rebate r s)) = ps_order s"
  by (auto simp: redeem_rebate_def CreateCode_def insert_code_def assign_tx_def rebate_tx_def insert_audit_def redeem_tx_def Let_def
      UseCode_def UpdateBalance_def ApplyRedeemBalanceAdjustment_def split: option.splits bool.splits)

lemma pay_step_stays_paid: "stays_paid s (fst (pay_step env s pc))"
  by (cases pc) (auto simp: pay_step_def notify_step_def lease_step_def redeem_step_def complete_step_def
      lifecycle_step_def run_sql_eq split: option.split bool.split)

text \<open>C11: whatever the workers of an order do from then on, and whatever they were doing
  when it happened, an order that was paid is never pending, cancelled or expired again, and a completed order
  is not failed, recharged or paid a second time.\<close>

theorem pay_stays_paid:
  assumes "is_paid (po_Status (ps_order s))"
  shows "is_paid (run_order_status cs s pcs) \<and>
    (po_Status (ps_order s) = OrderStatusCompleted \<longrightarrow> run_order_status cs s pcs = OrderStatusCompleted)"
proof -
  have "stays_paid s (wk_store (work_run pay_step cs \<lparr>wk_store = s, wk_pc = pcs\<rparr>))"
  proof (induction cs arbitrary: s pcs)
    case (Cons c cs)
    obtain i env where c: "c = (i, env)" by fastforce
    obtain s' pc' where e: "pay_step env s (pcs i) = (s', pc')" by fastforce
    have "work_run pay_step (c # cs) \<lparr>wk_store = s, wk_pc = pcs\<rparr> =
        work_run pay_step cs \<lparr>wk_store = s', wk_pc = pcs(i := pc')\<rparr>"
      by (simp add: work_step_def c e)
    moreover have "stays_paid s s'" using pay_step_stays_paid [of s env "pcs i"] by (simp add: e)
    ultimately show ?case using Cons.IH stays_paid_trans by simp
  qed simp
  with assms show ?thesis by (simp add: stays_paid_def run_order_status_def)
qed

lemma pay_stays_paid_witness:
  "is_paid (run_order_status sample_schedule
     (sample_store\<lparr>ps_order := (ps_order sample_store)\<lparr>po_Status := OrderStatusPaid\<rparr>\<rparr>) sample_workers)"
  using pay_stays_paid [of "sample_store\<lparr>ps_order := (ps_order sample_store)\<lparr>po_Status := OrderStatusPaid\<rparr>\<rparr>"
      sample_schedule sample_workers]
  by (simp add: is_paid_def)

subsection \<open>A retry recovers an order\<close>

text \<open>No call fails: the database and the other services answer, and the clock is at least \<open>t\<close>.\<close>

definition good_env :: "go_time \<Rightarrow> pay_env \<Rightarrow> bool" where
  "good_env t e \<longleftrightarrow> pe_db e = Db_Ok \<and> pe_answer e \<and> pe_rebate e \<noteq> None \<and> t \<le> pe_now e"

definition completes :: "nat \<Rightarrow> go_time \<Rightarrow> pay_store \<Rightarrow> pay_pc \<Rightarrow> bool" where
  "completes n t s pc \<longleftrightarrow> (\<forall>es. n \<le> length es \<longrightarrow> (\<forall>e\<in>set es. good_env t e) \<longrightarrow>
     po_Status (ps_order (fst (run_alone pay_step es s pc))) = OrderStatusCompleted)"

lemma run_alone_completed:
  "po_Status (ps_order s) = OrderStatusCompleted \<Longrightarrow>
   po_Status (ps_order (fst (run_alone pay_step es s pc))) = OrderStatusCompleted"
proof (induction es arbitrary: s pc)
  case (Cons e es)
  then show ?case
    using pay_step_stays_paid [of s e pc] by (auto simp: stays_paid_def split: prod.split)
qed simp

lemma completes_done: "po_Status (ps_order s) = OrderStatusCompleted \<Longrightarrow> completes n t s pc"
  by (simp add: completes_def run_alone_completed)

lemma completes_step:
  assumes "\<And>e. good_env t e \<Longrightarrow> \<exists>s' pc'. pay_step e s pc = (s', pc') \<and> completes n t s' pc'"
  shows "completes (Suc n) t s pc"
  unfolding completes_def
proof (intro allI impI)
  fix es assume es: "Suc n \<le> length es" "\<forall>e\<in>set es. good_env t e"
  then obtain e es' where "es = e # es'" by (cases es) auto
  with es assms [of e] show "po_Status (ps_order (fst (run_alone pay_step es s pc))) = OrderStatusCompleted"
    by (auto simp: completes_def)
qed

text \<open>The worker that holds the lease.\<close>

definition leased :: "pay_store \<Rightarrow> go_time \<Rightarrow> bool" where
  "leased s v \<longleftrightarrow> po_Status (ps_order s) = OrderStatusRecharging \<and> po_UpdatedAt (ps_order s) = v"

lemmas solo = pay_step_def good_env_def run_sql_eq

lemma complete_completes: "leased s v \<Longrightarrow> completes 1 t s (Complete sub o1 v)"
  unfolding One_nat_def
  by (rule completes_step)
    (auto simp: solo complete_step_def markCompleted_def update_order_def holds_lease_def leased_def intro!: completes_done)

lemma rebate_completes:
  assumes "leased s v"
  shows "completes 2 t s (Rebate sub o1 v)"
  unfolding numeral_2_eq_2
proof (rule completes_step)
  fix e assume "good_env t e"
  then obtain r where "pe_db e = Db_Ok" "pe_rebate e = Some r" by (auto simp: good_env_def)
  moreover have "leased (fst (rebate_tx (Some r) s)) v" using assms by (simp add: leased_def)
  moreover have "snd (rebate_tx (Some r) s)" by (simp add: rebate_tx_def)
  ultimately show "\<exists>s' pc'. pay_step e s (Rebate sub o1 v) = (s', pc') \<and> completes (Suc 0) t s' pc'"
    using assms complete_completes [of _ v t sub o1] by (auto simp: solo complete_step_def)
qed

text \<open>What the redemption of an unused code needs.\<close>

definition redeemable :: "PaymentOrder \<Rightarrow> RedeemCode \<Rightarrow> pay_store \<Rightarrow> bool" where
  "redeemable o1 c s \<longleftrightarrow> ps_codes s (po_RechargeCode o1) = Some c \<and> order_code o1 c \<and> rd_Status c = StatusUnused \<and>
     rd_ExpiresAt c = None \<and> 0 \<le> po_Amount o1 \<and> ps_users s (po_UserID o1) \<noteq> None"

lemma redeem_tx_redeemable:
  assumes "redeemable o1 c s"
  shows "\<exists>s' d. redeem_tx (po_UserID o1) c g s = (s', True) \<and> ps_order s' = ps_order s \<and>
    ps_codes s' (po_RechargeCode o1) = Some d"
  using assms by (auto simp: redeemable_def redeem_tx_def UseCode_def UpdateBalance_def order_code_def)

lemmas redeem_solo = solo redeem_step_def redeem_code_of_def redeem_user_of_def

lemma redeem_completes:
  assumes "leased s v" "redeemable o1 c s"
  shows "completes 7 t s (Redeem_Lock (Payment o1 v))"
proof -
  have reload: "completes 3 t s' (Redeem_Reload (Payment o1 v))"
    if "leased s' v" "ps_codes s' (po_RechargeCode o1) = Some d" for s' d
    unfolding numeral_3_eq_3
    by (rule completes_step) (use that rebate_completes [of s' v t False o1] in \<open>auto simp: redeem_solo numeral_2_eq_2\<close>)
  have use: "completes 4 t s (Redeem_Use (Payment o1 v) c)"
  proof -
    have "completes (Suc 3) t s (Redeem_Use (Payment o1 v) c)"
    proof (rule completes_step)
      fix e assume e: "good_env t e"
      obtain s' d where tx: "redeem_tx (po_UserID o1) c (pe_answer e) s = (s', True)" "ps_order s' = ps_order s"
          "ps_codes s' (po_RechargeCode o1) = Some d"
        using redeem_tx_redeemable [OF assms(2)] by blast
      with assms(1) e reload [of s' d]
      show "\<exists>s' pc'. pay_step e s (Redeem_Use (Payment o1 v) c) = (s', pc') \<and> completes 3 t s' pc'"
        by (auto simp: redeem_solo leased_def)
    qed
    then show ?thesis by simp
  qed
  have "completes (Suc 4) t s (Redeem_User (Payment o1 v) c)"
    by (rule completes_step) (use assms use in \<open>auto simp: redeem_solo redeemable_def\<close>)
  then have "completes (Suc (Suc 4)) t s (Redeem_Find (Payment o1 v))"
    by (intro completes_step)
      (use assms in \<open>auto simp: redeem_solo redeemable_def CanUse_def IsExpiredAt_def order_code_def\<close>)
  then have "completes (Suc (Suc (Suc 4))) t s (Redeem_Lock (Payment o1 v))"
    by (intro completes_step) (auto simp: redeem_solo)
  then show ?thesis by simp
qed

text \<open>An order that a retry can take: paid, its lease free at \<open>t\<close>, and its code absent, unused or used by its owner.\<close>

definition recoverable :: "go_time \<Rightarrow> pay_store \<Rightarrow> bool" where
  "recoverable t s \<longleftrightarrow> (let o1 = ps_order s in
     po_PaidAt o1 \<noteq> None \<and> may_be_leased t o1 \<and> \<not> is_subscription o1 \<and>
     po_Amount o1 > 0 \<and> po_RechargeCode o1 \<noteq> [] \<and> go_TrimSpace (po_RechargeCode o1) = po_RechargeCode o1 \<and>
     (case ps_codes s (po_RechargeCode o1) of
        None \<Rightarrow> True | Some c \<Rightarrow> validatePaymentRedeemCode o1 c \<and> rd_ExpiresAt c = None))"

lemma lookup_completes:
  assumes inv: "pay_inv b s" and rec: "recoverable t (s\<lparr>ps_order := o0\<rparr>)" and "leased s v" "same_order (ps_order s) o0"
  shows "completes 9 t s (Bal_Lookup o0 v)"
proof -
  let ?code = "po_RechargeCode o0"
  have user: "ps_users s (po_UserID o0) \<noteq> None" and amount: "po_Amount o0 > 0"
    using assms by (simp_all add: pay_inv_def balance_inv_def recoverable_def same_order_def Let_def split: option.splits)
  have "completes (Suc 8) t s (Bal_Lookup o0 v)"
  proof (rule completes_step)
    fix e assume e: "good_env t e"
    show "\<exists>s' pc'. pay_step e s (Bal_Lookup o0 v) = (s', pc') \<and> completes 8 t s' pc'"
    proof (cases "ps_codes s ?code")
      case None
      let ?s = "fst (CreateCode o0 s)"
      have made: "snd (CreateCode o0 s)" "redeemable o0 (payment_code o0) ?s" "leased ?s v"
        using None rec user amount assms(3)
        by (auto simp: CreateCode_def insert_code_def recoverable_def Let_def payment_code_def redeemable_def
            order_code_def leased_def)
      have "completes (Suc 7) t s (Bal_Create o0 v)"
        by (rule completes_step) (use made redeem_completes [OF made(3,2), of t] in \<open>auto simp: redeem_solo\<close>)
      with None e show ?thesis by (auto simp: redeem_solo resolveRedeemAction_def)
    next
      case (Some c)
      have c: "validatePaymentRedeemCode o0 c" "rd_ExpiresAt c = None" "order_code o0 c"
        using rec Some existing_code [OF inv assms(4) Some] same_order_facts(2) [OF assms(4)]
        by (auto simp: recoverable_def Let_def)
      show ?thesis
      proof (cases "IsUsed c")
        case True
        have "completes 8 t s (Rebate False o0 v)"
          using rebate_completes [OF assms(3)] by (fastforce simp: completes_def)
        with True Some c e show ?thesis by (auto simp: redeem_solo resolveRedeemAction_def)
      next
        case False
        then have "redeemable o0 c s"
          using c Some user amount
          by (auto simp: redeemable_def validatePaymentRedeemCode_def IsUsed_def split: redeem_status.splits)
        then have "completes 8 t s (Redeem_Lock (Payment o0 v))"
          using redeem_completes [OF assms(3)] by (fastforce simp: completes_def)
        with False Some c e show ?thesis by (auto simp: redeem_solo resolveRedeemAction_def)
      qed
    qed
  qed
  then show ?thesis by simp
qed


lemma recoverable_columns:
  "recoverable t (s\<lparr>ps_order := ps_order s\<rparr>) = recoverable t s"
  by simp

lemma retry_completes:
  assumes inv: "pay_inv b s" and rec: "recoverable t s"
  shows "completes 14 t s Retry_Get"
proof -
  let ?o = "ps_order s"
  have facts: "can_fulfill ?o" "po_Status ?o \<noteq> OrderStatusCompleted" "\<not> psIsRefundStatus (po_Status ?o)"
      "po_PaidAt ?o \<noteq> None" "\<not> is_subscription ?o" "may_be_leased t ?o"
    using rec by (auto simp: recoverable_def Let_def may_be_leased_def can_fulfill_def psIsRefundStatus_def)
  have acquire: "completes (Suc (Suc 9)) t s (Lease_Acquire False ?o)"
  proof (rule completes_step)
    fix e assume e: "good_env t e"
    let ?s = "fst (acquire_lease (pe_now e) s)"
    have now: "may_be_leased (pe_now e) ?o" using facts(6) e by (auto simp: may_be_leased_def good_env_def)
    have s': "ps_order ?s = ?o\<lparr>po_Status := OrderStatusRecharging, po_FailedAt := None, po_FailedReason := None,
          po_UpdatedAt := pe_now e\<rparr>" "?s\<lparr>ps_order := ?o\<rparr> = s"
      using now by (simp_all add: acquire_lease_def update_order_def)
    have "pay_inv b ?s" using keepsD [OF keeps_order_updates(2) inv] by blast
    then have "completes 9 t ?s (Bal_Lookup ?o (pe_now e))"
      by (rule lookup_completes) (use rec s' in \<open>simp_all add: leased_def same_order_def\<close>)
    then have "completes (Suc 9) t ?s (Lease_Reload False ?o)"
      by (intro completes_step) (auto simp: solo lease_step_def s')
    moreover have "snd (acquire_lease (pe_now e) s)" using now by (simp add: acquire_lease_def update_order_def)
    ultimately show "\<exists>s' pc'. pay_step e s (Lease_Acquire False ?o) = (s', pc') \<and> completes (Suc 9) t s' pc'"
      using e by (auto simp: solo lease_step_def)
  qed
  have "completes (Suc (Suc (Suc 9))) t s (Fulfil_Get False)"
    by (rule completes_step) (use acquire facts in \<open>auto simp: solo lease_step_def\<close>)
  then have "completes (Suc (Suc (Suc (Suc 9)))) t s Fulfil_Type"
    by (intro completes_step) (use facts in \<open>auto simp: solo lease_step_def is_subscription_def\<close>)
  then have "completes (Suc (Suc (Suc (Suc (Suc 9))))) t s Retry_Get"
    by (intro completes_step) (use facts in \<open>auto simp: solo lifecycle_step_def\<close>)
  then show ?thesis by simp
qed

lemma run_alone_keeps:
  assumes "pay_inv b s" "pay_asserted s pc"
  shows "pay_inv b (fst (run_alone pay_step es s pc)) \<and> same_order (ps_order s) (ps_order (fst (run_alone pay_step es s pc)))"
  using assms
proof (induction es arbitrary: s pc)
  case (Cons e es)
  obtain s' pc' where step: "pay_step e s pc = (s', pc')" by fastforce
  have "pay_inv b s' \<and> pay_later s s' \<and> pay_asserted s' pc'"
    using pay_step_ok [OF Cons.prems, of e] by (simp add: step_ok_def step)
  with Cons.IH [of s' pc'] show ?case by (auto simp: step pay_later_def intro: same_order_trans)
qed simp

text \<open>C9: wherever the earlier workers of a paid balance order failed or died, once its
  lease is free a retry that meets no fault completes it within 14 steps, and the owner has been credited the
  amount exactly once.\<close>

theorem pay_retry_recovers:
  assumes "pay_inv b s" "recoverable t s" "14 \<le> length es" "\<And>e. e \<in> set es \<Longrightarrow> good_env t e"
  defines "s' \<equiv> fst (run_alone pay_step es s Retry_Get)"
  shows "po_Status (ps_order s') = OrderStatusCompleted \<and>
    map_option pu_Balance (ps_users s' (po_UserID (ps_order s))) = Some (b + po_Amount (ps_order s))"
proof -
  have status: "po_Status (ps_order s') = OrderStatusCompleted"
    using retry_completes [OF assms(1,2)] assms(3,4) by (simp add: completes_def s'_def)
  have inv: "pay_inv b s'" "same_order (ps_order s) (ps_order s')"
    using run_alone_keeps [OF assms(1), of Retry_Get es] by (simp_all add: s'_def)
  have "\<not> is_subscription (ps_order s')"
    using assms(2) inv(2) same_order_facts(1) by (auto simp: recoverable_def Let_def)
  with status inv(1) have "used_by_owner s'" by (simp add: pay_inv_def completed_inv_def)
  with status pay_inv_balance [OF inv] show ?thesis by simp
qed

text \<open>A worker died after it had taken the code and before it completed the order.\<close>

definition crashed_store :: pay_store where
  "crashed_store = sample_store
     \<lparr>ps_order := (ps_order sample_store)\<lparr>po_Status := OrderStatusRecharging, po_PaidAt := Some 0\<rparr>,
      ps_codes := [''PAY1'' \<mapsto> \<lparr>rd_Code = ''PAY1'', rd_Type = ''balance'', rd_Value = 5, rd_Status = StatusUsed,
        rd_UsedBy = Some 7, rd_ExpiresAt = None, rd_GroupID = None\<rparr>],
      ps_users := [7 \<mapsto> \<lparr>pu_Balance = 15, pu_TotalRecharged = 5\<rparr>]\<rparr>"

lemma pay_retry_recovers_witness:
  "map_option pu_Balance (ps_users (fst (run_alone pay_step
     (replicate 14 (sample_env\<lparr>pe_now := 6 * minute, pe_rebate := Some 0\<rparr>)) crashed_store Retry_Get)) 7) = Some 15"
proof -
  have trim: "go_TrimSpace ''PAY1'' = ''PAY1''" by code_simp
  have "pay_inv 10 crashed_store"
    by (simp add: pay_inv_def code_inv_def balance_inv_def assign_inv_def rebate_inv_def completed_inv_def
        used_by_owner_def order_code_def hasAuditLog_def crashed_store_def sample_store_def)
  moreover have "recoverable (6 * minute) crashed_store"
    by (simp add: recoverable_def crashed_store_def sample_store_def may_be_leased_def is_subscription_def trim
        paymentFulfillmentLeaseDuration_def validatePaymentRedeemCode_def)
  ultimately show ?thesis
    using pay_retry_recovers [of 10 crashed_store "6 * minute" "replicate 14 (sample_env\<lparr>pe_now := 6 * minute, pe_rebate := Some 0\<rparr>)"]
    by (simp add: good_env_def sample_env_def crashed_store_def sample_store_def)
qed

subsection \<open>What the owner of an order sees\<close>

datatype order_phase = Unpaid | Owed | Closed

record order_view =
  ov_phase :: order_phase
  ov_delivered :: bool

text \<open>
  The contract of the fulfilment code: an order is paid, then delivered, then closed, each once and none
  taken back.
\<close>

inductive view_step :: "order_view \<Rightarrow> order_view \<Rightarrow> bool" where
  view_pay: "ov_phase v = Unpaid \<Longrightarrow> view_step v (v\<lparr>ov_phase := Owed\<rparr>)"
| view_deliver: "ov_phase v = Owed \<Longrightarrow> \<not> ov_delivered v \<Longrightarrow> view_step v (v\<lparr>ov_delivered := True\<rparr>)"
| view_close: "ov_phase v = Owed \<Longrightarrow> ov_delivered v \<Longrightarrow> view_step v (v\<lparr>ov_phase := Closed\<rparr>)"

inductive_cases view_stepE: "view_step v w"

lemma closed_is_final: "ov_phase v = Closed \<Longrightarrow> \<not> view_step v w"
  by (auto elim: view_stepE)

lemma delivered_is_final: "view_step v w \<Longrightarrow> ov_delivered v \<Longrightarrow> ov_delivered w"
  by (auto elim: view_stepE)

definition order_delivered :: "pay_store \<Rightarrow> bool" where
  "order_delivered s \<longleftrightarrow> (if is_subscription (ps_order s) then ps_assigned s = 1 else used_by_owner s)"

definition view_of :: "pay_store \<Rightarrow> order_view" where
  "view_of s = \<lparr>ov_phase = (if po_Status (ps_order s) = OrderStatusCompleted then Closed
      else if is_paid (po_Status (ps_order s)) then Owed else Unpaid), ov_delivered = order_delivered s\<rparr>"

lemma delivered_later: "order_delivered s \<Longrightarrow> pay_later s s' \<Longrightarrow> order_delivered s'"
  by (auto simp: order_delivered_def pay_later_def same_order_facts(1) split: if_splits)

lemma completed_delivered:
  "pay_inv b s \<Longrightarrow> po_Status (ps_order s) = OrderStatusCompleted \<Longrightarrow> order_delivered s"
  by (simp add: pay_inv_def completed_inv_def order_delivered_def)

lemma view_pays: "view_step \<lparr>ov_phase = Unpaid, ov_delivered = d\<rparr> \<lparr>ov_phase = Owed, ov_delivered = d\<rparr>"
  using view_pay [of "\<lparr>ov_phase = Unpaid, ov_delivered = d\<rparr>"] by simp

lemma view_delivers:
  "view_step \<lparr>ov_phase = Owed, ov_delivered = False\<rparr> \<lparr>ov_phase = Owed, ov_delivered = True\<rparr>"
  using view_deliver [of "\<lparr>ov_phase = Owed, ov_delivered = False\<rparr>"] by simp

lemma view_closes: "view_step \<lparr>ov_phase = Owed, ov_delivered = True\<rparr> \<lparr>ov_phase = Closed, ov_delivered = True\<rparr>"
  using view_close [of "\<lparr>ov_phase = Owed, ov_delivered = True\<rparr>"] by simp

text \<open>Statements change the status or deliver, never both.\<close>

lemma order_updates_deliver_nothing:
  assumes "same_order (ps_order s) (f (ps_order s))"
  shows "order_delivered (fst (update_order P f now s)) = order_delivered s"
proof -
  have same: "same_order (ps_order s) ((f (ps_order s))\<lparr>po_UpdatedAt := now\<rparr>)"
    using assms by (simp add: same_order_def)
  show ?thesis
    by (simp add: update_order_def order_delivered_def frame_order(1,4) [OF same])
qed

text \<open>One call of a worker is one step of the contract, or none.\<close>

definition view_simulates :: "pay_store \<Rightarrow> pay_store \<Rightarrow> bool" where
  "view_simulates s s' \<longleftrightarrow> view_of s' = view_of s \<or> view_step (view_of s) (view_of s')"

lemma simulates_same_view [simp]: "view_simulates s s"
  by (simp add: view_simulates_def)

lemma simulates_status:
  assumes "same_order (ps_order s) (f (ps_order s))" "stays_paid s (fst (update_order P f now s))"
    and "P (ps_order s) \<Longrightarrow> po_Status (f (ps_order s)) = OrderStatusCompleted \<Longrightarrow>
      po_Status (ps_order s) = OrderStatusRecharging \<and> order_delivered s"
  shows "view_simulates s (fst (update_order P f now s))"
  using assms order_updates_deliver_nothing [where f = f and P = P and now = now, OF assms(1)] view_pays view_closes
  by (auto simp: view_simulates_def view_of_def update_order_def stays_paid_def is_paid_def split: if_splits)

lemma simulates_delivery:
  assumes "ps_order s' = ps_order s" "pay_inv b s" "pay_later s s'"
    and "order_delivered s' \<Longrightarrow> order_delivered s \<or> is_paid (po_Status (ps_order s))"
  shows "view_simulates s s'"
  using assms delivered_later [OF _ assms(3)] completed_delivered [OF assms(2)] view_delivers
  by (cases "order_delivered s"; cases "order_delivered s'") (auto simp: view_simulates_def view_of_def)


lemma simulates_order_updates [simp]:
  "view_simulates s (fst (toPaid t p now s))" "view_simulates s (fst (acquire_lease now s))"
  "view_simulates s (fst (markFailed v r now s))"
  "st \<noteq> OrderStatusCompleted \<Longrightarrow> view_simulates s (fst (cancel_order st now s))"
  "view_simulates s (fst (update_order (\<lambda>o1. True) (\<lambda>o1. o1\<lparr>po_PaymentTradeNo := t\<rparr>) now s))"
proof -
  note paid = stays_paid_order_updates [unfolded order_updates]
  show "view_simulates s (fst (toPaid t p now s))" "view_simulates s (fst (acquire_lease now s))"
    "view_simulates s (fst (markFailed v r now s))"
    "st \<noteq> OrderStatusCompleted \<Longrightarrow> view_simulates s (fst (cancel_order st now s))"
    unfolding order_updates by (rule simulates_status; simp add: same_order_def paid)+
  show "view_simulates s (fst (update_order (\<lambda>o1. True) (\<lambda>o1. o1\<lparr>po_PaymentTradeNo := t\<rparr>) now s))"
    by (cases "po_Status (ps_order s) = OrderStatusCompleted")
      (auto simp: view_simulates_def view_of_def update_order_def order_delivered_def is_subscription_def used_by_owner_def
        cong: option.case_cong)
qed

lemma simulates_markCompleted:
  assumes "granted s sub"
  shows "view_simulates s (fst (markCompleted v now s))"
  unfolding markCompleted_def
  by (rule simulates_status)
    (use assms stays_paid_order_updates(3) [of s v now] in
      \<open>auto simp: same_order_def markCompleted_def holds_lease_def order_delivered_def granted_def split: if_splits\<close>)

text \<open>Only paid orders have a code, and only workers of a paid order are past the lease.\<close>

definition paid_inv :: "pay_store \<Rightarrow> bool" where
  "paid_inv s \<longleftrightarrow> (ps_codes s (po_RechargeCode (ps_order s)) \<noteq> None \<longrightarrow> is_paid (po_Status (ps_order s)))"

definition past_lease :: "pay_pc \<Rightarrow> bool" where
  "past_lease pc \<longleftrightarrow> (case pc of Lease_Reload sub o1 \<Rightarrow> True | Bal_Lookup o1 v \<Rightarrow> True | Bal_Create o1 v \<Rightarrow> True
     | Sub_Group o1 v \<Rightarrow> True | Sub_Assign o1 v \<Rightarrow> True | _ \<Rightarrow> False)"

definition paid_asserted :: "pay_store \<Rightarrow> pay_pc \<Rightarrow> bool" where
  "paid_asserted s pc \<longleftrightarrow> (past_lease pc \<longrightarrow> is_paid (po_Status (ps_order s)))"

lemma past_lease_simps [simp]:
  "\<not> past_lease (redeem_failed q)" "\<not> past_lease (check_or_cancel st o1)" "\<not> past_lease (Redeem_Rebate q c)"
  "\<not> past_lease (Notify n)" "\<not> past_lease (Confirm_Get n)" "\<not> past_lease (To_Paid o1 t p)" "\<not> past_lease Already_Processed"
  "\<not> past_lease Fulfil_Type" "\<not> past_lease (Fulfil_Get b)" "\<not> past_lease (Lease_Acquire b o1)" "\<not> past_lease Lease_Taken"
  "past_lease (Lease_Reload b o1)" "past_lease (Bal_Lookup o1 v)" "past_lease (Bal_Create o1 v)" "\<not> past_lease (Redeem_Lock q)"
  "\<not> past_lease (Redeem_Find q)" "\<not> past_lease (Redeem_User q c)" "\<not> past_lease (Redeem_Use q c)" "\<not> past_lease (Redeem_Reload q)"
  "past_lease (Sub_Group o1 v)" "past_lease (Sub_Assign o1 v)" "\<not> past_lease (Sub_Caches o1 v)" "\<not> past_lease (Rebate b o1 v)"
  "\<not> past_lease (Complete b o1 v)" "\<not> past_lease (Complete_Reload v)" "\<not> past_lease (Complete_Audit b)" "\<not> past_lease (Fail_Order v x)"
  "\<not> past_lease (Cancel_Get u)" "\<not> past_lease Expire_Get" "\<not> past_lease (Verify_Get k)" "\<not> past_lease (Check_Paid tt o1)"
  "\<not> past_lease (Persist_Trade n t)" "\<not> past_lease (Cancel_Update st)" "\<not> past_lease Retry_Get" "\<not> past_lease (Stop e)"
  by (simp_all add: past_lease_def redeem_failed_def check_or_cancel_def split: redeemer.split option.split)

lemma codes_statements [simp]:
  "ps_codes (fst (toPaid t p now s)) = ps_codes s" "ps_codes (fst (acquire_lease now s)) = ps_codes s"
  "ps_codes (fst (markCompleted v now s)) = ps_codes s" "ps_codes (fst (markFailed v r now s)) = ps_codes s"
  "ps_codes (fst (cancel_order st now s)) = ps_codes s"
  "ps_codes (fst (update_order (\<lambda>o1. True) (\<lambda>o1. o1\<lparr>po_PaymentTradeNo := t\<rparr>) now s)) = ps_codes s"
  "ps_codes (fst (assign_tx ok s)) = ps_codes s" "ps_codes (fst (rebate_tx x s)) = ps_codes s"
  "ps_codes (fst (redeem_rebate x s)) = ps_codes s" "ps_codes (fst (insert_audit a d s)) = ps_codes s"
  by (auto simp: order_updates update_order_def assign_tx_def rebate_tx_def redeem_rebate_def insert_audit_def Let_def
      split: option.splits if_splits)

lemma assigned_statements [simp]:
  "ps_assigned (fst (toPaid t p now s)) = ps_assigned s" "ps_assigned (fst (acquire_lease now s)) = ps_assigned s"
  "ps_assigned (fst (markCompleted v now s)) = ps_assigned s" "ps_assigned (fst (markFailed v r now s)) = ps_assigned s"
  "ps_assigned (fst (cancel_order st now s)) = ps_assigned s"
  "ps_assigned (fst (update_order (\<lambda>o1. True) (\<lambda>o1. o1\<lparr>po_PaymentTradeNo := t\<rparr>) now s)) = ps_assigned s"
  "ps_assigned (fst (CreateCode o1 s)) = ps_assigned s" "ps_assigned (fst (redeem_tx uid c g s)) = ps_assigned s"
  "ps_assigned (fst (rebate_tx x s)) = ps_assigned s" "ps_assigned (fst (redeem_rebate x s)) = ps_assigned s"
  "ps_assigned (fst (insert_audit a d s)) = ps_assigned s"
  by (auto simp: order_updates update_order_def CreateCode_def insert_code_def redeem_tx_def rebate_tx_def redeem_rebate_def
      insert_audit_def UseCode_def UpdateBalance_def ApplyRedeemBalanceAdjustment_def Let_def split: option.splits bool.splits if_splits)

lemma recharge_code_kept: "pay_later s s' \<Longrightarrow> po_RechargeCode (ps_order s') = po_RechargeCode (ps_order s)"
  by (simp add: pay_later_def same_order_def)

lemma redeem_tx_codes: "ps_codes (fst (redeem_tx uid c g s)) k = Some d \<Longrightarrow> \<exists>d. ps_codes s k = Some d"
  by (auto simp: redeem_tx_def UseCode_def UpdateBalance_def ApplyRedeemBalanceAdjustment_def split: option.splits bool.splits if_splits)

lemma pay_step_codes:
  assumes "ps_codes (fst (pay_step env s pc)) k \<noteq> None"
  shows "ps_codes s k \<noteq> None \<or> (\<exists>o1 v. pc = Bal_Create o1 v)"
  using assms
  by (cases pc) (auto simp: pay_steps dest: redeem_tx_codes split: option.split_asm bool.split_asm if_split_asm)

lemma acquire_paid: "snd (acquire_lease now s) \<Longrightarrow> is_paid (po_Status (ps_order (fst (acquire_lease now s))))"
  by (auto simp: acquire_lease_def update_order_def is_paid_def split: if_splits)

lemma past_lease_steps:
  assumes "\<not> past_lease pc" "\<nexists>sub o1. pc = Lease_Acquire sub o1"
  shows "\<not> past_lease (snd (pay_step env s pc))"
  using assms
  by (cases pc) (simp_all add: pay_steps Let_def split: option.split bool.split redeemer.split redeemAction.split go_float.split)

lemma pay_step_past_lease:
  assumes "past_lease (snd (pay_step env s pc))"
  shows "past_lease pc \<or> is_paid (po_Status (ps_order (fst (pay_step env s pc))))"
proof (cases "\<exists>sub o1. pc = Lease_Acquire sub o1")
  case True
  then show ?thesis
    using assms acquire_paid [of "pe_now env" s] by (auto simp: pay_steps split: option.splits bool.splits if_splits)
qed (use assms past_lease_steps in blast)

lemma pay_step_paid:
  assumes "pay_inv b s" "pay_asserted s pc" "paid_inv s" "paid_asserted s pc"
  shows "paid_inv (fst (pay_step env s pc)) \<and> paid_asserted (fst (pay_step env s pc)) (snd (pay_step env s pc))"
proof -
  have kept: "is_paid (po_Status (ps_order s)) \<Longrightarrow> is_paid (po_Status (ps_order (fst (pay_step env s pc))))"
    using pay_step_stays_paid [of s env pc] by (simp add: stays_paid_def)
  have code: "po_RechargeCode (ps_order (fst (pay_step env s pc))) = po_RechargeCode (ps_order s)"
    using pay_step_ok [OF assms(1,2), of env] by (simp add: step_ok_def recharge_code_kept)
  have "paid_inv (fst (pay_step env s pc))"
    using pay_step_codes [of env s pc "po_RechargeCode (ps_order s)"] kept assms(3,4) unfolding paid_inv_def code
    by (auto simp: paid_asserted_def)
  moreover have "paid_asserted (fst (pay_step env s pc)) (snd (pay_step env s pc))"
    using pay_step_past_lease [of env s pc] kept assms(4) by (auto simp: paid_asserted_def)
  ultimately show ?thesis ..
qed

lemma delivery_paid:
  assumes "pay_asserted s pc" "paid_inv s" "paid_asserted s pc" "ps_order (fst (pay_step env s pc)) = ps_order s"
    and "order_delivered (fst (pay_step env s pc))"
  shows "order_delivered s \<or> is_paid (po_Status (ps_order s))"
proof (cases "past_lease pc")
  case True
  then show ?thesis using assms(3) by (simp add: paid_asserted_def)
next
  case False
  show ?thesis
  proof (cases "\<exists>q c. pc = Redeem_Use q c")
    case True
    then obtain q c where pc: "pc = Redeem_Use q c" by blast
    have c: "rd_Code c = po_RechargeCode (ps_order s)" using assms(1) pc by (simp add: order_code_def)
    show ?thesis
    proof (cases "ps_codes s (rd_Code c)")
      case None
      then have "fst (redeem_tx (redeem_user_of q) c (pe_answer env) s) = s" by (simp add: redeem_tx_def UseCode_def)
      with assms(5) show ?thesis by (simp add: pc pay_steps split: option.splits bool.splits if_splits)
    next
      case (Some d)
      with assms(2) c show ?thesis by (simp add: paid_inv_def)
    qed
  next
    case other: False
    have "ps_codes (fst (pay_step env s pc)) = ps_codes s \<and> ps_assigned (fst (pay_step env s pc)) = ps_assigned s"
      using False other by (cases pc) (simp_all add: pay_steps split: option.split bool.split)
    moreover from this have "used_by_owner (fst (pay_step env s pc)) = used_by_owner s"
      using assms(4) by (simp add: used_by_owner_def split: option.split)
    ultimately show ?thesis using assms(4,5) by (simp add: order_delivered_def split: if_splits)
  qed
qed

lemma pay_step_simulates:
  assumes "pay_inv b s" "pay_asserted s pc" "paid_inv s" "paid_asserted s pc"
  shows "view_simulates s (fst (pay_step env s pc))"
proof (cases "ps_order (fst (pay_step env s pc)) = ps_order s")
  case True
  then show ?thesis
    using simulates_delivery [OF _ assms(1)] pay_step_ok [OF assms(1,2), of env] delivery_paid [OF assms(2-4) True]
    by (auto simp: step_ok_def)
next
  case False
  with assms(2) show ?thesis
    by (cases pc) (auto simp: pay_step_def notify_step_def lease_step_def redeem_step_def complete_step_def
      lifecycle_step_def run_sql_eq pay_asserted_def simulates_markCompleted split: option.split bool.split if_splits)
qed

interpretation paid: interleaving pay_step "\<lambda>s. (\<exists>b. pay_inv b s) \<and> paid_inv s" "\<lambda>s pc. pay_asserted s pc \<and> paid_asserted s pc"
  "\<lambda>s s'. pay_later s s' \<and> stays_paid s s'"
proof unfold_locales
  show "((\<exists>b. pay_inv b s') \<and> paid_inv s') \<and> (pay_asserted s' pc' \<and> paid_asserted s' pc') \<and> pay_later s s' \<and> stays_paid s s'"
    if good: "(\<exists>b. pay_inv b s) \<and> paid_inv s" "pay_asserted s pc \<and> paid_asserted s pc" "pay_step e s pc = (s', pc')" for s s' pc pc' e
  proof -
    obtain b where "pay_inv b s" using good(1) by blast
    with pay_step_ok [of b s pc e] pay_step_paid [of b s pc e] pay_step_stays_paid [of s e pc] good show ?thesis
      by (auto simp: step_ok_def)
  qed
  show "pay_asserted s' pc \<and> paid_asserted s' pc"
    if "pay_asserted s pc \<and> paid_asserted s pc" "pay_later s s' \<and> stays_paid s s'" for s s' pc
    using that pay_asserted_later [of s pc s'] by (auto simp: paid_asserted_def stays_paid_def)
qed

lemma work_run_take:
  assumes "k < length cs"
  shows "work_run step (take (Suc k) cs) w = work_step step (cs ! k) (work_run step (take k cs) w)"
  using assms
proof (induction cs arbitrary: k w)
  case (Cons c cs)
  then show ?case by (cases k) simp_all
qed simp

text \<open>C10: however the workers of an order interleave and fail, every single call of theirs is one step
  of the contract or changes nothing that its owner sees: an order is paid, then delivered, then closed, each at most once, nothing
  is taken back, nothing is delivered before it is paid or closed before it is delivered.\<close>

theorem pay_refines_contract:
  assumes "pay_inv b s" "paid_inv s" "\<And>i. pay_asserted s (pcs i)" "\<And>i. paid_asserted s (pcs i)" "k < length cs"
  defines "seen \<equiv> \<lambda>n. view_of (wk_store (work_run pay_step (take n cs) \<lparr>wk_store = s, wk_pc = pcs\<rparr>))"
  shows "seen (Suc k) = seen k \<or> view_step (seen k) (seen (Suc k))"
proof -
  let ?w = "work_run pay_step (take k cs) \<lparr>wk_store = s, wk_pc = pcs\<rparr>"
  obtain i env where c: "cs ! k = (i, env)" by fastforce
  have "((\<exists>b. pay_inv b (wk_store ?w)) \<and> paid_inv (wk_store ?w)) \<and> (\<forall>i. pay_asserted (wk_store ?w) (wk_pc ?w i) \<and> paid_asserted (wk_store ?w) (wk_pc ?w i))"
    using assms(1-4) by (intro paid.work_run_keeps) auto
  then obtain b' where "pay_inv b' (wk_store ?w)" "pay_asserted (wk_store ?w) (wk_pc ?w i)" "paid_inv (wk_store ?w)"
      "paid_asserted (wk_store ?w) (wk_pc ?w i)" by blast
  from pay_step_simulates [OF this, of env] show ?thesis
    unfolding seen_def work_run_take [OF assms(5)] view_simulates_def c
    by (auto simp: work_step_def split: prod.split)
qed

lemma pay_refines_contract_witness:
  "let seen = (\<lambda>n. view_of (wk_store (work_run pay_step (take n sample_schedule) \<lparr>wk_store = sample_store, wk_pc = sample_workers\<rparr>)))
   in seen 5 = seen 4 \<or> view_step (seen 4) (seen 5)"
proof -
  have "paid_inv sample_store" by (simp add: paid_inv_def sample_store_def)
  moreover have "paid_asserted sample_store (sample_workers i)" for i by (simp add: paid_asserted_def sample_workers_def)
  moreover have "4 < length sample_schedule" by (simp add: sample_schedule_def)
  ultimately show ?thesis
    using pay_refines_contract [OF new_order_inv [OF sample_new_order] _ pay_entry_asserted [OF sample_entries], where k = 4 and cs = sample_schedule]
    by (simp add: Let_def)
qed

subsection \<open>A query that breaks a lease\<close>

text \<open>The holder of a lease whose version is gone can neither complete nor fail the order.\<close>

definition lost_lease_pc :: "go_time \<Rightarrow> pay_pc \<Rightarrow> bool" where
  "lost_lease_pc v pc \<longleftrightarrow> (case pc of
       Complete sub o1 w \<Rightarrow> w = v | Complete_Reload w \<Rightarrow> w = v | Fail_Order w r \<Rightarrow> w = v | Stop e \<Rightarrow> True | _ \<Rightarrow> False)"

lemma lost_lease_step:
  assumes "po_Status (ps_order s) = OrderStatusRecharging" "po_UpdatedAt (ps_order s) \<noteq> v" "lost_lease_pc v pc"
  shows "fst (pay_step e s pc) = s \<and> lost_lease_pc v (snd (pay_step e s pc))"
  using assms
  by (cases pc) (auto simp: lost_lease_pc_def pay_step_def complete_step_def redeem_step_def run_sql_eq
      markCompleted_def markFailed_def update_order_def holds_lease_def)

lemma lost_lease_run:
  assumes "po_Status (ps_order s) = OrderStatusRecharging" "po_UpdatedAt (ps_order s) \<noteq> v" "lost_lease_pc v pc"
  shows "fst (run_alone pay_step es s pc) = s"
  using assms(3)
proof (induction es arbitrary: pc)
  case (Cons e es)
  then show ?case using lost_lease_step [OF assms(1,2) Cons.prems, of e] by (auto split: prod.split)
qed simp

text \<open>C12: a status query that had read the order while it was pending stores the
  trade number of the provider without looking at the status of the order, which advances its update time;
  when a worker has meanwhile taken the lease and delivered the goods, that worker can then neither complete
  the order nor mark it failed, and leaves it recharging.\<close>

theorem pay_query_breaks_lease:
  fixes n tradeNo
  assumes "leased s v" "pe_db q = Db_Ok" "pe_now q \<noteq> v"
  defines "s1 \<equiv> fst (pay_step q s (Persist_Trade n tradeNo))"
  shows "po_Status (ps_order (fst (run_alone pay_step es s1 (Complete sub o1 v)))) = OrderStatusRecharging"
proof -
  have s1: "po_Status (ps_order s1) = OrderStatusRecharging" "po_UpdatedAt (ps_order s1) \<noteq> v"
    using assms(1-3) by (simp_all add: s1_def leased_def pay_step_def lifecycle_step_def run_sql_eq update_order_def)
  then show ?thesis
    using lost_lease_run [OF s1, of "Complete sub o1 v" es] by (simp add: lost_lease_pc_def)
qed

lemma pay_query_breaks_lease_witness:
  "po_Status (ps_order (fst (run_alone pay_step [sample_env, sample_env]
     (fst (pay_step (sample_env\<lparr>pe_now := 7\<rparr>) crashed_store (Persist_Trade sample_notification ''T9'')))
     (Complete False (ps_order crashed_store) 0)))) = OrderStatusRecharging"
  by (rule pay_query_breaks_lease) (simp_all add: leased_def crashed_store_def sample_store_def sample_env_def)

end
