(* ===== verification/Payment_Refund.thy ===== *)
theory Payment_Refund
  imports Payment_Fulfillment
begin

section \<open>Refunds: service/payment\_refund.go\<close>

text \<open>
  A refund takes the order from a final status to REFUNDING, deducts what the order granted, asks the
  gateway for the money, and closes the order, restores it, or leaves it pending until the gateway is
  queried. \<open>refund_step\<close> is one call of this code to the database, the gateway or the subscription service
  with the code up to the next call, as in \<open>Payment_Fulfillment\<close>.

  \<open>rf_payouts\<close> counts the refunds that the gateway confirmed in its answer, \<open>rf_moved\<close> those that it pays, confirmed
  or not; no code reads them.
\<close>

record refund_store =
  rf_pay :: pay_store
  rf_payouts :: nat
  rf_moved :: nat

text \<open>A statement on the tables of the order.\<close>

definition on_pay :: "(pay_store \<Rightarrow> pay_store \<times> 'a) \<Rightarrow> refund_store \<Rightarrow> refund_store \<times> 'a" where
  "on_pay stmt s = (case stmt (rf_pay s) of (p, a) \<Rightarrow> (s\<lparr>rf_pay := p\<rparr>, a))"

datatype deduction_type = DeductionTypeNone | DeductionTypeBalance | DeductionTypeSubscription

record RefundPlan =
  pl_Order :: PaymentOrder
  pl_RefundAmount :: rat
  pl_GatewayAmount :: rat
  pl_Reason :: string
  pl_Force :: bool
  pl_DeductBalance :: bool
  pl_DeductionType :: deduction_type
  pl_BalanceToDeduct :: rat
  pl_SubDaysToDeduct :: int
  pl_SubscriptionID :: int

record RefundResult =
  rr_Success :: bool
  rr_RequireForce :: bool
  rr_BalanceDeducted :: rat
  rr_SubDaysDeducted :: int

datatype refund_error = Refund_Not_Found | Refund_Forbidden | Refund_Disabled | Refund_Invalid_Type
  | Refund_Invalid_Status | Refund_Invalid_Amount | Refund_Amount_Exceeded | Refund_Balance_Not_Enough
  | Refund_Conflict | Refund_Lookup_Failed | Refund_Query_Unsupported | Refund_Db_Error | Refund_Failed

definition no_result :: "bool \<Rightarrow> RefundResult" where
  "no_result require_force = \<lparr>rr_Success = False, rr_RequireForce = require_force, rr_BalanceDeducted = 0, rr_SubDaysDeducted = 0\<rparr>"

subsection \<open>Amounts\<close>

text \<open>
  Rounding and division of \<open>shopspring/decimal\<close> are arguments: \<open>dl_Round n x\<close> keeps n fraction
  digits, \<open>dl_Div\<close> divides with the precision of the library.
\<close>

record decimal_lib =
  dl_Round :: "nat \<Rightarrow> rat \<Rightarrow> rat"
  dl_Div :: "rat \<Rightarrow> rat \<Rightarrow> rat"

definition CurrencyMaxFractionDigits :: "string \<Rightarrow> nat" where
  "CurrencyMaxFractionDigits currency = snd (paymentCurrencyAmountUnitFor currency)"

definition calculateGatewayRefundAmount :: "decimal_lib \<Rightarrow> rat \<Rightarrow> rat \<Rightarrow> rat \<Rightarrow> string \<Rightarrow> rat" where
  "calculateGatewayRefundAmount dl orderAmount payAmount refundAmount currency =
     (if orderAmount \<le> 0 \<or> payAmount \<le> 0 \<or> refundAmount \<le> 0 then 0
      else if \<bar>refundAmount - orderAmount\<bar> \<le> paymentAmountToleranceForCurrency currency
        then dl_Round dl (CurrencyMaxFractionDigits currency) payAmount
      else dl_Round dl (CurrencyMaxFractionDigits currency) (dl_Div dl (payAmount * refundAmount) orderAmount))"

subsection \<open>Statements\<close>

definition may_be_refunded :: "PaymentOrder \<Rightarrow> bool" where
  "may_be_refunded o1 \<longleftrightarrow> po_Status o1 = OrderStatusCompleted \<or> po_Status o1 = OrderStatusRefundRequested \<or>
     po_Status o1 = OrderStatusRefundPending \<or> po_Status o1 = OrderStatusRefundFailed"

definition request_refund :: "int \<Rightarrow> rat \<Rightarrow> string \<Rightarrow> go_time \<Rightarrow> pay_store \<Rightarrow> pay_store \<times> bool" where
  "request_refund uid amount reason now = update_order
     (\<lambda>o1. po_UserID o1 = uid \<and> po_Status o1 = OrderStatusCompleted \<and> po_OrderType o1 = ''balance'')
     (\<lambda>o1. o1\<lparr>po_Status := OrderStatusRefundRequested, po_RefundRequestReason := Some reason, po_RefundAmount := amount\<rparr>) now"

definition lock_refund :: "go_time \<Rightarrow> pay_store \<Rightarrow> pay_store \<times> bool" where
  "lock_refund now = update_order may_be_refunded (\<lambda>o1. o1\<lparr>po_Status := OrderStatusRefunding\<rparr>) now"

text \<open>\<open>UpdateOneID\<close>: the update of \<open>restoreStatus\<close>, \<open>markRefundOk\<close>, ... has no condition on the status.\<close>

definition set_order :: "(PaymentOrder \<Rightarrow> PaymentOrder) \<Rightarrow> go_time \<Rightarrow> pay_store \<Rightarrow> pay_store \<times> bool" where
  "set_order f now = update_order (\<lambda>o1. True) f now"

definition restore_status :: "RefundPlan \<Rightarrow> order_status" where
  "restore_status p = (if po_Status (pl_Order p) = OrderStatusRefundRequested then OrderStatusRefundRequested
     else OrderStatusCompleted)"

definition refunded_status :: "RefundPlan \<Rightarrow> order_status" where
  "refunded_status p = (if pl_RefundAmount p < po_Amount (pl_Order p) then OrderStatusPartiallyRefunded
     else OrderStatusRefunded)"

definition refund_columns :: "RefundPlan \<Rightarrow> order_status \<Rightarrow> PaymentOrder \<Rightarrow> PaymentOrder" where
  "refund_columns p st o1 = o1\<lparr>po_Status := st, po_RefundAmount := pl_RefundAmount p,
     po_RefundReason := Some (pl_Reason p), po_ForceRefund := pl_Force p\<rparr>"

definition mark_refund_failed :: "string \<Rightarrow> go_time \<Rightarrow> pay_store \<Rightarrow> pay_store \<times> bool" where
  "mark_refund_failed reason now = set_order
     (\<lambda>o1. o1\<lparr>po_Status := OrderStatusRefundFailed, po_FailedAt := Some now, po_FailedReason := Some reason\<rparr>) now"

definition mark_refund_ok :: "RefundPlan \<Rightarrow> go_time \<Rightarrow> pay_store \<Rightarrow> pay_store \<times> bool" where
  "mark_refund_ok p now = set_order (refund_columns p (refunded_status p)) now"

definition mark_refund_pending :: "RefundPlan \<Rightarrow> go_time \<Rightarrow> pay_store \<Rightarrow> pay_store \<times> bool" where
  "mark_refund_pending p now = set_order
     (\<lambda>o1. (refund_columns p OrderStatusRefundPending o1)\<lparr>po_FailedAt := None, po_FailedReason := None\<rparr>) now"

text \<open>Outcome of the subscription service for a deduction: done, would expire the subscription, or failed.\<close>

datatype sub_answer = Sub_Done | Sub_Would_Expire | Sub_Fails

text \<open>
  The transaction of \<open>finalizePendingRefundSuccess\<close>: claim the pending refund, deduct, close the order
  and log; whatever fails rolls all of it back. It yields the amount deducted; \<open>None\<close> in the inner option
  is an error, \<open>Some None\<close> a lost claim. \<open>revoked\<close> is the outcome of revoking the subscription.
\<close>

definition finalize_tx :: "RefundPlan \<Rightarrow> sub_answer \<Rightarrow> bool \<Rightarrow> go_time \<Rightarrow> pay_store \<Rightarrow> pay_store \<times> rat option option" where
  "finalize_tx p sub revoked now s =
     (case update_order (\<lambda>o1. po_Status o1 = OrderStatusRefundPending) (\<lambda>o1. o1\<lparr>po_Status := OrderStatusRefunding\<rparr>) now s of
        (s1, False) \<Rightarrow> (s, Some None)
      | (s1, True) \<Rightarrow>
          (case (if pl_DeductionType p = DeductionTypeBalance \<and> pl_BalanceToDeduct p > 0
                 then DeductAvailableBalance (po_UserID (pl_Order p)) (pl_BalanceToDeduct p) s1
                 else (s1, Some (pl_BalanceToDeduct p))) of
             (s2, None) \<Rightarrow> (s, None)
           | (s2, Some taken) \<Rightarrow>
               if pl_DeductionType p = DeductionTypeSubscription \<and> pl_SubDaysToDeduct p > 0 \<and> pl_SubscriptionID p > 0 \<and>
                  (sub = Sub_Fails \<or> sub = Sub_Would_Expire \<and> \<not> revoked) then (s, None)
               else (case insert_audit ''REFUND_SUCCESS'' \<lparr>ad_DeductionRollbackOK = True\<rparr> (fst (mark_refund_ok p now s2)) of
                   (s3, True) \<Rightarrow> (s3, Some (Some taken))
                 | (s3, False) \<Rightarrow> (s, None))))"

subsection \<open>Workers\<close>

text \<open>Looking up the provider instance of an order: an error, none, or its refund settings (enabled, by users).\<close>

datatype instance_answer = Instance_Error | No_Instance | Instance bool bool

datatype gateway_answer = Gateway_Error | Gateway_Pending_Error | Gateway_Response "string option"

datatype query_answer = Query_Unsupported | Query_Error | Query_Response "string option"

record refund_env =
  re_db :: db_fault
  re_now :: go_time
  re_decimal :: decimal_lib
  re_instance :: instance_answer
  re_provider_key :: string
  re_provider_metadata :: "(string \<times> string) list"
  re_sub_lookup :: "int option"
  re_sub :: sub_answer
  re_revoked :: bool
  re_gateway :: gateway_answer
  re_moved :: bool
  re_query :: query_answer

datatype refund_pc =
    Req_Get int string
  | Req_User PaymentOrder int string
  | Req_Update PaymentOrder int string
  | Prep_Get go_float string bool bool
  | Prep_Deduct RefundPlan
  | Refund_Lock RefundPlan
  | Check_Balance RefundPlan
  | Deduct_Balance RefundPlan
  | Check_Days RefundPlan
  | Deduct_Days RefundPlan
  | Gateway RefundPlan
  | Undo RefundPlan bool
  | Log_Undo RefundPlan bool
  | Restore RefundPlan
  | Mark_Failed
  | Mark_Ok RefundPlan
  | Log_Ok RefundPlan
  | Mark_Pending RefundPlan bool
  | Log_Pending bool
  | Fin_Get
  | Fin_Detail PaymentOrder
  | Fin_Query PaymentOrder bool
  | Fin_Tx RefundPlan
  | Fin_Failed
  | Refund_Stop "refund_error + RefundResult"

abbreviation refund_error :: "refund_error \<Rightarrow> refund_pc" where
  "refund_error e \<equiv> Refund_Stop (Inl e)"

definition validateRefundProviderResponse :: "string option \<Rightarrow> bool" where
  "validateRefundProviderResponse resp \<longleftrightarrow>
     (case resp of None \<Rightarrow> False
      | Some status \<Rightarrow> go_TrimSpace status = ''success'' \<or> go_TrimSpace status = ''refunded'' \<or> go_TrimSpace status = ''pending'')"

definition response_paid :: "string option \<Rightarrow> bool" where
  "response_paid resp \<longleftrightarrow> (case resp of None \<Rightarrow> False
      | Some status \<Rightarrow> go_TrimSpace status = ''success'' \<or> go_TrimSpace status = ''refunded'')"

subsection \<open>Plans\<close>

definition refund_reason :: "string \<Rightarrow> PaymentOrder \<Rightarrow> string" where
  "refund_reason reason o1 =
     (let rr = go_TrimSpace reason;
          rr = (case po_RefundRequestReason o1 of None \<Rightarrow> rr | Some r \<Rightarrow> if rr = [] then r else rr)
      in if rr = [] then ''refund order:'' @ go_FormatInt (po_ID o1) else rr)"

text \<open>\<open>PrepareRefund\<close> after the lookups, up to \<open>prepDeduct\<close>.\<close>

definition refund_plan :: "decimal_lib \<Rightarrow> PaymentOrder \<Rightarrow> go_float \<Rightarrow> string \<Rightarrow> bool \<Rightarrow> bool \<Rightarrow> refund_error + RefundPlan" where
  "refund_plan dl o1 amount reason force deduct =
     (case amount of
        Not_Finite \<Rightarrow> Inl Refund_Invalid_Amount
      | Finite x \<Rightarrow>
          let amt = (if x \<le> 0 then po_Amount o1 else x);
              currency = PaymentOrderCurrency o1
          in if amt - po_Amount o1 > paymentAmountToleranceForCurrency currency then Inl Refund_Amount_Exceeded
             else Inr \<lparr>pl_Order = o1, pl_RefundAmount = amt,
                pl_GatewayAmount = calculateGatewayRefundAmount dl (po_Amount o1) (po_PayAmount o1) amt currency,
                pl_Reason = refund_reason reason o1, pl_Force = force, pl_DeductBalance = deduct,
                pl_DeductionType = DeductionTypeNone, pl_BalanceToDeduct = 0, pl_SubDaysToDeduct = 0, pl_SubscriptionID = 0\<rparr>)"

text \<open>\<open>prepDeduct\<close> for a subscription: a plan, or \<open>None\<close> when force is required.\<close>

definition prep_days :: "int option \<Rightarrow> bool \<Rightarrow> RefundPlan \<Rightarrow> RefundPlan option" where
  "prep_days sub force p =
     (let p1 = p\<lparr>pl_DeductionType := DeductionTypeSubscription\<rparr> in
      case (po_SubscriptionGroupID (pl_Order p), po_SubscriptionDays (pl_Order p)) of
        (Some g, Some days) \<Rightarrow>
          let p2 = p1\<lparr>pl_SubDaysToDeduct := days\<rparr> in
          (case sub of Some i \<Rightarrow> Some (p2\<lparr>pl_SubscriptionID := i\<rparr>) | None \<Rightarrow> if force then Some p2 else None)
      | _ \<Rightarrow> Some p1)"

text \<open>\<open>prepDeduct\<close> for a balance order; \<open>balance\<close> is that of the user, or \<open>None\<close> on an error.\<close>

definition prep_balance :: "rat option \<Rightarrow> bool \<Rightarrow> RefundPlan \<Rightarrow> RefundPlan option" where
  "prep_balance balance force p =
     (case balance of
        None \<Rightarrow> if force then Some p else None
      | Some b \<Rightarrow>
          if b < pl_RefundAmount p \<and> \<not> force then None
          else Some (p\<lparr>pl_DeductionType := DeductionTypeBalance, pl_BalanceToDeduct := max 0 (min (pl_RefundAmount p) b)\<rparr>))"

definition refundFinalizePlan :: "decimal_lib \<Rightarrow> PaymentOrder \<Rightarrow> RefundPlan" where
  "refundFinalizePlan dl o1 =
     (let reason = go_TrimSpace (case po_RefundReason o1 of None \<Rightarrow> [] | Some r \<Rightarrow> r) in
      \<lparr>pl_Order = o1, pl_RefundAmount = po_RefundAmount o1,
       pl_GatewayAmount = calculateGatewayRefundAmount dl (po_Amount o1) (po_PayAmount o1) (po_RefundAmount o1) (PaymentOrderCurrency o1),
       pl_Reason = (if reason = [] then ''refund order:'' @ go_FormatInt (po_ID o1) else reason),
       pl_Force = po_ForceRefund o1, pl_DeductBalance = True, pl_DeductionType = DeductionTypeBalance,
       pl_BalanceToDeduct = (if po_OrderType o1 = ''balance'' then po_RefundAmount o1 else 0),
       pl_SubDaysToDeduct = 0, pl_SubscriptionID = 0\<rparr>)"

text \<open>The plan that \<open>QueryAndFinalizeRefund\<close> carries out; \<open>rollback_ok\<close> is what the log says of the deduction.\<close>

definition finalize_plan :: "decimal_lib \<Rightarrow> PaymentOrder \<Rightarrow> bool \<Rightarrow> int option \<Rightarrow> RefundPlan option" where
  "finalize_plan dl o1 rollback_ok sub =
     (let p = refundFinalizePlan dl o1 in
      if \<not> rollback_ok then Some (p\<lparr>pl_BalanceToDeduct := 0, pl_SubDaysToDeduct := 0\<rparr>)
      else if po_OrderType o1 = ''subscription'' then prep_days sub True p
      else Some p)"

subsection \<open>Request and preparation\<close>

definition prepare_step :: "refund_env \<Rightarrow> refund_store \<Rightarrow> refund_pc \<Rightarrow> refund_store \<times> refund_pc" where
  "prepare_step env s pc =
     (case pc of
        Req_Get uid reason \<Rightarrow>
          (case run_sql (re_db env) (on_pay get_order) s of
             (s', None) \<Rightarrow> (s', refund_error Refund_Not_Found)
           | (s', Some o1) \<Rightarrow>
               (s', if po_UserID o1 \<noteq> uid then refund_error Refund_Forbidden
                    else if po_OrderType o1 \<noteq> ''balance'' then refund_error Refund_Invalid_Type
                    else if po_Status o1 \<noteq> OrderStatusCompleted then refund_error Refund_Invalid_Status
                    else case re_instance env of
                        Instance enabled by_user \<Rightarrow> if by_user then Req_User o1 uid reason else refund_error Refund_Disabled
                      | _ \<Rightarrow> refund_error Refund_Disabled))
      | Req_User o1 uid reason \<Rightarrow>
          (case run_sql (re_db env) (on_pay (\<lambda>t. (t, ps_users t (po_UserID o1)))) s of
             (s', Some (Some u)) \<Rightarrow>
               (s', if pu_Balance u < po_Amount o1 then refund_error Refund_Balance_Not_Enough else Req_Update o1 uid reason)
           | (s', _) \<Rightarrow> (s', refund_error Refund_Db_Error))
      | Req_Update o1 uid reason \<Rightarrow>
          (case run_sql (re_db env) (on_pay (request_refund uid (po_Amount o1) (go_TrimSpace reason) (re_now env))) s of
             (s', None) \<Rightarrow> (s', refund_error Refund_Db_Error)
           | (s', Some False) \<Rightarrow> (s', refund_error Refund_Conflict)
           | (s', Some True) \<Rightarrow> (s', Refund_Stop (Inr (no_result False))))
      | Prep_Get amount reason force deduct \<Rightarrow>
          (case run_sql (re_db env) (on_pay get_order) s of
             (s', None) \<Rightarrow> (s', refund_error Refund_Not_Found)
           | (s', Some o1) \<Rightarrow>
               (s', if \<not> may_be_refunded o1 then refund_error Refund_Invalid_Status
                    else case re_instance env of
                        Instance_Error \<Rightarrow> refund_error Refund_Lookup_Failed
                      | No_Instance \<Rightarrow> refund_error Refund_Disabled
                      | Instance enabled by_user \<Rightarrow>
                          if \<not> enabled then refund_error Refund_Disabled
                          else case refund_plan (re_decimal env) o1 amount reason force deduct of
                              Inl e \<Rightarrow> refund_error e
                            | Inr p \<Rightarrow> if deduct then Prep_Deduct p else Refund_Lock p))
      | Prep_Deduct p \<Rightarrow>
          if po_OrderType (pl_Order p) = ''subscription'' then
            (s, case prep_days (re_sub_lookup env) (pl_Force p) p of
                  None \<Rightarrow> Refund_Stop (Inr (no_result True)) | Some p1 \<Rightarrow> Refund_Lock p1)
          else (case run_sql (re_db env) (on_pay (\<lambda>t. (t, ps_users t (po_UserID (pl_Order p))))) s of
             (s', res) \<Rightarrow>
               (s', case prep_balance (case res of Some (Some u) \<Rightarrow> Some (pu_Balance u) | _ \<Rightarrow> None) (pl_Force p) p of
                      None \<Rightarrow> Refund_Stop (Inr (no_result True)) | Some p1 \<Rightarrow> Refund_Lock p1))
      | _ \<Rightarrow> (s, pc))"

subsection \<open>Execution\<close>

definition deduct_step :: "refund_env \<Rightarrow> refund_store \<Rightarrow> refund_pc \<Rightarrow> refund_store \<times> refund_pc" where
  "deduct_step env s pc =
     (case pc of
        Refund_Lock p \<Rightarrow>
          (case run_sql (re_db env) (on_pay (lock_refund (re_now env))) s of
             (s', None) \<Rightarrow> (s', refund_error Refund_Db_Error)
           | (s', Some False) \<Rightarrow> (s', refund_error Refund_Conflict)
           | (s', Some True) \<Rightarrow>
               (s', if pl_DeductionType p = DeductionTypeBalance \<and> pl_BalanceToDeduct p > 0 then Check_Balance p
                    else if pl_DeductionType p = DeductionTypeSubscription \<and> pl_SubDaysToDeduct p > 0 \<and> pl_SubscriptionID p > 0
                      then Check_Days p
                    else Gateway p))
      | Check_Balance p \<Rightarrow>
          (case run_sql (re_db env) (on_pay (\<lambda>t. (t, hasAuditLog ''REFUND_ROLLBACK_FAILED'' t))) s of
             (s', logged) \<Rightarrow>
               (s', if logged = Some True then Gateway (p\<lparr>pl_BalanceToDeduct := 0\<rparr>) else Deduct_Balance p))
      | Deduct_Balance p \<Rightarrow>
          (case run_sql (re_db env) (on_pay (DeductAvailableBalance (po_UserID (pl_Order p)) (pl_BalanceToDeduct p))) s of
             (s', Some (Some taken)) \<Rightarrow> (s', Gateway (p\<lparr>pl_BalanceToDeduct := taken\<rparr>))
           | (s', _) \<Rightarrow> (s', Restore p))
      | Check_Days p \<Rightarrow>
          (case run_sql (re_db env) (on_pay (\<lambda>t. (t, hasAuditLog ''REFUND_ROLLBACK_FAILED'' t))) s of
             (s', logged) \<Rightarrow>
               (s', if logged = Some True then Gateway (p\<lparr>pl_SubDaysToDeduct := 0\<rparr>) else Deduct_Days p))
      | Deduct_Days p \<Rightarrow>
          (s, if re_sub env = Sub_Done \<or> re_sub env = Sub_Would_Expire \<and> re_revoked env then Gateway p else Restore p)
      | _ \<Rightarrow> (s, pc))"

text \<open>\<open>gwRefund\<close> and the dispatch of \<open>finishRefund\<close>; \<open>Undo p pending\<close> starts \<open>RollbackRefund\<close>.\<close>

text \<open>
  Whether the gateway pays on the request: it says so, or it pays behind an error or later, after it has
  answered that the refund is pending.
\<close>

definition gateway_pays :: "refund_env \<Rightarrow> bool" where
  "gateway_pays env \<longleftrightarrow> re_moved env \<or> (case re_gateway env of Gateway_Response resp \<Rightarrow> response_paid resp | _ \<Rightarrow> False)"

definition gateway_step :: "refund_env \<Rightarrow> refund_store \<Rightarrow> RefundPlan \<Rightarrow> refund_store \<times> refund_pc" where
  "gateway_step env s p =
     (if po_PaymentTradeNo (pl_Order p) = [] then (s, Mark_Ok p)
      else case re_instance env of
          Instance enabled by_user \<Rightarrow>
            if \<not> validateProviderSnapshotMetadata (pl_Order p) (re_provider_key env) (re_provider_metadata env)
            then (s, Undo p False)
            else
              let s1 = (if gateway_pays env then s\<lparr>rf_moved := rf_moved s + 1\<rparr> else s)
              in (case re_gateway env of
                Gateway_Error \<Rightarrow> (s1, Undo p False)
              | Gateway_Pending_Error \<Rightarrow> (s1, Undo p True)
              | Gateway_Response resp \<Rightarrow>
                  if \<not> validateRefundProviderResponse resp then (s1, Undo p False)
                  else if response_paid resp then (s1\<lparr>rf_payouts := rf_payouts s1 + 1\<rparr>, Mark_Ok p)
                  else (s1, Undo p True))
        | _ \<Rightarrow> (s, Undo p False))"

definition undone :: "RefundPlan \<Rightarrow> bool \<Rightarrow> refund_pc" where
  "undone p pending = (if pending then Mark_Pending (p\<lparr>pl_BalanceToDeduct := 0, pl_SubDaysToDeduct := 0\<rparr>) True else Restore p)"

definition settle_step :: "refund_env \<Rightarrow> refund_store \<Rightarrow> refund_pc \<Rightarrow> refund_store \<times> refund_pc" where
  "settle_step env s pc =
     (case pc of
        Gateway p \<Rightarrow> gateway_step env s p
      | Undo p pending \<Rightarrow>
          if pl_DeductionType p = DeductionTypeBalance \<and> pl_BalanceToDeduct p > 0 then
            (case run_sql (re_db env) (on_pay (UpdateBalance (po_UserID (pl_Order p)) (pl_BalanceToDeduct p))) s of
               (s', Some True) \<Rightarrow> (s', undone p pending)
             | (s', _) \<Rightarrow> (s', Log_Undo p pending))
          else if pl_DeductionType p = DeductionTypeSubscription \<and> pl_SubDaysToDeduct p > 0 \<and> pl_SubscriptionID p > 0 then
            (s, if re_sub env = Sub_Done then undone p pending else Log_Undo p pending)
          else (s, undone p pending)
      | Log_Undo p pending \<Rightarrow>
          (fst (run_sql (re_db env) (on_pay (insert_audit ''REFUND_ROLLBACK_FAILED'' \<lparr>ad_DeductionRollbackOK = True\<rparr>)) s),
           if pending then Mark_Pending p False else Mark_Failed)
      | Restore p \<Rightarrow>
          (fst (run_sql (re_db env) (on_pay (set_order (\<lambda>o1. o1\<lparr>po_Status := restore_status p\<rparr>) (re_now env))) s),
           refund_error Refund_Failed)
      | Mark_Failed \<Rightarrow>
          (fst (run_sql (re_db env) (on_pay (mark_refund_failed ''gateway'' (re_now env))) s), refund_error Refund_Failed)
      | Mark_Ok p \<Rightarrow>
          (case run_sql (re_db env) (on_pay (mark_refund_ok p (re_now env))) s of
             (s', None) \<Rightarrow> (s', refund_error Refund_Db_Error)
           | (s', Some u) \<Rightarrow> (s', Log_Ok p))
      | Log_Ok p \<Rightarrow>
          (fst (run_sql (re_db env) (on_pay (insert_audit ''REFUND_SUCCESS'' \<lparr>ad_DeductionRollbackOK = True\<rparr>)) s),
           Refund_Stop (Inr \<lparr>rr_Success = True, rr_RequireForce = False, rr_BalanceDeducted = pl_BalanceToDeduct p,
             rr_SubDaysDeducted = pl_SubDaysToDeduct p\<rparr>))
      | Mark_Pending p ok \<Rightarrow>
          (case run_sql (re_db env) (on_pay (mark_refund_pending p (re_now env))) s of
             (s', None) \<Rightarrow> (s', refund_error Refund_Db_Error)
           | (s', Some u) \<Rightarrow> (s', Log_Pending ok))
      | Log_Pending ok \<Rightarrow>
          (fst (run_sql (re_db env) (on_pay (insert_audit ''REFUND_PENDING'' \<lparr>ad_DeductionRollbackOK = ok\<rparr>)) s),
           Refund_Stop (Inr (no_result False)))
      | _ \<Rightarrow> (s, pc))"

subsection \<open>Finalization\<close>

definition finalize_step :: "refund_env \<Rightarrow> refund_store \<Rightarrow> refund_pc \<Rightarrow> refund_store \<times> refund_pc" where
  "finalize_step env s pc =
     (case pc of
        Fin_Get \<Rightarrow>
          (case run_sql (re_db env) (on_pay get_order) s of
             (s', None) \<Rightarrow> (s', refund_error Refund_Not_Found)
           | (s', Some o1) \<Rightarrow>
               (s', if po_Status o1 \<noteq> OrderStatusRefundPending then refund_error Refund_Invalid_Status
                    else case re_instance env of
                        Instance enabled by_user \<Rightarrow>
                          if re_query env = Query_Unsupported then refund_error Refund_Query_Unsupported else Fin_Detail o1
                      | _ \<Rightarrow> refund_error Refund_Lookup_Failed))
      | Fin_Detail o1 \<Rightarrow>
          (case run_sql (re_db env) (on_pay (\<lambda>t. (t, ps_audit t ''REFUND_PENDING''))) s of
             (s', Some (Some d)) \<Rightarrow> (s', Fin_Query o1 (ad_DeductionRollbackOK d))
           | (s', _) \<Rightarrow> (s', Fin_Query o1 True))
      | Fin_Query o1 rollback_ok \<Rightarrow>
          (s, case re_query env of
                Query_Response resp \<Rightarrow>
                  if \<not> validateRefundProviderResponse resp then Fin_Failed
                  else (case finalize_plan (re_decimal env) o1 rollback_ok (re_sub_lookup env) of
                      None \<Rightarrow> Refund_Stop (Inr (no_result True))
                    | Some p \<Rightarrow> if response_paid resp then Fin_Tx p else Refund_Stop (Inr (no_result False)))
              | _ \<Rightarrow> refund_error Refund_Failed)
      | Fin_Tx p \<Rightarrow>
          (case run_sql (re_db env) (on_pay (finalize_tx p (re_sub env) (re_revoked env) (re_now env))) s of
             (s', None) \<Rightarrow> (s', refund_error Refund_Db_Error)
           | (s', Some None) \<Rightarrow> (s', refund_error Refund_Failed)
           | (s', Some (Some None)) \<Rightarrow> (s', refund_error Refund_Conflict)
           | (s', Some (Some (Some taken))) \<Rightarrow>
               (s', Refund_Stop (Inr \<lparr>rr_Success = True, rr_RequireForce = False, rr_BalanceDeducted = taken,
                 rr_SubDaysDeducted = pl_SubDaysToDeduct p\<rparr>)))
      | Fin_Failed \<Rightarrow>
          (fst (run_sql (re_db env) (on_pay (mark_refund_failed ''gateway'' (re_now env))) s), Refund_Stop (Inr (no_result False)))
      | _ \<Rightarrow> (s, pc))"

definition refund_step :: "refund_env \<Rightarrow> refund_store \<Rightarrow> refund_pc \<Rightarrow> refund_store \<times> refund_pc" where
  "refund_step env s pc =
     (case pc of
        Req_Get a b \<Rightarrow> prepare_step env s pc | Req_User a b c \<Rightarrow> prepare_step env s pc | Req_Update a b c \<Rightarrow> prepare_step env s pc
      | Prep_Get a b c d \<Rightarrow> prepare_step env s pc | Prep_Deduct p \<Rightarrow> prepare_step env s pc
      | Refund_Lock p \<Rightarrow> deduct_step env s pc | Check_Balance p \<Rightarrow> deduct_step env s pc | Deduct_Balance p \<Rightarrow> deduct_step env s pc
      | Check_Days p \<Rightarrow> deduct_step env s pc | Deduct_Days p \<Rightarrow> deduct_step env s pc
      | Fin_Get \<Rightarrow> finalize_step env s pc | Fin_Detail a \<Rightarrow> finalize_step env s pc | Fin_Query a b \<Rightarrow> finalize_step env s pc
      | Fin_Tx p \<Rightarrow> finalize_step env s pc | Fin_Failed \<Rightarrow> finalize_step env s pc
      | _ \<Rightarrow> settle_step env s pc)"

end
