(* ===== verification/Refund_Correct.thy ===== *)
theory Refund_Correct
  imports Payment_Refund
begin

section \<open>Correctness of refunds\<close>

text \<open>
  The books of one refund, exclusion of concurrent refunds, and two courses of events in which the
  recorded state of a refund is wrong.
\<close>

subsection \<open>One refund without faults\<close>

definition good_refund_env :: "gateway_answer \<Rightarrow> PaymentOrder \<Rightarrow> refund_env \<Rightarrow> bool" where
  "good_refund_env g o1 e \<longleftrightarrow> re_db e = Db_Ok \<and> (\<exists>by_user. re_instance e = Instance True by_user) \<and> re_gateway e = g \<and>
     validateProviderSnapshotMetadata o1 (re_provider_key e) (re_provider_metadata e)"

datatype refund_outcome = Outcome_Paid | Outcome_Pending | Outcome_Failed

definition gateway_outcome :: "gateway_answer \<Rightarrow> refund_outcome" where
  "gateway_outcome g = (case g of
       Gateway_Error \<Rightarrow> Outcome_Failed
     | Gateway_Pending_Error \<Rightarrow> Outcome_Pending
     | Gateway_Response resp \<Rightarrow> if \<not> validateRefundProviderResponse resp then Outcome_Failed
         else if response_paid resp then Outcome_Paid else Outcome_Pending)"

text \<open>What an attempt that takes \<open>taken\<close> from the user's balance leaves behind.\<close>

definition settled_user :: "refund_outcome \<Rightarrow> rat \<Rightarrow> pay_user \<Rightarrow> pay_user" where
  "settled_user r taken u = (case r of
       Outcome_Paid \<Rightarrow> u\<lparr>pu_Balance := pu_Balance u - taken\<rparr>
     | _ \<Rightarrow> u\<lparr>pu_TotalRecharged := pu_TotalRecharged u + taken\<rparr>)"

definition settled_status :: "refund_outcome \<Rightarrow> RefundPlan \<Rightarrow> order_status" where
  "settled_status r p = (case r of
       Outcome_Paid \<Rightarrow> refunded_status p | Outcome_Pending \<Rightarrow> OrderStatusRefundPending | Outcome_Failed \<Rightarrow> restore_status p)"

definition refund_settled :: "refund_outcome \<Rightarrow> RefundPlan \<Rightarrow> rat \<Rightarrow> pay_user \<Rightarrow> nat \<Rightarrow> refund_store \<Rightarrow> bool" where
  "refund_settled r p taken u payouts s \<longleftrightarrow>
     po_Status (ps_order (rf_pay s)) = settled_status r p \<and>
     ps_users (rf_pay s) (po_UserID (pl_Order p)) = Some (settled_user r taken u) \<and>
     rf_payouts s = payouts + (if r = Outcome_Paid then 1 else 0) \<and>
     (r = Outcome_Failed \<or> po_RefundAmount (ps_order (rf_pay s)) = pl_RefundAmount p)"

lemmas refund_solo = refund_step_def run_sql_def on_pay_def set_order_def update_order_def

abbreviation refund_settles :: "gateway_answer \<Rightarrow> PaymentOrder \<Rightarrow> nat \<Rightarrow> refund_store \<Rightarrow> refund_pc \<Rightarrow> (refund_store \<Rightarrow> bool) \<Rightarrow> bool" where
  "refund_settles g o1 \<equiv> settles refund_step (good_refund_env g o1)"

lemma refund_stopped: "Q s \<Longrightarrow> refund_settles g o1 n s (Refund_Stop r) Q"
  by (rule settles_stopped) (simp_all add: refund_step_def settle_step_def)




lemma refund_settled_amounts [simp]:
  "refund_settled r (p\<lparr>pl_BalanceToDeduct := x\<rparr>) = refund_settled r p"
  "refund_settled r (p\<lparr>pl_SubDaysToDeduct := d\<rparr>) = refund_settled r p"
  "refund_settled r (p\<lparr>pl_DeductionType := t\<rparr>) = refund_settled r p"
  by (simp_all add: fun_eq_iff refund_settled_def settled_status_def restore_status_def refunded_status_def
      split: refund_outcome.split)




lemma gateway_called:
  assumes "po_PaymentTradeNo (pl_Order p) \<noteq> []" "re_instance env = Instance enabled by_user"
    and "validateProviderSnapshotMetadata (pl_Order p) (re_provider_key env) (re_provider_metadata env)"
  shows "\<exists>m. gateway_step env s p =
    (if gateway_outcome (re_gateway env) = Outcome_Paid then (s\<lparr>rf_moved := m, rf_payouts := Suc (rf_payouts s)\<rparr>, Mark_Ok p)
     else (s\<lparr>rf_moved := m\<rparr>, Undo p (gateway_outcome (re_gateway env) = Outcome_Pending)))"
proof (rule exI [of _ "if gateway_pays env then rf_moved s + 1 else rf_moved s"])
  let ?m = "if gateway_pays env then rf_moved s + 1 else rf_moved s"
  show "gateway_step env s p =
    (if gateway_outcome (re_gateway env) = Outcome_Paid then (s\<lparr>rf_moved := ?m, rf_payouts := Suc (rf_payouts s)\<rparr>, Mark_Ok p)
     else (s\<lparr>rf_moved := ?m\<rparr>, Undo p (gateway_outcome (re_gateway env) = Outcome_Pending)))"
    using assms by (simp add: gateway_step_def gateway_outcome_def Let_def split: gateway_answer.split)
qed



lemma tolerance_pos: "0 < paymentAmountToleranceForCurrency c"
  by (simp add: paymentAmountToleranceForCurrency_def Let_def)


subsection \<open>Concurrent refunds\<close>





abbreviation refund_status :: "refund_store \<Rightarrow> order_status" where
  "refund_status s \<equiv> po_Status (ps_order (rf_pay s))"


lemma run_sql_on_pay:
  "run_sql f (on_pay stmt) s =
    (if f = Db_Fails then s else s\<lparr>rf_pay := fst (stmt (rf_pay s))\<rparr>, if f = Db_Ok then Some (snd (stmt (rf_pay s))) else None)"
  by (cases f) (simp_all add: run_sql_def on_pay_def split: prod.split)













subsection \<open>Sample orders\<close>

definition completed_store :: "order_status \<Rightarrow> rat \<Rightarrow> refund_store" where
  "completed_store st balance = \<lparr>rf_pay = sample_store
     \<lparr>ps_order := (ps_order sample_store)\<lparr>po_Status := st, po_PaymentTradeNo := ''T1'', po_RefundAmount := 5\<rparr>,
      ps_users := [7 \<mapsto> \<lparr>pu_Balance = balance, pu_TotalRecharged = 5\<rparr>]\<rparr>, rf_payouts = 0, rf_moved = 0\<rparr>"

definition sample_refund_env :: "db_fault \<Rightarrow> gateway_answer \<Rightarrow> query_answer \<Rightarrow> refund_env" where
  "sample_refund_env db g q = \<lparr>re_db = db, re_now = 9, re_decimal = \<lparr>dl_Round = (\<lambda>n x. x), dl_Div = (/)\<rparr>,
     re_instance = Instance True True, re_provider_key = ''stripe'', re_provider_metadata = [], re_sub_lookup = None,
     re_sub = Sub_Done, re_revoked = False, re_gateway = g, re_moved = False, re_query = q\<rparr>"





subsection \<open>A pending refund that is forgotten\<close>

lemma finalize_refuses:
  assumes "refund_status s \<noteq> OrderStatusRefundPending"
  shows "fst (run_alone refund_step es s Fin_Get) = s"
proof (cases es)
  case (Cons e es')
  have "\<exists>err. refund_step e s Fin_Get = (s, Refund_Stop (Inl err))"
    using assms by (auto simp: refund_step_def finalize_step_def run_sql_on_pay get_order_def)
  then obtain err where "refund_step e s Fin_Get = (s, Refund_Stop (Inl err))" by blast
  then show ?thesis
    by (simp add: Cons run_alone_stopped refund_step_def settle_step_def)
qed simp

text \<open>When an administrator repeats a refund that is pending at the gateway
  and the second attempt is rejected, the order is restored to completed instead of pending; from then on no
  query can finalize the first refund, whatever the gateway says.\<close>

theorem refund_pending_forgotten:
  fixes x :: rat and reason :: string and force :: bool
  assumes "refund_status s = OrderStatusRefundPending" "po_PaymentTradeNo (ps_order (rf_pay s)) \<noteq> []"
    and "0 < x" "x \<le> po_Amount (ps_order (rf_pay s))" "gateway_outcome g = Outcome_Failed"
    and "5 \<le> length es" "\<And>e. e \<in> set es \<Longrightarrow> good_refund_env g (ps_order (rf_pay s)) e"
  defines "s' \<equiv> fst (run_alone refund_step es s (Prep_Get (Finite x) reason force False))"
  shows "refund_status s' = OrderStatusCompleted \<and> fst (run_alone refund_step queries s' Fin_Get) = s'"
proof -
  let ?Q = "\<lambda>t. refund_status t = OrderStatusCompleted"
  let ?o = "ps_order (rf_pay s)"
  have restore: "refund_settles g ?o (Suc 0) t (Restore p) ?Q" if "pl_Order p = ?o" for t p
    by (rule settles_step)
      (use assms(1) that in \<open>auto simp: good_refund_env_def refund_solo settle_step_def restore_status_def intro!: refund_stopped\<close>)
  have undo: "refund_settles g ?o (Suc (Suc 0)) t (Undo p False) ?Q" if "pl_Order p = ?o" "pl_DeductionType p = DeductionTypeNone" for t p
    by (rule settles_step) (use restore that in \<open>simp add: refund_step_def settle_step_def undone_def\<close>)
  have gateway: "refund_settles g ?o (Suc (Suc (Suc 0))) t (Gateway p) ?Q"
    if p: "pl_Order p = ?o" "pl_DeductionType p = DeductionTypeNone" for t p
  proof (rule settles_step)
    fix e assume "good_refund_env g ?o e"
    then have "\<exists>m. refund_step e t (Gateway p) = (t\<lparr>rf_moved := m\<rparr>, Undo p False)"
      using assms(2,5) p gateway_called [of p e _ _ t] by (auto simp: good_refund_env_def refund_step_def settle_step_def)
    with undo [OF p] show "refund_settles g ?o (Suc (Suc 0)) (fst (refund_step e t (Gateway p))) (snd (refund_step e t (Gateway p))) ?Q"
      by auto
  qed
  have "refund_settles g ?o (Suc (Suc (Suc (Suc (Suc 0))))) s (Prep_Get (Finite x) reason force False) ?Q"
  proof (rule settles_step)
    fix e assume e: "good_refund_env g ?o e"
    then obtain by_user where i: "re_instance e = Instance True by_user" by (auto simp: good_refund_env_def)
    obtain p where p: "refund_plan (re_decimal e) ?o (Finite x) reason force False = Inr p" "pl_Order p = ?o"
        "pl_DeductionType p = DeductionTypeNone"
      using assms(3,4) tolerance_pos [of "PaymentOrderCurrency ?o"] by (auto simp: refund_plan_def Let_def not_less)
    have "refund_step e s (Prep_Get (Finite x) reason force False) = (s, Refund_Lock p)"
      using e i p assms(1) by (simp add: refund_solo prepare_step_def get_order_def good_refund_env_def may_be_refunded_def)
    moreover have "refund_settles g ?o (Suc (Suc (Suc (Suc 0)))) s (Refund_Lock p) ?Q"
    proof (rule settles_step)
      fix e2 assume "good_refund_env g ?o e2"
      then have "snd (refund_step e2 s (Refund_Lock p)) = Gateway p"
        using p assms(1) by (simp add: refund_solo deduct_step_def lock_refund_def good_refund_env_def may_be_refunded_def)
      with gateway [OF p(2,3)]
      show "refund_settles g ?o (Suc (Suc (Suc 0))) (fst (refund_step e2 s (Refund_Lock p))) (snd (refund_step e2 s (Refund_Lock p))) ?Q"
        by simp
    qed
    ultimately show "refund_settles g ?o (Suc (Suc (Suc (Suc 0)))) (fst (refund_step e s (Prep_Get (Finite x) reason force False)))
        (snd (refund_step e s (Prep_Get (Finite x) reason force False))) ?Q" by simp
  qed
  then have "?Q s'" using assms(6,7) by (simp add: settles_def s'_def)
  then show ?thesis using finalize_refuses [of s' queries] by simp
qed

lemma refund_pending_forgotten_witness:
  "refund_status (fst (run_alone refund_step (replicate 5 (sample_refund_env Db_Ok Gateway_Error Query_Error))
     (completed_store OrderStatusRefundPending 15) (Prep_Get (Finite 5) [] False False))) = OrderStatusCompleted"
proof -
  have "good_refund_env Gateway_Error (ps_order (rf_pay (completed_store OrderStatusRefundPending 15)))
      (sample_refund_env Db_Ok Gateway_Error Query_Error)"
    by (auto simp: good_refund_env_def sample_refund_env_def validateProviderSnapshotMetadata_def)
  then show ?thesis
    using refund_pending_forgotten [of "completed_store OrderStatusRefundPending 15" 5 Gateway_Error
        "replicate 5 (sample_refund_env Db_Ok Gateway_Error Query_Error)" "[]" False "[]"]
    by (simp add: completed_store_def sample_store_def gateway_outcome_def)
qed


subsection \<open>A balance deducted twice\<close>

text \<open>
  First attempt: the gateway fails and the credit that undoes the deduction is lost. Second attempt: the
  deduction is skipped, as it is still in place, and the gateway leaves the refund pending. Then the query
  finds it paid.
\<close>

definition refund_ok_env :: "gateway_answer \<Rightarrow> query_answer \<Rightarrow> go_time \<Rightarrow> decimal_lib \<Rightarrow> refund_env" where
  "refund_ok_env g q now dl = \<lparr>re_db = Db_Ok, re_now = now, re_decimal = dl,
     re_instance = Instance True True, re_provider_key = ''stripe'', re_provider_metadata = [], re_sub_lookup = None,
     re_sub = Sub_Done, re_revoked = False, re_gateway = g, re_moved = False, re_query = q\<rparr>"

definition first_attempt :: "go_time \<Rightarrow> decimal_lib \<Rightarrow> refund_env list" where
  "first_attempt now dl = (let e = refund_ok_env Gateway_Error Query_Error now dl
     in [e, e, e, e, e, e, e\<lparr>re_db := Db_Fails\<rparr>, e, e])"

definition second_attempt :: "go_time \<Rightarrow> decimal_lib \<Rightarrow> refund_env list" where
  "second_attempt now dl = replicate 8 (refund_ok_env Gateway_Pending_Error Query_Error now dl)"

definition finalization :: "go_time \<Rightarrow> decimal_lib \<Rightarrow> refund_env list" where
  "finalization now dl = replicate 4 (refund_ok_env Gateway_Error (Query_Response (Some ''success'')) now dl)"

lemma trim_success: "go_TrimSpace ''success'' = ''success''"
  by code_simp

text \<open>The three runs, one after the other.\<close>

definition three_runs :: "rat \<Rightarrow> go_time \<Rightarrow> decimal_lib \<Rightarrow> refund_store \<Rightarrow> refund_store" where
  "three_runs x now dl s =
     (let s1 = fst (run_alone refund_step (first_attempt now dl) s (Prep_Get (Finite x) [] False True));
          s2 = fst (run_alone refund_step (second_attempt now dl) s1 (Prep_Get (Finite x) [] False True))
      in fst (run_alone refund_step (finalization now dl) s2 Fin_Get))"

definition refundable :: "rat \<Rightarrow> refund_store \<Rightarrow> bool" where
  "refundable x s \<longleftrightarrow> refund_status s = OrderStatusCompleted \<and> po_OrderType (ps_order (rf_pay s)) = ''balance'' \<and>
     po_PaymentTradeNo (ps_order (rf_pay s)) \<noteq> [] \<and> ps_audit (rf_pay s) = Map.empty \<and>
     po_Amount (ps_order (rf_pay s)) = x \<and> 0 < x"

lemma plan_eq:
  assumes "0 < x" "po_Amount o1 = x"
  shows "refund_plan dl o1 (Finite x) r f d = Inr \<lparr>pl_Order = o1, pl_RefundAmount = x,
    pl_GatewayAmount = calculateGatewayRefundAmount dl x (po_PayAmount o1) x (PaymentOrderCurrency o1),
    pl_Reason = refund_reason r o1, pl_Force = f, pl_DeductBalance = d,
    pl_DeductionType = DeductionTypeNone, pl_BalanceToDeduct = 0, pl_SubDaysToDeduct = 0, pl_SubscriptionID = 0\<rparr>"
  using assms tolerance_pos [of "PaymentOrderCurrency o1"] by (simp add: refund_plan_def Let_def not_less)

lemmas run_solo = refund_step_def prepare_step_def deduct_step_def settle_step_def gateway_step_def finalize_step_def run_sql_on_pay
  get_order_def set_order_def update_order_def lock_refund_def may_be_refunded_def prep_balance_def hasAuditLog_def
  DeductAvailableBalance_def UpdateBalance_def insert_audit_def mark_refund_failed_def mark_refund_pending_def refund_columns_def
  validateProviderSnapshotMetadata_def undone_def refund_ok_env_def plan_eq gateway_pays_def Let_def

lemma first_attempt_run:
  assumes "refundable x s" "ps_users (rf_pay s) (po_UserID (ps_order (rf_pay s))) = Some u" "x \<le> pu_Balance u"
  shows "fst (run_alone refund_step (first_attempt now dl) s (Prep_Get (Finite x) [] False True)) =
    s\<lparr>rf_pay := (rf_pay s)\<lparr>
       ps_order := (ps_order (rf_pay s))\<lparr>po_Status := OrderStatusRefundFailed, po_FailedAt := Some now,
         po_FailedReason := Some ''gateway'', po_UpdatedAt := now\<rparr>,
       ps_users := (ps_users (rf_pay s))(po_UserID (ps_order (rf_pay s)) \<mapsto> u\<lparr>pu_Balance := pu_Balance u - x\<rparr>),
       ps_audit := [''REFUND_ROLLBACK_FAILED'' \<mapsto> \<lparr>ad_DeductionRollbackOK = True\<rparr>]\<rparr>\<rparr>"
  using assms by (simp add: refundable_def first_attempt_def run_solo)

lemma second_attempt_run:
  fixes now :: go_time and dl :: decimal_lib
  assumes "refund_status s = OrderStatusRefundFailed" "po_OrderType (ps_order (rf_pay s)) = ''balance''"
    and "po_PaymentTradeNo (ps_order (rf_pay s)) \<noteq> []" "po_Amount (ps_order (rf_pay s)) = x" "0 < x"
    and "ps_audit (rf_pay s) = [''REFUND_ROLLBACK_FAILED'' \<mapsto> \<lparr>ad_DeductionRollbackOK = True\<rparr>]"
    and "ps_users (rf_pay s) (po_UserID (ps_order (rf_pay s))) = Some u" "x \<le> pu_Balance u"
  defines "s' \<equiv> fst (run_alone refund_step (second_attempt now dl) s (Prep_Get (Finite x) [] False True))"
  shows "refund_status s' = OrderStatusRefundPending \<and> po_RefundAmount (ps_order (rf_pay s')) = x \<and>
    po_OrderType (ps_order (rf_pay s')) = ''balance'' \<and> po_Amount (ps_order (rf_pay s')) = x \<and>
    po_UserID (ps_order (rf_pay s')) = po_UserID (ps_order (rf_pay s)) \<and> ps_users (rf_pay s') = ps_users (rf_pay s) \<and>
    ps_audit (rf_pay s') ''REFUND_PENDING'' = Some \<lparr>ad_DeductionRollbackOK = True\<rparr> \<and>
    ps_audit (rf_pay s') ''REFUND_SUCCESS'' = None"
  using assms(1-8) unfolding s'_def
  by (simp add: second_attempt_def numeral_nat run_solo)

lemma finalization_run:
  fixes now :: go_time and dl :: decimal_lib
  assumes "refund_status s = OrderStatusRefundPending" "po_RefundAmount (ps_order (rf_pay s)) = x"
    and "po_OrderType (ps_order (rf_pay s)) = ''balance''" "po_Amount (ps_order (rf_pay s)) = x" "0 < x"
    and "ps_audit (rf_pay s) ''REFUND_PENDING'' = Some \<lparr>ad_DeductionRollbackOK = True\<rparr>"
    and "ps_audit (rf_pay s) ''REFUND_SUCCESS'' = None"
    and "ps_users (rf_pay s) (po_UserID (ps_order (rf_pay s))) = Some u" "x \<le> pu_Balance u"
  defines "s' \<equiv> fst (run_alone refund_step (finalization now dl) s Fin_Get)"
  shows "refund_status s' = OrderStatusRefunded \<and>
    ps_users (rf_pay s') (po_UserID (ps_order (rf_pay s))) = Some (u\<lparr>pu_Balance := pu_Balance u - x\<rparr>)"
  using assms(1-9) unfolding s'_def
  by (simp add: finalization_def numeral_nat run_solo finalize_plan_def refundFinalizePlan_def finalize_tx_def mark_refund_ok_def
      validateRefundProviderResponse_def response_paid_def trim_success refunded_status_def)

text \<open>C15: when the credit that undoes a failed attempt is lost, the next attempt
  rightly skips the deduction, but when the gateway leaves that attempt pending, its log says that the deduction
  was rolled back, and finalizing it deducts the amount a second time: the user pays twice for one refund.\<close>

theorem refund_deducts_twice:
  assumes "refundable x s" "ps_users (rf_pay s) (po_UserID (ps_order (rf_pay s))) = Some u" "2 * x \<le> pu_Balance u"
  shows "refund_status (three_runs x now dl s) = OrderStatusRefunded \<and>
    ps_users (rf_pay (three_runs x now dl s)) (po_UserID (ps_order (rf_pay s))) = Some (u\<lparr>pu_Balance := pu_Balance u - 2 * x\<rparr>)"
proof -
  let ?uid = "po_UserID (ps_order (rf_pay s))"
  define s1 where "s1 = fst (run_alone refund_step (first_attempt now dl) s (Prep_Get (Finite x) [] False True))"
  define s2 where "s2 = fst (run_alone refund_step (second_attempt now dl) s1 (Prep_Get (Finite x) [] False True))"
  have x: "0 < x" using assms(1) by (simp add: refundable_def)
  have s1: "refund_status s1 = OrderStatusRefundFailed" "po_OrderType (ps_order (rf_pay s1)) = ''balance''"
    "po_PaymentTradeNo (ps_order (rf_pay s1)) \<noteq> []" "po_Amount (ps_order (rf_pay s1)) = x"
    "ps_audit (rf_pay s1) = [''REFUND_ROLLBACK_FAILED'' \<mapsto> \<lparr>ad_DeductionRollbackOK = True\<rparr>]"
    "po_UserID (ps_order (rf_pay s1)) = ?uid" "ps_users (rf_pay s1) ?uid = Some (u\<lparr>pu_Balance := pu_Balance u - x\<rparr>)"
    using first_attempt_run [OF assms(1,2), of now dl] assms(1,3) x by (simp_all add: s1_def refundable_def)
  have "x \<le> pu_Balance (u\<lparr>pu_Balance := pu_Balance u - x\<rparr>)" using assms(3) by simp
  note s2 = second_attempt_run [OF s1(1-4) x s1(5) s1(7) [folded s1(6)] this, of now dl, folded s2_def]
  have "three_runs x now dl s = fst (run_alone refund_step (finalization now dl) s2 Fin_Get)"
    by (simp add: three_runs_def s1_def s2_def Let_def)
  then show ?thesis
    using finalization_run [of s2 x "u\<lparr>pu_Balance := pu_Balance u - x\<rparr>" now dl] s1 s2 x assms(3) by simp
qed

lemma refund_deducts_twice_witness:
  "ps_users (rf_pay (three_runs 5 9 \<lparr>dl_Round = (\<lambda>n x. x), dl_Div = (/)\<rparr> (completed_store OrderStatusCompleted 15))) 7 =
    Some \<lparr>pu_Balance = 5, pu_TotalRecharged = 5\<rparr>"
  using refund_deducts_twice [of 5 "completed_store OrderStatusCompleted 15" "\<lparr>pu_Balance = 15, pu_TotalRecharged = 5\<rparr>" 9
      "\<lparr>dl_Round = (\<lambda>n x. x), dl_Div = (/)\<rparr>"]
  by (simp add: refundable_def completed_store_def sample_store_def)

end
