(* ===== verification/Redis.thy ===== *)
theory Redis
  imports Main "HOL-Library.AList" Prelude
begin

section \<open>The Redis commands of the Lua scripts\<close>

text \<open>
  The concurrency limits live in Redis: scripts run atomically on sorted sets, counters and key
  expiry. Redis is a parameter of the model: \<open>redis_api\<close> holds the commands the scripts call, and the
  locale \<open>redis_laws\<close> what their documentation says of them, in terms of three observations: the clock,
  the score of a member and the deadline of a key. \<open>api_wait\<close> is the passing of time.

  \<open>al_redis\<close> is a Redis on association lists, for which the laws hold.
\<close>

text \<open>A call can be lost before it took effect or after.\<close>

datatype redis_fault = Answered | Lost_Before | Lost_After

text \<open>
  The keys of \<open>repository/concurrency_cache.go\<close> and \<open>repository/session_limit_cache.go\<close>, whose strings are a prefix that ends in a colon and a
  decimal number, or the name of an index; they are pairwise different.
\<close>

datatype rkey =
    accountSlotKey int | userSlotKey int | apiKeySlotKey int
  | liveAccountSlotKey int | liveUserSlotKey int | liveAPIKeySlotKey int
  | openAIWSIngressLeaseKey int | waitQueueKey int | accountWaitKey int
  | accountActiveIndexKey | userActiveIndexKey
  | sessionLimitKey int

text \<open>\<open>api_TIME\<close> is in milliseconds, scores and durations of keys are in seconds.\<close>

record 's redis_api =
  api_TIME :: "'s \<Rightarrow> int"
  api_ZSCORE :: "rkey \<Rightarrow> string \<Rightarrow> 's \<Rightarrow> int option"
  api_ZCARD :: "rkey \<Rightarrow> 's \<Rightarrow> nat"
  api_ZRANGE :: "rkey \<Rightarrow> 's \<Rightarrow> string list"
  api_ZADD :: "rkey \<Rightarrow> int \<Rightarrow> string \<Rightarrow> 's \<Rightarrow> 's"
  api_ZREM :: "rkey \<Rightarrow> string \<Rightarrow> 's \<Rightarrow> 's"
  api_ZREMRANGEBYSCORE :: "rkey \<Rightarrow> int \<Rightarrow> 's \<Rightarrow> 's"
  api_EXPIRE :: "rkey \<Rightarrow> int \<Rightarrow> 's \<Rightarrow> 's"
  api_EXPIRETIME :: "rkey \<Rightarrow> 's \<Rightarrow> int option"
  api_DEL :: "rkey \<Rightarrow> 's \<Rightarrow> 's"
  api_GET :: "rkey \<Rightarrow> 's \<Rightarrow> int option"
  api_INCR :: "rkey \<Rightarrow> 's \<Rightarrow> 's"
  api_DECR :: "rkey \<Rightarrow> 's \<Rightarrow> 's"
  api_wait :: "nat \<Rightarrow> 's \<Rightarrow> 's"

text \<open>The key is gone when its deadline has come.\<close>

definition gone :: "'s redis_api \<Rightarrow> rkey \<Rightarrow> nat \<Rightarrow> 's \<Rightarrow> bool" where
  "gone R k dt s \<longleftrightarrow> (case api_EXPIRETIME R k s of None \<Rightarrow> False | Some d \<Rightarrow> d \<le> api_TIME R s + int dt)"

locale redis_laws =
  fixes R :: "'s redis_api"
  assumes TIME_kept:
      "api_TIME R (api_ZADD R k sc m s) = api_TIME R s" "api_TIME R (api_ZREM R k m s) = api_TIME R s"
      "api_TIME R (api_ZREMRANGEBYSCORE R k x s) = api_TIME R s" "api_TIME R (api_EXPIRE R k n s) = api_TIME R s"
      "api_TIME R (api_DEL R k s) = api_TIME R s" "api_TIME R (api_INCR R k s) = api_TIME R s"
      "api_TIME R (api_DECR R k s) = api_TIME R s"
    and TIME_wait: "api_TIME R (api_wait R dt s) = api_TIME R s + int dt"
    and ZSCORE_ZADD: "api_ZSCORE R k' m' (api_ZADD R k sc m s) =
      (if k' = k \<and> m' = m then Some sc else api_ZSCORE R k' m' s)"
    and ZSCORE_ZREM: "api_ZSCORE R k' m' (api_ZREM R k m s) = (if k' = k \<and> m' = m then None else api_ZSCORE R k' m' s)"
    and ZSCORE_ZREMRANGEBYSCORE: "api_ZSCORE R k' m' (api_ZREMRANGEBYSCORE R k x s) =
      (case api_ZSCORE R k' m' s of None \<Rightarrow> None | Some sc \<Rightarrow> if k' = k \<and> sc \<le> x then None else Some sc)"
    and ZSCORE_EXPIRE: "0 < n \<Longrightarrow> api_ZSCORE R k' m' (api_EXPIRE R k n s) = api_ZSCORE R k' m' s"
    and ZSCORE_DEL: "api_ZSCORE R k' m' (api_DEL R k s) = (if k' = k then None else api_ZSCORE R k' m' s)"
    and ZSCORE_counters: "api_ZSCORE R k' m' (api_INCR R k s) = api_ZSCORE R k' m' s"
      "api_ZSCORE R k' m' (api_DECR R k s) = api_ZSCORE R k' m' s"
    and ZSCORE_wait: "api_ZSCORE R k' m' (api_wait R dt s) = (if gone R k' dt s then None else api_ZSCORE R k' m' s)"
    and ZRANGE: "distinct (api_ZRANGE R k s)" "set (api_ZRANGE R k s) = {m. api_ZSCORE R k m s \<noteq> None}"
    and ZCARD: "api_ZCARD R k s = length (api_ZRANGE R k s)"
    and EXPIRETIME_EXPIRE: "0 < n \<Longrightarrow> api_ZCARD R k s \<noteq> 0 \<or> api_GET R k s \<noteq> None \<Longrightarrow>
        api_EXPIRETIME R k (api_EXPIRE R k n s) = Some (api_TIME R s + 1000 * n)"
      "0 < n \<Longrightarrow> k' \<noteq> k \<Longrightarrow> api_EXPIRETIME R k' (api_EXPIRE R k n s) = api_EXPIRETIME R k' s"
    and EXPIRETIME_ZADD: "k' \<noteq> k \<Longrightarrow> api_EXPIRETIME R k' (api_ZADD R k sc m s) = api_EXPIRETIME R k' s"
    and EXPIRETIME_removals: "api_ZCARD R k' (api_ZREM R k m s) \<noteq> 0 \<Longrightarrow> api_EXPIRETIME R k' (api_ZREM R k m s) = api_EXPIRETIME R k' s"
      "api_ZCARD R k' (api_ZREMRANGEBYSCORE R k x s) \<noteq> 0 \<Longrightarrow>
        api_EXPIRETIME R k' (api_ZREMRANGEBYSCORE R k x s) = api_EXPIRETIME R k' s"
      "k' \<noteq> k \<Longrightarrow> api_EXPIRETIME R k' (api_DEL R k s) = api_EXPIRETIME R k' s"
    and EXPIRETIME_counters: "k' \<noteq> k \<Longrightarrow> api_EXPIRETIME R k' (api_INCR R k s) = api_EXPIRETIME R k' s"
      "k' \<noteq> k \<Longrightarrow> api_EXPIRETIME R k' (api_DECR R k s) = api_EXPIRETIME R k' s"
    and EXPIRETIME_wait: "\<not> gone R k' dt s \<Longrightarrow> api_EXPIRETIME R k' (api_wait R dt s) = api_EXPIRETIME R k' s"
    and GET_laws: "api_GET R k' (api_INCR R k s) =
        (if k' = k then Some ((case api_GET R k s of None \<Rightarrow> 0 | Some c \<Rightarrow> c) + 1) else api_GET R k' s)"
      "api_GET R k' (api_DECR R k s) =
        (if k' = k then Some ((case api_GET R k s of None \<Rightarrow> 0 | Some c \<Rightarrow> c) - 1) else api_GET R k' s)"
      "api_GET R k' (api_ZADD R k sc m s) = api_GET R k' s" "api_GET R k' (api_ZREM R k m s) = api_GET R k' s"
      "api_GET R k' (api_ZREMRANGEBYSCORE R k x s) = api_GET R k' s"
      "0 < n \<Longrightarrow> api_GET R k' (api_EXPIRE R k n s) = api_GET R k' s"
      "api_GET R k' (api_DEL R k s) = (if k' = k then None else api_GET R k' s)"
      "api_GET R k' (api_wait R dt s) = (if gone R k' dt s then None else api_GET R k' s)"
begin

lemma finite_members: "finite {m. api_ZSCORE R k m s \<noteq> None}"
  unfolding ZRANGE(2) [symmetric] by (rule finite_set)

lemma ZCARD_card: "api_ZCARD R k s = card {m. api_ZSCORE R k m s \<noteq> None}"
  unfolding ZCARD ZRANGE(2) [symmetric] using ZRANGE(1) by (simp add: distinct_card)

end

text \<open>Redis on association lists: a sorted set or a counter with its deadline for each key.\<close>

record redis_entry =
  en_zset :: "(string \<times> int) list"
  en_counter :: "int option"
  en_deadline :: "int option"

record redis_db =
  db_now :: int
  db_keys :: "rkey \<Rightarrow> redis_entry"

definition no_entry :: redis_entry where
  "no_entry = \<lparr>en_zset = [], en_counter = None, en_deadline = None\<rparr>"

text \<open>A sorted set without members and a key without a value do not exist.\<close>

definition tidy :: "redis_entry \<Rightarrow> redis_entry" where
  "tidy e = (if en_zset e = [] \<and> en_counter e = None then no_entry else e)"

definition change :: "rkey \<Rightarrow> (redis_entry \<Rightarrow> redis_entry) \<Rightarrow> redis_db \<Rightarrow> redis_db" where
  "change k f s = s\<lparr>db_keys := (db_keys s)(k := tidy (f (db_keys s k)))\<rparr>"

definition expire_key :: "int \<Rightarrow> redis_entry \<Rightarrow> redis_entry" where
  "expire_key now e = (case en_deadline e of None \<Rightarrow> e | Some d \<Rightarrow> if d \<le> now then no_entry else e)"

definition al_redis :: "redis_db redis_api" where
  "al_redis = \<lparr>api_TIME = db_now,
     api_ZSCORE = (\<lambda>k m s. map_of (en_zset (db_keys s k)) m),
     api_ZCARD = (\<lambda>k s. length (map fst (AList.clearjunk (en_zset (db_keys s k))))),
     api_ZRANGE = (\<lambda>k s. map fst (AList.clearjunk (en_zset (db_keys s k)))),
     api_ZADD = (\<lambda>k sc m. change k (\<lambda>e. e\<lparr>en_zset := AList.update m sc (en_zset e)\<rparr>)),
     api_ZREM = (\<lambda>k m. change k (\<lambda>e. e\<lparr>en_zset := AList.delete m (en_zset e)\<rparr>)),
     api_ZREMRANGEBYSCORE = (\<lambda>k x. change k (\<lambda>e. e\<lparr>en_zset := filter (\<lambda>p. \<not> snd p \<le> x) (AList.clearjunk (en_zset e))\<rparr>)),
     api_EXPIRE = (\<lambda>k n s. change k (\<lambda>e. e\<lparr>en_deadline := Some (db_now s + 1000 * n)\<rparr>) s),
     api_EXPIRETIME = (\<lambda>k s. en_deadline (db_keys s k)),
     api_DEL = (\<lambda>k. change k (\<lambda>e. no_entry)),
     api_GET = (\<lambda>k s. en_counter (db_keys s k)),
     api_INCR = (\<lambda>k. change k (\<lambda>e. e\<lparr>en_counter := Some ((case en_counter e of None \<Rightarrow> 0 | Some c \<Rightarrow> c) + 1)\<rparr>)),
     api_DECR = (\<lambda>k. change k (\<lambda>e. e\<lparr>en_counter := Some ((case en_counter e of None \<Rightarrow> 0 | Some c \<Rightarrow> c) - 1)\<rparr>)),
     api_wait = (\<lambda>dt s. s\<lparr>db_now := db_now s + int dt, db_keys := (\<lambda>k. expire_key (db_now s + int dt) (db_keys s k))\<rparr>)\<rparr>"

lemma map_of_filter_scores:
  "distinct (map fst xs) \<Longrightarrow> map_of (filter (\<lambda>p. \<not> snd p \<le> x) xs) m =
    (case map_of xs m of None \<Rightarrow> None | Some sc \<Rightarrow> if sc \<le> (x :: int) then None else Some sc)"
  by (induction xs) (auto split: option.splits simp: map_of_eq_None_iff)

lemma tidy_selectors [simp]:
  "en_zset (tidy e) = en_zset e" "en_counter (tidy e) = en_counter e"
  "en_zset e \<noteq> [] \<Longrightarrow> en_deadline (tidy e) = en_deadline e" "en_counter e \<noteq> None \<Longrightarrow> en_deadline (tidy e) = en_deadline e"
  by (auto simp: tidy_def no_entry_def)

lemma clearjunk_Nil [simp]: "AList.clearjunk xs = [] \<longleftrightarrow> xs = []"
  by (cases xs) (auto simp: split: prod.splits)

lemma update_nonempty [simp]: "AList.update m v xs \<noteq> []"
  by (cases xs) auto

lemma clearjunk_Some: "(a, y) \<in> set (AList.clearjunk xs) \<longleftrightarrow> map_of xs a = Some y"
  by (metis distinct_clearjunk map_of_clearjunk map_of_eq_Some_iff)

interpretation al: redis_laws al_redis
proof unfold_locales
  fix k k' m m' dt s x
  show "distinct (api_ZRANGE al_redis k s)" by (simp add: al_redis_def distinct_clearjunk)
  show "set (api_ZRANGE al_redis k s) = {m. api_ZSCORE al_redis k m s \<noteq> None}"
    by (auto simp: al_redis_def clearjunk_Some image_iff) (metis clearjunk_Some fst_conv)
  show "api_ZSCORE al_redis k' m' (api_ZREMRANGEBYSCORE al_redis k x s) =
      (case api_ZSCORE al_redis k' m' s of None \<Rightarrow> None | Some sc \<Rightarrow> if k' = k \<and> sc \<le> x then None else Some sc)"
    by (auto simp: al_redis_def change_def map_of_filter_scores distinct_clearjunk map_of_clearjunk split: option.split)
  show "api_ZSCORE al_redis k' m' (api_wait al_redis dt s) = (if gone al_redis k' dt s then None else api_ZSCORE al_redis k' m' s)"
    by (simp add: al_redis_def gone_def expire_key_def no_entry_def split: option.split)
  show "\<not> gone al_redis k' dt s \<Longrightarrow> api_EXPIRETIME al_redis k' (api_wait al_redis dt s) = api_EXPIRETIME al_redis k' s"
    by (simp add: al_redis_def gone_def expire_key_def no_entry_def split: option.splits)
  show "api_GET al_redis k' (api_wait al_redis dt s) = (if gone al_redis k' dt s then None else api_GET al_redis k' s)"
    by (simp add: al_redis_def gone_def expire_key_def no_entry_def split: option.split)
qed (simp_all add: al_redis_def change_def update_conv' delete_conv' no_entry_def, (auto simp: tidy_def no_entry_def)?)

end
