(* ===== verification/Concurrency_Slots.thy ===== *)
theory Concurrency_Slots
  imports Redis
begin

section \<open>Concurrency slots: repository/concurrency\_cache.go\<close>

text \<open>
  Requests to an account or by a user hold a slot, a member of a sorted set scored with the time it
  was taken; sessions over web sockets hold a lease that they refresh; waiting requests are counted.
  The definitions with the name of a script are its Lua text, and run atomically; those with the name
  of a Go function are its calls, one after the other. Every one takes the Redis \<open>R\<close>.

  Calls to Redis that fail are not modelled: a script that failed has run or has not.
\<close>

record concurrencyCache =
  cc_slotTTLSeconds :: int
  cc_waitQueueTTLSeconds :: int

definition NewConcurrencyCache :: "int \<Rightarrow> int \<Rightarrow> concurrencyCache" where
  "NewConcurrencyCache slotTTLMinutes waitQueueTTLSeconds =
     (let slot = (if slotTTLMinutes \<le> 0 then 15 else slotTTLMinutes);
          wait = (if waitQueueTTLSeconds \<le> 0 then slot * 60 else waitQueueTTLSeconds)
      in \<lparr>cc_slotTTLSeconds = slot * 60, cc_waitQueueTTLSeconds = wait\<rparr>)"

definition liveLeaseTTLSeconds :: int where "liveLeaseTTLSeconds = 60"
definition openAIWSIngressLeaseTTLSeconds :: int where "openAIWSIngressLeaseTTLSeconds = 60"

text \<open>\<open>TIME\<close> in seconds.\<close>

definition redis_now :: "'s redis_api \<Rightarrow> 's \<Rightarrow> int" where
  "redis_now R s = api_TIME R s div 1000"

text \<open>A member is added or refreshed, and the key kept for another period.\<close>

definition put_member :: "'s redis_api \<Rightarrow> rkey \<Rightarrow> int \<Rightarrow> string \<Rightarrow> 's \<Rightarrow> 's" where
  "put_member R key ttl member s = api_EXPIRE R key ttl (api_ZADD R key (redis_now R s) member s)"

definition reap :: "'s redis_api \<Rightarrow> rkey \<Rightarrow> int \<Rightarrow> 's \<Rightarrow> 's" where
  "reap R key ttl s = api_ZREMRANGEBYSCORE R key (redis_now R s - ttl) s"

subsection \<open>Scripts on slots\<close>

definition acquireScript :: "'s redis_api \<Rightarrow> rkey \<Rightarrow> rkey \<Rightarrow> int \<Rightarrow> int \<Rightarrow> string \<Rightarrow> 's \<Rightarrow> 's \<times> bool \<times> int" where
  "acquireScript R key liveKey maxConcurrency ttl requestID s =
     (let now = redis_now R s;
          s1 = reap R key ttl s;
          s2 = reap R liveKey 60 s1
      in if api_ZSCORE R key requestID s2 \<noteq> None then (put_member R key ttl requestID s2, True, now)
         else if int (api_ZCARD R key s2 + api_ZCARD R liveKey s2) < maxConcurrency
           then (put_member R key ttl requestID s2, True, now)
         else (s2, False, now))"

definition getCountScript :: "'s redis_api \<Rightarrow> rkey \<Rightarrow> rkey \<Rightarrow> int \<Rightarrow> 's \<Rightarrow> 's \<times> nat" where
  "getCountScript R key liveKey ttl s =
     (let s2 = reap R liveKey 60 (reap R key ttl s)
      in (s2, api_ZCARD R key s2 + api_ZCARD R liveKey s2))"

definition acquireLiveLeaseScript :: "'s redis_api \<Rightarrow> rkey \<Rightarrow> rkey \<Rightarrow> rkey \<Rightarrow> rkey \<Rightarrow> rkey \<Rightarrow>
    int \<Rightarrow> int \<Rightarrow> int \<Rightarrow> string \<Rightarrow> bool \<Rightarrow> 's \<Rightarrow> 's \<times> bool" where
  "acquireLiveLeaseScript R accountRegular accountLive userRegular userLive apiLive accountMax userMax ttl leaseID replacing s =
     (let s1 = reap R apiLive ttl (reap R userLive ttl (reap R accountLive ttl s));
          accountCount = int (api_ZCARD R accountRegular s1 + api_ZCARD R accountLive s1);
          userCount = int (api_ZCARD R userRegular s1 + api_ZCARD R userLive s1);
          allowance = (if replacing then 1 else 0)
      in if api_ZSCORE R accountLive leaseID s1 \<noteq> None then (s1, True)
         else if accountMax > 0 \<and> accountCount \<ge> accountMax + allowance then (s1, False)
         else if userMax > 0 \<and> userCount \<ge> userMax + allowance then (s1, False)
         else (put_member R apiLive ttl leaseID (put_member R userLive ttl leaseID (put_member R accountLive ttl leaseID s1)), True))"

text \<open>The first loop of the refresh stops at the first key without the lease.\<close>

fun refresh_check :: "'s redis_api \<Rightarrow> rkey list \<Rightarrow> int \<Rightarrow> string \<Rightarrow> 's \<Rightarrow> 's \<times> bool" where
  "refresh_check R [] ttl leaseID s = (s, True)"
| "refresh_check R (key # keys) ttl leaseID s =
     (let s1 = reap R key ttl s
      in if api_ZSCORE R key leaseID s1 = None then (s1, False) else refresh_check R keys ttl leaseID s1)"

definition refreshLiveLeaseScript :: "'s redis_api \<Rightarrow> rkey list \<Rightarrow> int \<Rightarrow> string \<Rightarrow> 's \<Rightarrow> 's \<times> bool" where
  "refreshLiveLeaseScript R keys ttl leaseID s =
     (case refresh_check R keys ttl leaseID s of
        (s1, False) \<Rightarrow> (s1, False)
      | (s1, True) \<Rightarrow> (foldl (\<lambda>t key. put_member R key ttl leaseID t) s1 keys, True))"

definition trackSlotScript :: "'s redis_api \<Rightarrow> rkey \<Rightarrow> int \<Rightarrow> string \<Rightarrow> 's \<Rightarrow> 's" where
  "trackSlotScript R key ttl requestID s = put_member R key ttl requestID (reap R key ttl s)"

definition acquireOpenAIWSIngressLeaseScript :: "'s redis_api \<Rightarrow> rkey \<Rightarrow> int \<Rightarrow> int \<Rightarrow> string \<Rightarrow> 's \<Rightarrow> 's \<times> bool" where
  "acquireOpenAIWSIngressLeaseScript R key maxConnections ttl leaseID s =
     (let s1 = reap R key ttl s
      in if api_ZSCORE R key leaseID s1 \<noteq> None then (put_member R key ttl leaseID s1, True)
         else if int (api_ZCARD R key s1) < maxConnections then (put_member R key ttl leaseID s1, True)
         else (s1, False))"

definition refreshOpenAIWSIngressLeaseScript :: "'s redis_api \<Rightarrow> rkey \<Rightarrow> int \<Rightarrow> string \<Rightarrow> 's \<Rightarrow> 's \<times> bool" where
  "refreshOpenAIWSIngressLeaseScript R key ttl leaseID s =
     (let s1 = reap R key ttl s
      in if api_ZSCORE R key leaseID s1 = None then (s1, False) else (put_member R key ttl leaseID s1, True))"

definition cleanupExpiredSlotsScript :: "'s redis_api \<Rightarrow> rkey \<Rightarrow> int \<Rightarrow> 's \<Rightarrow> 's" where
  "cleanupExpiredSlotsScript R key ttl s =
     (let s1 = reap R key ttl s
      in if api_ZCARD R key s1 = 0 then api_DEL R key s1 else api_EXPIRE R key ttl s1)"

definition startupCleanupSlotScript :: "'s redis_api \<Rightarrow> rkey \<Rightarrow> string \<Rightarrow> int \<Rightarrow> 's \<Rightarrow> 's \<times> nat \<times> nat" where
  "startupCleanupSlotScript R key activePrefix slotTTL s =
     (let foreign = filter (\<lambda>m. \<not> go_HasPrefix m activePrefix) (api_ZRANGE R key s);
          s1 = foldl (\<lambda>t m. api_ZREM R key m t) s foreign;
          remaining = api_ZCARD R key s1
      in (if remaining = 0 then api_DEL R key s1 else api_EXPIRE R key slotTTL s1, length foreign, remaining))"

subsection \<open>Scripts on waiting requests\<close>

definition counter :: "'s redis_api \<Rightarrow> rkey \<Rightarrow> 's \<Rightarrow> int" where
  "counter R key s = (case api_GET R key s of None \<Rightarrow> 0 | Some c \<Rightarrow> c)"

definition incrementWaitScript :: "'s redis_api \<Rightarrow> rkey \<Rightarrow> int \<Rightarrow> int \<Rightarrow> 's \<Rightarrow> 's \<times> bool \<times> int" where
  "incrementWaitScript R key maxWait ttl s =
     (if counter R key s \<ge> maxWait then (s, False, redis_now R s)
      else (api_EXPIRE R key ttl (api_INCR R key s), True, redis_now R s))"

definition decrementWaitScript :: "'s redis_api \<Rightarrow> rkey \<Rightarrow> 's \<Rightarrow> 's" where
  "decrementWaitScript R key s = (if counter R key s > 0 then api_DECR R key s else s)"

subsection \<open>The index of active accounts and users\<close>

record slotIndexSpec =
  ix_indexKey :: rkey
  ix_slotKey :: "int \<Rightarrow> rkey"
  ix_waitKey :: "int \<Rightarrow> rkey"

definition accountSlotIndex :: slotIndexSpec where
  "accountSlotIndex = \<lparr>ix_indexKey = accountActiveIndexKey, ix_slotKey = accountSlotKey, ix_waitKey = accountWaitKey\<rparr>"

definition userSlotIndex :: slotIndexSpec where
  "userSlotIndex = \<lparr>ix_indexKey = userActiveIndexKey, ix_slotKey = userSlotKey, ix_waitKey = waitQueueKey\<rparr>"

definition touchActiveIndexAt :: "'s redis_api \<Rightarrow> rkey \<Rightarrow> int \<Rightarrow> int \<Rightarrow> 's \<Rightarrow> 's" where
  "touchActiveIndexAt R indexKey i expireAt s =
     (if i \<le> 0 \<or> expireAt \<le> 0 then s else api_ZADD R indexKey expireAt (go_FormatInt i) s)"

definition activeIndexTTL :: "concurrencyCache \<Rightarrow> nat \<Rightarrow> int \<Rightarrow> int" where
  "activeIndexTTL c slotCount waitCount =
     (let ttl = (if slotCount > 0 then cc_slotTTLSeconds c else 0)
      in if waitCount > 0 \<and> cc_waitQueueTTLSeconds c > ttl then cc_waitQueueTTLSeconds c else ttl)"

text \<open>The pipeline of \<open>readActiveLoadForKey\<close>: slots and waiting requests.\<close>

definition readActiveLoad :: "'s redis_api \<Rightarrow> concurrencyCache \<Rightarrow> slotIndexSpec \<Rightarrow> int \<Rightarrow> 's \<Rightarrow> 's \<times> nat \<times> int" where
  "readActiveLoad R c ix i s =
     (let s1 = reap R (ix_slotKey ix i) (cc_slotTTLSeconds c) s
      in (s1, api_ZCARD R (ix_slotKey ix i) s1, max 0 (counter R (ix_waitKey ix i) s1)))"

text \<open>What \<open>refreshActiveIndex\<close> writes for the load it has read at the time \<open>now\<close>.\<close>

definition writeActiveIndex :: "'s redis_api \<Rightarrow> concurrencyCache \<Rightarrow> slotIndexSpec \<Rightarrow> int \<Rightarrow> int \<Rightarrow> nat \<Rightarrow> int \<Rightarrow> 's \<Rightarrow> 's" where
  "writeActiveIndex R c ix i now slotCount waitCount s =
     (if slotCount = 0 \<and> waitCount \<le> 0 then api_ZREM R (ix_indexKey ix) (go_FormatInt i) s
      else if activeIndexTTL c slotCount waitCount \<le> 0 then s
      else touchActiveIndexAt R (ix_indexKey ix) i (now + activeIndexTTL c slotCount waitCount) s)"

definition refreshActiveIndex :: "'s redis_api \<Rightarrow> concurrencyCache \<Rightarrow> slotIndexSpec \<Rightarrow> int \<Rightarrow> 's \<Rightarrow> 's" where
  "refreshActiveIndex R c ix i s =
     (if i \<le> 0 then s
      else case readActiveLoad R c ix i s of
        (s1, slots, waits) \<Rightarrow> writeActiveIndex R c ix i (redis_now R s) slots waits s1)"

subsection \<open>Calls\<close>

text \<open>The slots of an account or of a user, with the leases that count against the same limit.\<close>

datatype pool = Account int | User int

definition pool_index :: "pool \<Rightarrow> slotIndexSpec" where
  "pool_index p = (case p of Account a \<Rightarrow> accountSlotIndex | User u \<Rightarrow> userSlotIndex)"

definition pool_id :: "pool \<Rightarrow> int" where
  "pool_id p = (case p of Account a \<Rightarrow> a | User u \<Rightarrow> u)"

definition regular_key :: "pool \<Rightarrow> rkey" where
  "regular_key p = (case p of Account a \<Rightarrow> accountSlotKey a | User u \<Rightarrow> userSlotKey u)"

definition live_key :: "pool \<Rightarrow> rkey" where
  "live_key p = (case p of Account a \<Rightarrow> liveAccountSlotKey a | User u \<Rightarrow> liveUserSlotKey u)"

definition wait_key :: "pool \<Rightarrow> rkey" where
  "wait_key p = (case p of Account a \<Rightarrow> accountWaitKey a | User u \<Rightarrow> waitQueueKey u)"

text \<open>
  The atomic calls to Redis that the Go functions make. \<open>Touch_Index\<close> and \<open>Drop_Index\<close> are the writes of
  the index, which come after other calls; \<open>Elapse\<close> is time passing.
\<close>

datatype slot_cmd =
    Acquire pool int string
  | Release pool string
  | Count pool
  | Track int string
  | Untrack int string
  | Ingress_Acquire int int string
  | Ingress_Refresh int string
  | Ingress_Release int string
  | Live_Acquire int int int int int string bool
  | Live_Refresh int int int string
  | Live_Release int int int string
  | Inc_Wait pool int
  | Dec_Wait pool
  | Read_Load pool
  | Touch_Index pool int
  | Drop_Index pool
  | Cleanup pool
  | Startup_Slots pool string
  | Startup_Wait pool
  | Elapse nat

definition apply_cmd :: "'s redis_api \<Rightarrow> concurrencyCache \<Rightarrow> slot_cmd \<Rightarrow> 's \<Rightarrow> 's \<times> bool" where
  "apply_cmd R c cmd s =
     (case cmd of
        Acquire p maxConcurrency r \<Rightarrow>
          (case acquireScript R (regular_key p) (live_key p) maxConcurrency (cc_slotTTLSeconds c) r s of (t, ok, now) \<Rightarrow> (t, ok))
      | Release p r \<Rightarrow> (api_ZREM R (regular_key p) r s, True)
      | Count p \<Rightarrow> (fst (getCountScript R (regular_key p) (live_key p) (cc_slotTTLSeconds c) s), True)
      | Track k r \<Rightarrow> (trackSlotScript R (apiKeySlotKey k) (cc_slotTTLSeconds c) r s, True)
      | Untrack k r \<Rightarrow> (api_ZREM R (apiKeySlotKey k) r s, True)
      | Ingress_Acquire k maxConnections l \<Rightarrow>
          if k \<le> 0 \<or> maxConnections \<le> 0 \<or> l = [] then (s, False)
          else acquireOpenAIWSIngressLeaseScript R (openAIWSIngressLeaseKey k) maxConnections openAIWSIngressLeaseTTLSeconds l s
      | Ingress_Refresh k l \<Rightarrow>
          if k \<le> 0 \<or> l = [] then (s, False)
          else refreshOpenAIWSIngressLeaseScript R (openAIWSIngressLeaseKey k) openAIWSIngressLeaseTTLSeconds l s
      | Ingress_Release k l \<Rightarrow>
          if k \<le> 0 \<or> l = [] then (s, True) else (api_ZREM R (openAIWSIngressLeaseKey k) l s, True)
      | Live_Acquire a accountMax u userMax k l replacing \<Rightarrow>
          if a \<le> 0 \<or> u \<le> 0 \<or> k \<le> 0 \<or> l = [] then (s, False)
          else acquireLiveLeaseScript R (accountSlotKey a) (liveAccountSlotKey a) (userSlotKey u) (liveUserSlotKey u)
            (liveAPIKeySlotKey k) accountMax userMax liveLeaseTTLSeconds l replacing s
      | Live_Refresh a u k l \<Rightarrow>
          if l = [] then (s, False)
          else refreshLiveLeaseScript R [liveAccountSlotKey a, liveUserSlotKey u, liveAPIKeySlotKey k] liveLeaseTTLSeconds l s
      | Live_Release a u k l \<Rightarrow>
          if l = [] then (s, True)
          else (api_ZREM R (liveAPIKeySlotKey k) l (api_ZREM R (liveUserSlotKey u) l (api_ZREM R (liveAccountSlotKey a) l s)), True)
      | Inc_Wait p maxWait \<Rightarrow>
          (case incrementWaitScript R (wait_key p) maxWait (cc_waitQueueTTLSeconds c) s of (t, ok, now) \<Rightarrow> (t, ok))
      | Dec_Wait p \<Rightarrow> (decrementWaitScript R (wait_key p) s, True)
      | Read_Load p \<Rightarrow> (fst (readActiveLoad R c (pool_index p) (pool_id p) s), True)
      | Touch_Index p expireAt \<Rightarrow> (touchActiveIndexAt R (ix_indexKey (pool_index p)) (pool_id p) expireAt s, True)
      | Drop_Index p \<Rightarrow> (api_ZREM R (ix_indexKey (pool_index p)) (go_FormatInt (pool_id p)) s, True)
      | Cleanup p \<Rightarrow> (cleanupExpiredSlotsScript R (regular_key p) (cc_slotTTLSeconds c) s, True)
      | Startup_Slots p prefix \<Rightarrow> (fst (startupCleanupSlotScript R (regular_key p) prefix (cc_slotTTLSeconds c) s), True)
      | Startup_Wait p \<Rightarrow> (api_DEL R (wait_key p) s, True)
      | Elapse dt \<Rightarrow> (api_wait R dt s, True))"

text \<open>\<open>AcquireAccountSlot\<close>, \<open>AcquireUserSlot\<close> and the releases: the call, then the index.\<close>

definition AcquireSlot :: "'s redis_api \<Rightarrow> concurrencyCache \<Rightarrow> pool \<Rightarrow> int \<Rightarrow> string \<Rightarrow> 's \<Rightarrow> 's \<times> bool" where
  "AcquireSlot R c p maxConcurrency requestID s =
     (case acquireScript R (regular_key p) (live_key p) maxConcurrency (cc_slotTTLSeconds c) requestID s of
        (t, ok, now) \<Rightarrow>
          (if ok then touchActiveIndexAt R (ix_indexKey (pool_index p)) (pool_id p) (now + cc_slotTTLSeconds c) t else t, ok))"

definition ReleaseSlot :: "'s redis_api \<Rightarrow> concurrencyCache \<Rightarrow> pool \<Rightarrow> string \<Rightarrow> 's \<Rightarrow> 's" where
  "ReleaseSlot R c p requestID s =
     refreshActiveIndex R c (pool_index p) (pool_id p) (api_ZREM R (regular_key p) requestID s)"

definition IncrementWaitCount :: "'s redis_api \<Rightarrow> concurrencyCache \<Rightarrow> pool \<Rightarrow> int \<Rightarrow> 's \<Rightarrow> 's \<times> bool" where
  "IncrementWaitCount R c p maxWait s =
     (case incrementWaitScript R (wait_key p) maxWait (cc_waitQueueTTLSeconds c) s of
        (t, ok, now) \<Rightarrow>
          (if ok then touchActiveIndexAt R (ix_indexKey (pool_index p)) (pool_id p) (now + cc_waitQueueTTLSeconds c) t else t, ok))"

definition DecrementWaitCount :: "'s redis_api \<Rightarrow> concurrencyCache \<Rightarrow> pool \<Rightarrow> 's \<Rightarrow> 's" where
  "DecrementWaitCount R c p s = refreshActiveIndex R c (pool_index p) (pool_id p) (decrementWaitScript R (wait_key p) s)"

text \<open>The load of an account or user as the scheduler reads it: slots, waiting requests, percent of the limit.\<close>

definition pool_load :: "'s redis_api \<Rightarrow> concurrencyCache \<Rightarrow> pool \<Rightarrow> int \<Rightarrow> 's \<Rightarrow> 's \<times> int \<times> int \<times> int" where
  "pool_load R c p maxConcurrency s =
     (let t = reap R (live_key p) liveLeaseTTLSeconds (reap R (regular_key p) (cc_slotTTLSeconds c) s);
          current = int (api_ZCARD R (regular_key p) t + api_ZCARD R (live_key p) t);
          waiting = counter R (wait_key p) t
      in (t, current, waiting, if maxConcurrency > 0 then go_div ((current + waiting) * 100) maxConcurrency else 0))"

definition CleanupExpiredSlots :: "'s redis_api \<Rightarrow> concurrencyCache \<Rightarrow> pool \<Rightarrow> 's \<Rightarrow> 's" where
  "CleanupExpiredSlots R c p s =
     refreshActiveIndex R c (pool_index p) (pool_id p) (cleanupExpiredSlotsScript R (regular_key p) (cc_slotTTLSeconds c) s)"

text \<open>
  \<open>cleanupStaleProcessSlotsForIndex\<close> for one member of the index: foreign slots and the waiting requests
  go, and the member stays in the index while slots remain.
\<close>

definition cleanupStaleProcessSlots :: "'s redis_api \<Rightarrow> concurrencyCache \<Rightarrow> string \<Rightarrow> int \<Rightarrow> pool \<Rightarrow> 's \<Rightarrow> 's" where
  "cleanupStaleProcessSlots R c prefix now p s =
     (case startupCleanupSlotScript R (regular_key p) prefix (cc_slotTTLSeconds c) s of
        (s1, removed, remaining) \<Rightarrow>
          let s2 = api_DEL R (wait_key p) s1 in
          if remaining > 0 then api_ZADD R (ix_indexKey (pool_index p)) (now + cc_slotTTLSeconds c) (go_FormatInt (pool_id p)) s2
          else api_ZREM R (ix_indexKey (pool_index p)) (go_FormatInt (pool_id p)) s2)"

text \<open>The service takes a limit that is not positive for no limit, and leaves Redis alone.\<close>

definition service_acquire :: "'s redis_api \<Rightarrow> concurrencyCache \<Rightarrow> pool \<Rightarrow> int \<Rightarrow> string \<Rightarrow> 's \<Rightarrow> 's \<times> bool" where
  "service_acquire R c p maxConcurrency requestID s =
     (if maxConcurrency \<le> 0 then (s, True) else AcquireSlot R c p maxConcurrency requestID s)"

subsection \<open>Runs\<close>

text \<open>
  A run of calls, of any number of processes; \<open>taken\<close> maps the requests that hold a slot of the pool
  to the time they got it or refreshed it.
\<close>

definition taken_after :: "'s redis_api \<Rightarrow> pool \<Rightarrow> slot_cmd \<Rightarrow> bool \<Rightarrow> 's \<Rightarrow> (string \<Rightarrow> int option) \<Rightarrow> string \<Rightarrow> int option" where
  "taken_after R p cmd ok s taken =
     (case cmd of
        Acquire q m r \<Rightarrow> if q = p \<and> ok then taken(r \<mapsto> redis_now R s) else taken
      | Release q r \<Rightarrow> if q = p then taken(r := None) else taken
      | _ \<Rightarrow> taken)"

fun slot_run :: "'s redis_api \<Rightarrow> concurrencyCache \<Rightarrow> pool \<Rightarrow> slot_cmd list \<Rightarrow> 's \<Rightarrow> (string \<Rightarrow> int option) \<Rightarrow>
    's \<times> (string \<Rightarrow> int option)" where
  "slot_run R c p [] s taken = (s, taken)"
| "slot_run R c p (cmd # cmds) s taken =
     (case apply_cmd R c cmd s of (t, ok) \<Rightarrow> slot_run R c p cmds t (taken_after R p cmd ok s taken))"

end
