(* ===== verification/Slots_Correct.thy ===== *)
theory Slots_Correct
  imports Concurrency_Slots
begin

section \<open>Correctness of the concurrency slots\<close>

text \<open>
  What the scripts promise, for every Redis with the laws of \<open>redis_laws\<close>: the number of members that
  count against a limit, how each call changes it, and that a request in flight keeps its slot.
\<close>

definition conf_ok :: "concurrencyCache \<Rightarrow> bool" where
  "conf_ok c \<longleftrightarrow> 0 < cc_slotTTLSeconds c \<and> 0 < cc_waitQueueTTLSeconds c"

lemma NewConcurrencyCache_ok: "conf_ok (NewConcurrencyCache slots waits)"
  by (simp add: conf_ok_def NewConcurrencyCache_def Let_def)

text \<open>Members of a sorted set that count at the time of the store.\<close>

definition active :: "'s redis_api \<Rightarrow> rkey \<Rightarrow> int \<Rightarrow> 's \<Rightarrow> string set" where
  "active R k ttl s = {m. \<exists>sc. api_ZSCORE R k m s = Some sc \<and> redis_now R s - ttl < sc}"

definition used :: "'s redis_api \<Rightarrow> concurrencyCache \<Rightarrow> pool \<Rightarrow> 's \<Rightarrow> nat" where
  "used R c p s = card (active R (regular_key p) (cc_slotTTLSeconds c) s) + card (active R (live_key p) 60 s)"

lemma pool_keys [simp]:
  "regular_key p \<noteq> live_key q" "live_key q \<noteq> regular_key p" "regular_key p = regular_key q \<longleftrightarrow> p = q"
  "live_key p = live_key q \<longleftrightarrow> p = q" "wait_key p \<noteq> regular_key q" "wait_key p \<noteq> live_key q"
  "regular_key p \<noteq> wait_key q" "live_key p \<noteq> wait_key q"
  "regular_key p \<noteq> apiKeySlotKey k" "live_key p \<noteq> apiKeySlotKey k" "regular_key p \<noteq> openAIWSIngressLeaseKey k"
  "live_key p \<noteq> openAIWSIngressLeaseKey k" "regular_key p \<noteq> liveAPIKeySlotKey k" "live_key p \<noteq> liveAPIKeySlotKey k"
  "regular_key p \<noteq> ix_indexKey (pool_index q)" "live_key p \<noteq> ix_indexKey (pool_index q)"
  by (cases p; cases q; simp add: regular_key_def live_key_def wait_key_def pool_index_def accountSlotIndex_def userSlotIndex_def)+

lemma pool_key_names:
  "accountSlotKey a = regular_key (Account a)" "liveAccountSlotKey a = live_key (Account a)"
  "userSlotKey u = regular_key (User u)" "liveUserSlotKey u = live_key (User u)"
  "ix_slotKey (pool_index p) (pool_id p) = regular_key p" "ix_waitKey (pool_index p) (pool_id p) = wait_key p"
  by (auto simp: regular_key_def live_key_def wait_key_def pool_index_def pool_id_def accountSlotIndex_def userSlotIndex_def split: pool.split)

context redis_laws
begin

lemma now_kept [simp]:
  "redis_now R (api_ZADD R k sc m s) = redis_now R s" "redis_now R (api_ZREM R k m s) = redis_now R s"
  "redis_now R (api_ZREMRANGEBYSCORE R k x s) = redis_now R s" "redis_now R (api_EXPIRE R k n s) = redis_now R s"
  "redis_now R (api_DEL R k s) = redis_now R s" "redis_now R (api_INCR R k s) = redis_now R s"
  "redis_now R (api_DECR R k s) = redis_now R s" "redis_now R (reap R k ttl s) = redis_now R s"
  "redis_now R (put_member R k n m s) = redis_now R s"
  by (simp_all add: redis_now_def reap_def put_member_def TIME_kept)

lemma now_wait: "redis_now R s \<le> redis_now R (api_wait R dt s)"
  by (simp add: redis_now_def TIME_wait zdiv_mono1)

lemma ZSCORE_reap: "api_ZSCORE R k' m (reap R k ttl s) =
    (case api_ZSCORE R k' m s of None \<Rightarrow> None | Some sc \<Rightarrow> if k' = k \<and> sc \<le> redis_now R s - ttl then None else Some sc)"
  by (simp add: reap_def ZSCORE_ZREMRANGEBYSCORE)

lemma ZSCORE_put: "0 < ttl \<Longrightarrow>
    api_ZSCORE R k' m' (put_member R k ttl m s) = (if k' = k \<and> m' = m then Some (redis_now R s) else api_ZSCORE R k' m' s)"
  by (simp add: put_member_def ZSCORE_EXPIRE ZSCORE_ZADD)

lemma finite_active [simp]: "finite (active R k ttl s)"
  by (rule finite_subset [OF _ finite_members [of k s]]) (auto simp: active_def)

lemma active_reap: "active R k ttl (reap R k' ttl' s) \<subseteq> active R k ttl s"
  by (auto simp: active_def ZSCORE_reap split: option.splits if_splits)

lemma active_unchanged [simp]:
  "0 < n \<Longrightarrow> active R k ttl (api_EXPIRE R k' n s) = active R k ttl s"
  "active R k ttl (api_INCR R k' s) = active R k ttl s" "active R k ttl (api_DECR R k' s) = active R k ttl s"
  "k \<noteq> k' \<Longrightarrow> active R k ttl (api_ZADD R k' sc m s) = active R k ttl s"
  "k \<noteq> k' \<Longrightarrow> 0 < n \<Longrightarrow> active R k ttl (put_member R k' n m s) = active R k ttl s"
  by (simp_all add: active_def ZSCORE_EXPIRE ZSCORE_counters ZSCORE_ZADD ZSCORE_put)

lemma active_put: "0 < ttl \<Longrightarrow> 0 < n \<Longrightarrow> active R k ttl (put_member R k n m s) = insert m (active R k ttl s)"
  by (auto simp: active_def ZSCORE_put)

lemma active_ZREM: "active R k ttl (api_ZREM R k' m s) \<subseteq> active R k ttl s"
  by (auto simp: active_def ZSCORE_ZREM split: if_splits)

lemma active_DEL: "active R k ttl (api_DEL R k' s) \<subseteq> active R k ttl s"
  by (auto simp: active_def ZSCORE_DEL split: if_splits)

lemma active_wait: "active R k ttl (api_wait R dt s) \<subseteq> active R k ttl s"
  using now_wait [of s dt] by (fastforce simp: active_def ZSCORE_wait split: if_splits)

text \<open>After its set is reaped, a set has just the active members.\<close>

lemma ZCARD_reaped:
  assumes "\<And>m sc. api_ZSCORE R k m s = Some sc \<Longrightarrow> redis_now R s - ttl < sc"
  shows "api_ZCARD R k s = card (active R k ttl s)"
proof -
  have "{m. api_ZSCORE R k m s \<noteq> None} = active R k ttl s" using assms by (auto simp: active_def)
  then show ?thesis by (simp add: ZCARD_card)
qed

lemma active_le_ZCARD: "card (active R k ttl s) \<le> api_ZCARD R k s"
  unfolding ZCARD_card by (rule card_mono [OF finite_members]) (auto simp: active_def)

lemma active_member: "api_ZSCORE R k m (reap R k ttl s) \<noteq> None \<Longrightarrow> m \<in> active R k ttl (reap R k ttl s)"
  by (auto simp: active_def ZSCORE_reap split: option.splits if_splits)

lemma used_mono:
  assumes "\<And>k ttl. active R k ttl t \<subseteq> active R k ttl s"
  shows "used R c p t \<le> used R c p s"
  unfolding used_def by (intro add_mono card_mono assms finite_active)

lemma acquire_used:
  assumes "conf_ok c" "acquireScript R (regular_key q) (live_key q) m (cc_slotTTLSeconds c) r s = (t, ok, now)"
  shows "used R c p t \<le> used R c p s \<or> p = q \<and> int (used R c p t) \<le> m"
proof -
  let ?ttl = "cc_slotTTLSeconds c"
  let ?s2 = "reap R (live_key q) 60 (reap R (regular_key q) ?ttl s)"
  have ttl: "0 < ?ttl" using assms(1) by (simp add: conf_ok_def)
  have shrunk: "active R k n ?s2 \<subseteq> active R k n s" for k n
    using active_reap by (meson order_trans)
  have used2: "used R c p' ?s2 \<le> used R c p' s" for p' by (rule used_mono [OF shrunk])
  consider "t = ?s2" | "t = put_member R (regular_key q) ?ttl r ?s2" "api_ZSCORE R (regular_key q) r ?s2 \<noteq> None"
    | "t = put_member R (regular_key q) ?ttl r ?s2" "int (api_ZCARD R (regular_key q) ?s2 + api_ZCARD R (live_key q) ?s2) < m"
    using assms(2) by (auto simp: acquireScript_def Let_def split: if_splits)
  then show ?thesis
  proof cases
    case 1
    then show ?thesis using used2 by simp
  next
    case 2
    then have "r \<in> active R (regular_key q) ?ttl ?s2"
      by (auto simp: active_def ZSCORE_reap split: option.splits if_splits)
    then have "active R (regular_key q) ?ttl t = active R (regular_key q) ?ttl ?s2"
      using 2 ttl by (auto simp: active_put)
    then have "used R c p t \<le> used R c p ?s2"
      using 2 ttl by (cases "p = q") (simp_all add: used_def)
    then show ?thesis using used2 le_trans by blast
  next
    case 3
    show ?thesis
    proof (cases "p = q")
      case True
      have "card (active R (regular_key q) ?ttl t) \<le> Suc (card (active R (regular_key q) ?ttl ?s2))"
        using 3 ttl by (simp add: active_put card_insert_le_m1 card_insert_if)
      moreover have "active R (live_key q) 60 t = active R (live_key q) 60 ?s2" using 3 ttl by simp
      ultimately have "used R c q t \<le> Suc (api_ZCARD R (regular_key q) ?s2 + api_ZCARD R (live_key q) ?s2)"
        using active_le_ZCARD [of "regular_key q" ?ttl ?s2] active_le_ZCARD [of "live_key q" 60 ?s2] by (simp add: used_def)
      then have "int (used R c q t) \<le> m" using 3(2) by linarith
      then show ?thesis using True by simp
    next
      case False
      then have "used R c p t = used R c p ?s2" using 3 ttl by (simp add: used_def)
      then show ?thesis using used2 by simp
    qed
  qed
qed

lemma live_acquire_used:
  assumes "acquireLiveLeaseScript R (regular_key (Account a)) (live_key (Account a)) (regular_key (User u)) (live_key (User u))
      (liveAPIKeySlotKey k) am um 60 l rep s = (t, ok)"
    and "p = Account a \<Longrightarrow> 0 < am \<and> am + (if rep then 1 else 0) \<le> M" "p = User u \<Longrightarrow> 0 < um \<and> um + (if rep then 1 else 0) \<le> M"
  shows "used R c p t \<le> used R c p s \<or> int (used R c p t) \<le> M"
proof -
  let ?A = "Account a" and ?U = "User u"
  let ?s1 = "reap R (liveAPIKeySlotKey k) 60 (reap R (live_key ?U) 60 (reap R (live_key ?A) 60 s))"
  let ?t = "put_member R (liveAPIKeySlotKey k) 60 l (put_member R (live_key ?U) 60 l (put_member R (live_key ?A) 60 l ?s1))"
  have shrunk: "active R k n ?s1 \<subseteq> active R k n s" for k n
    using active_reap by (meson order_trans)
  have used1: "used R c p ?s1 \<le> used R c p s" by (rule used_mono [OF shrunk])
  consider "t = ?s1" | "t = ?t" "am > 0 \<longrightarrow> int (api_ZCARD R (regular_key ?A) ?s1 + api_ZCARD R (live_key ?A) ?s1) < am + (if rep then 1 else 0)"
      "um > 0 \<longrightarrow> int (api_ZCARD R (regular_key ?U) ?s1 + api_ZCARD R (live_key ?U) ?s1) < um + (if rep then 1 else 0)"
    using assms(1) by (auto simp: acquireLiveLeaseScript_def Let_def not_le split: if_splits)
  then show ?thesis
  proof cases
    case 1
    then show ?thesis using used1 by simp
  next
    case 2
    have regular: "active R (regular_key p) n t = active R (regular_key p) n ?s1" for n
      by (simp add: 2(1))
    show ?thesis
    proof (cases "p = ?A \<or> p = ?U")
      case False
      then have "active R (live_key p) 60 t = active R (live_key p) 60 ?s1"
        using pool_keys(4) by (auto simp: 2(1))
      with regular used1 show ?thesis by (simp add: used_def)
    next
      case True
      then have "active R (live_key p) 60 t = insert l (active R (live_key p) 60 ?s1)"
        by (auto simp: 2(1) active_put)
      then have "card (active R (live_key p) 60 t) \<le> Suc (card (active R (live_key p) 60 ?s1))"
        by (simp add: card_insert_if)
      then have "used R c p t \<le> Suc (api_ZCARD R (regular_key p) ?s1 + api_ZCARD R (live_key p) ?s1)"
        using regular active_le_ZCARD [of "regular_key p" "cc_slotTTLSeconds c" ?s1] active_le_ZCARD [of "live_key p" 60 ?s1]
        by (simp add: used_def)
      moreover have "int (api_ZCARD R (regular_key p) ?s1 + api_ZCARD R (live_key p) ?s1) < M"
        using True 2(2,3) assms(2,3) by fastforce
      ultimately have "int (used R c p t) \<le> M" by linarith
      then show ?thesis ..
    qed
  qed
qed

lemma active_reap_same: "m \<in> active R k ttl s \<Longrightarrow> m \<in> active R k ttl (reap R k' ttl s)"
  by (auto simp: active_def ZSCORE_reap)

lemma refresh_check_shrinks:
  "refresh_check R keys ttl l s = (t, ok) \<Longrightarrow> active R k n t \<subseteq> active R k n s"
proof (induction keys arbitrary: s)
  case (Cons key keys)
  then have "t = reap R key ttl s \<or> refresh_check R keys ttl l (reap R key ttl s) = (t, ok)"
    by (auto simp: Let_def split: if_splits)
  then show ?case using Cons.IH active_reap order_trans by blast
qed simp

lemma refresh_check_stays:
  "refresh_check R keys ttl l s = (t, ok) \<Longrightarrow> l \<in> active R k n s \<Longrightarrow> n = ttl \<Longrightarrow> l \<in> active R k n t"
proof (induction keys arbitrary: s)
  case (Cons key keys)
  then have "t = reap R key ttl s \<or> refresh_check R keys ttl l (reap R key ttl s) = (t, ok)"
    by (auto simp: Let_def split: if_splits)
  then show ?case using Cons.IH Cons.prems active_reap_same by blast
qed simp

lemma refresh_check_held:
  "refresh_check R keys ttl l s = (t, True) \<Longrightarrow> key \<in> set keys \<Longrightarrow> l \<in> active R key ttl t"
proof (induction keys arbitrary: s)
  case (Cons key1 keys)
  then have "l \<in> active R key1 ttl (reap R key1 ttl s)" and rest: "refresh_check R keys ttl l (reap R key1 ttl s) = (t, True)"
    by (auto simp: Let_def intro: active_member split: if_splits)
  then show ?case using Cons.IH [OF rest] Cons.prems(2) refresh_check_stays [OF rest] by auto
qed simp

lemma puts_active:
  assumes "0 < n" "\<And>key. key \<in> set keys \<Longrightarrow> l \<in> active R key 60 s"
    and "\<And>key. key \<in> set keys \<Longrightarrow> k = key \<Longrightarrow> ttl = 60"
  shows "active R k ttl (foldl (\<lambda>t key. put_member R key n l t) s keys) \<subseteq> active R k ttl s"
  using assms(2,3)
proof (induction keys arbitrary: s)
  case (Cons key keys)
  have "active R k ttl (put_member R key n l s) \<subseteq> active R k ttl s"
    using Cons.prems assms(1) by (cases "k = key") (auto simp: active_put)
  moreover have "l \<in> active R key' 60 (put_member R key n l s)" if "key' \<in> set keys" for key'
    using Cons.prems(1) [of key'] that assms(1) by (cases "key' = key") (auto simp: active_put)
  ultimately show ?case using Cons.IH [of "put_member R key n l s"] Cons.prems(2) by (auto simp: subset_iff)
qed simp

lemma live_refresh_used:
  assumes "refreshLiveLeaseScript R [live_key (Account a), live_key (User u), liveAPIKeySlotKey k] 60 l s = (t, ok)"
  shows "used R c p t \<le> used R c p s"
proof -
  let ?keys = "[live_key (Account a), live_key (User u), liveAPIKeySlotKey k]"
  obtain s1 ok1 where check: "refresh_check R ?keys 60 l s = (s1, ok1)" by fastforce
  have shrunk: "active R key n s1 \<subseteq> active R key n s" for key n using refresh_check_shrinks [OF check] .
  show ?thesis
  proof (cases ok1)
    case False
    then have "t = s1" using assms check by (simp add: refreshLiveLeaseScript_def)
    then show ?thesis using used_mono [OF shrunk] by simp
  next
    case True
    then have t: "t = foldl (\<lambda>t key. put_member R key 60 l t) s1 ?keys"
      using assms check by (simp add: refreshLiveLeaseScript_def)
    have held: "l \<in> active R key 60 s1" if "key \<in> set ?keys" for key using check True that
      by (intro refresh_check_held [where keys = ?keys and s = s]) (simp_all only: True)
    have "active R (live_key p) 60 t \<subseteq> active R (live_key p) 60 s1"
      unfolding t by (rule puts_active) (use held in auto)
    moreover have "active R (regular_key p) (cc_slotTTLSeconds c) t \<subseteq> active R (regular_key p) (cc_slotTTLSeconds c) s1"
      unfolding t by (rule puts_active) (use held in auto)
    ultimately have "used R c p t \<le> used R c p s1"
      unfolding used_def by (intro add_mono card_mono finite_active)
    then show ?thesis using used_mono [OF shrunk] order_trans by blast
  qed
qed

end

subsection \<open>The limit of a pool\<close>

text \<open>The limits that the calls of a run give for the pool are at most \<open>M\<close>.\<close>

definition cmd_within :: "pool \<Rightarrow> int \<Rightarrow> slot_cmd \<Rightarrow> bool" where
  "cmd_within p M cmd =
     (case cmd of
        Acquire q m r \<Rightarrow> q = p \<longrightarrow> m \<le> M
      | Live_Acquire a am u um k l replacing \<Rightarrow>
          (p = Account a \<longrightarrow> 0 < am \<and> am + (if replacing then 1 else 0) \<le> M) \<and>
          (p = User u \<longrightarrow> 0 < um \<and> um + (if replacing then 1 else 0) \<le> M)
      | _ \<Rightarrow> True)"

text \<open>The pool has no new members.\<close>

definition pool_shrinks :: "'s redis_api \<Rightarrow> pool \<Rightarrow> 's \<Rightarrow> 's \<Rightarrow> bool" where
  "pool_shrinks R p s t \<longleftrightarrow> (\<forall>n. active R (regular_key p) n t \<subseteq> active R (regular_key p) n s) \<and>
     (\<forall>n. active R (live_key p) n t \<subseteq> active R (live_key p) n s)"

context redis_laws
begin

lemma pool_shrinks_used: "pool_shrinks R p s t \<Longrightarrow> used R c p t \<le> used R c p s"
  unfolding pool_shrinks_def used_def by (intro add_mono card_mono finite_active) auto

lemma pool_shrinks_refl [intro]: "pool_shrinks R p s s"
  by (simp add: pool_shrinks_def)

lemma pool_shrinks_trans: "pool_shrinks R p s t \<Longrightarrow> pool_shrinks R p t u \<Longrightarrow> pool_shrinks R p s u"
  unfolding pool_shrinks_def by blast

lemma pool_shrinks_step:
  "pool_shrinks R p u s \<Longrightarrow> (\<And>n. active R (regular_key p) n t \<subseteq> active R (regular_key p) n s) \<Longrightarrow>
    (\<And>n. active R (live_key p) n t \<subseteq> active R (live_key p) n s) \<Longrightarrow> pool_shrinks R p u t"
  unfolding pool_shrinks_def by (meson order_trans)

lemma pool_shrinks_steps:
  "pool_shrinks R p u s \<Longrightarrow> pool_shrinks R p u (reap R k ttl s)" "pool_shrinks R p u s \<Longrightarrow> pool_shrinks R p u (api_ZREM R k m s)"
  "pool_shrinks R p u s \<Longrightarrow> pool_shrinks R p u (api_DEL R k s)" "pool_shrinks R p u s \<Longrightarrow> pool_shrinks R p u (api_wait R dt s)"
  "pool_shrinks R p u s \<Longrightarrow> pool_shrinks R p u (api_INCR R k s)" "pool_shrinks R p u s \<Longrightarrow> pool_shrinks R p u (api_DECR R k s)"
  "0 < n \<Longrightarrow> pool_shrinks R p u s \<Longrightarrow> pool_shrinks R p u (api_EXPIRE R k n s)"
  "regular_key p \<noteq> k \<Longrightarrow> live_key p \<noteq> k \<Longrightarrow> pool_shrinks R p u s \<Longrightarrow> pool_shrinks R p u (api_ZADD R k sc m s)"
  "regular_key p \<noteq> k \<Longrightarrow> live_key p \<noteq> k \<Longrightarrow> 0 < n \<Longrightarrow> pool_shrinks R p u s \<Longrightarrow> pool_shrinks R p u (put_member R k n m s)"
  by (erule pool_shrinks_step; simp add: active_reap active_ZREM active_DEL active_wait)+

lemma pool_shrinks_ZREMs: "pool_shrinks R p u s \<Longrightarrow> pool_shrinks R p u (foldl (\<lambda>t m. api_ZREM R k m t) s ms)"
  by (induction ms arbitrary: s) (auto intro: pool_shrinks_steps)

lemma apply_cmd_shrinks:
  assumes "conf_ok c" "apply_cmd R c cmd s = (t, ok)"
    and "\<And>q m r. cmd \<noteq> Acquire q m r" "\<And>a am u um k l rep. cmd \<noteq> Live_Acquire a am u um k l rep"
    and "\<And>a u k l. cmd \<noteq> Live_Refresh a u k l"
  shows "pool_shrinks R p s t"
proof -
  have ttl: "0 < cc_slotTTLSeconds c" "0 < cc_waitQueueTTLSeconds c" using assms(1) by (auto simp: conf_ok_def)
  show ?thesis
  proof (cases cmd)
    case (Count q)
    then show ?thesis using assms(2)
      by (auto simp: apply_cmd_def getCountScript_def Let_def
        intro!: pool_shrinks_steps pool_shrinks_ZREMs)
  next
    case (Track k r)
    then show ?thesis using assms(2) ttl by (auto simp: apply_cmd_def trackSlotScript_def
        intro!: pool_shrinks_steps pool_shrinks_ZREMs)
  next
    case (Ingress_Acquire k m l)
    then show ?thesis using assms(2)
      by (auto simp: apply_cmd_def acquireOpenAIWSIngressLeaseScript_def openAIWSIngressLeaseTTLSeconds_def Let_def split: if_splits
        intro!: pool_shrinks_steps pool_shrinks_ZREMs)
  next
    case (Ingress_Refresh k l)
    then show ?thesis using assms(2)
      by (auto simp: apply_cmd_def refreshOpenAIWSIngressLeaseScript_def openAIWSIngressLeaseTTLSeconds_def Let_def split: if_splits
        intro!: pool_shrinks_steps pool_shrinks_ZREMs)
  next
    case (Inc_Wait q m)
    then show ?thesis using assms(2) ttl by (auto simp: apply_cmd_def incrementWaitScript_def split: if_splits
        intro!: pool_shrinks_steps pool_shrinks_ZREMs)
  next
    case (Dec_Wait q)
    then show ?thesis using assms(2)
      by (auto simp: apply_cmd_def decrementWaitScript_def split: if_splits
        intro!: pool_shrinks_steps pool_shrinks_ZREMs)
  next
    case (Read_Load q)
    then show ?thesis using assms(2)
      by (auto simp: apply_cmd_def readActiveLoad_def Let_def
        intro!: pool_shrinks_steps pool_shrinks_ZREMs)
  next
    case (Touch_Index q x)
    then show ?thesis using assms(2)
      by (auto simp: apply_cmd_def touchActiveIndexAt_def split: if_splits
        intro!: pool_shrinks_steps pool_shrinks_ZREMs)
  next
    case (Cleanup q)
    then show ?thesis using assms(2) ttl
      by (auto simp: apply_cmd_def cleanupExpiredSlotsScript_def Let_def split: if_splits
        intro!: pool_shrinks_steps pool_shrinks_ZREMs)
  next
    case (Startup_Slots q prefix)
    then show ?thesis using assms(2) ttl
      by (auto simp: apply_cmd_def startupCleanupSlotScript_def Let_def
        intro!: pool_shrinks_steps pool_shrinks_ZREMs)
  qed (use assms in \<open>auto simp: apply_cmd_def split: if_splits intro!: pool_shrinks_steps\<close>)
qed

lemma apply_cmd_used:
  assumes "conf_ok c" "cmd_within p M cmd" "apply_cmd R c cmd s = (t, ok)"
  shows "used R c p t \<le> used R c p s \<or> int (used R c p t) \<le> M"
proof -
  consider (acquire) q m r where "cmd = Acquire q m r"
    | (live) a am u um k l rep where "cmd = Live_Acquire a am u um k l rep"
    | (refresh) a u k l where "cmd = Live_Refresh a u k l"
    | (other) "\<And>q m r. cmd \<noteq> Acquire q m r" "\<And>a am u um k l rep. cmd \<noteq> Live_Acquire a am u um k l rep"
      "\<And>a u k l. cmd \<noteq> Live_Refresh a u k l"
    by blast
  then show ?thesis
  proof cases
    case acquire
    then obtain now where "acquireScript R (regular_key q) (live_key q) m (cc_slotTTLSeconds c) r s = (t, ok, now)"
      using assms(3) by (auto simp: apply_cmd_def split: prod.splits)
    from acquire_used [OF assms(1) this, of p] assms(2) acquire show ?thesis
      by (auto simp: cmd_within_def)
  next
    case live
    then consider "t = s" | "acquireLiveLeaseScript R (regular_key (Account a)) (live_key (Account a)) (regular_key (User u))
        (live_key (User u)) (liveAPIKeySlotKey k) am um 60 l rep s = (t, ok)"
      using assms(3) by (auto simp: apply_cmd_def pool_key_names liveLeaseTTLSeconds_def split: if_splits)
    then show ?thesis
    proof cases
      case 2
      then show ?thesis by (rule live_acquire_used) (use live assms(2) in \<open>auto simp: cmd_within_def\<close>)
    qed simp
  next
    case refresh
    then show ?thesis
      using assms(3) live_refresh_used [of a u k l s t ok c p]
      by (auto simp: apply_cmd_def pool_key_names liveLeaseTTLSeconds_def split: if_splits)
  next
    case other
    then have "pool_shrinks R p s t" by (intro apply_cmd_shrinks [OF assms(1,3)])
    then show ?thesis using pool_shrinks_used by blast
  qed
qed

lemma slot_run_used:
  assumes "conf_ok c" "\<forall>cmd\<in>set cmds. cmd_within p M cmd" "int (used R c p s) \<le> M"
    "slot_run R c p cmds s taken = (t, taken')"
  shows "int (used R c p t) \<le> M"
  using assms(2,3,4)
proof (induction cmds arbitrary: s taken)
  case (Cons cmd cmds)
  obtain u ok where step: "apply_cmd R c cmd s = (u, ok)" by fastforce
  have "int (used R c p u) \<le> M"
    using apply_cmd_used [OF assms(1) _ step, of p M] Cons.prems by fastforce
  then show ?case using Cons.IH [of u] Cons.prems step by auto
qed simp

end

subsection \<open>Requests in flight\<close>

text \<open>A member that was put in the set at the time \<open>t\<close> is still in it, unless its period is over.\<close>

definition kept :: "'s redis_api \<Rightarrow> rkey \<Rightarrow> int \<Rightarrow> string \<Rightarrow> int \<Rightarrow> 's \<Rightarrow> bool" where
  "kept R k ttl m t s \<longleftrightarrow> (redis_now R s - ttl < t \<longrightarrow> (\<exists>sc. api_ZSCORE R k m s = Some sc \<and> t \<le> sc))"

text \<open>No member outlives the key of its set.\<close>

definition lifetimes :: "'s redis_api \<Rightarrow> rkey \<Rightarrow> int \<Rightarrow> 's \<Rightarrow> bool" where
  "lifetimes R k ttl s \<longleftrightarrow> (\<forall>m sc. api_ZSCORE R k m s = Some sc \<longrightarrow>
     sc \<le> redis_now R s \<and> (\<forall>d. api_EXPIRETIME R k s = Some d \<longrightarrow> 1000 * (sc + ttl) \<le> d))"

definition keeps :: "'s redis_api \<Rightarrow> rkey \<Rightarrow> int \<Rightarrow> string set \<Rightarrow> 's \<Rightarrow> 's \<Rightarrow> bool" where
  "keeps R k ttl M s t \<longleftrightarrow> (lifetimes R k ttl s \<longrightarrow>
     lifetimes R k ttl t \<and> (\<forall>m\<in>M. \<forall>t0. kept R k ttl m t0 s \<longrightarrow> kept R k ttl m t0 t))"

context redis_laws
begin

lemma member_ZCARD: "api_ZSCORE R k m s = Some sc \<Longrightarrow> 0 < api_ZCARD R k s"
  unfolding ZCARD_card using finite_members [of k s] by (auto simp: card_gt_0_iff)

lemma no_member: "api_ZCARD R k s = 0 \<Longrightarrow> api_ZSCORE R k m s = None"
  using member_ZCARD [of k m s] by fastforce

lemma keeps_refl [intro]: "keeps R k ttl M s s"
  by (simp add: keeps_def)

lemma keeps_trans: "keeps R k ttl M s t \<Longrightarrow> keeps R k ttl M t u \<Longrightarrow> keeps R k ttl M s u"
  unfolding keeps_def by blast

text \<open>A change of another key or of the deadline only.\<close>

lemma keeps_same:
  assumes "\<And>m. api_ZSCORE R k m t = api_ZSCORE R k m s" "redis_now R t = redis_now R s"
    and "api_ZCARD R k s \<noteq> 0 \<Longrightarrow> api_EXPIRETIME R k t = api_EXPIRETIME R k s \<or>
      (\<exists>n\<ge>ttl. api_EXPIRETIME R k t = Some (api_TIME R s + 1000 * n))"
  shows "keeps R k ttl M s t"
proof -
  have "lifetimes R k ttl t" if life: "lifetimes R k ttl s"
    unfolding lifetimes_def
  proof (intro allI impI conjI)
    fix m sc d assume "api_ZSCORE R k m t = Some sc"
    then have sc: "api_ZSCORE R k m s = Some sc" by (simp add: assms(1))
    with life show now: "sc \<le> redis_now R t" by (auto simp: lifetimes_def assms(2))
    assume d: "api_EXPIRETIME R k t = Some d"
    consider "api_EXPIRETIME R k s = Some d" | "api_TIME R s + 1000 * ttl \<le> d"
      using assms(3) member_ZCARD [OF sc] d by fastforce
    then show "1000 * (sc + ttl) \<le> d"
    proof cases
      case 1
      with life sc show ?thesis by (auto simp: lifetimes_def)
    next
      case 2
      with now show ?thesis unfolding assms(2) by (simp add: redis_now_def)
    qed
  qed
  then show ?thesis by (simp add: keeps_def kept_def assms)
qed

lemma keeps_EXPIRE: "0 < n \<Longrightarrow> k = k' \<longrightarrow> ttl \<le> n \<Longrightarrow> keeps R k ttl M s (api_EXPIRE R k' n s)"
  by (cases "k = k'") (auto intro!: keeps_same simp: ZSCORE_EXPIRE EXPIRETIME_EXPIRE)

lemma keeps_put:
  assumes "0 < n" "k = k' \<longrightarrow> ttl \<le> n"
  shows "keeps R k ttl M s (put_member R k' n m s)"
proof (cases "k = k'")
  case False
  with assms show ?thesis
    by (intro keeps_same) (auto simp: ZSCORE_EXPIRE ZSCORE_ZADD put_member_def EXPIRETIME_EXPIRE EXPIRETIME_ZADD)
next
  case True
  let ?t = "put_member R k' n m s"
  have "api_ZSCORE R k' m (api_ZADD R k' (redis_now R s) m s) = Some (redis_now R s)" by (simp add: ZSCORE_ZADD)
  from member_ZCARD [OF this] have deadline: "api_EXPIRETIME R k ?t = Some (api_TIME R s + 1000 * n)" "ttl \<le> n"
    using assms True by (simp_all add: put_member_def EXPIRETIME_EXPIRE TIME_kept)
  have life: "lifetimes R k ttl ?t" if "lifetimes R k ttl s"
    unfolding lifetimes_def
  proof (intro allI impI conjI)
    fix m' sc d assume sc: "api_ZSCORE R k m' ?t = Some sc"
    then show now: "sc \<le> redis_now R ?t"
      using that assms True by (auto simp: ZSCORE_put lifetimes_def split: if_splits)
    show "1000 * (sc + ttl) \<le> d" if "api_EXPIRETIME R k ?t = Some d"
      using now that deadline by (auto simp: redis_now_def put_member_def TIME_kept)
  qed
  have "kept R k ttl m' t0 ?t" if "lifetimes R k ttl s" "kept R k ttl m' t0 s" for m' t0
  proof (cases "m' = m")
    case False
    then show ?thesis using that assms True by (simp add: kept_def ZSCORE_put)
  next
    case same: True
    show ?thesis using that assms True same by (force simp: kept_def ZSCORE_put lifetimes_def)
  qed
  with life show ?thesis by (simp add: keeps_def)
qed

lemma keeps_removal:
  assumes "\<And>m sc. api_ZSCORE R k m t = Some sc \<Longrightarrow> api_ZSCORE R k m s = Some sc" "redis_now R t = redis_now R s"
    and "\<And>m sc. m \<in> M \<Longrightarrow> api_ZSCORE R k m s = Some sc \<Longrightarrow> redis_now R s - ttl < sc \<Longrightarrow> api_ZSCORE R k m t = Some sc"
    and "api_ZCARD R k t \<noteq> 0 \<Longrightarrow> api_EXPIRETIME R k t = api_EXPIRETIME R k s"
  shows "keeps R k ttl M s t"
proof -
  have "lifetimes R k ttl t" if life: "lifetimes R k ttl s"
    unfolding lifetimes_def
  proof (intro allI impI conjI)
    fix m sc d assume sc: "api_ZSCORE R k m t = Some sc"
    from life assms(1) [OF sc] show "sc \<le> redis_now R t" by (auto simp: lifetimes_def assms(2))
    show "1000 * (sc + ttl) \<le> d" if "api_EXPIRETIME R k t = Some d"
      using life assms(1) [OF sc] assms(4) member_ZCARD [OF sc] that by (auto simp: lifetimes_def)
  qed
  moreover have "kept R k ttl m t0 t" if "m \<in> M" "kept R k ttl m t0 s" for m t0
    using that assms(3) by (fastforce simp: kept_def assms(2))
  ultimately show ?thesis by (simp add: keeps_def)
qed

lemma keeps_ZREM: "k = k' \<longrightarrow> m \<notin> M \<Longrightarrow> keeps R k ttl M s (api_ZREM R k' m s)"
  by (rule keeps_removal) (auto simp: ZSCORE_ZREM EXPIRETIME_removals split: if_splits)

lemma EXPIRETIME_reap:
  "api_ZCARD R k (reap R k' n s) \<noteq> 0 \<Longrightarrow> api_EXPIRETIME R k (reap R k' n s) = api_EXPIRETIME R k s"
  by (simp add: reap_def EXPIRETIME_removals)

lemma keeps_reap: "k = k' \<longrightarrow> ttl \<le> n \<Longrightarrow> keeps R k ttl M s (reap R k' n s)"
  by (rule keeps_removal) (auto simp: ZSCORE_reap EXPIRETIME_reap split: option.splits if_splits)

lemma keeps_DEL: "k \<noteq> k' \<Longrightarrow> keeps R k ttl M s (api_DEL R k' s)"
  by (rule keeps_removal) (auto simp: ZSCORE_DEL EXPIRETIME_removals)

lemma keeps_DEL_empty: "api_ZCARD R k s = 0 \<Longrightarrow> keeps R k ttl M s (api_DEL R k' s)"
  by (rule keeps_removal) (auto simp: ZSCORE_DEL ZCARD_card [of k "api_DEL R k' s"] no_member split: if_splits)

lemma keeps_counters:
  "k \<noteq> k' \<Longrightarrow> keeps R k ttl M s (api_INCR R k' s)" "k \<noteq> k' \<Longrightarrow> keeps R k ttl M s (api_DECR R k' s)"
  "k \<noteq> k' \<Longrightarrow> keeps R k ttl M s (api_ZADD R k' sc m s)"
  by (rule keeps_same; simp add: ZSCORE_counters EXPIRETIME_counters ZSCORE_ZADD EXPIRETIME_ZADD)+

lemma keeps_wait: "keeps R k ttl M s (api_wait R dt s)"
proof (cases "gone R k dt s")
  case False
  then show ?thesis
    using now_wait [of s dt] by (fastforce simp: keeps_def lifetimes_def kept_def ZSCORE_wait EXPIRETIME_wait)
next
  case True
  then obtain d where d: "api_EXPIRETIME R k s = Some d" "d \<le> api_TIME R (api_wait R dt s)"
    by (auto simp: gone_def TIME_wait split: option.splits)
  have "kept R k ttl m t0 (api_wait R dt s)" if "lifetimes R k ttl s" "kept R k ttl m t0 s" for m t0
  proof -
    have False if young: "redis_now R (api_wait R dt s) - ttl < t0"
    proof -
      obtain sc where "api_ZSCORE R k m s = Some sc" "t0 \<le> sc"
        using young \<open>kept R k ttl m t0 s\<close> now_wait [of s dt] by (auto simp: kept_def)
      with \<open>lifetimes R k ttl s\<close> d have "1000 * (t0 + ttl) \<le> api_TIME R (api_wait R dt s)"
        by (fastforce simp: lifetimes_def)
      then show False using young by (simp add: redis_now_def)
    qed
    then show ?thesis by (auto simp: kept_def)
  qed
  moreover have "lifetimes R k ttl (api_wait R dt s)" using True by (simp add: lifetimes_def ZSCORE_wait)
  ultimately show ?thesis by (simp add: keeps_def)
qed

end

text \<open>What the calls need so that the slots of the requests \<open>M\<close> stay.\<close>

definition spares :: "pool \<Rightarrow> string set \<Rightarrow> slot_cmd \<Rightarrow> bool" where
  "spares p M cmd =
     (case cmd of
        Release q r \<Rightarrow> q = p \<longrightarrow> r \<notin> M
      | Startup_Slots q prefix \<Rightarrow> q = p \<longrightarrow> (\<forall>m\<in>M. go_HasPrefix m prefix)
      | _ \<Rightarrow> True)"

context redis_laws
begin

lemma keeps_ZREMs: "k = k' \<longrightarrow> set ms \<inter> M = {} \<Longrightarrow> keeps R k ttl M s (foldl (\<lambda>t m. api_ZREM R k' m t) s ms)"
proof (induction ms arbitrary: s)
  case (Cons m ms)
  then have "keeps R k ttl M s (api_ZREM R k' m s)" by (intro keeps_ZREM) auto
  moreover have "keeps R k ttl M (api_ZREM R k' m s) (foldl (\<lambda>t m. api_ZREM R k' m t) (api_ZREM R k' m s) ms)"
    using Cons by auto
  ultimately show ?case using keeps_trans by auto
qed auto

lemma keeps_puts: "0 < n \<Longrightarrow> k \<notin> set keys \<Longrightarrow> keeps R k ttl M s (foldl (\<lambda>t key. put_member R key n l t) s keys)"
proof (induction keys arbitrary: s)
  case (Cons key keys)
  then show ?case
    using keeps_trans [OF keeps_put [of n k key ttl M s l] Cons.IH [of "put_member R key n l s"]] by auto
qed auto

lemma keeps_refresh_check:
  "k \<notin> set keys \<Longrightarrow> refresh_check R keys n l s = (t, ok) \<Longrightarrow> keeps R k ttl M s t"
proof (induction keys arbitrary: s)
  case (Cons key keys)
  then have "keeps R k ttl M s (reap R key n s)" by (intro keeps_reap) auto
  moreover have "t = reap R key n s \<or> refresh_check R keys n l (reap R key n s) = (t, ok)"
    using Cons.prems by (auto simp: Let_def split: if_splits)
  ultimately show ?case using Cons.IH Cons.prems(1) keeps_trans by auto
qed auto

lemma keeps_DEL_if: "k = k' \<longrightarrow> api_ZCARD R k s = 0 \<Longrightarrow> keeps R k ttl M s (api_DEL R k' s)"
  using keeps_DEL keeps_DEL_empty by (cases "k = k'") auto

lemmas keeps_steps = keeps_refl
  keeps_trans [OF _ keeps_EXPIRE] keeps_trans [OF _ keeps_put] keeps_trans [OF _ keeps_ZREM] keeps_trans [OF _ keeps_reap]
  keeps_trans [OF _ keeps_DEL_if] keeps_trans [OF _ keeps_counters(1)]
  keeps_trans [OF _ keeps_counters(2)] keeps_trans [OF _ keeps_counters(3)] keeps_trans [OF _ keeps_wait]

lemma keeps_live:
  assumes "apply_cmd R c (Live_Acquire a am u um k l rep) s = (t, ok) \<or> apply_cmd R c (Live_Refresh a u k l) s = (t, ok) \<or>
    apply_cmd R c (Live_Release a u k l) s = (t, ok)"
  shows "keeps R (regular_key p) ttl M s t"
  using assms
proof (elim disjE)
  assume "apply_cmd R c (Live_Refresh a u k l) s = (t, ok)"
  then have "t = s \<or> refreshLiveLeaseScript R [live_key (Account a), live_key (User u), liveAPIKeySlotKey k] 60 l s = (t, ok)"
    by (auto simp: apply_cmd_def pool_key_names liveLeaseTTLSeconds_def split: if_splits)
  then show ?thesis
  proof
    let ?keys = "[live_key (Account a), live_key (User u), liveAPIKeySlotKey k]"
    assume refresh: "refreshLiveLeaseScript R ?keys 60 l s = (t, ok)"
    obtain s1 ok1 where check: "refresh_check R ?keys 60 l s = (s1, ok1)" by fastforce
    have "t = s1 \<or> t = foldl (\<lambda>t key. put_member R key 60 l t) s1 ?keys"
      using refresh unfolding refreshLiveLeaseScript_def check by (auto split: bool.splits)
    moreover have "keeps R (regular_key p) ttl M s s1" using check by (rule keeps_refresh_check [rotated]) simp
    ultimately show ?thesis using keeps_puts [of 60 "regular_key p" ?keys ttl M s1 l] keeps_trans by auto
  qed auto
qed (auto simp: apply_cmd_def pool_key_names acquireLiveLeaseScript_def liveLeaseTTLSeconds_def Let_def split: if_splits
      intro!: keeps_steps)

lemma apply_cmd_keeps:
  assumes "conf_ok c" "spares p M cmd" "apply_cmd R c cmd s = (t, ok)"
  shows "keeps R (regular_key p) (cc_slotTTLSeconds c) M s t"
proof -
  have ttl: "0 < cc_slotTTLSeconds c" "0 < cc_waitQueueTTLSeconds c" using assms(1) by (auto simp: conf_ok_def)
  show ?thesis
  proof (cases cmd)
    case (Acquire q m r)
    then show ?thesis using assms(3) ttl
      by (auto simp: apply_cmd_def acquireScript_def Let_def intro!: keeps_steps split: if_splits)
  next
    case (Count q)
    then show ?thesis using assms(3) ttl by (auto simp: apply_cmd_def getCountScript_def Let_def intro!: keeps_steps)
  next
    case (Release q r)
    then show ?thesis using assms(2,3) by (auto simp: apply_cmd_def spares_def intro!: keeps_steps)
  next
    case (Track k r)
    then show ?thesis using assms(3) ttl by (auto simp: apply_cmd_def trackSlotScript_def intro!: keeps_steps)
  next
    case (Ingress_Acquire k m l)
    then show ?thesis using assms(3)
      by (auto simp: apply_cmd_def acquireOpenAIWSIngressLeaseScript_def openAIWSIngressLeaseTTLSeconds_def Let_def
        intro!: keeps_steps split: if_splits)
  next
    case (Ingress_Refresh k l)
    then show ?thesis using assms(3)
      by (auto simp: apply_cmd_def refreshOpenAIWSIngressLeaseScript_def openAIWSIngressLeaseTTLSeconds_def Let_def
        intro!: keeps_steps split: if_splits)
  next
    case (Inc_Wait q m)
    then show ?thesis using assms(3) ttl
      by (auto simp: apply_cmd_def incrementWaitScript_def intro!: keeps_steps split: if_splits)
  next
    case (Dec_Wait q)
    then show ?thesis using assms(3)
      by (auto simp: apply_cmd_def decrementWaitScript_def intro!: keeps_steps split: if_splits)
  next
    case (Read_Load q)
    then show ?thesis using assms(3)
      by (auto simp: apply_cmd_def readActiveLoad_def pool_key_names Let_def intro!: keeps_steps)
  next
    case (Touch_Index q x)
    then show ?thesis using assms(3)
      by (auto simp: apply_cmd_def touchActiveIndexAt_def intro!: keeps_steps split: if_splits)
  next
    case (Cleanup q)
    then show ?thesis using assms(3) ttl
      by (cases "q = p") (auto simp: apply_cmd_def cleanupExpiredSlotsScript_def Let_def intro!: keeps_steps split: if_splits)
  next
    case (Startup_Slots q prefix)
    let ?s1 = "foldl (\<lambda>t m. api_ZREM R (regular_key q) m t) s
      (filter (\<lambda>m. \<not> go_HasPrefix m prefix) (api_ZRANGE R (regular_key q) s))"
    have "keeps R (regular_key p) (cc_slotTTLSeconds c) M s ?s1"
      using assms(2) Startup_Slots by (intro keeps_ZREMs) (auto simp: spares_def)
    moreover have "keeps R (regular_key p) (cc_slotTTLSeconds c) M ?s1 t"
      using assms(3) Startup_Slots ttl
      by (cases "q = p") (auto simp: apply_cmd_def startupCleanupSlotScript_def Let_def intro!: keeps_steps split: if_splits)
    ultimately show ?thesis by (rule keeps_trans)
  next
    case (Live_Acquire a am u um k l rep)
    then show ?thesis using assms(3) keeps_live by blast
  next
    case (Live_Refresh a u k l)
    then show ?thesis using assms(3) keeps_live by blast
  next
    case (Live_Release a u k l)
    then show ?thesis using assms(3) keeps_live by blast
  qed (use assms in \<open>auto simp: apply_cmd_def intro!: keeps_steps split: if_splits\<close>)
qed

lemma taken_put:
  assumes "conf_ok c" "acquireScript R (regular_key p) (live_key p) m (cc_slotTTLSeconds c) r s = (t, True, now)"
  shows "kept R (regular_key p) ttl r (redis_now R s) t"
  using assms by (auto simp: acquireScript_def Let_def kept_def conf_ok_def ZSCORE_put split: if_splits)

text \<open>The invariant of a run: every request in flight has its member.\<close>

lemma slot_run_kept:
  assumes "conf_ok c" "lifetimes R (regular_key p) (cc_slotTTLSeconds c) s" "dom taken \<subseteq> A"
    and "\<And>r t0. taken r = Some t0 \<Longrightarrow> kept R (regular_key p) (cc_slotTTLSeconds c) r t0 s"
    and "\<And>m r. Acquire p m r \<in> set cmds \<Longrightarrow> r \<in> A"
    and "\<And>prefix r. Startup_Slots p prefix \<in> set cmds \<Longrightarrow> r \<in> A \<Longrightarrow> go_HasPrefix r prefix"
    and "slot_run R c p cmds s taken = (t, taken')" "taken' r = Some t0"
  shows "kept R (regular_key p) (cc_slotTTLSeconds c) r t0 t"
  using assms(2-)
proof (induction cmds arbitrary: s taken)
  case (Cons cmd cmds)
  let ?ttl = "cc_slotTTLSeconds c" and ?k = "regular_key p"
  obtain u ok where step: "apply_cmd R c cmd s = (u, ok)" by fastforce
  let ?taken = "taken_after R p cmd ok s taken"
  have "spares p {r} cmd \<or> (\<exists>r'. cmd = Release p r' \<and> r' = r)" if "r \<in> A" for r
    using Cons.prems(5) that by (auto simp: spares_def split: slot_cmd.split)
  then have keeps: "keeps R ?k ?ttl {r} s u" if "r \<in> A" "cmd \<noteq> Release p r" for r
    using apply_cmd_keeps [OF assms(1) _ step] that by blast
  have "keeps R ?k ?ttl {} s u" using apply_cmd_keeps [OF assms(1) _ step] by (simp add: spares_def split: slot_cmd.split)
  with Cons.prems(1) have life: "lifetimes R ?k ?ttl u" by (simp add: keeps_def)
  have acquired: "kept R ?k ?ttl r (redis_now R s) u" if "cmd = Acquire p m r" "ok" for m r
    using step that taken_put [OF assms(1)] by (auto simp: apply_cmd_def split: prod.splits)
  have "kept R ?k ?ttl r t0 u" if taken: "?taken r = Some t0" for r t0
  proof (cases "\<exists>m. cmd = Acquire p m r \<and> ok")
    case True
    with acquired taken show ?thesis by (auto simp: taken_after_def)
  next
    case False
    with taken have old: "taken r = Some t0" "cmd \<noteq> Release p r"
      by (auto simp: taken_after_def split: slot_cmd.splits if_splits)
    then show ?thesis using keeps [of r] Cons.prems(1,2,3) by (auto simp: keeps_def)
  qed
  note now = this
  have doms: "dom ?taken \<subseteq> A"
    using Cons.prems(2,4) by (fastforce simp: taken_after_def split: slot_cmd.splits if_splits)
  have rest: "slot_run R c p cmds u ?taken = (t, taken')" using Cons.prems(6) step by simp
  show ?case
    by (rule Cons.IH [OF life doms now _ _ rest Cons.prems(7)]) (use Cons.prems(4,5) in auto)
qed simp

end

subsection \<open>What a call decides\<close>

definition reapedBoth :: "'s redis_api \<Rightarrow> concurrencyCache \<Rightarrow> pool \<Rightarrow> 's \<Rightarrow> 's" where
  "reapedBoth R c p s = reap R (live_key p) 60 (reap R (regular_key p) (cc_slotTTLSeconds c) s)"

text \<open>Scores are times of the past, in every set but the indexes.\<close>

definition past :: "'s redis_api \<Rightarrow> 's \<Rightarrow> bool" where
  "past R s \<longleftrightarrow> (\<forall>k m sc. k \<notin> {accountActiveIndexKey, userActiveIndexKey} \<longrightarrow> api_ZSCORE R k m s = Some sc \<longrightarrow> sc \<le> redis_now R s)"

lemma index_key_cases: "ix_indexKey (pool_index p) \<in> {accountActiveIndexKey, userActiveIndexKey}"
  by (cases p) (auto simp: pool_index_def accountSlotIndex_def userSlotIndex_def)


context redis_laws
begin

lemma ZSCORE_reap_Some: "api_ZSCORE R k' m (reap R k ttl s) = Some sc \<longleftrightarrow>
    api_ZSCORE R k' m s = Some sc \<and> (k' = k \<longrightarrow> redis_now R s - ttl < sc)"
  by (auto simp: ZSCORE_reap not_le split: option.splits if_splits)

lemma now_reapedBoth [simp]: "redis_now R (reapedBoth R c p s) = redis_now R s"
  by (simp add: reapedBoth_def)

lemma active_reapedBoth:
  "active R (regular_key p) (cc_slotTTLSeconds c) (reapedBoth R c p s) = active R (regular_key p) (cc_slotTTLSeconds c) s"
  "active R (live_key p) 60 (reapedBoth R c p s) = active R (live_key p) 60 s"
  unfolding active_def now_reapedBoth by (auto simp: reapedBoth_def ZSCORE_reap_Some)

lemma ZCARD_reapedBoth:
  "api_ZCARD R (regular_key p) (reapedBoth R c p s) = card (active R (regular_key p) (cc_slotTTLSeconds c) s)"
  "api_ZCARD R (live_key p) (reapedBoth R c p s) = card (active R (live_key p) 60 s)"
  using ZCARD_reaped [of "regular_key p" "reapedBoth R c p s" "cc_slotTTLSeconds c"]
    ZCARD_reaped [of "live_key p" "reapedBoth R c p s" 60]
  unfolding active_reapedBoth by (auto simp: reapedBoth_def ZSCORE_reap_Some)

lemma ZSCORE_reapedBoth:
  "api_ZSCORE R (regular_key p) r (reapedBoth R c p s) \<noteq> None \<longleftrightarrow> r \<in> active R (regular_key p) (cc_slotTTLSeconds c) s"
  unfolding active_def not_None_eq reapedBoth_def ZSCORE_reap_Some by auto

lemma acquireScript_decides:
  assumes "conf_ok c"
  shows "acquireScript R (regular_key p) (live_key p) m (cc_slotTTLSeconds c) r s =
    (let ok = (r \<in> active R (regular_key p) (cc_slotTTLSeconds c) s \<or> int (used R c p s) < m)
     in (if ok then put_member R (regular_key p) (cc_slotTTLSeconds c) r (reapedBoth R c p s) else reapedBoth R c p s,
         ok, redis_now R s))"
  unfolding acquireScript_def Let_def reapedBoth_def [symmetric] ZSCORE_reapedBoth ZCARD_reapedBoth used_def
  by simp

lemma getCountScript_used: "snd (getCountScript R (regular_key p) (live_key p) (cc_slotTTLSeconds c) s) = used R c p s"
  unfolding getCountScript_def Let_def reapedBoth_def [symmetric] ZCARD_reapedBoth used_def by simp

lemma past_steps:
  "past R s \<Longrightarrow> past R (reap R k ttl s)" "past R s \<Longrightarrow> past R (api_ZREM R k m s)" "past R s \<Longrightarrow> past R (api_DEL R k s)"
  "past R s \<Longrightarrow> past R (api_INCR R k s)" "past R s \<Longrightarrow> past R (api_DECR R k s)"
  "0 < n \<Longrightarrow> past R s \<Longrightarrow> past R (api_EXPIRE R k n s)" "0 < n \<Longrightarrow> past R s \<Longrightarrow> past R (put_member R k n m s)"
  "k \<in> {accountActiveIndexKey, userActiveIndexKey} \<Longrightarrow> past R s \<Longrightarrow> past R (api_ZADD R k sc m s)"
  by (auto simp: past_def ZSCORE_reap ZSCORE_ZREM ZSCORE_DEL ZSCORE_counters ZSCORE_EXPIRE ZSCORE_put ZSCORE_ZADD
      split: option.splits if_splits)

lemma past_wait: "past R s \<Longrightarrow> past R (api_wait R dt s)"
  using now_wait [of s dt] by (fastforce simp: past_def ZSCORE_wait split: if_splits)

lemma past_ZREMs: "past R s \<Longrightarrow> past R (foldl (\<lambda>t m. api_ZREM R k m t) s ms)"
  by (induction ms arbitrary: s) (auto intro: past_steps)

lemma past_refresh: "past R s \<Longrightarrow> past R (fst (refreshLiveLeaseScript R keys 60 l s))"
proof -
  assume s: "past R s"
  have check: "past R (fst (refresh_check R ks 60 l s))" if "past R s" for ks s
    using that by (induction ks arbitrary: s) (auto simp: Let_def intro: past_steps)
  have puts: "past R (foldl (\<lambda>t key. put_member R key 60 l t) s ks)" if "past R s" for ks s
    using that by (induction ks arbitrary: s) (auto simp: past_steps)
  show ?thesis
    using check [OF s, of keys] puts by (auto simp: refreshLiveLeaseScript_def split: prod.splits bool.splits)
qed

lemma apply_cmd_past:
  assumes "conf_ok c" "past R s" shows "past R (fst (apply_cmd R c cmd s))"
proof -
  have ttl: "0 < cc_slotTTLSeconds c" "0 < cc_waitQueueTTLSeconds c" using assms(1) by (auto simp: conf_ok_def)
  note scripts = acquireScript_def getCountScript_def trackSlotScript_def acquireOpenAIWSIngressLeaseScript_def
    refreshOpenAIWSIngressLeaseScript_def acquireLiveLeaseScript_def incrementWaitScript_def decrementWaitScript_def
    readActiveLoad_def touchActiveIndexAt_def cleanupExpiredSlotsScript_def startupCleanupSlotScript_def
    liveLeaseTTLSeconds_def openAIWSIngressLeaseTTLSeconds_def
  show ?thesis
    using assms(2) ttl index_key_cases
    by (cases cmd) (auto simp: apply_cmd_def scripts Let_def
        intro!: past_steps past_wait past_refresh past_ZREMs)
qed

lemma slot_run_past: "conf_ok c \<Longrightarrow> past R s \<Longrightarrow> past R (fst (slot_run R c p cmds s taken))"
proof (induction cmds arbitrary: s taken)
  case (Cons cmd cmds)
  then show ?case using apply_cmd_past [of c s cmd] by (auto split: prod.splits)
qed simp

lemma active_after:
  assumes "past R s" "k \<notin> {accountActiveIndexKey, userActiveIndexKey}" "1000 * ttl + 1000 \<le> int dt"
  shows "active R k ttl (api_wait R dt s) = {}"
proof -
  have "redis_now R s + ttl + 1 \<le> redis_now R (api_wait R dt s)"
    using assms(3) by (simp add: redis_now_def TIME_wait)
  then show ?thesis
    using assms(1,2) by (fastforce simp: active_def past_def ZSCORE_wait split: if_splits)
qed

lemma active_foreign_removed:
  assumes "conf_ok c" "startupCleanupSlotScript R (regular_key p) prefix (cc_slotTTLSeconds c) s = (t, removed, remaining)"
  shows "api_ZSCORE R k m t = (if k = regular_key p \<and> \<not> go_HasPrefix m prefix then None else api_ZSCORE R k m s)"
    and "remaining = api_ZCARD R (regular_key p) t"
proof -
  have fold: "api_ZSCORE R k m (foldl (\<lambda>t m. api_ZREM R (regular_key p) m t) s ms) =
      (if k = regular_key p \<and> m \<in> set ms then None else api_ZSCORE R k m s)" for ms k m
    by (induction ms arbitrary: s) (auto simp: ZSCORE_ZREM)
  let ?ms = "filter (\<lambda>m. \<not> go_HasPrefix m prefix) (api_ZRANGE R (regular_key p) s)"
  let ?s1 = "foldl (\<lambda>t m. api_ZREM R (regular_key p) m t) s ?ms"
  have scores1: "api_ZSCORE R k m ?s1 = (if k = regular_key p \<and> \<not> go_HasPrefix m prefix then None else api_ZSCORE R k m s)" for k m
    unfolding fold using ZRANGE(2) [of "regular_key p" s] by auto
  have same: "api_ZSCORE R k m t = api_ZSCORE R k m ?s1" for k m
    using assms no_member [of "regular_key p" ?s1]
    by (auto simp: startupCleanupSlotScript_def Let_def conf_ok_def ZSCORE_EXPIRE ZSCORE_DEL split: if_splits)
  then show "api_ZSCORE R k m t = (if k = regular_key p \<and> \<not> go_HasPrefix m prefix then None else api_ZSCORE R k m s)"
    using scores1 by simp
  have "api_ZCARD R (regular_key p) t = api_ZCARD R (regular_key p) ?s1" by (simp add: ZCARD_card same)
  then show "remaining = api_ZCARD R (regular_key p) t"
    using assms(2) by (auto simp: startupCleanupSlotScript_def Let_def)
qed

end

subsection \<open>Waiting requests\<close>

definition wait_within :: "pool \<Rightarrow> int \<Rightarrow> slot_cmd \<Rightarrow> bool" where
  "wait_within p M cmd = (case cmd of Inc_Wait q m \<Rightarrow> q = p \<longrightarrow> m \<le> M | _ \<Rightarrow> True)"

lemma wait_key_names [simp]: "wait_key p = wait_key q \<longleftrightarrow> p = q"
  by (cases p; cases q) (auto simp: wait_key_def)

context redis_laws
begin

lemma GET_put: "0 < n \<Longrightarrow> api_GET R k' (put_member R k n m s) = api_GET R k' s"
  by (simp add: put_member_def GET_laws)

lemma GET_reap: "api_GET R k' (reap R k ttl s) = api_GET R k' s"
  by (simp add: reap_def GET_laws)

lemma GET_refresh: "api_GET R k' (fst (refreshLiveLeaseScript R keys 60 l s)) = api_GET R k' s"
proof -
  have check: "api_GET R k' (fst (refresh_check R ks 60 l s)) = api_GET R k' s" for ks s
    by (induction ks arbitrary: s) (auto simp: Let_def GET_reap)
  have puts: "api_GET R k' (foldl (\<lambda>t key. put_member R key 60 l t) s ks) = api_GET R k' s" for ks s
    by (induction ks arbitrary: s) (auto simp: GET_put)
  show ?thesis
    using check [of keys s] puts by (auto simp: refreshLiveLeaseScript_def split: prod.splits bool.splits)
qed

lemma GET_ZREMs: "api_GET R k' (foldl (\<lambda>t m. api_ZREM R k m t) s ms) = api_GET R k' s"
  by (induction ms arbitrary: s) (auto simp: GET_laws)

lemma key_kinds:
  "wait_key p \<noteq> apiKeySlotKey k" "wait_key p \<noteq> openAIWSIngressLeaseKey k" "wait_key p \<noteq> liveAPIKeySlotKey k"
  "wait_key p \<noteq> ix_indexKey (pool_index q)"
  by (cases p; cases q; simp add: wait_key_def pool_index_def accountSlotIndex_def userSlotIndex_def)+

lemma apply_cmd_wait:
  assumes "conf_ok c" "wait_within p M cmd" "0 \<le> counter R (wait_key p) s" "counter R (wait_key p) s \<le> M" "0 \<le> M"
  shows "0 \<le> counter R (wait_key p) (fst (apply_cmd R c cmd s)) \<and> counter R (wait_key p) (fst (apply_cmd R c cmd s)) \<le> M"
proof -
  have ttl: "0 < cc_slotTTLSeconds c" "0 < cc_waitQueueTTLSeconds c" using assms(1) by (auto simp: conf_ok_def)
  note scripts = acquireScript_def getCountScript_def trackSlotScript_def acquireOpenAIWSIngressLeaseScript_def
    refreshOpenAIWSIngressLeaseScript_def acquireLiveLeaseScript_def
    readActiveLoad_def touchActiveIndexAt_def cleanupExpiredSlotsScript_def startupCleanupSlotScript_def
    liveLeaseTTLSeconds_def openAIWSIngressLeaseTTLSeconds_def
  have *: "api_GET R (wait_key p) (fst (apply_cmd R c cmd s)) \<in> {None, api_GET R (wait_key p) s}"
    if "\<And>q m. cmd \<noteq> Inc_Wait q m" "\<And>q. cmd \<noteq> Dec_Wait q"
    using that ttl key_kinds
    by (cases cmd) (auto simp: apply_cmd_def scripts Let_def GET_laws GET_put GET_reap GET_refresh GET_ZREMs)
  consider (inc) q m where "cmd = Inc_Wait q m" | (dec) q where "cmd = Dec_Wait q"
    | (other) "\<And>q m. cmd \<noteq> Inc_Wait q m" "\<And>q. cmd \<noteq> Dec_Wait q" by blast
  then show ?thesis
  proof cases
    case inc
    then show ?thesis using assms ttl
      by (cases "q = p") (auto simp: apply_cmd_def wait_within_def incrementWaitScript_def counter_def GET_laws)
  next
    case dec
    then show ?thesis using assms
      by (cases "q = p") (auto simp: apply_cmd_def decrementWaitScript_def counter_def GET_laws split: option.splits)
  next
    case other
    then show ?thesis using * [OF other] assms by (auto simp: counter_def)
  qed
qed

lemma now_startup: "redis_now R (fst (startupCleanupSlotScript R k prefix ttl s)) = redis_now R s"
proof -
  have "redis_now R (foldl (\<lambda>t m. api_ZREM R k m t) s ms) = redis_now R s" for ms s
    by (induction ms arbitrary: s) auto
  then show ?thesis by (simp add: startupCleanupSlotScript_def Let_def)
qed

lemma active_reap_self: "active R k ttl (reap R k ttl s) = active R k ttl s"
  by (auto simp: active_def ZSCORE_reap_Some)

lemma active_ReleaseSlot:
  "active R (regular_key p) (cc_slotTTLSeconds c) (ReleaseSlot R c p r s) = active R (regular_key p) (cc_slotTTLSeconds c) s - {r}"
proof -
  have same: "active R (regular_key p) n (writeActiveIndex R c (pool_index p) i now slots waits t) = active R (regular_key p) n t" for n i now slots waits t
    by (auto simp: writeActiveIndex_def touchActiveIndexAt_def active_def ZSCORE_ZADD ZSCORE_ZREM)
  have "active R (regular_key p) (cc_slotTTLSeconds c) (refreshActiveIndex R c (pool_index p) (pool_id p) t) =
      active R (regular_key p) (cc_slotTTLSeconds c) t" for t
    by (simp add: refreshActiveIndex_def readActiveLoad_def same Let_def pool_key_names active_reap_self)
  then show ?thesis by (auto simp: ReleaseSlot_def active_def ZSCORE_ZREM split: if_splits)
qed

lemma slot_run_wait:
  "conf_ok c \<Longrightarrow> \<forall>cmd\<in>set cmds. wait_within p M cmd \<Longrightarrow> 0 \<le> M \<Longrightarrow> 0 \<le> counter R (wait_key p) s \<Longrightarrow>
    counter R (wait_key p) s \<le> M \<Longrightarrow> slot_run R c q cmds s taken = (t, taken') \<Longrightarrow>
    0 \<le> counter R (wait_key p) t \<and> counter R (wait_key p) t \<le> M"
proof (induction cmds arbitrary: s taken)
  case (Cons cmd cmds)
  then show ?case using apply_cmd_wait [of c p M cmd s] by (auto split: prod.splits)
qed simp

end

subsection \<open>Properties\<close>

definition in_flight :: "'s redis_api \<Rightarrow> concurrencyCache \<Rightarrow> (string \<Rightarrow> int option) \<Rightarrow> 's \<Rightarrow> string set" where
  "in_flight R c taken s = {r. \<exists>t0. taken r = Some t0 \<and> redis_now R s - cc_slotTTLSeconds c < t0}"



definition default_cache :: concurrencyCache where "default_cache = NewConcurrencyCache 15 0"

definition fresh_db :: redis_db where "fresh_db = \<lparr>db_now = 1000000, db_keys = (\<lambda>k. no_entry)\<rparr>"

lemma default_cache_ok: "conf_ok default_cache"
  by (simp add: default_cache_def NewConcurrencyCache_ok)

lemma fresh_db_empty: "api_ZCARD al_redis k fresh_db = 0" "api_ZSCORE al_redis k m fresh_db = None" "api_GET al_redis k fresh_db = None"
  by (simp_all add: al_redis_def fresh_db_def no_entry_def)


text \<open>C37: Seen as the set of requests that hold a slot and the set of live leases, whatever
  else is left in Redis: a slot is granted just when the request holds one already or fewer than the limit
  are taken, taking it adds the request, releasing it removes the request, and the count is the number of both.\<close>

theorem slot_scripts_refine:
  assumes "redis_laws R" "conf_ok c"
    and "S = active R (regular_key p) (cc_slotTTLSeconds c) s" "L = active R (live_key p) 60 s"
  shows "(case acquireScript R (regular_key p) (live_key p) m (cc_slotTTLSeconds c) r s of (t, ok, now) \<Rightarrow>
      ok = (r \<in> S \<or> int (card S + card L) < m) \<and> now = redis_now R s \<and>
      active R (regular_key p) (cc_slotTTLSeconds c) t = (if ok then insert r S else S) \<and> active R (live_key p) 60 t = L) \<and>
    active R (regular_key p) (cc_slotTTLSeconds c) (ReleaseSlot R c p r s) = S - {r} \<and>
    snd (getCountScript R (regular_key p) (live_key p) (cc_slotTTLSeconds c) s) = card S + card L"
proof (intro conjI)
  have ttl: "0 < cc_slotTTLSeconds c" using assms(2) by (simp add: conf_ok_def)
  note laws = redis_laws.active_put [OF assms(1)] redis_laws.active_reapedBoth [OF assms(1)] redis_laws.active_unchanged [OF assms(1)]
  show "case acquireScript R (regular_key p) (live_key p) m (cc_slotTTLSeconds c) r s of (t, ok, now) \<Rightarrow>
      ok = (r \<in> S \<or> int (card S + card L) < m) \<and> now = redis_now R s \<and>
      active R (regular_key p) (cc_slotTTLSeconds c) t = (if ok then insert r S else S) \<and> active R (live_key p) 60 t = L"
    unfolding redis_laws.acquireScript_decides [OF assms(1,2)] assms(3,4) used_def Let_def using ttl by (simp add: laws)
  show "snd (getCountScript R (regular_key p) (live_key p) (cc_slotTTLSeconds c) s) = card S + card L"
    by (simp add: redis_laws.getCountScript_used [OF assms(1)] used_def assms(3,4))
  show "active R (regular_key p) (cc_slotTTLSeconds c) (ReleaseSlot R c p r s) = S - {r}"
    unfolding assms(3) by (rule redis_laws.active_ReleaseSlot [OF assms(1)])
qed

theorem slot_scripts_refine_witness:
  "case acquireScript al_redis (regular_key (Account 7)) (live_key (Account 7)) 1 (cc_slotTTLSeconds default_cache) ''a-1'' fresh_db of
     (t, ok, now) \<Rightarrow> ok \<and> active al_redis (regular_key (Account 7)) (cc_slotTTLSeconds default_cache) t = {''a-1''}"
proof -
  have "active al_redis k n fresh_db = {}" for k n by (simp add: active_def fresh_db_empty)
  then show ?thesis
    using slot_scripts_refine [OF al.redis_laws_axioms default_cache_ok refl refl, where p = "Account 7" and s = fresh_db and m = 1 and r = "''a-1''"]
    by (auto split: prod.splits)
qed



text \<open>C40: When a process starts while another still serves a request, the clean-up at start
  takes away the slot of that request, and with a limit of one a second request runs beside the first.\<close>

theorem startup_cleanup_exceeds_limit:
  assumes "redis_laws R" "conf_ok c" "api_ZCARD R (regular_key p) s = 0" "api_ZCARD R (live_key p) s = 0"
    and "\<not> go_HasPrefix a prefix"
    and "slot_run R c p [Acquire p 1 a, Startup_Slots p prefix, Acquire p 1 b] s (\<lambda>r. None) = (t, taken)"
  shows "in_flight R c taken t = {a, b}"
proof -
  let ?k = "regular_key p" and ?ttl = "cc_slotTTLSeconds c"
  have ttl: "0 < ?ttl" using assms(2) by (simp add: conf_ok_def)
  have empty: "api_ZSCORE R ?k m s = None" "api_ZSCORE R (live_key p) m s = None" for m
    using assms(3,4) redis_laws.no_member [OF assms(1)] by auto
  note decides = redis_laws.acquireScript_decides [OF assms(1,2)] and kept = redis_laws.now_kept [OF assms(1)]
    redis_laws.now_reapedBoth [OF assms(1)]
  have "used R c p s = 0" using empty by (simp add: used_def active_def)
  then have first: "acquireScript R ?k (live_key p) 1 ?ttl a s = (put_member R ?k ?ttl a (reapedBoth R c p s), True, redis_now R s)"
    by (simp add: decides)
  obtain u removed remaining where cleanup: "startupCleanupSlotScript R ?k prefix ?ttl
      (put_member R ?k ?ttl a (reapedBoth R c p s)) = (u, removed, remaining)" by (metis prod_cases3)
  have none: "api_ZSCORE R ?k m u = None" "api_ZSCORE R (live_key p) m u = None" for m
    using assms(5) empty ttl
    by (auto simp: redis_laws.active_foreign_removed(1) [OF assms(1,2) cleanup] redis_laws.ZSCORE_put [OF assms(1)]
        reapedBoth_def redis_laws.ZSCORE_reap [OF assms(1)])
  have "redis_now R u = redis_now R (put_member R ?k ?ttl a (reapedBoth R c p s))"
    using redis_laws.now_startup [OF assms(1)] cleanup by (metis fst_conv)
  then have now: "redis_now R u = redis_now R s" by (simp add: kept)
  have "used R c p u = 0" using none by (simp add: used_def active_def)
  then have second: "acquireScript R ?k (live_key p) 1 ?ttl b u = (put_member R ?k ?ttl b (reapedBoth R c p u), True, redis_now R s)"
    by (simp add: decides now)
  have "taken = (\<lambda>r. None)(a \<mapsto> redis_now R s, b \<mapsto> redis_now R s)" "redis_now R t = redis_now R s"
    using assms(6) by (auto simp: apply_cmd_def taken_after_def first cleanup second now kept)
  then show ?thesis using ttl by (auto simp: in_flight_def)
qed

theorem startup_cleanup_exceeds_limit_witness:
  "in_flight al_redis default_cache
     (snd (slot_run al_redis default_cache (Account 7) [Acquire (Account 7) 1 ''a-1'', Startup_Slots (Account 7) ''b-'', Acquire (Account 7) 1 ''b-1''] fresh_db (\<lambda>r. None)))
     (fst (slot_run al_redis default_cache (Account 7) [Acquire (Account 7) 1 ''a-1'', Startup_Slots (Account 7) ''b-'', Acquire (Account 7) 1 ''b-1''] fresh_db (\<lambda>r. None)))
   = {''a-1'', ''b-1''}"
  by (rule startup_cleanup_exceeds_limit [OF al.redis_laws_axioms default_cache_ok, where s = fresh_db and p = "Account 7" and prefix = "''b-''"])
    (simp_all add: fresh_db_empty go_HasPrefix_def)

text \<open>C39: The count of waiting requests of an account or user is never negative and never above the
  limit that the requests were given, whatever other calls, expiry and clean-up come between.\<close>

theorem wait_count_bounded:
  assumes "redis_laws R" "conf_ok c" "0 \<le> M" "\<forall>cmd\<in>set cmds. wait_within p M cmd" "api_GET R (wait_key p) s = None"
  shows "0 \<le> counter R (wait_key p) (fst (slot_run R c p cmds s taken)) \<and>
    counter R (wait_key p) (fst (slot_run R c p cmds s taken)) \<le> M"
  by (rule redis_laws.slot_run_wait [OF assms(1,2,4,3) _ _ surjective_pairing]) (use assms(3,5) in \<open>auto simp: counter_def\<close>)

theorem wait_count_bounded_witness:
  "0 \<le> counter al_redis (wait_key (User 3)) (fst (slot_run al_redis default_cache (User 3)
      [Dec_Wait (User 3), Inc_Wait (User 3) 1, Inc_Wait (User 3) 1, Dec_Wait (User 3)] fresh_db (\<lambda>r. None))) \<and>
    counter al_redis (wait_key (User 3)) (fst (slot_run al_redis default_cache (User 3)
      [Dec_Wait (User 3), Inc_Wait (User 3) 1, Inc_Wait (User 3) 1, Dec_Wait (User 3)] fresh_db (\<lambda>r. None))) \<le> 1"
  by (rule wait_count_bounded [OF al.redis_laws_axioms default_cache_ok]) (simp_all add: wait_within_def fresh_db_empty)

end
