(* ===== verification/Json_Values.thy ===== *)
theory Json_Values
  imports Apicompat_Types "HOL-Library.List_Lexorder" "HOL-Library.Char_ord" "HOL-Library.AList"
begin

section \<open>encoding/json on values\<close>

text \<open>
  The request converters decode and encode JSON inside requests that are already parsed. A
  \<open>json.RawMessage\<close> is therefore the value that its text denotes, \<open>None\<close> when it is empty;
  \<open>json.Unmarshal\<close> and \<open>json.Marshal\<close> work on values. The members of an object keep their order, numbers
  are their literals, strings the UTF-8 bytes they denote. Tests of the code on the text of a raw
  message (\<open>null\<close>, the empty string, \<open>"object"\<close>) are tests of the value, so an unusual spelling of the
  same value is not told apart.

  Only where a string of the request is itself JSON text (tool arguments) the syntax matters; it is the
  argument \<open>json_text\<close> of the converters.
\<close>

datatype json =
    JNull
  | JBool bool
  | JNum string
  | JStr string
  | JArr "json list"
  | JObj "(string \<times> json) list"

type_synonym raw = "json option"

record json_text =
  jt_value :: "string \<Rightarrow> json option"
  jt_text :: "json \<Rightarrow> string"

subsection \<open>Decoding\<close>

text \<open>
  A \<open>null\<close> leaves the target as it is, a value of another type is an error (\<open>None\<close>). Objects are decoded
  member by member; the name of a field matches without regard to case, here on ASCII.
\<close>

definition dec_string :: "json \<Rightarrow> string \<Rightarrow> string option" where
  "dec_string v old = (case v of JStr s \<Rightarrow> Some s | JNull \<Rightarrow> Some old | _ \<Rightarrow> None)"

definition dec_bool :: "json \<Rightarrow> bool \<Rightarrow> bool option" where
  "dec_bool v old = (case v of JBool b \<Rightarrow> Some b | JNull \<Rightarrow> Some old | _ \<Rightarrow> None)"

fun dec_members :: "(string \<Rightarrow> json \<Rightarrow> 'a \<Rightarrow> 'a option) \<Rightarrow> (string \<times> json) list \<Rightarrow> 'a \<Rightarrow> 'a option" where
  "dec_members set_field [] x = Some x"
| "dec_members set_field ((k, v) # kvs) x =
     (case set_field (go_ToUpper k) v x of None \<Rightarrow> None | Some y \<Rightarrow> dec_members set_field kvs y)"

definition dec_struct :: "(string \<Rightarrow> json \<Rightarrow> 'a \<Rightarrow> 'a option) \<Rightarrow> 'a \<Rightarrow> json \<Rightarrow> 'a option" where
  "dec_struct set_field x v =
     (case v of JObj kvs \<Rightarrow> dec_members set_field kvs x | JNull \<Rightarrow> Some x | _ \<Rightarrow> None)"

text \<open>A pointer to a struct.\<close>

definition dec_pointer :: "(string \<Rightarrow> json \<Rightarrow> 'a \<Rightarrow> 'a option) \<Rightarrow> 'a \<Rightarrow> json \<Rightarrow> 'a option \<Rightarrow> 'a option option" where
  "dec_pointer set_field zero v old =
     (if v = JNull then Some None
      else map_option Some (dec_struct set_field (case old of None \<Rightarrow> zero | Some x \<Rightarrow> x) v))"

definition dec_list :: "(json \<Rightarrow> 'a option) \<Rightarrow> json \<Rightarrow> 'a list option" where
  "dec_list dec v = (case v of JArr vs \<Rightarrow> those (map dec vs) | JNull \<Rightarrow> Some [] | _ \<Rightarrow> None)"

text \<open>\<open>json.Unmarshal\<close> of a raw message into a string and into a slice.\<close>

definition raw_string :: "raw \<Rightarrow> string option" where
  "raw_string r = (case r of None \<Rightarrow> None | Some v \<Rightarrow> dec_string v [])"

definition raw_list :: "(json \<Rightarrow> 'a option) \<Rightarrow> raw \<Rightarrow> 'a list option" where
  "raw_list dec r = (case r of None \<Rightarrow> None | Some v \<Rightarrow> dec_list dec v)"

text \<open>Into \<open>map[string]json.RawMessage\<close>: the last member with a name counts.\<close>

definition raw_object :: "json \<Rightarrow> (string \<times> json) list option" where
  "raw_object v = (case v of JObj kvs \<Rightarrow> Some (AList.clearjunk (rev kvs)) | JNull \<Rightarrow> Some [] | _ \<Rightarrow> None)"

text \<open>\<open>json.Marshal\<close> of a map sorts the names.\<close>

definition marshal_map :: "(string \<times> json) list \<Rightarrow> json" where
  "marshal_map m = JObj (sort_key fst m)"

subsection \<open>Encoding\<close>

definition omitempty :: "string \<Rightarrow> string \<Rightarrow> (string \<times> json) list" where
  "omitempty k s = (if s = [] then [] else [(k, JStr s)])"

definition omitnone :: "string \<Rightarrow> json option \<Rightarrow> (string \<times> json) list" where
  "omitnone k r = (case r of None \<Rightarrow> [] | Some v \<Rightarrow> [(k, v)])"

text \<open>A slice that \<open>append\<close> never touched is nil and encoded as \<open>null\<close>.\<close>

definition marshal_appended :: "('a \<Rightarrow> json) \<Rightarrow> 'a list \<Rightarrow> json" where
  "marshal_appended enc xs = (if xs = [] then JNull else JArr (map enc xs))"

text \<open>A struct type with its encoder and decoder: what is encoded is decoded to the same struct.\<close>

locale json_struct =
  fixes enc :: "'a \<Rightarrow> json" and dec :: "json \<Rightarrow> 'a option"
  assumes dec_enc: "dec (enc x) = Some x"
begin

lemma those_map: "those (map dec (map enc xs)) = Some xs"
  by (induction xs) (auto simp: dec_enc)

lemma dec_list_array [simp]: "dec_list dec (JArr (map enc xs)) = Some xs"
  unfolding dec_list_def json.case those_map ..

lemma dec_list_appended [simp]: "dec_list dec (marshal_appended enc xs) = Some xs"
  using dec_list_array [of xs] by (simp add: marshal_appended_def dec_list_def)

lemma raw_list_array [simp]: "raw_list dec (Some (JArr (map enc xs))) = Some xs"
  by (simp add: raw_list_def)

lemma raw_list_appended [simp]: "raw_list dec (Some (marshal_appended enc xs)) = Some xs"
  by (simp add: raw_list_def)

end

lemma dec_members_append:
  "dec_members f (xs @ ys) x = (case dec_members f xs x of None \<Rightarrow> None | Some y \<Rightarrow> dec_members f ys y)"
  by (induction xs arbitrary: x) (auto split: option.splits)

lemma raw_string_values [simp]:
  "raw_string None = None" "raw_string (Some (JStr s)) = Some s" "raw_string (Some JNull) = Some []"
  "raw_string (Some (JArr vs)) = None" "raw_string (Some (JObj kvs)) = None" "raw_string (Some (JBool b)) = None"
  "raw_string (Some (JNum n)) = None"
  by (simp_all add: raw_string_def dec_string_def)

subsection \<open>Strings\<close>

fun go_Join :: "string list \<Rightarrow> string \<Rightarrow> string" where
  "go_Join [] sep = []"
| "go_Join [x] sep = x"
| "go_Join (x # y # ys) sep = x @ sep @ go_Join (y # ys) sep"

text \<open>\<open>strings.Index\<close> for one byte: the part before it and the part behind it.\<close>

fun split_at :: "char \<Rightarrow> string \<Rightarrow> (string \<times> string) option" where
  "split_at c [] = None"
| "split_at c (x # xs) =
     (if x = c then Some ([], xs)
      else case split_at c xs of None \<Rightarrow> None | Some (a, b) \<Rightarrow> Some (x # a, b))"

text \<open>\<open>strings.ToLower\<close> on ASCII.\<close>

definition ascii_lower :: "char \<Rightarrow> char" where
  "ascii_lower c = (let n = of_char c :: nat in if 65 \<le> n \<and> n \<le> 90 then char_of (n + 32) else c)"

definition go_ToLower :: "string \<Rightarrow> string" where
  "go_ToLower s = map ascii_lower s"

end
