(* ===== verification/Request_Types.thy ===== *)
theory Request_Types
  imports Complex_Main Json_Values
begin

section \<open>The request types of internal/pkg/apicompat/types.go\<close>

text \<open>
  The structs of the three request protocols. \<open>RequestBlock\<close> is \<open>AnthropicContentBlock\<close> with raw messages
  as values (the response theories keep them as bytes). Each type that the converters encode and decode
  again has both directions here, with its round trip.
\<close>

subsection \<open>Anthropic\<close>

record RequestBlock =
  rb_Type :: string
  rb_CacheControl :: "AnthropicCacheControl option"
  rb_Text :: string
  rb_Thinking :: string
  rb_Signature :: string
  rb_Source :: "AnthropicImageSource option"
  rb_ID :: string
  rb_Name :: string
  rb_Input :: raw
  rb_ToolUseID :: string
  rb_Content :: raw
  rb_IsError :: bool

definition no_block :: RequestBlock where
  "no_block = \<lparr>rb_Type = [], rb_CacheControl = None, rb_Text = [], rb_Thinking = [], rb_Signature = [],
     rb_Source = None, rb_ID = [], rb_Name = [], rb_Input = None, rb_ToolUseID = [], rb_Content = None, rb_IsError = False\<rparr>"

record AnthropicMessage =
  am_Role :: string
  am_Content :: raw

record AnthropicTool =
  an_Type :: string
  an_Name :: string
  an_Description :: string
  an_InputSchema :: raw
  an_CacheControl :: "AnthropicCacheControl option"

definition no_anthropic_tool :: AnthropicTool where
  "no_anthropic_tool = \<lparr>an_Type = [], an_Name = [], an_Description = [], an_InputSchema = None, an_CacheControl = None\<rparr>"

record AnthropicThinking =
  at_Type :: string
  at_BudgetTokens :: int

text \<open>\<open>AnthropicOutputConfig\<close> has the single field \<open>Effort\<close>; sampling parameters are passed on only.\<close>

record AnthropicRequest =
  aq_Model :: string
  aq_MaxTokens :: int
  aq_System :: raw
  aq_Messages :: "AnthropicMessage list"
  aq_Tools :: "AnthropicTool list"
  aq_Stream :: bool
  aq_Temperature :: "rat option"
  aq_TopP :: "rat option"
  aq_StopSeqs :: "string list"
  aq_Thinking :: "AnthropicThinking option"
  aq_ToolChoice :: raw
  aq_Metadata :: raw
  aq_OutputConfig :: "string option"

subsection \<open>OpenAI Responses\<close>

record ResponsesInputItem =
  ri_Type :: string
  ri_Role :: string
  ri_Content :: raw
  ri_EncryptedContent :: string
  ri_CallID :: string
  ri_Name :: string
  ri_Arguments :: string
  ri_ID :: string
  ri_Output :: string
  ri_outputRaw :: raw

definition no_item :: ResponsesInputItem where
  "no_item = \<lparr>ri_Type = [], ri_Role = [], ri_Content = None, ri_EncryptedContent = [], ri_CallID = [],
     ri_Name = [], ri_Arguments = [], ri_ID = [], ri_Output = [], ri_outputRaw = None\<rparr>"

text \<open>
  A tool has nested tools when it is a namespace. What is nested in those is not represented, no converter
  reads it.
\<close>

record ToolDeclaration =
  rt_Type :: string
  rt_Name :: string
  rt_Description :: string
  rt_Parameters :: raw
  rt_Strict :: "bool option"
  rt_AllowedXHandles :: "string list"
  rt_ExcludedXHandles :: "string list"
  rt_FromDate :: string
  rt_ToDate :: string
  rt_EnableImageUnderstanding :: "bool option"
  rt_EnableVideoUnderstanding :: "bool option"

record ResponsesTool = ToolDeclaration +
  rt_Tools :: "ToolDeclaration list"
  rt_Children :: "ToolDeclaration list"

definition no_declaration :: ToolDeclaration where
  "no_declaration = \<lparr>rt_Type = [], rt_Name = [], rt_Description = [], rt_Parameters = None, rt_Strict = None,
     rt_AllowedXHandles = [], rt_ExcludedXHandles = [], rt_FromDate = [], rt_ToDate = [],
     rt_EnableImageUnderstanding = None, rt_EnableVideoUnderstanding = None\<rparr>"

definition no_tool :: ResponsesTool where
  "no_tool = \<lparr>rt_Type = [], rt_Name = [], rt_Description = [], rt_Parameters = None, rt_Strict = None,
     rt_AllowedXHandles = [], rt_ExcludedXHandles = [], rt_FromDate = [], rt_ToDate = [],
     rt_EnableImageUnderstanding = None, rt_EnableVideoUnderstanding = None, rt_Tools = [], rt_Children = []\<rparr>"

record ResponsesReasoning =
  rg_Effort :: string
  rg_Summary :: string

record ResponsesText =
  tx_Format :: raw
  tx_Verbosity :: string

record ResponsesRequest =
  rq_Model :: string
  rq_Instructions :: string
  rq_Input :: raw
  rq_MaxOutputTokens :: "int option"
  rq_Temperature :: "rat option"
  rq_TopP :: "rat option"
  rq_Stream :: bool
  rq_Tools :: "ResponsesTool list"
  rq_Include :: "string list"
  rq_Store :: "bool option"
  rq_ParallelToolCalls :: "bool option"
  rq_Reasoning :: "ResponsesReasoning option"
  rq_Text :: "ResponsesText option"
  rq_ToolChoice :: raw
  rq_ServiceTier :: string

definition minMaxOutputTokens :: int where "minMaxOutputTokens = 128"

subsection \<open>Chat Completions\<close>

record ChatRequestMessage =
  qm_Role :: string
  qm_Content :: raw
  qm_ReasoningContent :: string
  qm_Name :: string
  qm_ToolCalls :: "ChatToolCall list"
  qm_ToolCallID :: string
  qm_FunctionCall :: "ChatFunctionCall option"

text \<open>A content part; the detail of an image is not read.\<close>

record ChatFile =
  cf_Filename :: string
  cf_FileData :: string
  cf_FileID :: string

record ChatContentPart =
  pt_Type :: string
  pt_Text :: string
  pt_ImageURL :: "string option"
  pt_File :: "ChatFile option"

record ChatFunction =
  fn_Name :: string
  fn_Description :: string
  fn_Parameters :: raw
  fn_Strict :: "bool option"

record ChatTool =
  ct_Type :: string
  ct_Function :: "ChatFunction option"
  ct_AllowedXHandles :: "string list"
  ct_ExcludedXHandles :: "string list"
  ct_FromDate :: string
  ct_ToDate :: string
  ct_EnableImageUnderstanding :: "bool option"
  ct_EnableVideoUnderstanding :: "bool option"

record ChatCompletionsRequest =
  cq_Model :: string
  cq_Messages :: "ChatRequestMessage list"
  cq_Instructions :: string
  cq_MaxTokens :: "int option"
  cq_MaxCompletionTokens :: "int option"
  cq_Temperature :: "rat option"
  cq_TopP :: "rat option"
  cq_Stream :: bool
  cq_Tools :: "ChatTool list"
  cq_ParallelToolCalls :: "bool option"
  cq_ToolChoice :: raw
  cq_ReasoningEffort :: string
  cq_ServiceTier :: string
  cq_ResponseFormat :: raw
  cq_Functions :: "ChatFunction list"
  cq_FunctionCall :: raw

subsection \<open>Content parts\<close>

definition set_part :: "string \<Rightarrow> json \<Rightarrow> ResponsesContentPart \<Rightarrow> ResponsesContentPart option" where
  "set_part k v p =
     (if k = ''TYPE'' then map_option (\<lambda>s. p\<lparr>cp_Type := s\<rparr>) (dec_string v (cp_Type p))
      else if k = ''TEXT'' then map_option (\<lambda>s. p\<lparr>cp_Text := s\<rparr>) (dec_string v (cp_Text p))
      else if k = ''IMAGE_URL'' then map_option (\<lambda>s. p\<lparr>cp_ImageURL := s\<rparr>) (dec_string v (cp_ImageURL p))
      else if k = ''FILENAME'' then map_option (\<lambda>s. p\<lparr>cp_Filename := s\<rparr>) (dec_string v (cp_Filename p))
      else if k = ''FILE_DATA'' then map_option (\<lambda>s. p\<lparr>cp_FileData := s\<rparr>) (dec_string v (cp_FileData p))
      else if k = ''FILE_ID'' then map_option (\<lambda>s. p\<lparr>cp_FileID := s\<rparr>) (dec_string v (cp_FileID p))
      else Some p)"

definition dec_part :: "json \<Rightarrow> ResponsesContentPart option" where
  "dec_part = dec_struct set_part zero_part"

definition enc_part :: "ResponsesContentPart \<Rightarrow> json" where
  "enc_part p = JObj ([(''type'', JStr (cp_Type p))] @ omitempty ''text'' (cp_Text p) @
     omitempty ''image_url'' (cp_ImageURL p) @ omitempty ''filename'' (cp_Filename p) @
     omitempty ''file_data'' (cp_FileData p) @ omitempty ''file_id'' (cp_FileID p))"

subsection \<open>Content blocks\<close>

definition set_cache_control :: "string \<Rightarrow> json \<Rightarrow> AnthropicCacheControl \<Rightarrow> AnthropicCacheControl option" where
  "set_cache_control k v c =
     (if k = ''TYPE'' then map_option (\<lambda>s. c\<lparr>cc_Type := s\<rparr>) (dec_string v (cc_Type c))
      else if k = ''TTL'' then map_option (\<lambda>s. c\<lparr>cc_TTL := s\<rparr>) (dec_string v (cc_TTL c))
      else Some c)"

definition enc_cache_control :: "AnthropicCacheControl \<Rightarrow> json" where
  "enc_cache_control c = JObj ((''type'', JStr (cc_Type c)) # omitempty ''ttl'' (cc_TTL c))"

definition set_image_source :: "string \<Rightarrow> json \<Rightarrow> AnthropicImageSource \<Rightarrow> AnthropicImageSource option" where
  "set_image_source k v i =
     (if k = ''TYPE'' then map_option (\<lambda>s. i\<lparr>is_Type := s\<rparr>) (dec_string v (is_Type i))
      else if k = ''MEDIA_TYPE'' then map_option (\<lambda>s. i\<lparr>is_MediaType := s\<rparr>) (dec_string v (is_MediaType i))
      else if k = ''DATA'' then map_option (\<lambda>s. i\<lparr>is_Data := s\<rparr>) (dec_string v (is_Data i))
      else Some i)"

definition enc_image_source :: "AnthropicImageSource \<Rightarrow> json" where
  "enc_image_source i = JObj [(''type'', JStr (is_Type i)), (''media_type'', JStr (is_MediaType i)), (''data'', JStr (is_Data i))]"

definition set_block :: "string \<Rightarrow> json \<Rightarrow> RequestBlock \<Rightarrow> RequestBlock option" where
  "set_block k v b =
     (if k = ''TYPE'' then map_option (\<lambda>s. b\<lparr>rb_Type := s\<rparr>) (dec_string v (rb_Type b))
      else if k = ''CACHE_CONTROL'' then
        map_option (\<lambda>c. b\<lparr>rb_CacheControl := c\<rparr>) (dec_pointer set_cache_control \<lparr>cc_Type = [], cc_TTL = []\<rparr> v (rb_CacheControl b))
      else if k = ''TEXT'' then map_option (\<lambda>s. b\<lparr>rb_Text := s\<rparr>) (dec_string v (rb_Text b))
      else if k = ''THINKING'' then map_option (\<lambda>s. b\<lparr>rb_Thinking := s\<rparr>) (dec_string v (rb_Thinking b))
      else if k = ''SIGNATURE'' then map_option (\<lambda>s. b\<lparr>rb_Signature := s\<rparr>) (dec_string v (rb_Signature b))
      else if k = ''SOURCE'' then
        map_option (\<lambda>i. b\<lparr>rb_Source := i\<rparr>) (dec_pointer set_image_source \<lparr>is_Type = [], is_MediaType = [], is_Data = []\<rparr> v (rb_Source b))
      else if k = ''ID'' then map_option (\<lambda>s. b\<lparr>rb_ID := s\<rparr>) (dec_string v (rb_ID b))
      else if k = ''NAME'' then map_option (\<lambda>s. b\<lparr>rb_Name := s\<rparr>) (dec_string v (rb_Name b))
      else if k = ''INPUT'' then Some (b\<lparr>rb_Input := Some v\<rparr>)
      else if k = ''TOOL_USE_ID'' then map_option (\<lambda>s. b\<lparr>rb_ToolUseID := s\<rparr>) (dec_string v (rb_ToolUseID b))
      else if k = ''CONTENT'' then Some (b\<lparr>rb_Content := Some v\<rparr>)
      else if k = ''IS_ERROR'' then map_option (\<lambda>x. b\<lparr>rb_IsError := x\<rparr>) (dec_bool v (rb_IsError b))
      else Some b)"

definition dec_block :: "json \<Rightarrow> RequestBlock option" where
  "dec_block = dec_struct set_block no_block"

text \<open>\<open>MarshalJSON\<close> writes the text of a text block and the thinking of a thinking block even when empty.\<close>

definition enc_block :: "RequestBlock \<Rightarrow> json" where
  "enc_block b = JObj (
     (if rb_Type b = ''text'' then [(''text'', JStr (rb_Text b))] else if rb_Type b = ''thinking'' then [(''thinking'', JStr (rb_Thinking b))] else []) @
     [(''type'', JStr (rb_Type b))] @ omitnone ''cache_control'' (map_option enc_cache_control (rb_CacheControl b)) @
     (if rb_Type b = ''text'' then [] else omitempty ''text'' (rb_Text b)) @
     (if rb_Type b = ''thinking'' then [] else omitempty ''thinking'' (rb_Thinking b)) @
     omitempty ''signature'' (rb_Signature b) @ omitnone ''source'' (map_option enc_image_source (rb_Source b)) @
     omitempty ''id'' (rb_ID b) @ omitempty ''name'' (rb_Name b) @ omitnone ''input'' (rb_Input b) @
     omitempty ''tool_use_id'' (rb_ToolUseID b) @ omitnone ''content'' (rb_Content b) @
     (if rb_IsError b then [(''is_error'', JBool True)] else []))"

subsection \<open>Input items\<close>

text \<open>
  \<open>UnmarshalJSON\<close> keeps an output that is not a string as it is, with its text as \<open>Output\<close>.
\<close>

definition set_item :: "string \<Rightarrow> json \<Rightarrow> ResponsesInputItem \<Rightarrow> ResponsesInputItem option" where
  "set_item k v i =
     (if k = ''TYPE'' then map_option (\<lambda>s. i\<lparr>ri_Type := s\<rparr>) (dec_string v (ri_Type i))
      else if k = ''ROLE'' then map_option (\<lambda>s. i\<lparr>ri_Role := s\<rparr>) (dec_string v (ri_Role i))
      else if k = ''CONTENT'' then Some (i\<lparr>ri_Content := Some v\<rparr>)
      else if k = ''ENCRYPTED_CONTENT'' then map_option (\<lambda>s. i\<lparr>ri_EncryptedContent := s\<rparr>) (dec_string v (ri_EncryptedContent i))
      else if k = ''CALL_ID'' then map_option (\<lambda>s. i\<lparr>ri_CallID := s\<rparr>) (dec_string v (ri_CallID i))
      else if k = ''NAME'' then map_option (\<lambda>s. i\<lparr>ri_Name := s\<rparr>) (dec_string v (ri_Name i))
      else if k = ''ARGUMENTS'' then map_option (\<lambda>s. i\<lparr>ri_Arguments := s\<rparr>) (dec_string v (ri_Arguments i))
      else if k = ''ID'' then map_option (\<lambda>s. i\<lparr>ri_ID := s\<rparr>) (dec_string v (ri_ID i))
      else if k = ''OUTPUT'' then Some (i\<lparr>ri_outputRaw := Some v\<rparr>)
      else Some i)"

definition finish_output :: "json_text \<Rightarrow> ResponsesInputItem \<Rightarrow> ResponsesInputItem" where
  "finish_output jt i =
     (case ri_outputRaw i of
        None \<Rightarrow> i
      | Some JNull \<Rightarrow> i\<lparr>ri_outputRaw := None\<rparr>
      | Some (JStr s) \<Rightarrow> i\<lparr>ri_Output := s, ri_outputRaw := None\<rparr>
      | Some v \<Rightarrow> i\<lparr>ri_Output := jt_text jt v\<rparr>)"

definition dec_item :: "json_text \<Rightarrow> json \<Rightarrow> ResponsesInputItem option" where
  "dec_item jt v = map_option (finish_output jt) (dec_struct set_item no_item v)"

definition enc_item :: "ResponsesInputItem \<Rightarrow> json" where
  "enc_item i = JObj (omitempty ''type'' (ri_Type i) @ omitempty ''role'' (ri_Role i) @ omitnone ''content'' (ri_Content i) @
     omitempty ''encrypted_content'' (ri_EncryptedContent i) @ omitempty ''call_id'' (ri_CallID i) @
     omitempty ''name'' (ri_Name i) @ omitempty ''arguments'' (ri_Arguments i) @ omitempty ''id'' (ri_ID i) @
     omitempty ''output'' (ri_Output i))"

subsection \<open>Round trips\<close>

text \<open>The member names that the encoders write, as the decoders compare them.\<close>

lemma member_names [simp]:
  "go_ToUpper ''type'' = ''TYPE''" "go_ToUpper ''text'' = ''TEXT''" "go_ToUpper ''image_url'' = ''IMAGE_URL''"
  "go_ToUpper ''filename'' = ''FILENAME''" "go_ToUpper ''file_data'' = ''FILE_DATA''" "go_ToUpper ''file_id'' = ''FILE_ID''"
  "go_ToUpper ''ttl'' = ''TTL''" "go_ToUpper ''media_type'' = ''MEDIA_TYPE''" "go_ToUpper ''data'' = ''DATA''"
  "go_ToUpper ''cache_control'' = ''CACHE_CONTROL''" "go_ToUpper ''thinking'' = ''THINKING''" "go_ToUpper ''signature'' = ''SIGNATURE''"
  "go_ToUpper ''source'' = ''SOURCE''" "go_ToUpper ''id'' = ''ID''" "go_ToUpper ''name'' = ''NAME''" "go_ToUpper ''input'' = ''INPUT''"
  "go_ToUpper ''tool_use_id'' = ''TOOL_USE_ID''" "go_ToUpper ''content'' = ''CONTENT''" "go_ToUpper ''is_error'' = ''IS_ERROR''"
  "go_ToUpper ''role'' = ''ROLE''" "go_ToUpper ''encrypted_content'' = ''ENCRYPTED_CONTENT''" "go_ToUpper ''call_id'' = ''CALL_ID''"
  "go_ToUpper ''arguments'' = ''ARGUMENTS''" "go_ToUpper ''output'' = ''OUTPUT''"
  by code_simp+

lemma dec_omitted [simp]:
  "dec_members f (omitempty k s @ kvs) x =
    (if s = [] then dec_members f kvs x else case f (go_ToUpper k) (JStr s) x of None \<Rightarrow> None | Some y \<Rightarrow> dec_members f kvs y)"
  "dec_members f (omitnone k r @ kvs) x =
    (case r of None \<Rightarrow> dec_members f kvs x | Some v \<Rightarrow> (case f (go_ToUpper k) v x of None \<Rightarrow> None | Some y \<Rightarrow> dec_members f kvs y))"
  "dec_members f (omitempty k s) x =
    (if s = [] then Some x else f (go_ToUpper k) (JStr s) x)"
  by (simp_all add: omitempty_def omitnone_def split: option.split)

lemma dec_string_JStr [simp]: "dec_string (JStr s) old = Some s"
  by (simp add: dec_string_def)

lemma dec_enc_part: "dec_part (enc_part p) = Some p"
proof -
  have fields: "set_part ''TYPE'' (JStr s) p = Some (p\<lparr>cp_Type := s\<rparr>)" "set_part ''TEXT'' (JStr s) p = Some (p\<lparr>cp_Text := s\<rparr>)"
    "set_part ''IMAGE_URL'' (JStr s) p = Some (p\<lparr>cp_ImageURL := s\<rparr>)" "set_part ''FILENAME'' (JStr s) p = Some (p\<lparr>cp_Filename := s\<rparr>)"
    "set_part ''FILE_DATA'' (JStr s) p = Some (p\<lparr>cp_FileData := s\<rparr>)" "set_part ''FILE_ID'' (JStr s) p = Some (p\<lparr>cp_FileID := s\<rparr>)" for s p
    by (simp_all add: set_part_def)
  show ?thesis
    by (cases p) (simp add: dec_part_def enc_part_def dec_struct_def fields zero_part_def)
qed

lemma or_empty [simp]: "(if s = [] then [] else s) = s" "(case r of None \<Rightarrow> None | Some v \<Rightarrow> Some v) = r"
  by (auto split: option.split)

lemma dec_cache_control: "dec_pointer set_cache_control \<lparr>cc_Type = [], cc_TTL = []\<rparr> (enc_cache_control c) None = Some (Some c)"
  by (cases c) (simp add: dec_pointer_def enc_cache_control_def dec_struct_def set_cache_control_def omitempty_def)

lemma dec_image_source:
  "dec_pointer set_image_source \<lparr>is_Type = [], is_MediaType = [], is_Data = []\<rparr> (enc_image_source i) None = Some (Some i)"
  by (cases i) (simp add: dec_pointer_def enc_image_source_def dec_struct_def set_image_source_def)

text \<open>The members of a block, one after the other.\<close>

lemma dec_block_members:
  "dec_members set_block ((''type'', JStr s) # kvs) b = dec_members set_block kvs (b\<lparr>rb_Type := s\<rparr>)"
  "dec_members set_block ((''text'', JStr s) # kvs) b = dec_members set_block kvs (b\<lparr>rb_Text := s\<rparr>)"
  "dec_members set_block ((''thinking'', JStr s) # kvs) b = dec_members set_block kvs (b\<lparr>rb_Thinking := s\<rparr>)"
  "rb_Signature b = [] \<Longrightarrow> dec_members set_block (omitempty ''signature'' s @ kvs) b = dec_members set_block kvs (b\<lparr>rb_Signature := s\<rparr>)"
  "rb_ID b = [] \<Longrightarrow> dec_members set_block (omitempty ''id'' s @ kvs) b = dec_members set_block kvs (b\<lparr>rb_ID := s\<rparr>)"
  "rb_Name b = [] \<Longrightarrow> dec_members set_block (omitempty ''name'' s @ kvs) b = dec_members set_block kvs (b\<lparr>rb_Name := s\<rparr>)"
  "rb_ToolUseID b = [] \<Longrightarrow> dec_members set_block (omitempty ''tool_use_id'' s @ kvs) b = dec_members set_block kvs (b\<lparr>rb_ToolUseID := s\<rparr>)"
  "rb_Text b = [] \<Longrightarrow> dec_members set_block (omitempty ''text'' s @ kvs) b = dec_members set_block kvs (b\<lparr>rb_Text := s\<rparr>)"
  "rb_Thinking b = [] \<Longrightarrow> dec_members set_block (omitempty ''thinking'' s @ kvs) b = dec_members set_block kvs (b\<lparr>rb_Thinking := s\<rparr>)"
  "rb_CacheControl b = None \<Longrightarrow> dec_members set_block (omitnone ''cache_control'' (map_option enc_cache_control c) @ kvs) b =
    dec_members set_block kvs (b\<lparr>rb_CacheControl := c\<rparr>)"
  "rb_Source b = None \<Longrightarrow> dec_members set_block (omitnone ''source'' (map_option enc_image_source i) @ kvs) b =
    dec_members set_block kvs (b\<lparr>rb_Source := i\<rparr>)"
  "rb_Input b = None \<Longrightarrow> dec_members set_block (omitnone ''input'' r @ kvs) b = dec_members set_block kvs (b\<lparr>rb_Input := r\<rparr>)"
  "rb_Content b = None \<Longrightarrow> dec_members set_block (omitnone ''content'' r @ kvs) b = dec_members set_block kvs (b\<lparr>rb_Content := r\<rparr>)"
  "\<not> rb_IsError b \<Longrightarrow> dec_members set_block (if e then [(''is_error'', JBool True)] else []) b = Some (b\<lparr>rb_IsError := e\<rparr>)"
  by (cases b; simp add: set_block_def dec_cache_control dec_image_source dec_bool_def split: option.split)+

lemma dec_enc_block: "dec_block (enc_block b) = Some b"
  by (cases b; cases "rb_Type b = ''text''"; cases "rb_Type b = ''thinking''")
    (simp_all add: dec_block_def enc_block_def dec_struct_def no_block_def dec_block_members
      del: dec_members.simps(2) dec_omitted split del: if_split)

text \<open>Items that the converters build have no raw output.\<close>

lemma dec_item_members:
  "ri_Type i = [] \<Longrightarrow> dec_members set_item (omitempty ''type'' s @ kvs) i = dec_members set_item kvs (i\<lparr>ri_Type := s\<rparr>)"
  "ri_Role i = [] \<Longrightarrow> dec_members set_item (omitempty ''role'' s @ kvs) i = dec_members set_item kvs (i\<lparr>ri_Role := s\<rparr>)"
  "ri_EncryptedContent i = [] \<Longrightarrow> dec_members set_item (omitempty ''encrypted_content'' s @ kvs) i = dec_members set_item kvs (i\<lparr>ri_EncryptedContent := s\<rparr>)"
  "ri_CallID i = [] \<Longrightarrow> dec_members set_item (omitempty ''call_id'' s @ kvs) i = dec_members set_item kvs (i\<lparr>ri_CallID := s\<rparr>)"
  "ri_Name i = [] \<Longrightarrow> dec_members set_item (omitempty ''name'' s @ kvs) i = dec_members set_item kvs (i\<lparr>ri_Name := s\<rparr>)"
  "ri_Arguments i = [] \<Longrightarrow> dec_members set_item (omitempty ''arguments'' s @ kvs) i = dec_members set_item kvs (i\<lparr>ri_Arguments := s\<rparr>)"
  "ri_ID i = [] \<Longrightarrow> dec_members set_item (omitempty ''id'' s @ kvs) i = dec_members set_item kvs (i\<lparr>ri_ID := s\<rparr>)"
  "ri_Content i = None \<Longrightarrow> dec_members set_item (omitnone ''content'' r @ kvs) i = dec_members set_item kvs (i\<lparr>ri_Content := r\<rparr>)"
  "ri_outputRaw i = None \<Longrightarrow> dec_members set_item (omitempty ''output'' s) i = Some (i\<lparr>ri_outputRaw := if s = [] then None else Some (JStr s)\<rparr>)"
  by (cases i; simp add: set_item_def split: option.split)+

lemma dec_enc_item: "ri_outputRaw i = None \<Longrightarrow> dec_item jt (enc_item i) = Some i"
  by (cases i) (simp add: dec_item_def enc_item_def dec_struct_def no_item_def dec_item_members finish_output_def
      del: dec_members.simps(2) dec_omitted)

interpretation part: json_struct enc_part dec_part
  by unfold_locales (rule dec_enc_part)

interpretation block: json_struct enc_block dec_block
  by unfold_locales (rule dec_enc_block)

lemma dec_enc_items:
  "\<forall>i\<in>set is. ri_outputRaw i = None \<Longrightarrow> raw_list (dec_item jt) (Some (marshal_appended enc_item is)) = Some is"
proof (induction "is")
  case (Cons i "is")
  then show ?case by (cases "is") (auto simp: raw_list_def marshal_appended_def dec_list_def dec_enc_item)
qed (simp add: raw_list_def marshal_appended_def dec_list_def)

end
