(* ===== verification/Responses_Request.thy ===== *)
theory Responses_Request
  imports Request_Types
begin

section \<open>Responses requests to Anthropic requests: pkg/apicompat/responses\_to\_anthropic\_request.go\<close>

text \<open>
  Each function in the order of the file's use; \<open>jt\<close> is the syntax of JSON text. A slice of blocks is
  \<open>None\<close> when it is nil, because an appended nil slice is encoded as \<open>null\<close>.
\<close>

subsection \<open>Contents\<close>

definition text_block :: "string \<Rightarrow> RequestBlock" where
  "text_block t = no_block\<lparr>rb_Type := ''text'', rb_Text := t\<rparr>"

definition image_block :: "AnthropicImageSource \<Rightarrow> RequestBlock" where
  "image_block i = no_block\<lparr>rb_Type := ''image'', rb_Source := Some i\<rparr>"

definition defaultThinkingBudget :: "string \<Rightarrow> int" where
  "defaultThinkingBudget effort =
     (if effort = ''low'' then 1024 else if effort = ''medium'' then 4096 else if effort = ''high'' then 10240
      else if effort = ''max'' then 32768 else 10240)"

definition mapResponsesEffortToAnthropic :: "string \<Rightarrow> string" where
  "mapResponsesEffortToAnthropic effort = (if effort = ''xhigh'' then ''max'' else effort)"

definition fromResponsesCallIDToAnthropic :: "string \<Rightarrow> string" where
  "fromResponsesCallIDToAnthropic cid =
     (let plain = (if \<not> go_HasPrefix cid ''toolu_'' \<and> \<not> go_HasPrefix cid ''call_'' then ''toolu_'' @ cid else cid)
      in case go_CutPrefix cid ''fc_'' of
           Some after \<Rightarrow> if go_HasPrefix after ''toolu_'' \<or> go_HasPrefix after ''call_'' then after else plain
         | None \<Rightarrow> plain)"

definition dataURIToAnthropicImageSource :: "string \<Rightarrow> AnthropicImageSource option" where
  "dataURIToAnthropicImageSource uri =
     (case go_CutPrefix uri ''data:'' of
        None \<Rightarrow> None
      | Some rest \<Rightarrow>
          (case split_at CHR '';'' rest of
             None \<Rightarrow> None
           | Some (mediaType, rest2) \<Rightarrow>
               (case go_CutPrefix rest2 ''base64,'' of
                  None \<Rightarrow> None
                | Some dat \<Rightarrow> Some \<lparr>is_Type = ''base64'', is_MediaType = mediaType, is_Data = dat\<rparr>)))"

definition extractTextFromContent :: "raw \<Rightarrow> string" where
  "extractTextFromContent r =
     (if r = None then []
      else case raw_string r of
        Some s \<Rightarrow> s
      | None \<Rightarrow>
          (case raw_list dec_part r of
             None \<Rightarrow> []
           | Some parts \<Rightarrow>
               go_Join (map cp_Text (filter (\<lambda>p. cp_Type p \<in> {''input_text'', ''output_text'', ''text''} \<and> cp_Text p \<noteq> []) parts))
                 [CHR 0x0A, CHR 0x0A]))"

text \<open>The blocks of the parts whose type is in \<open>texts\<close>, or an image where images are allowed.\<close>

fun part_blocks :: "string set \<Rightarrow> bool \<Rightarrow> ResponsesContentPart list \<Rightarrow> RequestBlock list" where
  "part_blocks texts images [] = []"
| "part_blocks texts images (p # ps) =
     (if cp_Type p \<in> texts then (if cp_Text p \<noteq> [] then [text_block (cp_Text p)] else [])
      else if images \<and> cp_Type p = ''input_image'' then
        (case dataURIToAnthropicImageSource (cp_ImageURL p) of None \<Rightarrow> [] | Some i \<Rightarrow> [image_block i])
      else []) @ part_blocks texts images ps"

definition convertResponsesUserToAnthropicContent :: "raw \<Rightarrow> raw" where
  "convertResponsesUserToAnthropicContent r =
     (if r = None then Some (JStr [])
      else case raw_string r of
        Some s \<Rightarrow> Some (JStr s)
      | None \<Rightarrow>
          (case raw_list dec_part r of
             None \<Rightarrow> r
           | Some parts \<Rightarrow>
               let blocks = part_blocks {''input_text'', ''text''} True parts
               in Some (if blocks = [] then JStr [] else JArr (map enc_block blocks))))"

definition convertResponsesAssistantToAnthropicContent :: "raw \<Rightarrow> raw" where
  "convertResponsesAssistantToAnthropicContent r =
     (if r = None then Some (JArr [enc_block (text_block [])])
      else case raw_string r of
        Some s \<Rightarrow> Some (JArr [enc_block (text_block s)])
      | None \<Rightarrow>
          (case raw_list dec_part r of
             None \<Rightarrow> r
           | Some parts \<Rightarrow>
               let blocks = part_blocks {''output_text'', ''text''} False parts
               in Some (JArr (map enc_block (if blocks = [] then [text_block []] else blocks)))))"

definition parseContentBlocks :: "raw \<Rightarrow> RequestBlock list option" where
  "parseContentBlocks r =
     (case raw_list dec_block r of
        Some blocks \<Rightarrow> if r = Some JNull then None else Some blocks
      | None \<Rightarrow> map_option (\<lambda>s. [text_block s]) (raw_string r))"

definition blocks_of :: "raw \<Rightarrow> RequestBlock list" where
  "blocks_of r = (case parseContentBlocks r of None \<Rightarrow> [] | Some blocks \<Rightarrow> blocks)"

definition anthropicContentIsEmpty :: "raw \<Rightarrow> bool" where
  "anthropicContentIsEmpty content \<longleftrightarrow> content \<in> {None, Some JNull, Some (JStr []), Some (JArr [])}"

definition anthropicContentIsOnlyBlankText :: "raw \<Rightarrow> bool" where
  "anthropicContentIsOnlyBlankText content \<longleftrightarrow>
     blocks_of content \<noteq> [] \<and> list_all (\<lambda>b. rb_Type b = ''text'' \<and> go_TrimSpace (rb_Text b) = []) (blocks_of content)"

definition responsesFunctionOutputToAnthropicContent :: "ResponsesInputItem \<Rightarrow> json" where
  "responsesFunctionOutputToAnthropicContent i =
     (if ri_outputRaw i = None then JStr (if ri_Output i = [] then ''(empty)'' else ri_Output i)
      else case raw_list dec_part (ri_outputRaw i) of
        None \<Rightarrow> JStr (ri_Output i)
      | Some parts \<Rightarrow>
          let blocks = part_blocks {''input_text'', ''output_text'', ''text''} True parts
          in if blocks \<noteq> [] then JArr (map enc_block blocks)
             else if parts = [] then JStr ''(empty)'' else JStr (ri_Output i))"

subsection \<open>Items\<close>

definition anthropicMessageFromBlocks :: "string \<Rightarrow> RequestBlock list \<Rightarrow> AnthropicMessage" where
  "anthropicMessageFromBlocks role blocks = \<lparr>am_Role = role, am_Content = Some (JArr (map enc_block blocks))\<rparr>"

text \<open>
  The message of a function call. Arguments that are not JSON make \<open>json.Marshal\<close> fail, and the code
  ignores the error: the message has no content.
\<close>

definition function_call_message :: "json_text \<Rightarrow> ResponsesInputItem \<Rightarrow> AnthropicMessage" where
  "function_call_message jt i =
     (let input = (if ri_Arguments i = [] then Some (JObj []) else jt_value jt (ri_Arguments i))
      in case input of
           None \<Rightarrow> \<lparr>am_Role = ''assistant'', am_Content = None\<rparr>
         | Some v \<Rightarrow> anthropicMessageFromBlocks ''assistant''
             [no_block\<lparr>rb_Type := ''tool_use'', rb_ID := fromResponsesCallIDToAnthropic (ri_CallID i), rb_Name := ri_Name i, rb_Input := Some v\<rparr>])"

definition function_output_message :: "ResponsesInputItem \<Rightarrow> AnthropicMessage" where
  "function_output_message i = anthropicMessageFromBlocks ''user''
     [no_block\<lparr>rb_Type := ''tool_result'', rb_ToolUseID := fromResponsesCallIDToAnthropic (ri_CallID i),
        rb_Content := Some (responsesFunctionOutputToAnthropicContent i)\<rparr>]"

text \<open>One case of the loop: what an item adds to the system texts and to the messages.\<close>

definition convert_item :: "json_text \<Rightarrow> ResponsesInputItem \<Rightarrow> string list \<times> AnthropicMessage list" where
  "convert_item jt i =
     (if ri_Role i = ''system'' \<or> ri_Role i = ''developer'' then
        (let t = extractTextFromContent (ri_Content i) in (if t \<noteq> [] then [t] else [], []))
      else if ri_Type i = ''function_call'' then ([], [function_call_message jt i])
      else if ri_Type i = ''function_call_output'' then ([], [function_output_message i])
      else if ri_Type i = ''reasoning'' then ([], [])
      else if ri_Role i = ''user'' then
        (let c = convertResponsesUserToAnthropicContent (ri_Content i)
         in ([], if anthropicContentIsEmpty c then [] else [\<lparr>am_Role = ''user'', am_Content = c\<rparr>]))
      else if ri_Role i = ''assistant'' then
        (let c = convertResponsesAssistantToAnthropicContent (ri_Content i)
         in ([], if anthropicContentIsEmpty c \<or> anthropicContentIsOnlyBlankText c then [] else [\<lparr>am_Role = ''assistant'', am_Content = c\<rparr>]))
      else if ri_Content i = None then ([], [])
      else (let c = convertResponsesUserToAnthropicContent (ri_Content i)
            in ([], if anthropicContentIsEmpty c then [] else [\<lparr>am_Role = ''user'', am_Content = c\<rparr>])))"

subsection \<open>Turns\<close>

text \<open>\<open>append\<close> on slices of blocks, and the encoding of the result.\<close>

definition merged_content :: "raw \<Rightarrow> raw \<Rightarrow> raw" where
  "merged_content c d =
     (let combined = (if blocks_of d = [] then parseContentBlocks c else Some (blocks_of c @ blocks_of d))
      in Some (case combined of None \<Rightarrow> JNull | Some blocks \<Rightarrow> JArr (map enc_block blocks)))"

definition merge_message :: "AnthropicMessage list \<Rightarrow> AnthropicMessage \<Rightarrow> AnthropicMessage list" where
  "merge_message merged m =
     (if merged = [] \<or> am_Role (last merged) \<noteq> am_Role m then merged @ [m]
      else butlast merged @ [(last merged)\<lparr>am_Content := merged_content (am_Content (last merged)) (am_Content m)\<rparr>])"

definition mergeConsecutiveMessages :: "AnthropicMessage list \<Rightarrow> AnthropicMessage list" where
  "mergeConsecutiveMessages messages = (if length messages \<le> 1 then messages else foldl merge_message [] messages)"

definition result_index :: "AnthropicMessage list \<Rightarrow> string \<Rightarrow> RequestBlock option" where
  "result_index messages = map_of (rev (map (\<lambda>b. (rb_ToolUseID b, b))
     (filter (\<lambda>b. rb_Type b = ''tool_result'' \<and> rb_ToolUseID b \<noteq> [])
       (concat (map (\<lambda>m. blocks_of (am_Content m)) (filter (\<lambda>m. am_Role m = ''user'') messages))))))"

definition repair_message :: "(string \<Rightarrow> RequestBlock option) \<Rightarrow> AnthropicMessage \<Rightarrow> AnthropicMessage list" where
  "repair_message results m =
     (let blocks = blocks_of (am_Content m)
      in if am_Role m = ''assistant'' then
           (let toolUses = filter (\<lambda>b. rb_Type b = ''tool_use'') blocks;
                others = filter (\<lambda>b. rb_Type b \<noteq> ''tool_use'') blocks;
                kept = filter (\<lambda>b. results (rb_ID b) \<noteq> None) toolUses
            in if toolUses = [] then [m]
               else if kept = [] then (if others \<noteq> [] then [anthropicMessageFromBlocks ''assistant'' others] else [])
               else [anthropicMessageFromBlocks ''assistant'' (others @ kept),
                     anthropicMessageFromBlocks ''user'' (map (\<lambda>b. the (results (rb_ID b))) kept)])
         else if am_Role m = ''user'' then
           (let nonResult = filter (\<lambda>b. rb_Type b \<noteq> ''tool_result'') blocks
            in if nonResult = blocks then [m]
               else if nonResult \<noteq> [] then [anthropicMessageFromBlocks ''user'' nonResult] else [])
         else [m])"

definition normalizeAnthropicToolPairing :: "AnthropicMessage list \<Rightarrow> AnthropicMessage list" where
  "normalizeAnthropicToolPairing messages = concat (map (repair_message (result_index messages)) messages)"

definition joined_system :: "string list \<Rightarrow> raw" where
  "joined_system parts = (if parts = [] then None else Some (JStr (go_Join parts [CHR 0x0A, CHR 0x0A])))"

definition convertResponsesInputToAnthropic :: "json_text \<Rightarrow> string \<Rightarrow> raw \<Rightarrow> (raw \<times> AnthropicMessage list) option" where
  "convertResponsesInputToAnthropic jt instructions input =
     (let first = (if go_TrimSpace instructions \<noteq> [] then [go_TrimSpace instructions] else [])
      in case raw_string input of
           Some s \<Rightarrow> Some (joined_system first, [\<lparr>am_Role = ''user'', am_Content = Some (JStr s)\<rparr>])
         | None \<Rightarrow>
             (case raw_list (dec_item jt) input of
                None \<Rightarrow> None
              | Some items \<Rightarrow>
                  let messages = concat (map (\<lambda>i. snd (convert_item jt i)) items)
                  in Some (joined_system (first @ concat (map (\<lambda>i. fst (convert_item jt i)) items)),
                       mergeConsecutiveMessages (normalizeAnthropicToolPairing (mergeConsecutiveMessages messages)))))"

subsection \<open>The request\<close>

definition normalizeAnthropicInputSchema :: "raw \<Rightarrow> raw" where
  "normalizeAnthropicInputSchema schema =
     (let empty_object = Some (JObj [(''type'', JStr ''object''), (''properties'', JObj [])])
      in case schema of
           None \<Rightarrow> empty_object
         | Some v \<Rightarrow>
             if v = JNull then empty_object
             else case raw_object v of
               None \<Rightarrow> empty_object
             | Some m \<Rightarrow>
                 (case map_of m ''type'' of
                    Some t \<Rightarrow> if t \<noteq> JNull \<and> t \<noteq> JStr ''object'' then empty_object
                      else Some (marshal_map (let m1 = AList.update ''type'' (JStr ''object'') m
                        in if map_of m1 ''properties'' = None then m1 @ [(''properties'', JObj [])] else m1))
                  | None \<Rightarrow> Some (marshal_map (let m1 = AList.update ''type'' (JStr ''object'') m
                        in if map_of m1 ''properties'' = None then m1 @ [(''properties'', JObj [])] else m1))))"

definition convertResponsesToAnthropicTools :: "ResponsesTool list \<Rightarrow> AnthropicTool list" where
  "convertResponsesToAnthropicTools =
     map (\<lambda>t. if rt_Type t \<in> {''web_search'', ''google_search'', ''web_search_20250305''} then
           no_anthropic_tool\<lparr>an_Type := ''web_search_20250305'', an_Name := ''web_search''\<rparr>
         else if rt_Type t \<in> {''function'', ''custom''} then
           no_anthropic_tool\<lparr>an_Name := rt_Name t, an_Description := rt_Description t,
             an_InputSchema := normalizeAnthropicInputSchema (rt_Parameters t)\<rparr>
         else no_anthropic_tool\<lparr>an_Type := rt_Type t, an_Name := rt_Name t, an_Description := rt_Description t,
             an_InputSchema := normalizeAnthropicInputSchema (rt_Parameters t)\<rparr>)"

text \<open>The anonymous struct of the tool choice: type, name, name of the nested function.\<close>

definition set_function_name :: "string \<Rightarrow> json \<Rightarrow> string \<Rightarrow> string option" where
  "set_function_name k v name = (if k = ''NAME'' then dec_string v name else Some name)"

definition set_function_choice :: "string \<Rightarrow> json \<Rightarrow> string \<times> string \<times> string \<Rightarrow> (string \<times> string \<times> string) option" where
  "set_function_choice k v tc =
     (case tc of (typ, name, fname) \<Rightarrow>
        if k = ''TYPE'' then map_option (\<lambda>s. (s, name, fname)) (dec_string v typ)
        else if k = ''NAME'' then map_option (\<lambda>s. (typ, s, fname)) (dec_string v name)
        else if k = ''FUNCTION'' then map_option (\<lambda>s. (typ, name, s)) (dec_struct set_function_name fname v)
        else Some tc)"

definition convertResponsesToAnthropicToolChoice :: "json \<Rightarrow> json" where
  "convertResponsesToAnthropicToolChoice v =
     (case raw_string (Some v) of
        Some s \<Rightarrow>
          if s = ''auto'' then JObj [(''type'', JStr ''auto'')]
          else if s = ''required'' then JObj [(''type'', JStr ''any'')]
          else if s = ''none'' then JObj [(''type'', JStr ''none'')]
          else v
      | None \<Rightarrow>
          (case dec_struct set_function_choice ([], [], []) v of
             None \<Rightarrow> v
           | Some (typ, name, fname) \<Rightarrow>
               if typ \<noteq> ''function'' then v
               else let n = (if go_TrimSpace name = [] then go_TrimSpace fname else go_TrimSpace name)
                 in if n = [] then v else marshal_map [(''type'', JStr ''tool''), (''name'', JStr n)]))"

definition max_tokens_of :: "int option \<Rightarrow> int" where
  "max_tokens_of n = (case n of Some v \<Rightarrow> if v > 0 then v else 8192 | None \<Rightarrow> 8192)"

definition ResponsesToAnthropicRequest :: "json_text \<Rightarrow> ResponsesRequest \<Rightarrow> AnthropicRequest option" where
  "ResponsesToAnthropicRequest jt req =
     (case convertResponsesInputToAnthropic jt (rq_Instructions req) (rq_Input req) of
        None \<Rightarrow> None
      | Some (system, messages) \<Rightarrow>
          let effort = (case rq_Reasoning req of
                None \<Rightarrow> None
              | Some r \<Rightarrow> if rg_Effort r = [] then None else Some (mapResponsesEffortToAnthropic (rg_Effort r)))
          in Some \<lparr>aq_Model = rq_Model req, aq_MaxTokens = max_tokens_of (rq_MaxOutputTokens req), aq_System = system,
               aq_Messages = messages, aq_Tools = convertResponsesToAnthropicTools (rq_Tools req), aq_Stream = rq_Stream req,
               aq_Temperature = rq_Temperature req, aq_TopP = rq_TopP req, aq_StopSeqs = [],
               aq_Thinking = (case effort of None \<Rightarrow> None
                 | Some e \<Rightarrow> if e = ''low'' then None else Some \<lparr>at_Type = ''enabled'', at_BudgetTokens = defaultThinkingBudget e\<rparr>),
               aq_ToolChoice = map_option convertResponsesToAnthropicToolChoice (rq_ToolChoice req),
               aq_Metadata = None, aq_OutputConfig = effort\<rparr>)"

end
