(* ===== verification/Anthropic_Request.thy ===== *)
theory Anthropic_Request
  imports Request_Types
begin

section \<open>Anthropic requests to Responses requests: pkg/apicompat/anthropic\_to\_responses.go\<close>

text \<open>
  Each function in the order of the file. An error return is \<open>None\<close>; \<open>jt\<close> is the syntax of JSON text, which
  only the arguments of a tool call need.
\<close>

definition input_text_part :: "string \<Rightarrow> ResponsesContentPart" where
  "input_text_part t = zero_part\<lparr>cp_Type := ''input_text'', cp_Text := t\<rparr>"

definition input_image_part :: "string \<Rightarrow> ResponsesContentPart" where
  "input_image_part uri = zero_part\<lparr>cp_Type := ''input_image'', cp_ImageURL := uri\<rparr>"

text \<open>A message item with parts, as the converters build it.\<close>

definition message_parts_item :: "string \<Rightarrow> ResponsesContentPart list \<Rightarrow> ResponsesInputItem" where
  "message_parts_item role parts =
     no_item\<lparr>ri_Type := ''message'', ri_Role := role, ri_Content := Some (JArr (map enc_part parts))\<rparr>"

definition isAnthropicBillingHeaderText :: "string \<Rightarrow> bool" where
  "isAnthropicBillingHeaderText t = go_HasPrefix t ''x-anthropic-billing-header: ''"

definition parseAnthropicSystemContentParts :: "raw \<Rightarrow> ResponsesContentPart list option" where
  "parseAnthropicSystemContentParts r =
     (case raw_string r of
        Some s \<Rightarrow> Some (if isAnthropicBillingHeaderText s \<or> s = [] then [] else [input_text_part s])
      | None \<Rightarrow>
          (case raw_list dec_block r of
             None \<Rightarrow> None
           | Some blocks \<Rightarrow>
               Some (map (\<lambda>b. input_text_part (rb_Text b))
                 (filter (\<lambda>b. rb_Type b = ''text'' \<and> rb_Text b \<noteq> [] \<and> \<not> isAnthropicBillingHeaderText (rb_Text b)) blocks))))"

definition anthropicImageToDataURI :: "AnthropicImageSource option \<Rightarrow> string" where
  "anthropicImageToDataURI src =
     (case src of
        None \<Rightarrow> []
      | Some i \<Rightarrow>
          if is_Data i = [] then []
          else ''data:'' @ (if is_MediaType i = [] then ''image/png'' else is_MediaType i) @ '';base64,'' @ is_Data i)"

definition image_parts :: "RequestBlock list \<Rightarrow> ResponsesContentPart list" where
  "image_parts blocks =
     map input_image_part (filter (\<lambda>u. u \<noteq> [])
       (map (\<lambda>b. anthropicImageToDataURI (rb_Source b)) (filter (\<lambda>b. rb_Type b = ''image'') blocks)))"

definition block_texts :: "RequestBlock list \<Rightarrow> string list" where
  "block_texts blocks = map rb_Text (filter (\<lambda>b. rb_Type b = ''text'' \<and> rb_Text b \<noteq> []) blocks)"

definition convertToolResultOutput :: "RequestBlock \<Rightarrow> string \<times> ResponsesContentPart list" where
  "convertToolResultOutput b =
     (if rb_Content b = None then (''(empty)'', [])
      else case raw_string (rb_Content b) of
        Some s \<Rightarrow> (if s = [] then ''(empty)'' else s, [])
      | None \<Rightarrow>
          (case raw_list dec_block (rb_Content b) of
             None \<Rightarrow> (''(empty)'', [])
           | Some inner \<Rightarrow>
               let t = go_Join (block_texts inner) [CHR 0x0A, CHR 0x0A]
               in (if t = [] then ''(empty)'' else t, image_parts inner)))"

text \<open>The parts of a user message: texts and images, in their order.\<close>

fun user_parts :: "RequestBlock list \<Rightarrow> ResponsesContentPart list" where
  "user_parts [] = []"
| "user_parts (b # bs) =
     (if rb_Type b = ''text'' then (if rb_Text b \<noteq> [] then [input_text_part (rb_Text b)] else [])
      else if rb_Type b = ''image'' then
        (let uri = anthropicImageToDataURI (rb_Source b) in if uri \<noteq> [] then [input_image_part uri] else [])
      else []) @ user_parts bs"

definition tool_results :: "RequestBlock list \<Rightarrow> RequestBlock list" where
  "tool_results = filter (\<lambda>b. rb_Type b = ''tool_result'')"

definition anthropicUserToResponses :: "raw \<Rightarrow> ResponsesInputItem list option" where
  "anthropicUserToResponses r =
     (case raw_string r of
        Some s \<Rightarrow> Some [message_parts_item ''user'' [input_text_part s]]
      | None \<Rightarrow>
          (case raw_list dec_block r of
             None \<Rightarrow> None
           | Some blocks \<Rightarrow>
               let outputs = map (\<lambda>b. no_item\<lparr>ri_Type := ''function_call_output'', ri_CallID := toResponsesCallID (rb_ToolUseID b),
                     ri_Output := fst (convertToolResultOutput b)\<rparr>) (tool_results blocks);
                   parts = user_parts blocks @ concat (map (\<lambda>b. snd (convertToolResultOutput b)) (tool_results blocks))
               in Some (outputs @ (if parts \<noteq> [] then [message_parts_item ''user'' parts] else []))))"

text \<open>\<open>extractAnthropicTextFromBlocks\<close>.\<close>

definition extractAnthropicTextFromBlocks :: "RequestBlock list \<Rightarrow> string" where
  "extractAnthropicTextFromBlocks blocks = go_Join (block_texts blocks) [CHR 0x0A, CHR 0x0A]"

definition reasoning_items :: "RequestBlock list \<Rightarrow> ResponsesInputItem list" where
  "reasoning_items blocks =
     map (\<lambda>sig. no_item\<lparr>ri_Type := ''reasoning'', ri_EncryptedContent := sig\<rparr>)
       (filter (\<lambda>sig. sig \<noteq> [] \<and> \<not> go_HasPrefix sig ''gAAAA'')
         (map (\<lambda>b. go_TrimSpace (rb_Signature b)) (filter (\<lambda>b. rb_Type b = ''thinking'') blocks)))"

definition tool_use_args :: "json_text \<Rightarrow> RequestBlock \<Rightarrow> string" where
  "tool_use_args jt b = (case rb_Input b of None \<Rightarrow> ''{}'' | Some v \<Rightarrow> jt_text jt v)"

definition function_call_items :: "json_text \<Rightarrow> RequestBlock list \<Rightarrow> ResponsesInputItem list" where
  "function_call_items jt blocks =
     map (\<lambda>b. no_item\<lparr>ri_Type := ''function_call'', ri_CallID := toResponsesCallID (rb_ID b), ri_Name := rb_Name b,
         ri_Arguments := tool_use_args jt b\<rparr>) (filter (\<lambda>b. rb_Type b = ''tool_use'') blocks)"

definition anthropicAssistantToResponses :: "json_text \<Rightarrow> raw \<Rightarrow> ResponsesInputItem list option" where
  "anthropicAssistantToResponses jt r =
     (case raw_string r of
        Some s \<Rightarrow> Some [message_parts_item ''assistant'' [output_text_part s]]
      | None \<Rightarrow>
          (case raw_list dec_block r of
             None \<Rightarrow> None
           | Some blocks \<Rightarrow>
               let t = extractAnthropicTextFromBlocks blocks
               in Some (reasoning_items blocks @
                    (if t \<noteq> [] then [message_parts_item ''assistant'' [output_text_part t]] else []) @
                    function_call_items jt blocks)))"

definition anthropicMsgToResponsesItems :: "json_text \<Rightarrow> AnthropicMessage \<Rightarrow> ResponsesInputItem list option" where
  "anthropicMsgToResponsesItems jt m =
     (if am_Role m = ''user'' then anthropicUserToResponses (am_Content m)
      else if am_Role m = ''assistant'' then anthropicAssistantToResponses jt (am_Content m)
      else anthropicUserToResponses (am_Content m))"

text \<open>The items of all messages; the first error ends the conversion.\<close>

fun message_items :: "('m \<Rightarrow> ResponsesInputItem list option) \<Rightarrow> 'm list \<Rightarrow> ResponsesInputItem list option" where
  "message_items conv [] = Some []"
| "message_items conv (m # ms) =
     (case conv m of
        None \<Rightarrow> None
      | Some items \<Rightarrow> map_option ((@) items) (message_items conv ms))"

definition system_items :: "raw \<Rightarrow> ResponsesInputItem list option" where
  "system_items system =
     (if system = None then Some []
      else case parseAnthropicSystemContentParts system of
        None \<Rightarrow> None
      | Some parts \<Rightarrow> Some (if parts \<noteq> [] then [message_parts_item ''developer'' parts] else []))"

definition convertAnthropicToResponsesInput :: "json_text \<Rightarrow> raw \<Rightarrow> AnthropicMessage list \<Rightarrow> ResponsesInputItem list option" where
  "convertAnthropicToResponsesInput jt system msgs =
     (case system_items system of
        None \<Rightarrow> None
      | Some out \<Rightarrow> map_option ((@) out) (message_items (anthropicMsgToResponsesItems jt) msgs))"

definition mapAnthropicEffortToResponses :: "string \<Rightarrow> string" where
  "mapAnthropicEffortToResponses effort = (if effort = ''max'' then ''xhigh'' else effort)"

definition empty_object_schema :: json where
  "empty_object_schema = JObj [(''type'', JStr ''object''), (''properties'', JObj [])]"

definition normalizeToolParameters :: "raw \<Rightarrow> raw" where
  "normalizeToolParameters schema =
     (case schema of
        None \<Rightarrow> Some empty_object_schema
      | Some JNull \<Rightarrow> Some empty_object_schema
      | Some v \<Rightarrow>
          (case raw_object v of
             None \<Rightarrow> schema
           | Some m \<Rightarrow>
               if map_of m ''type'' \<noteq> Some (JStr ''object'') then schema
               else if map_of m ''properties'' \<noteq> None then schema
               else Some (marshal_map (m @ [(''properties'', JObj [])]))))"

definition convertAnthropicToolsToResponses :: "AnthropicTool list \<Rightarrow> ResponsesTool list" where
  "convertAnthropicToolsToResponses =
     map (\<lambda>t. if go_HasPrefix (an_Type t) ''web_search'' then no_tool\<lparr>rt_Type := ''web_search''\<rparr>
       else no_tool\<lparr>rt_Type := ''function'', rt_Name := an_Name t, rt_Description := an_Description t,
         rt_Parameters := normalizeToolParameters (an_InputSchema t), rt_Strict := Some False\<rparr>)"

definition isReasoningModel :: "string \<Rightarrow> bool" where
  "isReasoningModel model = go_HasPrefix model ''gpt-5''"

text \<open>The anonymous struct with \<open>Type\<close> and \<open>Name\<close>, as a pair.\<close>

definition set_tool_choice :: "string \<Rightarrow> json \<Rightarrow> string \<times> string \<Rightarrow> (string \<times> string) option" where
  "set_tool_choice k v tc =
     (if k = ''TYPE'' then map_option (\<lambda>s. (s, snd tc)) (dec_string v (fst tc))
      else if k = ''NAME'' then map_option (\<lambda>s. (fst tc, s)) (dec_string v (snd tc))
      else Some tc)"

definition convertAnthropicToolChoiceToResponses :: "json \<Rightarrow> json option" where
  "convertAnthropicToolChoiceToResponses v =
     (case dec_struct set_tool_choice ([], []) v of
        None \<Rightarrow> None
      | Some (typ, name) \<Rightarrow>
          Some (if typ = ''auto'' then JStr ''auto''
                else if typ = ''any'' then JStr ''required''
                else if typ = ''none'' then JStr ''none''
                else if typ = ''tool'' then marshal_map [(''type'', JStr ''function''), (''name'', JStr name)]
                else v))"

definition clamp_max_output :: "int \<Rightarrow> int option" where
  "clamp_max_output n = (if n > 0 then Some (if n < minMaxOutputTokens then minMaxOutputTokens else n) else None)"

definition AnthropicToResponses :: "json_text \<Rightarrow> AnthropicRequest \<Rightarrow> ResponsesRequest option" where
  "AnthropicToResponses jt req =
     (case convertAnthropicToResponsesInput jt (aq_System req) (aq_Messages req) of
        None \<Rightarrow> None
      | Some input \<Rightarrow>
          let effort = (case aq_OutputConfig req of None \<Rightarrow> ''medium'' | Some e \<Rightarrow> if e = [] then ''medium'' else e);
              choice = (case aq_ToolChoice req of None \<Rightarrow> Some None
                | Some v \<Rightarrow> map_option Some (convertAnthropicToolChoiceToResponses v))
          in case choice of
               None \<Rightarrow> None
             | Some tc \<Rightarrow>
                 Some \<lparr>rq_Model = aq_Model req, rq_Instructions = [], rq_Input = Some (marshal_appended enc_item input),
                   rq_MaxOutputTokens = clamp_max_output (aq_MaxTokens req),
                   rq_Temperature = (if isReasoningModel (aq_Model req) then None else aq_Temperature req),
                   rq_TopP = (if isReasoningModel (aq_Model req) then None else aq_TopP req),
                   rq_Stream = aq_Stream req, rq_Tools = convertAnthropicToolsToResponses (aq_Tools req),
                   rq_Include = [''reasoning.encrypted_content''], rq_Store = Some False, rq_ParallelToolCalls = Some True,
                   rq_Reasoning = Some \<lparr>rg_Effort = mapAnthropicEffortToResponses effort, rg_Summary = ''auto''\<rparr>,
                   rq_Text = Some \<lparr>tx_Format = None, tx_Verbosity = ''medium''\<rparr>, rq_ToolChoice = tc, rq_ServiceTier = []\<rparr>)"

end
