(* ===== verification/Chat_Request.thy ===== *)
theory Chat_Request
  imports Anthropic_Request
begin

section \<open>Chat Completions requests to Responses requests: pkg/apicompat/chatcompletions\_to\_responses.go\<close>

text \<open>
  Each function in the order of the file; shared helpers (\<open>isReasoningModel\<close>, the clamp of the output
  limit, the loop over messages) are those of \<open>Anthropic_Request\<close>.
\<close>

subsection \<open>Contents\<close>

definition set_file :: "string \<Rightarrow> json \<Rightarrow> ChatFile \<Rightarrow> ChatFile option" where
  "set_file k v f =
     (if k = ''FILENAME'' then map_option (\<lambda>s. f\<lparr>cf_Filename := s\<rparr>) (dec_string v (cf_Filename f))
      else if k = ''FILE_DATA'' then map_option (\<lambda>s. f\<lparr>cf_FileData := s\<rparr>) (dec_string v (cf_FileData f))
      else if k = ''FILE_ID'' then map_option (\<lambda>s. f\<lparr>cf_FileID := s\<rparr>) (dec_string v (cf_FileID f))
      else Some f)"

text \<open>An image is its URL; a detail of another type than string makes the decoding fail.\<close>

definition set_image_url :: "string \<Rightarrow> json \<Rightarrow> string \<Rightarrow> string option" where
  "set_image_url k v u =
     (if k = ''URL'' then dec_string v u
      else if k = ''DETAIL'' then map_option (\<lambda>s. u) (dec_string v [])
      else Some u)"

definition set_chat_part :: "string \<Rightarrow> json \<Rightarrow> ChatContentPart \<Rightarrow> ChatContentPart option" where
  "set_chat_part k v p =
     (if k = ''TYPE'' then map_option (\<lambda>s. p\<lparr>pt_Type := s\<rparr>) (dec_string v (pt_Type p))
      else if k = ''TEXT'' then map_option (\<lambda>s. p\<lparr>pt_Text := s\<rparr>) (dec_string v (pt_Text p))
      else if k = ''IMAGE_URL'' then map_option (\<lambda>u. p\<lparr>pt_ImageURL := u\<rparr>) (dec_pointer set_image_url [] v (pt_ImageURL p))
      else if k = ''FILE'' then
        map_option (\<lambda>f. p\<lparr>pt_File := f\<rparr>) (dec_pointer set_file \<lparr>cf_Filename = [], cf_FileData = [], cf_FileID = []\<rparr> v (pt_File p))
      else Some p)"

definition dec_chat_part :: "json \<Rightarrow> ChatContentPart option" where
  "dec_chat_part = dec_struct set_chat_part \<lparr>pt_Type = [], pt_Text = [], pt_ImageURL = None, pt_File = None\<rparr>"

text \<open>\<open>chatMessageContent\<close> is a text or parts.\<close>

datatype chatMessageContent = Content_Text string | Content_Parts "ChatContentPart list"

definition parseChatMessageContent :: "raw \<Rightarrow> chatMessageContent option" where
  "parseChatMessageContent r =
     (if r = None then Some (Content_Text [])
      else case raw_string r of
        Some s \<Rightarrow> Some (Content_Text s)
      | None \<Rightarrow> map_option Content_Parts (raw_list dec_chat_part r))"

definition isEmptyBase64DataURI :: "string \<Rightarrow> bool" where
  "isEmptyBase64DataURI uri =
     (case go_CutPrefix uri ''data:'' of
        None \<Rightarrow> False
      | Some rest \<Rightarrow>
          (case split_at CHR '';'' rest of
             None \<Rightarrow> False
           | Some (mediaType, rest2) \<Rightarrow>
               (case go_CutPrefix rest2 ''base64,'' of None \<Rightarrow> False | Some dat \<Rightarrow> go_TrimSpace dat = [])))"

definition convert_chat_part :: "ChatContentPart \<Rightarrow> ResponsesContentPart list" where
  "convert_chat_part p =
     (if pt_Type p = ''text'' then (if pt_Text p \<noteq> [] then [input_text_part (pt_Text p)] else [])
      else if pt_Type p = ''image_url'' then
        (case pt_ImageURL p of
           None \<Rightarrow> []
         | Some u \<Rightarrow> if u \<noteq> [] \<and> \<not> isEmptyBase64DataURI u then [input_image_part u] else [])
      else if pt_Type p = ''file'' then
        (case pt_File p of
           None \<Rightarrow> []
         | Some f \<Rightarrow>
             if cf_FileData f \<noteq> [] \<or> cf_FileID f \<noteq> [] then
               [zero_part\<lparr>cp_Type := ''input_file'', cp_Filename := cf_Filename f, cp_FileData := cf_FileData f, cp_FileID := cf_FileID f\<rparr>]
             else [])
      else [])"

definition convertChatContentPartsToResponses :: "ChatContentPart list \<Rightarrow> ResponsesContentPart list" where
  "convertChatContentPartsToResponses parts = concat (map convert_chat_part parts)"

definition marshalChatInputContent :: "chatMessageContent \<Rightarrow> json" where
  "marshalChatInputContent content =
     (case content of
        Content_Text s \<Rightarrow> JStr s
      | Content_Parts parts \<Rightarrow>
          let rs = convertChatContentPartsToResponses parts
          in if rs = [] then JStr [] else JArr (map enc_part rs))"

definition flattenChatContentParts :: "ChatContentPart list \<Rightarrow> string" where
  "flattenChatContentParts parts = concat (map pt_Text (filter (\<lambda>p. pt_Type p = ''text'' \<and> pt_Text p \<noteq> []) parts))"

definition parseChatContent :: "raw \<Rightarrow> string option" where
  "parseChatContent r =
     map_option (\<lambda>c. case c of Content_Text s \<Rightarrow> s | Content_Parts parts \<Rightarrow> flattenChatContentParts parts) (parseChatMessageContent r)"

text \<open>A member of a \<open>map[string]any\<close> that is asserted to be a string.\<close>

definition any_string :: "(string \<times> json) list \<Rightarrow> string \<Rightarrow> string" where
  "any_string m k = (case map_of m k of Some (JStr s) \<Rightarrow> s | _ \<Rightarrow> [])"

definition assistant_part_text :: "(string \<times> json) list \<Rightarrow> string" where
  "assistant_part_text m =
     (let typ = any_string m ''type''; t = any_string m ''text''; thinking = any_string m ''thinking''
      in if typ = ''thinking'' \<or> typ = ''reasoning'' then
           (if thinking \<noteq> [] then ''<thinking>'' @ thinking @ ''</thinking>''
            else if t \<noteq> [] then ''<thinking>'' @ t @ ''</thinking>'' else [])
         else t)"

definition parseAssistantContent :: "raw \<Rightarrow> string" where
  "parseAssistantContent r =
     (if r = None then []
      else case raw_string r of
        Some s \<Rightarrow> s
      | None \<Rightarrow> (case raw_list raw_object r of None \<Rightarrow> [] | Some parts \<Rightarrow> concat (map assistant_part_text parts)))"

subsection \<open>Messages\<close>

definition role_item :: "string \<Rightarrow> json \<Rightarrow> ResponsesInputItem" where
  "role_item role content = no_item\<lparr>ri_Role := role, ri_Content := Some content\<rparr>"

text \<open>\<open>chatSystemToResponses\<close> and \<open>chatUserToResponses\<close>.\<close>

definition chat_input_item :: "string \<Rightarrow> ChatRequestMessage \<Rightarrow> ResponsesInputItem list option" where
  "chat_input_item role m =
     map_option (\<lambda>c. [role_item role (marshalChatInputContent c)]) (parseChatMessageContent (qm_Content m))"

definition assistant_text :: "ChatRequestMessage \<Rightarrow> string" where
  "assistant_text m =
     (let reasoning = (if qm_ReasoningContent m \<noteq> [] then ''<thinking>'' @ qm_ReasoningContent m @ ''</thinking>'' else []);
          s = parseAssistantContent (qm_Content m)
      in if s = [] then reasoning else if reasoning \<noteq> [] then reasoning @ [CHR 0x0A] @ s else s)"

definition tool_call_item :: "ChatToolCall \<Rightarrow> ResponsesInputItem" where
  "tool_call_item tc = no_item\<lparr>ri_Type := ''function_call'', ri_CallID := tc_ID tc, ri_Name := fc_Name (tc_Function tc),
     ri_Arguments := (if fc_Arguments (tc_Function tc) = [] then ''{}'' else fc_Arguments (tc_Function tc))\<rparr>"

definition chatAssistantToResponses :: "ChatRequestMessage \<Rightarrow> ResponsesInputItem list" where
  "chatAssistantToResponses m =
     (if assistant_text m \<noteq> [] then [role_item ''assistant'' (JArr [enc_part (output_text_part (assistant_text m))])] else []) @
     map tool_call_item (qm_ToolCalls m)"

text \<open>\<open>chatToolToResponses\<close> and \<open>chatFunctionToResponses\<close>, which differ in the identifier of the call.\<close>

definition chat_output_item :: "string \<Rightarrow> ChatRequestMessage \<Rightarrow> ResponsesInputItem list option" where
  "chat_output_item cid m =
     map_option (\<lambda>output. [no_item\<lparr>ri_Type := ''function_call_output'', ri_CallID := cid,
       ri_Output := (if output = [] then ''(empty)'' else output)\<rparr>]) (parseChatContent (qm_Content m))"

definition chatMessageToResponsesItems :: "ChatRequestMessage \<Rightarrow> ResponsesInputItem list option" where
  "chatMessageToResponsesItems m =
     (if qm_Role m = ''system'' then chat_input_item ''system'' m
      else if qm_Role m = ''user'' then chat_input_item ''user'' m
      else if qm_Role m = ''assistant'' then Some (chatAssistantToResponses m)
      else if qm_Role m = ''tool'' then chat_output_item (qm_ToolCallID m) m
      else if qm_Role m = ''function'' then chat_output_item (qm_Name m) m
      else chat_input_item ''user'' m)"

definition convertChatMessagesToResponsesInput :: "ChatRequestMessage list \<Rightarrow> ResponsesInputItem list option" where
  "convertChatMessagesToResponsesInput = message_items chatMessageToResponsesItems"

subsection \<open>Tools and formats\<close>

definition function_tool :: "ChatFunction \<Rightarrow> ResponsesTool" where
  "function_tool f = no_tool\<lparr>rt_Type := ''function'', rt_Name := fn_Name f, rt_Description := fn_Description f,
     rt_Parameters := fn_Parameters f, rt_Strict := (case fn_Strict f of None \<Rightarrow> Some False | Some b \<Rightarrow> Some b)\<rparr>"

definition convert_chat_tool :: "ChatTool \<Rightarrow> ResponsesTool list" where
  "convert_chat_tool t =
     (let toolType = go_ToLower (go_TrimSpace (ct_Type t))
      in if toolType = ''x_search'' then
           [no_tool\<lparr>rt_Type := ''x_search'', rt_AllowedXHandles := ct_AllowedXHandles t, rt_ExcludedXHandles := ct_ExcludedXHandles t,
              rt_FromDate := ct_FromDate t, rt_ToDate := ct_ToDate t,
              rt_EnableImageUnderstanding := ct_EnableImageUnderstanding t, rt_EnableVideoUnderstanding := ct_EnableVideoUnderstanding t\<rparr>]
         else if toolType = ''web_search'' \<or> toolType = ''code_execution'' then [no_tool\<lparr>rt_Type := toolType\<rparr>]
         else if ct_Type t \<noteq> ''function'' then []
         else (case ct_Function t of None \<Rightarrow> [] | Some f \<Rightarrow> [function_tool f]))"

definition convertChatToolsToResponses :: "ChatTool list \<Rightarrow> ChatFunction list \<Rightarrow> ResponsesTool list" where
  "convertChatToolsToResponses tools functions = concat (map convert_chat_tool tools) @ map function_tool functions"

definition set_name :: "string \<Rightarrow> json \<Rightarrow> string \<Rightarrow> string option" where
  "set_name k v name = (if k = ''NAME'' then dec_string v name else Some name)"

definition convertChatFunctionCallToToolChoice :: "json \<Rightarrow> json option" where
  "convertChatFunctionCallToToolChoice v =
     (case raw_string (Some v) of
        Some s \<Rightarrow> Some (JStr s)
      | None \<Rightarrow> map_option (\<lambda>name. marshal_map [(''type'', JStr ''function''), (''name'', JStr name)]) (dec_struct set_name [] v))"

text \<open>\<open>response_format.go\<close>: \<open>normalizedRawJSON\<close> drops \<open>null\<close>.\<close>

definition normalizedRawJSON :: "raw \<Rightarrow> raw" where
  "normalizedRawJSON r = (if r = Some JNull then None else r)"

definition chatResponseFormatToResponsesTextFormat :: "raw \<Rightarrow> raw" where
  "chatResponseFormatToResponsesTextFormat r =
     (case normalizedRawJSON r of
        None \<Rightarrow> None
      | Some v \<Rightarrow>
          (case raw_object v of
             None \<Rightarrow> Some v
           | Some obj \<Rightarrow>
               if map_of obj ''type'' \<noteq> Some (JStr ''json_schema'') then Some v
               else case normalizedRawJSON (map_of obj ''json_schema'') of
                 None \<Rightarrow> Some v
               | Some schema \<Rightarrow>
                   (case raw_object schema of
                      None \<Rightarrow> Some v
                    | Some m \<Rightarrow> Some (marshal_map (AList.update ''type'' (JStr ''json_schema'') m)))))"

definition ChatCompletionsToResponses :: "ChatCompletionsRequest \<Rightarrow> ResponsesRequest option" where
  "ChatCompletionsToResponses req =
     (case convertChatMessagesToResponsesInput (cq_Messages req) of
        None \<Rightarrow> None
      | Some input \<Rightarrow>
          let maxTokens = (case cq_MaxCompletionTokens req of
                Some n \<Rightarrow> n | None \<Rightarrow> (case cq_MaxTokens req of Some n \<Rightarrow> n | None \<Rightarrow> 0));
              format = chatResponseFormatToResponsesTextFormat (cq_ResponseFormat req);
              choice = (if cq_ToolChoice req \<noteq> None then Some (cq_ToolChoice req)
                else case cq_FunctionCall req of None \<Rightarrow> Some None
                  | Some v \<Rightarrow> map_option Some (convertChatFunctionCallToToolChoice v))
          in case choice of
               None \<Rightarrow> None
             | Some tc \<Rightarrow>
                 Some \<lparr>rq_Model = cq_Model req, rq_Instructions = cq_Instructions req,
                   rq_Input = Some (marshal_appended enc_item input), rq_MaxOutputTokens = clamp_max_output maxTokens,
                   rq_Temperature = (if isReasoningModel (cq_Model req) then None else cq_Temperature req),
                   rq_TopP = (if isReasoningModel (cq_Model req) then None else cq_TopP req),
                   rq_Stream = True, rq_Tools = convertChatToolsToResponses (cq_Tools req) (cq_Functions req),
                   rq_Include = [''reasoning.encrypted_content''], rq_Store = Some False,
                   rq_ParallelToolCalls = cq_ParallelToolCalls req,
                   rq_Reasoning = (if cq_ReasoningEffort req = [] then None
                     else Some \<lparr>rg_Effort = cq_ReasoningEffort req, rg_Summary = ''auto''\<rparr>),
                   rq_Text = map_option (\<lambda>f. \<lparr>tx_Format = Some f, tx_Verbosity = []\<rparr>) format,
                   rq_ToolChoice = tc, rq_ServiceTier = cq_ServiceTier req\<rparr>)"

end
