(* ===== verification/Requests_Correct.thy ===== *)
theory Requests_Correct
  imports Responses_Request Chat_Request
begin

section \<open>Correctness of the request converters\<close>

text \<open>
  What the comments of the converters promise: the turns of a converted request are ones that Anthropic
  accepts, nothing but unanswered calls is lost, and a conversation survives the way to the Responses
  protocol and back.
\<close>

subsection \<open>Turns that Anthropic accepts\<close>

text \<open>
  What the comment of \<open>normalizeAnthropicToolPairing\<close> asks for, as an automaton over the messages: its state
  is the list of tool uses that wait for their results. Results stand at the head of the next user message.
\<close>

definition uses_of :: "AnthropicMessage \<Rightarrow> string list" where
  "uses_of m = map rb_ID (filter (\<lambda>b. rb_Type b = ''tool_use'') (blocks_of (am_Content m)))"

definition results_of :: "AnthropicMessage \<Rightarrow> string list" where
  "results_of m = map rb_ToolUseID (filter (\<lambda>b. rb_Type b = ''tool_result'') (blocks_of (am_Content m)))"

definition results_first :: "AnthropicMessage \<Rightarrow> bool" where
  "results_first m \<longleftrightarrow> list_all (\<lambda>b. rb_Type b \<noteq> ''tool_result'')
     (dropWhile (\<lambda>b. rb_Type b = ''tool_result'') (blocks_of (am_Content m)))"

fun pairing :: "string list \<Rightarrow> AnthropicMessage list \<Rightarrow> string list option" where
  "pairing waiting [] = Some waiting"
| "pairing waiting (m # ms) =
     (if am_Role m = ''assistant'' then (if waiting = [] then pairing (uses_of m) ms else None)
      else if am_Role m = ''user'' then
        (if results_of m = waiting \<and> results_first m then pairing [] ms else None)
      else if waiting = [] then pairing [] ms else None)"

fun alternating :: "AnthropicMessage list \<Rightarrow> bool" where
  "alternating (m # n # ms) \<longleftrightarrow> am_Role m \<noteq> am_Role n \<and> alternating (n # ms)"
| "alternating ms \<longleftrightarrow> True"

definition valid_turns :: "AnthropicMessage list \<Rightarrow> bool" where
  "valid_turns ms \<longleftrightarrow> alternating ms \<and> pairing [] ms = Some []"

lemma pairing_append: "pairing w (xs @ ys) = (case pairing w xs of None \<Rightarrow> None | Some v \<Rightarrow> pairing v ys)"
  by (induction w xs rule: pairing.induct) auto

lemma alternating_snoc: "alternating (xs @ [x, y]) \<longleftrightarrow> alternating (xs @ [x]) \<and> am_Role x \<noteq> am_Role y"
  by (induction xs rule: alternating.induct) auto

lemma blocks_of_array [simp]: "blocks_of (Some (JArr (map enc_block bs))) = bs"
  by (simp add: blocks_of_def parseContentBlocks_def)

lemma blocks_of_null [simp]: "blocks_of (Some JNull) = []" "blocks_of None = []"
  by (simp_all add: blocks_of_def parseContentBlocks_def raw_list_def dec_list_def raw_string_def)

lemma blocks_of_message [simp]:
  "blocks_of (am_Content (anthropicMessageFromBlocks role bs)) = bs" "am_Role (anthropicMessageFromBlocks role bs) = role"
  by (simp_all add: anthropicMessageFromBlocks_def)

lemma blocks_of_merged [simp]: "blocks_of (merged_content c d) = blocks_of c @ blocks_of d"
  using blocks_of_array [of "blocks_of c @ blocks_of d"] blocks_of_array [of "blocks_of c"]
  by (cases "parseContentBlocks c") (auto simp: merged_content_def blocks_of_def [of c] simp del: blocks_of_array)

text \<open>Merging keeps the automaton in step and makes the roles alternate.\<close>

lemma dropWhile_none:
  "list_all (\<lambda>x. \<not> P x) (dropWhile P xs) \<Longrightarrow> list_all (\<lambda>x. \<not> P x) ys \<Longrightarrow> list_all (\<lambda>x. \<not> P x) (dropWhile P (xs @ ys))"
proof (induction xs)
  case Nil
  then show ?case using set_dropWhileD [of _ P ys] by (fastforce simp: list_all_iff)
qed (auto split: if_splits)

lemma results_first_append:
  assumes "results_first m" "results_of n = []"
  shows "results_first (m\<lparr>am_Content := merged_content (am_Content m) (am_Content n)\<rparr>)"
proof -
  have "list_all (\<lambda>b. rb_Type b \<noteq> ''tool_result'') (blocks_of (am_Content n))"
    using assms(2) by (simp add: results_of_def filter_empty_conv list_all_iff)
  with assms(1) show ?thesis
    unfolding results_first_def using dropWhile_none [where P = "\<lambda>b. rb_Type b = ''tool_result''"] by simp
qed

lemma merge_pairing:
  assumes "pairing w [m, n] = Some v" "am_Role m = am_Role n"
  shows "pairing w [m\<lparr>am_Content := merged_content (am_Content m) (am_Content n)\<rparr>] = Some v"
  using assms results_first_append [of m n]
  by (auto simp: uses_of_def results_of_def split: if_splits)

lemma merge_message_pairing:
  assumes "pairing [] (merged @ [m]) = Some v"
  shows "pairing [] (merge_message merged m) = Some v"
proof (cases "merged = [] \<or> am_Role (last merged) \<noteq> am_Role m")
  case False
  then obtain ms l where merged: "merged = ms @ [l]" by (metis append_butlast_last_id)
  obtain w where w: "pairing [] ms = Some w" "pairing w [l, m] = Some v"
    using assms unfolding merged by (auto simp: pairing_append split: option.splits)
  with False merge_pairing [of w l m v] show ?thesis
    by (simp add: merge_message_def merged pairing_append del: pairing.simps)
qed (use assms in \<open>auto simp: merge_message_def\<close>)

lemma merge_message_alternating: "alternating merged \<Longrightarrow> alternating (merge_message merged m)"
proof (cases merged rule: rev_cases)
  case (snoc ms l)
  assume "alternating merged"
  moreover have "alternating (ms @ [l\<lparr>am_Content := c\<rparr>]) = alternating (ms @ [l])" for c
    by (cases ms rule: rev_cases) (auto simp: alternating_snoc)
  ultimately show ?thesis
    using alternating_snoc [of ms l m] by (auto simp: merge_message_def snoc)
qed (simp add: merge_message_def)

lemma merge_valid:
  assumes "pairing [] ms = Some []"
  shows "valid_turns (mergeConsecutiveMessages ms)"
proof -
  have "alternating (foldl merge_message acc ms)" if "alternating acc" for acc
    using that by (induction ms arbitrary: acc) (auto intro: merge_message_alternating)
  moreover have "pairing [] (foldl merge_message acc ms) = Some v" if "pairing [] (acc @ ms) = Some v" for acc v
    using that
  proof (induction ms arbitrary: acc)
    case (Cons m ms)
    then have "pairing [] ((acc @ [m]) @ ms) = Some v" by simp
    then obtain u where "pairing [] (acc @ [m]) = Some u" "pairing u ms = Some v"
      unfolding pairing_append [of "[]" "acc @ [m]"] by (auto split: option.splits)
    then show ?case using Cons.IH [of "merge_message acc m"] merge_message_pairing [of acc m u] by (simp add: pairing_append)
  qed simp
  ultimately show ?thesis
    using assms by (cases ms rule: alternating.cases) (auto simp: valid_turns_def mergeConsecutiveMessages_def)
qed

text \<open>The pairing pass produces answered calls only.\<close>

lemma result_index_block:
  assumes "result_index ms i = Some b"
  shows "rb_ToolUseID b = i" "rb_Type b = ''tool_result''"
proof -
  from map_of_SomeD [OF assms [unfolded result_index_def]]
  show "rb_ToolUseID b = i" "rb_Type b = ''tool_result''" by auto
qed

lemma results_first_none: "results_of m = [] \<Longrightarrow> results_first m"
  by (auto simp: results_of_def results_first_def filter_empty_conv list_all_iff dest: set_dropWhileD)

lemma kept_calls:
  "filter (\<lambda>b. rb_Type b = ''tool_use'') (filter (\<lambda>b. rb_Type b \<noteq> ''tool_use'') bs @ filter P (filter (\<lambda>b. rb_Type b = ''tool_use'') bs)) =
    filter P (filter (\<lambda>b. rb_Type b = ''tool_use'') bs)"
  "filter (\<lambda>b. rb_Type b = ''tool_use'') (filter (\<lambda>b. rb_Type b \<noteq> ''tool_use'') bs) = []"
  by (auto simp: filter_empty_conv intro!: filter_cong)

lemma repair_pairing: "pairing [] (repair_message (result_index ms) m) = Some []"
proof -
  let ?r = "result_index ms"
  have uses: "map (\<lambda>b. rb_ToolUseID (the (?r (rb_ID b)))) (filter (\<lambda>b. ?r (rb_ID b) \<noteq> None) bs) =
      map rb_ID (filter (\<lambda>b. ?r (rb_ID b) \<noteq> None) bs)" for bs
    using result_index_block(1) [of ms] by (induction bs) auto
  have types: "filter (\<lambda>b. rb_Type b = ''tool_result'') (map (\<lambda>b. the (?r (rb_ID b))) (filter (\<lambda>b. ?r (rb_ID b) \<noteq> None) bs)) =
      map (\<lambda>b. the (?r (rb_ID b))) (filter (\<lambda>b. ?r (rb_ID b) \<noteq> None) bs)" for bs
    using result_index_block(2) [of ms] by (induction bs) auto
  consider (assistant) "am_Role m = ''assistant''" | (user) "am_Role m = ''user''"
    | (other) "am_Role m \<noteq> ''assistant''" "am_Role m \<noteq> ''user''" by blast
  then show ?thesis
  proof cases
    case user
    then show ?thesis
      by (auto simp: repair_message_def Let_def results_of_def results_first_none filter_id_conv filter_empty_conv)
  next
    case other
    then show ?thesis by (simp add: repair_message_def)
  next
    case assistant
    let ?uses = "filter (\<lambda>b. rb_Type b = ''tool_use'') (blocks_of (am_Content m))"
    let ?others = "filter (\<lambda>b. rb_Type b \<noteq> ''tool_use'') (blocks_of (am_Content m))"
    let ?kept = "filter (\<lambda>b. ?r (rb_ID b) \<noteq> None) ?uses"
    note kept = kept_calls(1) [of "blocks_of (am_Content m)" "\<lambda>b. ?r (rb_ID b) \<noteq> None"] kept_calls(2) [of "blocks_of (am_Content m)"]
    consider (none) "?uses = []" | (dropped) "?uses \<noteq> []" "?kept = []" | (answered) "?kept \<noteq> []" by fastforce
    then show ?thesis
    proof cases
      case none
      then show ?thesis using assistant by (simp add: repair_message_def Let_def uses_of_def)
    next
      case dropped
      then have "repair_message ?r m = (if ?others \<noteq> [] then [anthropicMessageFromBlocks ''assistant'' ?others] else [])"
        using assistant by (simp add: repair_message_def Let_def)
      then show ?thesis using kept(2) by (simp add: uses_of_def)
    next
      case answered
      then have "?uses \<noteq> []" by (metis filter.simps(1))
      let ?calls = "anthropicMessageFromBlocks ''assistant'' (?others @ ?kept)"
      let ?answers = "anthropicMessageFromBlocks ''user'' (map (\<lambda>b. the (?r (rb_ID b))) ?kept)"
      have repaired: "repair_message ?r m = [?calls, ?answers]"
        using assistant answered \<open>?uses \<noteq> []\<close> unfolding repair_message_def Let_def by (simp only: if_True if_False simp_thms refl)
      have "uses_of ?calls = map rb_ID ?kept" unfolding uses_of_def blocks_of_message kept(1) ..
      moreover have "results_of ?answers = map rb_ID ?kept"
        unfolding results_of_def blocks_of_message types map_map comp_def uses ..
      moreover have "results_first ?answers"
        using types [of ?uses] unfolding results_first_def blocks_of_message filter_id_conv
        by (simp only: dropWhile_eq_Nil_conv [THEN iffD2] list.pred_inject)
      ultimately show ?thesis unfolding repaired by simp
    qed
  qed
qed

lemma normalize_pairing: "pairing [] (normalizeAnthropicToolPairing ms) = Some []"
proof -
  have "pairing [] (concat (map (repair_message (result_index ms)) ns)) = Some []" for ns
    by (induction ns) (auto simp: pairing_append repair_pairing)
  then show ?thesis by (simp add: normalizeAnthropicToolPairing_def)
qed

lemma string_turn_valid: "valid_turns [\<lparr>am_Role = ''user'', am_Content = Some (JStr s)\<rparr>]"
  by (simp add: valid_turns_def results_of_def results_first_def blocks_of_def parseContentBlocks_def raw_list_def dec_list_def text_block_def)

subsection \<open>Nothing else is lost\<close>

text \<open>What was said in the messages, and the tool calls of the assistant.\<close>

definition said :: "AnthropicMessage list \<Rightarrow> (string \<times> RequestBlock) list" where
  "said ms = concat (map (\<lambda>m. map (Pair (am_Role m))
     (filter (\<lambda>b. rb_Type b \<noteq> ''tool_use'' \<and> rb_Type b \<noteq> ''tool_result'') (blocks_of (am_Content m)))) ms)"

definition calls_of :: "AnthropicMessage list \<Rightarrow> RequestBlock list" where
  "calls_of ms = concat (map (\<lambda>m. if am_Role m = ''assistant'' then filter (\<lambda>b. rb_Type b = ''tool_use'') (blocks_of (am_Content m)) else []) ms)"

lemma said_append [simp]: "said (xs @ ys) = said xs @ said ys" "said [] = []"
  by (simp_all add: said_def)

lemma calls_append [simp]: "calls_of (xs @ ys) = calls_of xs @ calls_of ys" "calls_of [] = []"
  by (simp_all add: calls_of_def)






subsection \<open>Conversations that survive the way through the Responses protocol\<close>

text \<open>
  A turn of the assistant is at most one text and then tool calls, a turn of the user tool results and
  then texts and images. These are the blocks that both protocols can say.
\<close>

datatype said_part = Say string | Show string string


fun part_block :: "said_part \<Rightarrow> RequestBlock" where
  "part_block (Say t) = text_block t"
| "part_block (Show media dat) = image_block \<lparr>is_Type = ''base64'', is_MediaType = media, is_Data = dat\<rparr>"

definition use_block :: "string \<times> string \<times> json \<Rightarrow> RequestBlock" where
  "use_block u = no_block\<lparr>rb_Type := ''tool_use'', rb_ID := fst u, rb_Name := fst (snd u), rb_Input := Some (snd (snd u))\<rparr>"

definition result_block :: "string \<times> string \<Rightarrow> RequestBlock" where
  "result_block r = no_block\<lparr>rb_Type := ''tool_result'', rb_ToolUseID := fst r, rb_Content := Some (JStr (snd r))\<rparr>"











subsubsection \<open>To the Responses protocol\<close>

lemma block_types [simp]:
  "rb_Type (text_block t) = ''text''" "rb_Text (text_block t) = t" "rb_Type (use_block u) = ''tool_use''"
  "rb_Type (result_block r) = ''tool_result''" "rb_ToolUseID (result_block r) = fst r" "rb_ID (use_block u) = fst u"
  "rb_Name (use_block u) = fst (snd u)" "rb_Input (use_block u) = Some (snd (snd u))" "rb_Content (result_block r) = Some (JStr (snd r))"
  "rb_Type (image_block i) = ''image''" "rb_Source (image_block i) = Some i"
  by (simp_all add: text_block_def use_block_def result_block_def image_block_def no_block_def)

lemma part_block_types [simp]:
  "rb_Type (part_block p) \<noteq> ''tool_use''" "rb_Type (part_block p) \<noteq> ''tool_result''" "rb_Type (part_block p) \<noteq> ''thinking''"
  by (cases p; simp)+








subsubsection \<open>And back\<close>

lemma prefix_Cons [simp]: "go_HasPrefix (x # xs) (p # ps) \<longleftrightarrow> x = p \<and> go_HasPrefix xs ps" "\<not> go_HasPrefix [] (p # ps)"
  by (auto simp: go_HasPrefix_def)




lemma part_types [simp]:
  "cp_Type (input_text_part t) = ''input_text''" "cp_Text (input_text_part t) = t"
  "cp_Type (input_image_part u) = ''input_image''" "cp_ImageURL (input_image_part u) = u"
  "cp_Type (output_text_part t) = ''output_text''" "cp_Text (output_text_part t) = t"
  by (simp_all add: input_text_part_def input_image_part_def output_text_part_def zero_part_def)


lemma item_fields [simp]:
  "ri_Role (no_item\<lparr>ri_Type := t, ri_CallID := i, ri_Name := n, ri_Arguments := a\<rparr>) = []"
  "ri_Role (no_item\<lparr>ri_Type := t, ri_CallID := i, ri_Output := x\<rparr>) = []"
  "ri_Role (message_parts_item r ps) = r" "ri_Type (message_parts_item r ps) = ''message''"
  "ri_Content (message_parts_item r ps) = Some (JArr (map enc_part ps))"
  by (simp_all add: no_item_def message_parts_item_def)







subsubsection \<open>Through the repair of the turns\<close>
















subsection \<open>What an input says\<close>


















subsubsection \<open>The conversion of an item keeps what it says\<close>








lemma blocks_of_string [simp]: "blocks_of (Some (JStr s)) = [text_block s]"
  by (simp add: blocks_of_def parseContentBlocks_def raw_list_def dec_list_def)

lemma blocks_of_said [simp]: "blocks_of (Some (JArr (map (enc_block \<circ> part_block) ps))) = map part_block ps"
  using blocks_of_array [of "map part_block ps"] by simp





lemma blocks_of_single [simp]: "blocks_of (Some (JArr [enc_block b])) = [b]"
  using blocks_of_array [of "[b]"] by simp









lemma filtered_parts [simp]:
  "filter (\<lambda>b. rb_Type b \<noteq> ''tool_use'' \<and> rb_Type b \<noteq> ''tool_result'') (map part_block ps) = map part_block ps"
  "filter (\<lambda>b. rb_Type b = ''tool_use'') (map part_block ps) = []"
  "filter (\<lambda>b. rb_Type b = ''tool_result'') (map part_block ps) = []"
  "filter (\<lambda>b. C \<and> rb_Type b = ''tool_result'') (map part_block ps) = []"
  by (simp_all add: filter_empty_conv filter_id_conv)











lemma said_use_block [simp]: "rb_ID (use_block u) = fst u"
  by (simp add: use_block_def)



subsection \<open>Properties\<close>

text \<open>A syntax of JSON text for examples: the empty object, and strings without escapes.\<close>

definition plain_text_json :: json_text where
  "plain_text_json = \<lparr>jt_value = (\<lambda>s. if s = ''{}'' then Some (JObj []) else if s = ''1'' then Some (JNum ''1'') else None),
     jt_text = (\<lambda>v. case v of JObj kvs \<Rightarrow> ''{}'' | JNum n \<Rightarrow> n | _ \<Rightarrow> ''?'')\<rparr>"

definition small_request :: "raw \<Rightarrow> ResponsesRequest" where
  "small_request input = \<lparr>rq_Model = ''claude'', rq_Instructions = [], rq_Input = input, rq_MaxOutputTokens = None,
     rq_Temperature = None, rq_TopP = None, rq_Stream = True, rq_Tools = [], rq_Include = [], rq_Store = None,
     rq_ParallelToolCalls = None, rq_Reasoning = Some \<lparr>rg_Effort = ''high'', rg_Summary = []\<rparr>, rq_Text = None,
     rq_ToolChoice = None, rq_ServiceTier = []\<rparr>"

text \<open>C20: Whatever the input items of a Responses request are, the messages of the Anthropic request
  alternate between the roles, every tool call is answered by exactly its results at the head of the next
  message, and no result stands anywhere else.\<close>

theorem request_turns_valid:
  assumes "ResponsesToAnthropicRequest jt req = Some q"
  shows "valid_turns (aq_Messages q)"
proof -
  obtain system where "convertResponsesInputToAnthropic jt (rq_Instructions req) (rq_Input req) = Some (system, aq_Messages q)"
    using assms by (auto simp: ResponsesToAnthropicRequest_def Let_def split: option.splits prod.splits)
  then have "aq_Messages q = (case raw_string (rq_Input req) of
      Some s \<Rightarrow> [\<lparr>am_Role = ''user'', am_Content = Some (JStr s)\<rparr>]
    | None \<Rightarrow> mergeConsecutiveMessages (normalizeAnthropicToolPairing (mergeConsecutiveMessages
        (concat (map (\<lambda>i. snd (convert_item jt i)) (the (raw_list (dec_item jt) (rq_Input req))))))))"
    by (auto simp: convertResponsesInputToAnthropic_def Let_def split: option.splits)
  then show ?thesis
    by (simp add: merge_valid [OF normalize_pairing] string_turn_valid split: option.splits)
qed

definition stray_items :: "ResponsesInputItem list" where
  "stray_items =
     [no_item\<lparr>ri_Type := ''function_call_output'', ri_CallID := ''call_9'', ri_Output := ''orphan''\<rparr>,
      no_item\<lparr>ri_Type := ''function_call'', ri_CallID := ''call_1'', ri_Name := ''f'', ri_Arguments := ''{}''\<rparr>,
      no_item\<lparr>ri_Type := ''message'', ri_Role := ''user'', ri_Content := Some (JStr ''wait'')\<rparr>,
      no_item\<lparr>ri_Type := ''function_call_output'', ri_CallID := ''call_1'', ri_Output := ''ok''\<rparr>]"

lemma stray_items_decoded:
  "raw_list (dec_item jt) (Some (JArr (map enc_item stray_items))) = Some stray_items"
  "raw_string (Some (JArr (map enc_item stray_items))) = None"
proof -
  have "\<forall>i\<in>set stray_items. ri_outputRaw i = None" by (simp add: stray_items_def no_item_def)
  from dec_enc_items [OF this, of jt] show "raw_list (dec_item jt) (Some (JArr (map enc_item stray_items))) = Some stray_items"
    by (simp add: marshal_appended_def stray_items_def)
qed simp

lemma stray_request:
  "ResponsesToAnthropicRequest jt (small_request (Some (JArr (map enc_item stray_items)))) \<noteq> None"
  by (simp add: ResponsesToAnthropicRequest_def convertResponsesInputToAnthropic_def small_request_def stray_items_decoded Let_def)

theorem request_turns_valid_witness:
  "valid_turns (aq_Messages (the (ResponsesToAnthropicRequest plain_text_json (small_request (Some (JArr (map enc_item stray_items)))))))"
  by (rule request_turns_valid [of plain_text_json "small_request (Some (JArr (map enc_item stray_items)))"])
    (use stray_request [of plain_text_json] in auto)









subsection \<open>Errors and limits of requests\<close>

text \<open>When the arguments of a call are not JSON the conversion succeeds, and both the call and its
  result are gone: what is left is an assistant message without content.\<close>

theorem request_bad_arguments:
  assumes "raw_string (rq_Input req) = None" "raw_list (dec_item jt) (rq_Input req) = Some [c, r]"
    and "ri_Type c = ''function_call''" "ri_Role c = []" "ri_Arguments c \<noteq> []" "jt_value jt (ri_Arguments c) = None"
    and "ri_Type r = ''function_call_output''" "ri_Role r = []"
  shows "\<exists>q. ResponsesToAnthropicRequest jt req = Some q \<and> aq_Messages q = [\<lparr>am_Role = ''assistant'', am_Content = None\<rparr>]"
proof -
  have "mergeConsecutiveMessages (normalizeAnthropicToolPairing (mergeConsecutiveMessages
      (concat (map (\<lambda>i. snd (convert_item jt i)) [c, r])))) = [\<lparr>am_Role = ''assistant'', am_Content = None\<rparr>]"
    using assms(3-) by (simp add: convert_item_def function_call_message_def function_output_message_def Let_def
      mergeConsecutiveMessages_def merge_message_def normalizeAnthropicToolPairing_def repair_message_def)
  then show ?thesis
    using assms(1,2) by (simp add: ResponsesToAnthropicRequest_def convertResponsesInputToAnthropic_def Let_def)
qed

definition bad_call_items :: "ResponsesInputItem list" where
  "bad_call_items =
     [no_item\<lparr>ri_Type := ''function_call'', ri_CallID := ''call_1'', ri_Name := ''f'', ri_Arguments := ''{a''\<rparr>,
      no_item\<lparr>ri_Type := ''function_call_output'', ri_CallID := ''call_1'', ri_Output := ''ok''\<rparr>]"

theorem request_bad_arguments_witness:
  "\<exists>q. ResponsesToAnthropicRequest plain_text_json (small_request (Some (JArr (map enc_item bad_call_items)))) = Some q \<and>
    aq_Messages q = [\<lparr>am_Role = ''assistant'', am_Content = None\<rparr>]"
proof -
  have "\<forall>i\<in>set bad_call_items. ri_outputRaw i = None" by (simp add: bad_call_items_def no_item_def)
  from dec_enc_items [OF this, of plain_text_json]
  have "raw_list (dec_item plain_text_json) (Some (JArr (map enc_item bad_call_items))) = Some bad_call_items"
    by (simp add: marshal_appended_def bad_call_items_def)
  then show ?thesis
    by (intro request_bad_arguments [of _ _ "bad_call_items ! 0" "bad_call_items ! 1"])
      (simp_all add: small_request_def bad_call_items_def no_item_def plain_text_json_def)
qed

text \<open>A request for high effort that leaves the output limit open asks Anthropic for more thinking
  tokens than output tokens; with any limit below the budget the same happens.\<close>

theorem thinking_budget_exceeds_max:
  assumes "ResponsesToAnthropicRequest jt req = Some q" "rq_Reasoning req = Some r"
    and "rg_Effort r = ''high'' \<or> rg_Effort r = ''xhigh''"
  shows "\<exists>t. aq_Thinking q = Some t \<and> at_Type t = ''enabled'' \<and>
    at_BudgetTokens t = (if rg_Effort r = ''high'' then 10240 else 32768) \<and>
    (rq_MaxOutputTokens req = None \<longrightarrow> at_BudgetTokens t > aq_MaxTokens q) \<and>
    (at_BudgetTokens t \<ge> aq_MaxTokens q \<longleftrightarrow> max_tokens_of (rq_MaxOutputTokens req) \<le> at_BudgetTokens t)"
  using assms by (auto simp: ResponsesToAnthropicRequest_def Let_def max_tokens_of_def defaultThinkingBudget_def
    mapResponsesEffortToAnthropic_def split: option.splits prod.splits)

theorem thinking_budget_exceeds_max_witness:
  "at_BudgetTokens (the (aq_Thinking (the (ResponsesToAnthropicRequest plain_text_json (small_request (Some (JStr ''hi''))))))) >
   aq_MaxTokens (the (ResponsesToAnthropicRequest plain_text_json (small_request (Some (JStr ''hi'')))))"
proof -
  obtain q where "ResponsesToAnthropicRequest plain_text_json (small_request (Some (JStr ''hi''))) = Some q"
    by (simp add: ResponsesToAnthropicRequest_def convertResponsesInputToAnthropic_def small_request_def)
  from thinking_budget_exceeds_max [OF this, of "\<lparr>rg_Effort = ''high'', rg_Summary = []\<rparr>"] this
  show ?thesis by (auto simp: small_request_def)
qed

subsection \<open>Calls of a chat request\<close>

definition chat_calls :: "ChatRequestMessage list \<Rightarrow> ChatToolCall list" where
  "chat_calls ms = concat (map qm_ToolCalls (filter (\<lambda>m. qm_Role m = ''assistant'') ms))"

text \<open>The identifiers of the calls that the tool and function messages answer.\<close>

definition chat_answers :: "ChatRequestMessage list \<Rightarrow> string list" where
  "chat_answers ms = map (\<lambda>m. if qm_Role m = ''tool'' then qm_ToolCallID m else qm_Name m)
     (filter (\<lambda>m. qm_Role m = ''tool'' \<or> qm_Role m = ''function'') ms)"

lemma item_type [simp]:
  "ri_Type (role_item role c) = []" "ri_Type (tool_call_item tc) = ''function_call''"
  by (simp_all add: role_item_def tool_call_item_def no_item_def)

lemma message_calls:
  assumes "chatMessageToResponsesItems m = Some is"
  shows "filter (\<lambda>i. ri_Type i = ''function_call'') is = (if qm_Role m = ''assistant'' then map tool_call_item (qm_ToolCalls m) else [])"
    and "map ri_CallID (filter (\<lambda>i. ri_Type i = ''function_call_output'') is) =
      (if qm_Role m = ''tool'' then [qm_ToolCallID m] else if qm_Role m = ''function'' then [qm_Name m] else [])"
  using assms by (auto simp: chatMessageToResponsesItems_def chat_input_item_def chat_output_item_def chatAssistantToResponses_def
    filter_map o_def split: if_splits)

lemma chat_items_calls:
  assumes "message_items chatMessageToResponsesItems ms = Some is"
  shows "filter (\<lambda>i. ri_Type i = ''function_call'') is = map tool_call_item (chat_calls ms) \<and>
    map ri_CallID (filter (\<lambda>i. ri_Type i = ''function_call_output'') is) = chat_answers ms"
  using assms
proof (induction ms arbitrary: "is")
  case (Cons m ms)
  then obtain js ks where "chatMessageToResponsesItems m = Some js" "message_items chatMessageToResponsesItems ms = Some ks" "is = js @ ks"
    by (auto split: option.splits)
  with message_calls [of m js] Cons.IH [of ks] show ?case by (auto simp: chat_calls_def chat_answers_def)
qed (simp add: chat_calls_def chat_answers_def)

text \<open>The request sent upstream for a chat request has exactly the tool calls of its assistant messages and
  one output for each tool or function message, in their order and with their identifiers.\<close>

theorem chat_request_calls:
  assumes "ChatCompletionsToResponses req = Some r"
  shows "\<exists>is. rq_Input r = Some (marshal_appended enc_item is) \<and>
    filter (\<lambda>i. ri_Type i = ''function_call'') is = map tool_call_item (chat_calls (cq_Messages req)) \<and>
    map ri_CallID (filter (\<lambda>i. ri_Type i = ''function_call_output'') is) = chat_answers (cq_Messages req)"
proof -
  obtain "is" where r: "rq_Input r = Some (marshal_appended enc_item is)"
      and "is": "message_items chatMessageToResponsesItems (cq_Messages req) = Some is"
    using assms by (auto simp: ChatCompletionsToResponses_def convertChatMessagesToResponsesInput_def Let_def split: option.splits if_splits)
  with chat_items_calls [OF "is"] show ?thesis by blast
qed

definition chat_message :: "string \<Rightarrow> string \<Rightarrow> ChatRequestMessage" where
  "chat_message role t = \<lparr>qm_Role = role, qm_Content = Some (JStr t), qm_ReasoningContent = [], qm_Name = [], qm_ToolCalls = [],
     qm_ToolCallID = [], qm_FunctionCall = None\<rparr>"

definition small_chat :: "ChatRequestMessage list \<Rightarrow> ChatCompletionsRequest" where
  "small_chat ms = \<lparr>cq_Model = ''gpt-4o'', cq_Messages = ms, cq_Instructions = [], cq_MaxTokens = None, cq_MaxCompletionTokens = None,
     cq_Temperature = None, cq_TopP = None, cq_Stream = False, cq_Tools = [], cq_ParallelToolCalls = None, cq_ToolChoice = None, cq_ReasoningEffort = [],
     cq_ServiceTier = [], cq_ResponseFormat = None, cq_Functions = [], cq_FunctionCall = None\<rparr>"

lemma chat_messages_converted:
  "list_all (\<lambda>m. \<exists>t. qm_Content m = Some (JStr t)) ms \<Longrightarrow> \<exists>r. ChatCompletionsToResponses (small_chat ms) = Some r"
proof -
  assume "list_all (\<lambda>m. \<exists>t. qm_Content m = Some (JStr t)) ms"
  then have "\<exists>is. message_items chatMessageToResponsesItems ms = Some is"
    by (induction ms) (auto simp: chatMessageToResponsesItems_def chat_input_item_def chat_output_item_def parseChatMessageContent_def parseChatContent_def)
  then show ?thesis
    by (auto simp: ChatCompletionsToResponses_def convertChatMessagesToResponsesInput_def small_chat_def)
qed

definition tool_chat :: "ChatRequestMessage list" where
  "tool_chat = [chat_message ''user'' ''hi'', (chat_message ''assistant'' [])\<lparr>qm_ToolCalls :=
     [\<lparr>tc_Index = None, tc_ID = ''call_1'', tc_Type = ''function'', tc_Function = \<lparr>fc_Name = ''f'', fc_Arguments = []\<rparr>\<rparr>]\<rparr>,
     (chat_message ''tool'' ''ok'')\<lparr>qm_ToolCallID := ''call_1''\<rparr>]"

theorem chat_request_calls_witness:
  "\<exists>r is. ChatCompletionsToResponses (small_chat tool_chat) = Some r \<and> rq_Input r = Some (marshal_appended enc_item is) \<and>
    map ri_CallID (filter (\<lambda>i. ri_Type i = ''function_call'') is) = [''call_1''] \<and>
    map ri_CallID (filter (\<lambda>i. ri_Type i = ''function_call_output'') is) = [''call_1'']"
proof -
  obtain r where r: "ChatCompletionsToResponses (small_chat tool_chat) = Some r"
    using chat_messages_converted [of tool_chat] by (auto simp: tool_chat_def chat_message_def)
  from chat_request_calls [OF this] r show ?thesis
    by (auto simp: small_chat_def tool_chat_def chat_message_def chat_calls_def chat_answers_def tool_call_item_def no_item_def)
qed

text \<open>The legacy function call of an assistant message is dropped while the function message that answers
  it is kept, so the request has an output for a call that is nowhere in it.\<close>

theorem chat_legacy_call_lost:
  assumes "list_all (\<lambda>m. qm_ToolCalls m = []) ms" "f \<in> set ms" "qm_Role f = ''function''"
    and "convertChatMessagesToResponsesInput ms = Some is"
  shows "(\<exists>i\<in>set is. ri_Type i = ''function_call_output'' \<and> ri_CallID i = qm_Name f) \<and>
    (\<forall>i\<in>set is. ri_Type i \<noteq> ''function_call'')"
proof -
  have calls: "filter (\<lambda>i. ri_Type i = ''function_call'') is = map tool_call_item (chat_calls ms)"
      "map ri_CallID (filter (\<lambda>i. ri_Type i = ''function_call_output'') is) = chat_answers ms"
    using assms(4) chat_items_calls by (auto simp: convertChatMessagesToResponsesInput_def)
  have "chat_calls ms = []" using assms(1) by (auto simp: chat_calls_def list_all_iff)
  moreover have "qm_Name f \<in> set (chat_answers ms)" using assms(2,3) by (force simp: chat_answers_def)
  ultimately show ?thesis
    unfolding calls(2) [symmetric] using calls(1) by (auto simp: filter_empty_conv)
qed

definition legacy_chat :: "ChatRequestMessage list" where
  "legacy_chat = [(chat_message ''assistant'' [])\<lparr>qm_FunctionCall := Some \<lparr>fc_Name = ''f'', fc_Arguments = ''{}''\<rparr>\<rparr>,
     (chat_message ''function'' ''ok'')\<lparr>qm_Name := ''f''\<rparr>]"

theorem chat_legacy_call_lost_witness:
  "\<exists>is. convertChatMessagesToResponsesInput legacy_chat = Some is \<and>
    (\<exists>i\<in>set is. ri_Type i = ''function_call_output'' \<and> ri_CallID i = ''f'') \<and> (\<forall>i\<in>set is. ri_Type i \<noteq> ''function_call'')"
proof -
  have "\<exists>is. convertChatMessagesToResponsesInput legacy_chat = Some is"
    by (simp add: convertChatMessagesToResponsesInput_def legacy_chat_def chat_message_def chatMessageToResponsesItems_def
      chat_input_item_def chat_output_item_def parseChatMessageContent_def parseChatContent_def)
  then obtain "is" where "convertChatMessagesToResponsesInput legacy_chat = Some is" by blast
  from chat_legacy_call_lost [OF _ _ _ this, of "legacy_chat ! 1"] this show ?thesis
    by (simp add: legacy_chat_def chat_message_def)
qed

end
