(* ===== verification/Chat_Upstream.thy ===== *)
theory Chat_Upstream
  imports Anthropic_To_Resp Chat_Request
begin

section \<open>Chat Completions answers: apicompat/chatcompletions\_responses\_bridge.go, types.go\<close>

text \<open>
  What the two bridges behind an upstream that only speaks Chat Completions share: the answer and its
  usage, and the names of tools that the Chat protocol cannot express (custom tools, the tool search,
  namespaces), which the request side flattens and the response side restores.

  \<open>sha\<close> is \<open>sha256.Sum256\<close>, \<open>jt\<close> the syntax of JSON text inside strings. The message of an answer is the
  message of a request with the field \<open>Reasoning\<close>, which requests do not use.
\<close>

subsection \<open>Answers\<close>

record ChatUpstreamMessage = ChatRequestMessage +
  um_Reasoning :: string

record ChatUpstreamChoice =
  uc_Message :: ChatUpstreamMessage
  uc_FinishReason :: string

record ChatUpstreamResponse =
  us_ID :: string
  us_Created :: int
  us_Model :: string
  us_Choices :: "ChatUpstreamChoice list"
  us_Usage :: "ChatUsage option"
  us_ServiceTier :: string

text \<open>The two methods \<open>reasoningText\<close>, of a message and of a delta.\<close>

definition message_reasoningText :: "ChatUpstreamMessage \<Rightarrow> string" where
  "message_reasoningText m = (if qm_ReasoningContent m \<noteq> [] then qm_ReasoningContent m else um_Reasoning m)"

definition delta_reasoningText :: "ChatDelta \<Rightarrow> string option" where
  "delta_reasoningText d = (if cd_ReasoningContent d \<noteq> None then cd_ReasoningContent d else cd_Reasoning d)"

definition chatMessageContentText :: "raw \<Rightarrow> string" where
  "chatMessageContentText r =
     (if r = None \<or> r = Some JNull then []
      else case raw_string r of
        Some s \<Rightarrow> s
      | None \<Rightarrow>
          (case raw_list dec_chat_part r of
             None \<Rightarrow> []
           | Some parts \<Rightarrow>
               go_Join (map pt_Text (filter (\<lambda>p. pt_Type p = ''text'' \<and> pt_Text p \<noteq> []) parts)) [CHR 0x0A, CHR 0x0A]))"

definition ChatUsageToResponsesUsage :: "ChatUsage \<Rightarrow> ResponsesUsage" where
  "ChatUsageToResponsesUsage u =
     (let total = (if cu_TotalTokens u = 0 then cu_PromptTokens u + cu_CompletionTokens u else cu_TotalTokens u);
          plain = \<lparr>ru_InputTokens = cu_PromptTokens u, ru_OutputTokens = cu_CompletionTokens u, ru_TotalTokens = total,
            ru_CacheCreationInputTokens = 0, ru_InputTokensDetails = None, ru_OutputTokensDetails = None\<rparr>
      in case cu_PromptTokensDetails u of
           None \<Rightarrow> plain
         | Some d \<Rightarrow>
             if td_CachedTokens d > 0 \<or> td_CacheCreationTokens d > 0 \<or> td_CacheWriteTokens d > 0 then
               plain\<lparr>ru_InputTokensDetails := Some (zero_input_details\<lparr>it_CachedTokens := td_CachedTokens d,
                   it_CacheCreationTokens := td_CacheCreationTokens d, it_CacheWriteTokens := td_CacheWriteTokens d\<rparr>),
                 ru_CacheCreationInputTokens :=
                   (if td_CacheWriteTokens d > 0 then td_CacheWriteTokens d else td_CacheCreationTokens d)\<rparr>
             else plain)"

subsection \<open>Names of tools\<close>

text \<open>
  Ranging over a string yields its code points; an invalid byte yields U+FFFD and is written back as three
  bytes. The result is the list of the encodings that \<open>WriteRune\<close> writes.
\<close>

definition cont_byte :: "char \<Rightarrow> bool" where
  "cont_byte c \<longleftrightarrow> 128 \<le> (of_char c :: nat) \<and> (of_char c :: nat) < 192"

definition second_byte :: "nat \<Rightarrow> char \<Rightarrow> bool" where
  "second_byte b c \<longleftrightarrow>
     (let n = of_char c :: nat in
      if b = 224 then 160 \<le> n \<and> n < 192 else if b = 237 then 128 \<le> n \<and> n < 160
      else if b = 240 then 144 \<le> n \<and> n < 192 else if b = 244 then 128 \<le> n \<and> n < 144
      else 128 \<le> n \<and> n < 192)"

definition rune_length :: "string \<Rightarrow> nat" where
  "rune_length s =
     (case s of [] \<Rightarrow> 0 | c # cs \<Rightarrow>
        let b = of_char c :: nat in
        if b < 128 then 1
        else if 194 \<le> b \<and> b < 224 \<and> cs \<noteq> [] \<and> second_byte b (hd cs) then 2
        else if 224 \<le> b \<and> b < 240 \<and> length cs \<ge> 2 \<and> second_byte b (hd cs) \<and> cont_byte (cs ! 1) then 3
        else if 240 \<le> b \<and> b < 245 \<and> length cs \<ge> 3 \<and> second_byte b (hd cs) \<and> cont_byte (cs ! 1) \<and> cont_byte (cs ! 2) then 4
        else 0)"

function go_runes :: "string \<Rightarrow> string list" where
  "go_runes s =
     (if s = [] then []
      else if rune_length s = 0 then map byte [239, 191, 189] # go_runes (tl s)
      else take (rune_length s) s # go_runes (drop (rune_length s) s))"
  by pat_completeness auto
termination
  by (relation "measure length") auto

declare go_runes.simps [simp del]

text \<open>The loop that writes code points until the next one would exceed the length.\<close>

fun write_runes :: "nat \<Rightarrow> string \<Rightarrow> string list \<Rightarrow> string" where
  "write_runes limit written [] = written"
| "write_runes limit written (r # rs) =
     (if length written + length r > limit then written else write_runes limit (written @ r) rs)"

definition chatToolNameMaxLen :: nat where "chatToolNameMaxLen = 64"

definition flattenNamespaceToolName :: "(string \<Rightarrow> string) \<Rightarrow> string \<Rightarrow> string \<Rightarrow> string" where
  "flattenNamespaceToolName sha namespace name =
     (let full = namespace @ ''__'' @ name
      in if length full \<le> chatToolNameMaxLen then full
         else let suffix = ''__'' @ hex_encode (take 4 (sha full))
              in write_runes (chatToolNameMaxLen - length suffix) [] (go_runes full) @ suffix)"

record NamespacedToolName =
  nt_Namespace :: string
  nt_Name :: string

text \<open>
  The sets of names are lists, the map of flattened names an association list; \<open>CustomToolNames\<close> and
  \<open>FunctionToolNames\<close> never contain the empty name.
\<close>

record ChatToolKinds =
  tk_Custom :: "string list"
  tk_Function :: "string list"
  tk_ToolSearch :: bool
  tk_Namespace :: "(string \<times> NamespacedToolName) list"

definition no_tool_kinds :: ChatToolKinds where
  "no_tool_kinds = \<lparr>tk_Custom = [], tk_Function = [], tk_ToolSearch = False, tk_Namespace = []\<rparr>"

definition CustomToolNames :: "ResponsesTool list \<Rightarrow> string list" where
  "CustomToolNames tools = map rt_Name (filter (\<lambda>t. rt_Type t = ''custom'' \<and> rt_Name t \<noteq> []) tools)"

definition FunctionToolNames :: "ResponsesTool list \<Rightarrow> string list" where
  "FunctionToolNames tools = map rt_Name (filter (\<lambda>t. rt_Type t = ''function'' \<and> rt_Name t \<noteq> []) tools)"

definition HasToolSearchTool :: "ResponsesTool list \<Rightarrow> bool" where
  "HasToolSearchTool tools = list_ex (\<lambda>t. rt_Type t = ''tool_search'') tools"

definition toolSearchProxyName :: string where "toolSearchProxyName = ''tool_search''"

text \<open>
  A map that is ranged over: the loop finds the one custom name whose alias below a namespace is the name
  called, or two of them, in whatever order.
\<close>

definition customToolCallName :: "(string \<Rightarrow> string) \<Rightarrow> ChatToolKinds \<Rightarrow> string \<Rightarrow> string option" where
  "customToolCallName sha k name =
     (if name \<in> set (tk_Function k) then None
      else if name \<in> set (tk_Custom k) then Some name
      else if map_of (tk_Namespace k) name \<noteq> None then None
      else case remdups (filter (\<lambda>c. c \<noteq> [] \<and>
             list_ex (\<lambda>kv. flattenNamespaceToolName sha (nt_Namespace (snd kv)) c = name) (tk_Namespace k)) (tk_Custom k)) of
        [c] \<Rightarrow> Some c
      | _ \<Rightarrow> None)"

definition extractCustomToolCallInput :: "json_text \<Rightarrow> string \<Rightarrow> string" where
  "extractCustomToolCallInput jt arguments =
     (let trimmed = go_TrimSpace arguments in
      if trimmed = [] then []
      else case Option.bind (jt_value jt trimmed) raw_object of
        None \<Rightarrow> trimmed
      | Some obj \<Rightarrow>
          (case map_of obj ''input'' of
             Some v \<Rightarrow> (case raw_string (Some v) of Some s \<Rightarrow> s | None \<Rightarrow> trimmed)
           | None \<Rightarrow> if obj = [] then [] else trimmed))"

definition toolSearchCallArgumentsJSON :: "json_text \<Rightarrow> string \<Rightarrow> json" where
  "toolSearchCallArgumentsJSON jt arguments =
     (let trimmed = go_TrimSpace arguments in
      if trimmed = [] then JObj []
      else case jt_value jt trimmed of Some v \<Rightarrow> v | None \<Rightarrow> JStr arguments)"

text \<open>Blank arguments count as the empty object.\<close>

definition call_arguments :: "string \<Rightarrow> string" where
  "call_arguments a = (if go_TrimSpace a = [] then ''{}'' else a)"

text \<open>The index of a call in a delta, 0 when it is missing.\<close>

definition call_index :: "ChatToolCall \<Rightarrow> int" where
  "call_index tc = (case tc_Index tc of None \<Rightarrow> 0 | Some i \<Rightarrow> i)"

subsection \<open>The buffered conversion to Responses\<close>

text \<open>The item of a finished call; \<open>None\<close> when an ordinary call has arguments that are not JSON.\<close>

definition custom_call_item :: "json_text \<Rightarrow> string \<Rightarrow> string \<Rightarrow> string \<Rightarrow> string \<Rightarrow> ResponsesOutput" where
  "custom_call_item jt iid callID name arguments = zero_output\<lparr>ro_Type := ''custom_tool_call'', ro_ID := iid, ro_CallID := callID,
     ro_Name := name, ro_Input := extractCustomToolCallInput jt arguments, ro_Status := ''completed''\<rparr>"

definition search_call_item :: "string \<Rightarrow> string \<Rightarrow> string \<Rightarrow> ResponsesOutput" where
  "search_call_item iid callID arguments = zero_output\<lparr>ro_Type := ''tool_search_call'', ro_ID := iid, ro_CallID := callID,
     ro_Arguments := arguments, ro_Status := ''completed''\<rparr>"

definition function_call_item :: "string \<Rightarrow> string \<Rightarrow> string \<Rightarrow> string \<Rightarrow> string \<Rightarrow> ResponsesOutput" where
  "function_call_item iid callID namespace name arguments = zero_output\<lparr>ro_Type := ''function_call'', ro_ID := iid, ro_CallID := callID,
     ro_Name := name, ro_Namespace := namespace, ro_Arguments := arguments, ro_Status := ''completed''\<rparr>"

definition reasoning_item :: "string \<Rightarrow> string \<Rightarrow> ResponsesOutput" where
  "reasoning_item iid t = zero_output\<lparr>ro_Type := ''reasoning'', ro_ID := iid,
     ro_Summary := [\<lparr>sm_Type = ''summary_text'', sm_Text = t\<rparr>]\<rparr>"

definition chat_call_item :: "(string \<Rightarrow> string) \<Rightarrow> json_text \<Rightarrow> ChatToolKinds \<Rightarrow> string \<Rightarrow> ChatToolCall \<Rightarrow> ResponsesOutput option" where
  "chat_call_item sha jt k iid tc =
     (let arguments = call_arguments (fc_Arguments (tc_Function tc)); name = fc_Name (tc_Function tc)
      in case customToolCallName sha k name of
           Some customName \<Rightarrow> Some (custom_call_item jt iid (tc_ID tc) customName arguments)
         | None \<Rightarrow>
             if tk_ToolSearch k \<and> name = toolSearchProxyName then Some (search_call_item iid (tc_ID tc) arguments)
             else if jt_value jt arguments = None then None
             else (case map_of (tk_Namespace k) name of
                     Some ns \<Rightarrow> Some (function_call_item iid (tc_ID tc) (nt_Namespace ns) (nt_Name ns) arguments)
                   | None \<Rightarrow> Some (function_call_item iid (tc_ID tc) [] name arguments)))"

definition add_call_item :: "(string \<Rightarrow> string) \<Rightarrow> json_text \<Rightarrow> (nat \<Rightarrow> string) \<Rightarrow> ChatToolKinds \<Rightarrow> ChatToolCall \<Rightarrow>
    ResponsesOutput list \<Rightarrow> ResponsesOutput list" where
  "add_call_item sha jt rnd k tc outputs =
     (case chat_call_item sha jt k (generateItemID (rnd (length outputs))) tc of None \<Rightarrow> outputs | Some item \<Rightarrow> outputs @ [item])"

definition chatMessageToResponsesOutput ::
    "(string \<Rightarrow> string) \<Rightarrow> json_text \<Rightarrow> (nat \<Rightarrow> string) \<Rightarrow> ChatToolKinds \<Rightarrow> ChatUpstreamMessage \<Rightarrow> ResponsesOutput list" where
  "chatMessageToResponsesOutput sha jt rnd k m =
     (let reasoning = message_reasoningText m;
          o1 = (if reasoning \<noteq> [] then [reasoning_item (generateItemID (rnd 0)) reasoning] else []);
          t = chatMessageContentText (qm_Content m);
          txt = (if t = [] \<and> go_TrimSpace reasoning \<noteq> [] \<and> qm_ToolCalls m = [] then reasoning else t);
          o2 = (if txt \<noteq> [] \<or> qm_ToolCalls m = []
                then o1 @ [message_item (generateItemID (rnd (length o1))) [output_text_part txt]] else o1)
      in fold (add_call_item sha jt rnd k) (qm_ToolCalls m) o2)"

definition ChatCompletionsResponseToResponses :: "(string \<Rightarrow> string) \<Rightarrow> json_text \<Rightarrow> string \<Rightarrow> (nat \<Rightarrow> string) \<Rightarrow> int \<Rightarrow>
    ChatToolKinds \<Rightarrow> string \<Rightarrow> ChatUpstreamResponse option \<Rightarrow> ResponsesResponse" where
  "ChatCompletionsResponseToResponses sha jt rid rnd now k model resp =
     (let empty = message_item (generateItemID (rnd 0)) [output_text_part []] in
      case resp of
        None \<Rightarrow> zero_response\<lparr>rr_ID := generateResponsesID rid, rr_Object := ''response'', rr_CreatedAt := now, rr_Model := model,
          rr_Status := ''completed'', rr_Output := [empty]\<rparr>
      | Some r \<Rightarrow>
          let base = zero_response\<lparr>rr_ID := (if us_ID r = [] then generateResponsesID rid else us_ID r), rr_Object := ''response'',
                rr_CreatedAt := (if us_Created r \<le> 0 then now else us_Created r),
                rr_Model := (if model = [] then us_Model r else model), rr_Status := ''completed'', rr_ServiceTier := us_ServiceTier r,
                rr_Usage := map_option ChatUsageToResponsesUsage (us_Usage r)\<rparr>
          in (case us_Choices r of
                [] \<Rightarrow> base\<lparr>rr_Output := [empty]\<rparr>
              | c # _ \<Rightarrow>
                  let outputs = chatMessageToResponsesOutput sha jt rnd k (uc_Message c);
                      base = base\<lparr>rr_Output := (if outputs = [] then [empty] else outputs)\<rparr>
                  in if uc_FinishReason c = ''length''
                     then base\<lparr>rr_Status := ''incomplete'', rr_IncompleteDetails := Some ''max_output_tokens''\<rparr> else base))"

end
