(* ===== verification/Chat_Stream_Resp.thy ===== *)
theory Chat_Stream_Resp
  imports Chat_Upstream
begin

section \<open>Chat Completions chunks to Responses events: apicompat/chatcompletions\_responses\_bridge.go\<close>

text \<open>
  The stateful converter \<open>ChatCompletionsChunkToResponsesEvents\<close> with its handlers and finalizer. The maps of the
  state that are keyed by the index of a tool call are one association list of entries, because an entry is
  created in all of them at once; a missing flag reads as false. \<open>rnd n\<close> is the n-th read of random bytes, and
  \<open>cs_Drawn\<close> counts the reads.
\<close>

record ChatToolEntry =
  te_Call :: ChatToolCall
  te_ItemID :: string
  te_OutputIndex :: int
  te_IsCustom :: bool
  te_IsToolSearch :: bool
  te_Namespace :: "NamespacedToolName option"
  te_Announced :: bool

record C2RState =
  cs_ResponseID :: string
  cs_Model :: string
  cs_Created :: int
  cs_ServiceTier :: string
  cs_SequenceNumber :: int
  cs_CreatedSent :: bool
  cs_CompletedSent :: bool
  cs_nextOutputIndex :: int
  cs_ReasoningItemID :: string
  cs_ReasoningIndex :: int
  cs_ReasoningOpen :: bool
  cs_ReasoningDone :: bool
  cs_MessageItemID :: string
  cs_MessageIndex :: int
  cs_TextPartOpen :: bool
  cs_Text :: string
  cs_Reasoning :: string
  cs_Tools :: "(int \<times> ChatToolEntry) list"
  cs_Kinds :: ChatToolKinds
  cs_FinishReason :: string
  cs_Usage :: "ResponsesUsage option"
  cs_Drawn :: nat

definition NewChatCompletionsToResponsesStreamState :: "string \<Rightarrow> string \<Rightarrow> int \<Rightarrow> ChatToolKinds \<Rightarrow> C2RState" where
  "NewChatCompletionsToResponsesStreamState rid model now k =
     \<lparr>cs_ResponseID = generateResponsesID rid, cs_Model = model, cs_Created = now, cs_ServiceTier = [], cs_SequenceNumber = 0,
      cs_CreatedSent = False, cs_CompletedSent = False, cs_nextOutputIndex = 0, cs_ReasoningItemID = [], cs_ReasoningIndex = 0,
      cs_ReasoningOpen = False, cs_ReasoningDone = False, cs_MessageItemID = [], cs_MessageIndex = 0, cs_TextPartOpen = False,
      cs_Text = [], cs_Reasoning = [], cs_Tools = [], cs_Kinds = k, cs_FinishReason = [], cs_Usage = None, cs_Drawn = 0\<rparr>"

subsection \<open>Events and items\<close>

type_synonym c2r = "C2RState \<times> ResponsesStreamEvent list"

definition chatToResponsesEvent :: "string \<Rightarrow> ResponsesStreamEvent \<Rightarrow> C2RState \<Rightarrow> c2r" where
  "chatToResponsesEvent t template st =
     (st\<lparr>cs_SequenceNumber := cs_SequenceNumber st + 1\<rparr>, [template\<lparr>re_Type := t, re_SequenceNumber := cs_SequenceNumber st\<rparr>])"

definition no_event :: "C2RState \<Rightarrow> c2r" where "no_event st = (st, [])"

text \<open>\<open>ensureChatToResponsesCreated\<close>.\<close>

definition ensureChatToResponsesCreated :: "C2RState \<Rightarrow> c2r" where
  "ensureChatToResponsesCreated st =
     (if cs_CreatedSent st then (st, [])
      else chatToResponsesEvent ''response.created'' (zero_resp_event\<lparr>re_Response := Some (zero_response\<lparr>rr_ID := cs_ResponseID st,
          rr_Object := ''response'', rr_CreatedAt := cs_Created st, rr_Model := cs_Model st, rr_Status := ''in_progress'',
          rr_ServiceTier := cs_ServiceTier st, rr_Output := []\<rparr>)\<rparr>) (st\<lparr>cs_CreatedSent := True\<rparr>))"

definition ensureChatReasoningItem :: "(nat \<Rightarrow> string) \<Rightarrow> C2RState \<Rightarrow> c2r" where
  "ensureChatReasoningItem rnd st =
     (if cs_ReasoningOpen st \<or> cs_ReasoningDone st then (st, [])
      else
        let iid = generateItemID (rnd (cs_Drawn st)); idx = cs_nextOutputIndex st;
            st1 = st\<lparr>cs_ReasoningOpen := True, cs_ReasoningItemID := iid, cs_ReasoningIndex := idx,
              cs_Drawn := cs_Drawn st + 1, cs_nextOutputIndex := idx + 1\<rparr>
        in then_emit (chatToResponsesEvent ''response.output_item.added'' (zero_resp_event\<lparr>re_OutputIndex := idx,
             re_Item := Some (zero_output\<lparr>ro_Type := ''reasoning'', ro_ID := iid, ro_Status := ''in_progress''\<rparr>)\<rparr>) st1)
           (chatToResponsesEvent ''response.reasoning_summary_part.added'' (zero_resp_event\<lparr>re_OutputIndex := idx, re_SummaryIndex := 0,
             re_ItemID := iid, re_Part := Some (zero_part\<lparr>cp_Type := ''summary_text''\<rparr>)\<rparr>)))"

definition closeChatReasoningItem :: "C2RState \<Rightarrow> c2r" where
  "closeChatReasoningItem st =
     (if \<not> cs_ReasoningOpen st then (st, [])
      else
        let idx = cs_ReasoningIndex st; iid = cs_ReasoningItemID st; reasoning = cs_Reasoning st
        in then_emit (then_emit (chatToResponsesEvent ''response.reasoning_summary_text.done'' (zero_resp_event\<lparr>re_OutputIndex := idx,
               re_SummaryIndex := 0, re_Text := reasoning, re_ItemID := iid\<rparr>) (st\<lparr>cs_ReasoningOpen := False, cs_ReasoningDone := True\<rparr>))
             (chatToResponsesEvent ''response.reasoning_summary_part.done'' (zero_resp_event\<lparr>re_OutputIndex := idx, re_SummaryIndex := 0,
               re_ItemID := iid, re_Part := Some (zero_part\<lparr>cp_Type := ''summary_text'', cp_Text := reasoning\<rparr>)\<rparr>)))
             (chatToResponsesEvent ''response.output_item.done'' (zero_resp_event\<lparr>re_OutputIndex := idx,
               re_Item := Some ((reasoning_item iid reasoning)\<lparr>ro_Status := ''completed''\<rparr>)\<rparr>)))"

definition ensureChatToResponsesMessageItem :: "(nat \<Rightarrow> string) \<Rightarrow> C2RState \<Rightarrow> c2r" where
  "ensureChatToResponsesMessageItem rnd st =
     (if cs_MessageItemID st \<noteq> [] then (st, [])
      else
        let iid = generateItemID (rnd (cs_Drawn st)); idx = cs_nextOutputIndex st
        in chatToResponsesEvent ''response.output_item.added'' (zero_resp_event\<lparr>re_OutputIndex := idx,
             re_Item := Some (zero_output\<lparr>ro_Type := ''message'', ro_ID := iid, ro_Role := ''assistant'', ro_Status := ''in_progress'',
               ro_Content := [output_text_part []]\<rparr>)\<rparr>)
             (st\<lparr>cs_MessageItemID := iid, cs_MessageIndex := idx, cs_Drawn := cs_Drawn st + 1, cs_nextOutputIndex := idx + 1\<rparr>))"

definition ensureChatToResponsesTextPart :: "C2RState \<Rightarrow> c2r" where
  "ensureChatToResponsesTextPart st =
     (if cs_TextPartOpen st then (st, [])
      else chatToResponsesEvent ''response.content_part.added'' (zero_resp_event\<lparr>re_OutputIndex := cs_MessageIndex st, re_ContentIndex := 0,
             re_ItemID := cs_MessageItemID st, re_Part := Some (output_text_part [])\<rparr>) (st\<lparr>cs_TextPartOpen := True\<rparr>))"

text \<open>Text for the message item, which is opened first; shared by the content of a delta and the fallback.\<close>

definition emit_text :: "(nat \<Rightarrow> string) \<Rightarrow> string \<Rightarrow> C2RState \<Rightarrow> c2r" where
  "emit_text rnd t st =
     then_emit (then_emit (ensureChatToResponsesMessageItem rnd st) ensureChatToResponsesTextPart)
       (\<lambda>s. chatToResponsesEvent ''response.output_text.delta'' (zero_resp_event\<lparr>re_OutputIndex := cs_MessageIndex s, re_ContentIndex := 0,
          re_Delta := t, re_ItemID := cs_MessageItemID s\<rparr>) (s\<lparr>cs_Text := cs_Text s @ t\<rparr>))"

subsection \<open>Tool calls\<close>

definition entry_delta :: "ChatToolEntry \<Rightarrow> string \<Rightarrow> ResponsesStreamEvent" where
  "entry_delta e d = zero_resp_event\<lparr>re_OutputIndex := te_OutputIndex e, re_ItemID := te_ItemID e, re_Delta := d,
     re_CallID := tc_ID (te_Call e), re_Name := fc_Name (tc_Function (te_Call e))\<rparr>"

text \<open>What the announcement records of an entry.\<close>

definition classify_entry :: "(string \<Rightarrow> string) \<Rightarrow> ChatToolKinds \<Rightarrow> ChatToolEntry \<Rightarrow> ChatToolEntry" where
  "classify_entry sha k e =
     (let name = fc_Name (tc_Function (te_Call e));
          isCustom = customToolCallName sha k name \<noteq> None;
          isToolSearch = (\<not> isCustom \<and> tk_ToolSearch k \<and> name = toolSearchProxyName)
      in e\<lparr>te_Announced := True, te_IsCustom := isCustom, te_IsToolSearch := isToolSearch,
           te_Namespace := (if isCustom \<or> isToolSearch then te_Namespace e
             else case map_of (tk_Namespace k) name of Some ns \<Rightarrow> Some ns | None \<Rightarrow> te_Namespace e)\<rparr>)"

definition announced_item :: "(string \<Rightarrow> string) \<Rightarrow> ChatToolKinds \<Rightarrow> ChatToolEntry \<Rightarrow> ResponsesOutput" where
  "announced_item sha k e =
     (let name = fc_Name (tc_Function (te_Call e));
          base = zero_output\<lparr>ro_Type := (if te_IsToolSearch e then ''tool_search_call'' else if te_IsCustom e then ''custom_tool_call'' else ''function_call''),
            ro_ID := te_ItemID e, ro_CallID := tc_ID (te_Call e), ro_Name := name, ro_Status := ''in_progress''\<rparr>
      in if te_IsCustom e then base\<lparr>ro_Name := (case customToolCallName sha k name of Some n \<Rightarrow> n | None \<Rightarrow> name)\<rparr>
         else if te_IsToolSearch e then base
         else (case map_of (tk_Namespace k) name of
                 Some ns \<Rightarrow> base\<lparr>ro_Name := nt_Name ns, ro_Namespace := nt_Namespace ns\<rparr>
               | None \<Rightarrow> base))"

definition deferred :: "ChatToolKinds \<Rightarrow> ChatToolEntry \<Rightarrow> bool" where
  "deferred k e \<longleftrightarrow> fc_Name (tc_Function (te_Call e)) = [] \<and> (tk_Custom k \<noteq> [] \<or> tk_Function k \<noteq> [] \<or> tk_ToolSearch k \<or> tk_Namespace k \<noteq> [])"

text \<open>An entry that is in the state.\<close>

definition tool_entry :: "C2RState \<Rightarrow> int \<Rightarrow> ChatToolEntry" where
  "tool_entry st idx = the (map_of (cs_Tools st) idx)"

definition set_entry :: "int \<Rightarrow> ChatToolEntry \<Rightarrow> C2RState \<Rightarrow> C2RState" where
  "set_entry idx e st = st\<lparr>cs_Tools := AList.update idx e (cs_Tools st)\<rparr>"

definition announceChatToolItem :: "(string \<Rightarrow> string) \<Rightarrow> bool \<Rightarrow> int \<Rightarrow> C2RState \<Rightarrow> c2r" where
  "announceChatToolItem sha force idx st =
     (let e = tool_entry st idx in
      if te_Announced e \<or> (\<not> force \<and> deferred (cs_Kinds st) e) then (st, [])
      else
        let e1 = classify_entry sha (cs_Kinds st) e
        in then_emit (chatToResponsesEvent ''response.output_item.added'' (zero_resp_event\<lparr>re_OutputIndex := te_OutputIndex e1,
               re_Item := Some (announced_item sha (cs_Kinds st) e1)\<rparr>) (set_entry idx e1 st))
             (if \<not> te_IsCustom e1 \<and> \<not> te_IsToolSearch e1 \<and> fc_Arguments (tc_Function (te_Call e1)) \<noteq> []
              then chatToResponsesEvent ''response.function_call_arguments.delta'' (entry_delta e1 (fc_Arguments (tc_Function (te_Call e1))))
              else no_event))"

text \<open>The stored call of a new index, which gets an identifier when the upstream sent none, and of a known one.\<close>

definition open_entry :: "(nat \<Rightarrow> string) \<Rightarrow> int \<Rightarrow> ChatToolCall \<Rightarrow> C2RState \<Rightarrow> C2RState" where
  "open_entry rnd idx tc st =
     (let n = cs_Drawn st;
          m = (if tc_ID tc = [] then n + 1 else n);
          call = tc\<lparr>tc_ID := (if tc_ID tc = [] then generateItemID (rnd n) else tc_ID tc), tc_Type := ''function'',
            tc_Function := (tc_Function tc)\<lparr>fc_Arguments := []\<rparr>\<rparr>;
          e = \<lparr>te_Call = call, te_ItemID = generateItemID (rnd m), te_OutputIndex = cs_nextOutputIndex st,
            te_IsCustom = False, te_IsToolSearch = False, te_Namespace = None, te_Announced = False\<rparr>
      in (set_entry idx e st)\<lparr>cs_Drawn := m + 1, cs_nextOutputIndex := cs_nextOutputIndex st + 1\<rparr>)"

definition update_call :: "ChatToolCall \<Rightarrow> ChatToolEntry \<Rightarrow> ChatToolEntry" where
  "update_call tc e =
     (let c = te_Call e;
          c1 = (if tc_ID tc \<noteq> [] then c\<lparr>tc_ID := tc_ID tc\<rparr> else c);
          c2 = (if fc_Name (tc_Function tc) \<noteq> [] then c1\<lparr>tc_Function := (tc_Function c1)\<lparr>fc_Name := fc_Name (tc_Function tc)\<rparr>\<rparr> else c1)
      in e\<lparr>te_Call := c2\<rparr>)"

definition append_arguments :: "string \<Rightarrow> ChatToolEntry \<Rightarrow> ChatToolEntry" where
  "append_arguments a e =
     (let c = te_Call e in e\<lparr>te_Call := c\<lparr>tc_Function := (tc_Function c)\<lparr>fc_Arguments := fc_Arguments (tc_Function c) @ a\<rparr>\<rparr>\<rparr>)"

definition stream_arguments :: "int \<Rightarrow> string \<Rightarrow> C2RState \<Rightarrow> c2r" where
  "stream_arguments idx a st =
     (if a = [] then (st, [])
      else
        let e = append_arguments a (tool_entry st idx); st1 = set_entry idx e st
        in if te_Announced e \<and> \<not> te_IsCustom e \<and> \<not> te_IsToolSearch e
           then chatToResponsesEvent ''response.function_call_arguments.delta'' (entry_delta e a) st1
           else (st1, []))"

text \<open>One turn of the loop over the tool calls of a delta.\<close>

definition handle_tool_call :: "(string \<Rightarrow> string) \<Rightarrow> (nat \<Rightarrow> string) \<Rightarrow> ChatToolCall \<Rightarrow> C2RState \<Rightarrow> c2r" where
  "handle_tool_call sha rnd tc st =
     (let idx = (case tc_Index tc of None \<Rightarrow> 0 | Some i \<Rightarrow> i)
      in then_emit
           (then_emit
             (case map_of (cs_Tools st) idx of
                None \<Rightarrow> (case closeChatReasoningItem st of (s, es) \<Rightarrow> (open_entry rnd idx tc s, es))
              | Some e \<Rightarrow> (set_entry idx (update_call tc e) st, []))
             (announceChatToolItem sha False idx))
           (stream_arguments idx (fc_Arguments (tc_Function tc))))"

subsection \<open>Chunks\<close>

definition handle_reasoning :: "(nat \<Rightarrow> string) \<Rightarrow> string \<Rightarrow> C2RState \<Rightarrow> c2r" where
  "handle_reasoning rnd t st =
     then_emit (ensureChatReasoningItem rnd st)
       (\<lambda>s. chatToResponsesEvent ''response.reasoning_summary_text.delta'' (zero_resp_event\<lparr>re_OutputIndex := cs_ReasoningIndex s,
          re_SummaryIndex := 0, re_Delta := t, re_ItemID := cs_ReasoningItemID s\<rparr>) (s\<lparr>cs_Reasoning := cs_Reasoning s @ t\<rparr>))"

definition given :: "string option \<Rightarrow> (string \<Rightarrow> C2RState \<Rightarrow> c2r) \<Rightarrow> C2RState \<Rightarrow> c2r" where
  "given t f st = (case t of None \<Rightarrow> (st, []) | Some s \<Rightarrow> if s = [] then (st, []) else f s st)"

definition handle_choice :: "(string \<Rightarrow> string) \<Rightarrow> (nat \<Rightarrow> string) \<Rightarrow> ChatChunkChoice \<Rightarrow> C2RState \<Rightarrow> c2r" where
  "handle_choice sha rnd c st =
     (let d = cx_Delta c
      in case then_emit (then_emit (given (delta_reasoningText d) (handle_reasoning rnd) st)
               (given (cd_Content d) (\<lambda>t s. then_emit (closeChatReasoningItem s) (emit_text rnd t))))
             (run_events (handle_tool_call sha rnd) (cd_ToolCalls d)) of
           (s, es) \<Rightarrow> (case cx_FinishReason c of
               Some r \<Rightarrow> if r \<noteq> [] then s\<lparr>cs_FinishReason := r\<rparr> else s
             | None \<Rightarrow> s, es))"

definition read_chunk :: "ChatCompletionsChunk \<Rightarrow> C2RState \<Rightarrow> C2RState" where
  "read_chunk chunk st =
     st\<lparr>cs_ResponseID := (if ck_ID chunk \<noteq> [] then ck_ID chunk else cs_ResponseID st),
        cs_Model := (if cs_Model st = [] \<and> ck_Model chunk \<noteq> [] then ck_Model chunk else cs_Model st),
        cs_ServiceTier := (if ck_ServiceTier chunk \<noteq> [] then ck_ServiceTier chunk else cs_ServiceTier st),
        cs_Usage := (case ck_Usage chunk of Some u \<Rightarrow> Some (ChatUsageToResponsesUsage u) | None \<Rightarrow> cs_Usage st)\<rparr>"

definition ChatCompletionsChunkToResponsesEvents :: "(string \<Rightarrow> string) \<Rightarrow> (nat \<Rightarrow> string) \<Rightarrow> ChatCompletionsChunk \<Rightarrow> C2RState \<Rightarrow> c2r" where
  "ChatCompletionsChunkToResponsesEvents sha rnd chunk st =
     then_emit (ensureChatToResponsesCreated (read_chunk chunk st)) (run_events (handle_choice sha rnd) (ck_Choices chunk))"

subsection \<open>The end of the stream\<close>

definition ValidateToolCallArguments :: "json_text \<Rightarrow> C2RState \<Rightarrow> bool" where
  "ValidateToolCallArguments jt st =
     list_all (\<lambda>(idx, e). te_IsCustom e \<or> te_IsToolSearch e \<or> go_TrimSpace (fc_Arguments (tc_Function (te_Call e))) = [] \<or>
       jt_value jt (go_TrimSpace (fc_Arguments (tc_Function (te_Call e)))) \<noteq> None) (cs_Tools st)"

definition synthesizeChatReasoningFallbackMessage :: "(nat \<Rightarrow> string) \<Rightarrow> C2RState \<Rightarrow> c2r" where
  "synthesizeChatReasoningFallbackMessage rnd st =
     (if cs_MessageItemID st \<noteq> [] \<or> cs_Text st \<noteq> [] \<or> cs_Reasoning st = [] \<or> cs_Tools st \<noteq> [] then (st, [])
      else if go_TrimSpace (cs_Reasoning st) = [] then (st, [])
      else emit_text rnd (cs_Reasoning st) st)"

definition close_message :: "C2RState \<Rightarrow> c2r" where
  "close_message st =
     (if cs_MessageItemID st = [] then (st, [])
      else
        let idx = cs_MessageIndex st; iid = cs_MessageItemID st
        in then_emit
             (if cs_TextPartOpen st then
                then_emit (chatToResponsesEvent ''response.output_text.done'' (zero_resp_event\<lparr>re_OutputIndex := idx, re_ContentIndex := 0,
                    re_Text := cs_Text st, re_ItemID := iid\<rparr>) st)
                  (chatToResponsesEvent ''response.content_part.done'' (zero_resp_event\<lparr>re_OutputIndex := idx, re_ContentIndex := 0,
                    re_ItemID := iid, re_Part := Some (output_text_part (cs_Text st))\<rparr>))
              else (st, []))
             (chatToResponsesEvent ''response.output_item.done'' (zero_resp_event\<lparr>re_OutputIndex := idx,
               re_Item := Some (message_item iid [output_text_part (cs_Text st)])\<rparr>)))"

definition customNameForStreamTool :: "(string \<Rightarrow> string) \<Rightarrow> C2RState \<Rightarrow> string \<Rightarrow> string" where
  "customNameForStreamTool sha st name = (case customToolCallName sha (cs_Kinds st) name of Some n \<Rightarrow> n | None \<Rightarrow> name)"

text \<open>The finished item of an entry, with its identifier in the stream or a new one.\<close>

definition entry_item :: "(string \<Rightarrow> string) \<Rightarrow> json_text \<Rightarrow> C2RState \<Rightarrow> string \<Rightarrow> ChatToolEntry \<Rightarrow> ResponsesOutput" where
  "entry_item sha jt st iid e =
     (let c = te_Call e; arguments = call_arguments (fc_Arguments (tc_Function c)); name = fc_Name (tc_Function c)
      in if te_IsCustom e then custom_call_item jt iid (tc_ID c) (customNameForStreamTool sha st name) arguments
         else if te_IsToolSearch e then search_call_item iid (tc_ID c) arguments
         else (case te_Namespace e of
                 Some ns \<Rightarrow> function_call_item iid (tc_ID c) (nt_Namespace ns) (nt_Name ns) arguments
               | None \<Rightarrow> function_call_item iid (tc_ID c) [] name arguments))"

definition close_entry :: "(string \<Rightarrow> string) \<Rightarrow> json_text \<Rightarrow> ChatToolEntry \<Rightarrow> C2RState \<Rightarrow> c2r" where
  "close_entry sha jt e st =
     (let item = entry_item sha jt st (te_ItemID e) e; idx = te_OutputIndex e; iid = te_ItemID e;
          finished = chatToResponsesEvent ''response.output_item.done'' (zero_resp_event\<lparr>re_OutputIndex := idx, re_Item := Some item\<rparr>)
      in if te_IsCustom e then
           then_emit (then_emit
             (if ro_Input item \<noteq> [] then chatToResponsesEvent ''response.custom_tool_call_input.delta''
                (zero_resp_event\<lparr>re_OutputIndex := idx, re_ItemID := iid, re_Delta := ro_Input item\<rparr>) st else (st, []))
             (chatToResponsesEvent ''response.custom_tool_call_input.done'' (zero_resp_event\<lparr>re_OutputIndex := idx, re_ItemID := iid,
                re_CallID := ro_CallID item, re_Name := ro_Name item, re_Input := ro_Input item\<rparr>)))
             finished
         else if te_IsToolSearch e then finished st
         else then_emit (chatToResponsesEvent ''response.function_call_arguments.done'' (zero_resp_event\<lparr>re_OutputIndex := idx, re_ItemID := iid,
                re_CallID := ro_CallID item, re_Name := ro_Name item, re_Arguments := ro_Arguments item\<rparr>) st) finished)"

text \<open>The loop of \<open>closeChatToolItems\<close> and of \<open>chatOutput\<close>: it counts to the number of calls and skips the indices that are missing.\<close>

definition counted :: "C2RState \<Rightarrow> int list" where
  "counted st = filter (\<lambda>i. map_of (cs_Tools st) i \<noteq> None) (map int [0..<length (cs_Tools st)])"

definition close_tool :: "(string \<Rightarrow> string) \<Rightarrow> json_text \<Rightarrow> int \<Rightarrow> C2RState \<Rightarrow> c2r" where
  "close_tool sha jt i st =
     then_emit (announceChatToolItem sha True i st) (\<lambda>s. close_entry sha jt (tool_entry s i) s)"

definition closeChatToolItems :: "(string \<Rightarrow> string) \<Rightarrow> json_text \<Rightarrow> C2RState \<Rightarrow> c2r" where
  "closeChatToolItems sha jt st = run_events (close_tool sha jt) (counted st) st"

text \<open>The items of the terminal event; all but the message get new identifiers.\<close>

definition chatOutput :: "(string \<Rightarrow> string) \<Rightarrow> json_text \<Rightarrow> (nat \<Rightarrow> string) \<Rightarrow> C2RState \<Rightarrow> ResponsesOutput list" where
  "chatOutput sha jt rnd st =
     (let n = cs_Drawn st;
          o1 = (if cs_Reasoning st \<noteq> [] then [reasoning_item (generateItemID (rnd n)) (cs_Reasoning st)] else []);
          n1 = n + length o1;
          o2 = (if cs_MessageItemID st \<noteq> [] \<or> cs_Tools st = []
                then [message_item (if cs_MessageItemID st \<noteq> [] then cs_MessageItemID st else generateItemID (rnd n1))
                        [output_text_part (cs_Text st)]] else []);
          n2 = n1 + length o2
      in o1 @ o2 @ map (\<lambda>(j, i). entry_item sha jt st (generateItemID (rnd (n2 + j))) (tool_entry st i))
           (zip [0..<length (counted st)] (counted st)))"

definition FinalizeChatCompletionsResponsesStream ::
    "(string \<Rightarrow> string) \<Rightarrow> json_text \<Rightarrow> (nat \<Rightarrow> string) \<Rightarrow> C2RState \<Rightarrow> c2r" where
  "FinalizeChatCompletionsResponsesStream sha jt rnd st =
     (if cs_CompletedSent st then (st, [])
      else
        then_emit (then_emit (then_emit (then_emit (then_emit (ensureChatToResponsesCreated st)
            closeChatReasoningItem) (synthesizeChatReasoningFallbackMessage rnd)) close_message) (closeChatToolItems sha jt))
          (\<lambda>s. chatToResponsesEvent ''response.completed'' (zero_resp_event\<lparr>re_Response := Some (zero_response\<lparr>rr_ID := cs_ResponseID s,
               rr_Object := ''response'', rr_CreatedAt := cs_Created s, rr_Model := cs_Model s,
               rr_Status := (if cs_FinishReason s = ''length'' then ''incomplete'' else ''completed''),
               rr_ServiceTier := cs_ServiceTier s, rr_Output := chatOutput sha jt rnd s, rr_Usage := cs_Usage s,
               rr_IncompleteDetails := (if cs_FinishReason s = ''length'' then Some ''max_output_tokens'' else None)\<rparr>)\<rparr>)
             (s\<lparr>cs_CompletedSent := True\<rparr>)))"

end
