(* ===== verification/Chat_Stream_Correct.thy ===== *)
theory Chat_Stream_Correct
  imports Chat_Stream_Resp
begin

section \<open>Correctness of the stream from chat chunks to Responses events\<close>

text \<open>
  A client of the Responses protocol as an automaton, the position of the client as a view of the converter's
  state, and the handlers that keep the invariant under which the client accepts every event.
\<close>

subsection \<open>A client of the Responses stream\<close>

text \<open>
  A client keeps an item per output index: its type and identifier, whether its part is open (1) or closed (2),
  what the deltas delivered, and whether it is still open. Events for an item carry its identifier; a \<open>done\<close>
  event repeats what the client has assembled.
\<close>

record client_item =
  ci_Type :: string
  ci_ID :: string
  ci_Part :: nat
  ci_Data :: string
  ci_Open :: bool

record client_pos =
  kp_seq :: int
  kp_created :: bool
  kp_completed :: bool
  kp_items :: "int \<Rightarrow> client_item option"

definition on_item :: "client_pos \<Rightarrow> int \<Rightarrow> string \<Rightarrow> string \<Rightarrow> (client_item \<Rightarrow> client_item option) \<Rightarrow> client_pos option" where
  "on_item p i iid t f =
     (case kp_items p i of
        None \<Rightarrow> None
      | Some it \<Rightarrow>
          if ci_Open it \<and> ci_ID it = iid \<and> ci_Type it = t
          then map_option (\<lambda>it'. p\<lparr>kp_items := (kp_items p)(i \<mapsto> it')\<rparr>) (f it) else None)"

definition part_opens :: "client_item \<Rightarrow> client_item option" where
  "part_opens it = (if ci_Part it = 0 then Some (it\<lparr>ci_Part := 1\<rparr>) else None)"

definition grows :: "nat \<Rightarrow> string \<Rightarrow> client_item \<Rightarrow> client_item option" where
  "grows part d it = (if ci_Part it = part then Some (it\<lparr>ci_Data := ci_Data it @ d\<rparr>) else None)"

definition is_whole :: "nat \<Rightarrow> string \<Rightarrow> client_item \<Rightarrow> client_item option" where
  "is_whole part d it = (if ci_Part it = part \<and> ci_Data it = d then Some it else None)"

definition part_closes :: "ResponsesContentPart option \<Rightarrow> client_item \<Rightarrow> client_item option" where
  "part_closes part it = (if ci_Part it = 1 \<and> map_option cp_Text part = Some (ci_Data it) then Some (it\<lparr>ci_Part := 2\<rparr>) else None)"

definition item_payload :: "ResponsesOutput \<Rightarrow> string \<Rightarrow> bool" where
  "item_payload x d \<longleftrightarrow>
     (if ro_Type x = ''reasoning'' then concat (map sm_Text (ro_Summary x)) = d
      else if ro_Type x = ''message'' then concat (map cp_Text (ro_Content x)) = d
      else if ro_Type x = ''function_call'' then ro_Arguments x = call_arguments d
      else if ro_Type x = ''custom_tool_call'' then ro_Input x = d
      else True)"

definition item_closes :: "ResponsesOutput \<Rightarrow> client_item \<Rightarrow> client_item option" where
  "item_closes x it =
     (if ci_Part it \<noteq> 1 \<and> ro_Status x = ''completed'' \<and> item_payload x (ci_Data it) then Some (it\<lparr>ci_Open := False\<rparr>) else None)"

text \<open>
  At the end every item is closed, and the response lists as many items as the stream had; an answer without text
  and calls lists an empty message that was not streamed.
\<close>

definition all_delivered :: "client_pos \<Rightarrow> ResponsesOutput list \<Rightarrow> bool" where
  "all_delivered p out \<longleftrightarrow> (\<forall>i it. kp_items p i = Some it \<longrightarrow> \<not> ci_Open it) \<and>
     (dom (kp_items p) = {0..<int (length out)} \<or>
      out \<noteq> [] \<and> ro_Type (last out) = ''message'' \<and> item_payload (last out) [] \<and> dom (kp_items p) = {0..<int (length out) - 1})"

definition client_accept_type :: "client_pos \<Rightarrow> ResponsesStreamEvent \<Rightarrow> client_pos option" where
  "client_accept_type p e =
     (let t = re_Type e; i = re_OutputIndex e; iid = re_ItemID e in
      if t = ''response.created'' then (if kp_created p then None else Some (p\<lparr>kp_created := True\<rparr>))
      else if \<not> kp_created p \<or> kp_completed p then None
      else if t = ''response.output_item.added'' then
        (case re_Item e of None \<Rightarrow> None
         | Some x \<Rightarrow> if kp_items p i = None
             then Some (p\<lparr>kp_items := (kp_items p)(i \<mapsto> \<lparr>ci_Type = ro_Type x, ci_ID = ro_ID x, ci_Part = 0, ci_Data = [], ci_Open = True\<rparr>)\<rparr>)
             else None)
      else if t = ''response.reasoning_summary_part.added'' then on_item p i iid ''reasoning'' part_opens
      else if t = ''response.content_part.added'' then on_item p i iid ''message'' part_opens
      else if t = ''response.reasoning_summary_text.delta'' then on_item p i iid ''reasoning'' (grows 1 (re_Delta e))
      else if t = ''response.output_text.delta'' then on_item p i iid ''message'' (grows 1 (re_Delta e))
      else if t = ''response.function_call_arguments.delta'' then on_item p i iid ''function_call'' (grows 0 (re_Delta e))
      else if t = ''response.custom_tool_call_input.delta'' then on_item p i iid ''custom_tool_call'' (grows 0 (re_Delta e))
      else if t = ''response.reasoning_summary_text.done'' then on_item p i iid ''reasoning'' (is_whole 1 (re_Text e))
      else if t = ''response.output_text.done'' then on_item p i iid ''message'' (is_whole 1 (re_Text e))
      else if t = ''response.function_call_arguments.done'' then
        on_item p i iid ''function_call'' (\<lambda>it. if re_Arguments e = call_arguments (ci_Data it) then Some it else None)
      else if t = ''response.custom_tool_call_input.done'' then on_item p i iid ''custom_tool_call'' (is_whole 0 (re_Input e))
      else if t = ''response.reasoning_summary_part.done'' then on_item p i iid ''reasoning'' (part_closes (re_Part e))
      else if t = ''response.content_part.done'' then on_item p i iid ''message'' (part_closes (re_Part e))
      else if t = ''response.output_item.done'' then
        (case re_Item e of None \<Rightarrow> None | Some x \<Rightarrow> on_item p i (ro_ID x) (ro_Type x) (item_closes x))
      else if t = ''response.completed'' then
        (case re_Response e of None \<Rightarrow> None
         | Some r \<Rightarrow> if all_delivered p (rr_Output r) then Some (p\<lparr>kp_completed := True\<rparr>) else None)
      else None)"

definition client_accept :: "client_pos \<Rightarrow> ResponsesStreamEvent \<Rightarrow> client_pos option" where
  "client_accept p e =
     (if re_SequenceNumber e \<noteq> kp_seq p then None
      else map_option (\<lambda>p'. p'\<lparr>kp_seq := kp_seq p + 1\<rparr>) (client_accept_type p e))"

definition client_start :: client_pos where
  "client_start = \<lparr>kp_seq = 0, kp_created = False, kp_completed = False, kp_items = Map.empty\<rparr>"

subsection \<open>What the client has, as a view of the state\<close>

definition reasoned :: "C2RState \<Rightarrow> bool" where
  "reasoned st \<longleftrightarrow> cs_ReasoningOpen st \<or> cs_ReasoningDone st"

definition entry_view :: "ChatToolEntry \<Rightarrow> client_item option" where
  "entry_view e =
     (if te_Announced e then Some \<lparr>ci_Type = (if te_IsToolSearch e then ''tool_search_call'' else if te_IsCustom e then ''custom_tool_call'' else ''function_call''),
        ci_ID = te_ItemID e, ci_Part = 0,
        ci_Data = (if te_IsCustom e \<or> te_IsToolSearch e then [] else fc_Arguments (tc_Function (te_Call e))), ci_Open = True\<rparr>
      else None)"

definition tool_map :: "(int \<times> ChatToolEntry) list \<Rightarrow> int \<Rightarrow> ChatToolEntry option" where
  "tool_map l = map_of (map (\<lambda>(k, e). (te_OutputIndex e, e)) l)"

definition reasoning_view :: "C2RState \<Rightarrow> client_item" where
  "reasoning_view st = \<lparr>ci_Type = ''reasoning'', ci_ID = cs_ReasoningItemID st, ci_Part = (if cs_ReasoningOpen st then 1 else 2),
     ci_Data = cs_Reasoning st, ci_Open = cs_ReasoningOpen st\<rparr>"

definition message_view :: "C2RState \<Rightarrow> client_item" where
  "message_view st = \<lparr>ci_Type = ''message'', ci_ID = cs_MessageItemID st, ci_Part = (if cs_TextPartOpen st then 1 else 0),
     ci_Data = cs_Text st, ci_Open = True\<rparr>"

definition items_view :: "C2RState \<Rightarrow> int \<Rightarrow> client_item option" where
  "items_view st i =
     (if reasoned st \<and> i = cs_ReasoningIndex st then Some (reasoning_view st)
      else if cs_MessageItemID st \<noteq> [] \<and> i = cs_MessageIndex st then Some (message_view st)
      else Option.bind (tool_map (cs_Tools st) i) entry_view)"

definition c2r_view :: "C2RState \<Rightarrow> client_pos" where
  "c2r_view st = \<lparr>kp_seq = cs_SequenceNumber st, kp_created = cs_CreatedSent st, kp_completed = cs_CompletedSent st, kp_items = items_view st\<rparr>"

text \<open>The output indices that have been given out.\<close>

definition used_indices :: "C2RState \<Rightarrow> int list" where
  "used_indices st = (if reasoned st then [cs_ReasoningIndex st] else []) @ (if cs_MessageItemID st \<noteq> [] then [cs_MessageIndex st] else []) @
     map (\<lambda>(k, e). te_OutputIndex e) (cs_Tools st)"

definition entry_ok :: "ChatToolEntry \<Rightarrow> bool" where
  "entry_ok e \<longleftrightarrow> (te_IsCustom e \<or> te_IsToolSearch e \<or> te_Namespace e \<noteq> None \<longrightarrow> te_Announced e) \<and> \<not> (te_IsCustom e \<and> te_IsToolSearch e)"

definition c2r_inv :: "C2RState \<Rightarrow> bool" where
  "c2r_inv st \<longleftrightarrow> distinct (used_indices st) \<and> set (used_indices st) = {0..<cs_nextOutputIndex st} \<and> 0 \<le> cs_nextOutputIndex st \<and>
     map fst (cs_Tools st) = map int [0..<length (cs_Tools st)] \<and>
     \<not> (cs_ReasoningOpen st \<and> cs_ReasoningDone st) \<and> (reasoned st \<longleftrightarrow> cs_Reasoning st \<noteq> []) \<and>
     (cs_TextPartOpen st \<longleftrightarrow> cs_MessageItemID st \<noteq> []) \<and> (cs_MessageItemID st = [] \<longrightarrow> cs_Text st = []) \<and> (cs_MessageItemID st \<noteq> [] \<longrightarrow> cs_Text st \<noteq> []) \<and> \<not> cs_CompletedSent st \<and>
     (\<forall>(k, e) \<in> set (cs_Tools st). entry_ok e)"

definition c2r_ok :: "C2RState \<Rightarrow> c2r \<Rightarrow> bool" where
  "c2r_ok st r \<longleftrightarrow> c2r_inv (fst r) \<and> cs_CreatedSent (fst r) \<and> cs_Kinds (fst r) = cs_Kinds st \<and>
     scan_events client_accept (c2r_view st) (snd r) = Some (c2r_view (fst r))"

lemma c2r_ok_refl: "c2r_inv st \<Longrightarrow> cs_CreatedSent st \<Longrightarrow> c2r_ok st (st, [])"
  by (simp add: c2r_ok_def)

lemma c2r_ok_then:
  assumes "c2r_ok st r" "c2r_inv (fst r) \<Longrightarrow> cs_CreatedSent (fst r) \<Longrightarrow> c2r_ok (fst r) (k (fst r))"
  shows "c2r_ok st (then_emit r k)"
  using assms by (cases r; cases "k (fst r)") (simp add: then_emit_def c2r_ok_def scan_events_append)

lemma c2r_ok_run:
  assumes "\<And>x s. P x s \<Longrightarrow> c2r_inv s \<Longrightarrow> cs_CreatedSent s \<Longrightarrow> c2r_ok s (f x s)" "c2r_inv st" "cs_CreatedSent st" "guarded_run P f xs st"
  shows "c2r_ok st (run_events f xs st)"
  using assms(2-)
proof (induction xs arbitrary: st)
  case (Cons x xs)
  have run: "run_events f (x # xs) st = then_emit (f x st) (run_events f xs)" by (simp add: then_emit_def split: prod.splits)
  from Cons assms(1) have "c2r_ok st (f x st)" by simp
  then show ?case unfolding run using Cons.IH Cons.prems(3) by (intro c2r_ok_then) (auto simp: c2r_ok_def)
qed (simp add: c2r_ok_refl)

lemmas client_accept_defs = client_accept_def client_accept_type_def on_item_def part_opens_def grows_def is_whole_def
  part_closes_def item_closes_def item_payload_def

lemma reasoning_item_fields [simp]:
  "ro_Type (reasoning_item i t) = ''reasoning''" "ro_ID (reasoning_item i t) = i" "ro_Summary (reasoning_item i t) = [\<lparr>sm_Type = ''summary_text'', sm_Text = t\<rparr>]"
  by (simp_all add: reasoning_item_def)

lemma tool_indices_frame [simp]:
  "used_indices (st\<lparr>cs_SequenceNumber := n\<rparr>) = used_indices st" "used_indices (st\<lparr>cs_CreatedSent := b\<rparr>) = used_indices st"
  "used_indices (st\<lparr>cs_FinishReason := r\<rparr>) = used_indices st" "used_indices (st\<lparr>cs_CompletedSent := b\<rparr>) = used_indices st"
  "used_indices (st\<lparr>cs_Text := t\<rparr>) = used_indices st" "used_indices (st\<lparr>cs_Reasoning := t\<rparr>) = used_indices st"
  "used_indices (st\<lparr>cs_TextPartOpen := b\<rparr>) = used_indices st" "used_indices (st\<lparr>cs_Drawn := m\<rparr>) = used_indices st"
  by (simp_all add: used_indices_def reasoned_def)

lemma reasoned_frame [simp]:
  "reasoned (st\<lparr>cs_SequenceNumber := n\<rparr>) = reasoned st" "reasoned (st\<lparr>cs_CreatedSent := b\<rparr>) = reasoned st"
  "reasoned (st\<lparr>cs_FinishReason := r\<rparr>) = reasoned st" "reasoned (st\<lparr>cs_CompletedSent := b\<rparr>) = reasoned st"
  "reasoned (st\<lparr>cs_Text := t\<rparr>) = reasoned st" "reasoned (st\<lparr>cs_Reasoning := t\<rparr>) = reasoned st" "reasoned (st\<lparr>cs_TextPartOpen := b\<rparr>) = reasoned st"
  "reasoned (st\<lparr>cs_Tools := l\<rparr>) = reasoned st" "reasoned (st\<lparr>cs_Drawn := m\<rparr>) = reasoned st" "reasoned (st\<lparr>cs_nextOutputIndex := i\<rparr>) = reasoned st"
  "reasoned (st\<lparr>cs_MessageItemID := r\<rparr>) = reasoned st" "reasoned (st\<lparr>cs_MessageIndex := i\<rparr>) = reasoned st"
  by (simp_all add: reasoned_def)

lemma items_view_frame [simp]:
  "items_view (st\<lparr>cs_SequenceNumber := n\<rparr>) = items_view st" "items_view (st\<lparr>cs_CreatedSent := b\<rparr>) = items_view st"
  "items_view (st\<lparr>cs_FinishReason := r\<rparr>) = items_view st" "items_view (st\<lparr>cs_CompletedSent := b\<rparr>) = items_view st"
  "items_view (st\<lparr>cs_nextOutputIndex := i\<rparr>) = items_view st" "items_view (st\<lparr>cs_Drawn := m\<rparr>) = items_view st"
  by (rule ext, simp add: items_view_def reasoning_view_def message_view_def)+

lemma c2r_inv_frame [simp]:
  "c2r_inv (st\<lparr>cs_SequenceNumber := n\<rparr>) = c2r_inv st" "c2r_inv (st\<lparr>cs_CreatedSent := b\<rparr>) = c2r_inv st"
  "c2r_inv (st\<lparr>cs_FinishReason := r\<rparr>) = c2r_inv st" "c2r_inv (st\<lparr>cs_Drawn := m\<rparr>) = c2r_inv st"
  by (simp_all add: c2r_inv_def)

lemma chat_created_ok: "c2r_inv st \<Longrightarrow> c2r_ok st (ensureChatToResponsesCreated st)"
  by (simp add: ensureChatToResponsesCreated_def c2r_ok_def chatToResponsesEvent_def client_accept_defs c2r_view_def zero_resp_event_def)

text \<open>The acceptor between the first and the last event of a stream.\<close>

lemma accept_types:
  assumes "kp_created p" "\<not> kp_completed p"
  shows "re_Type e = ''response.output_item.added'' \<Longrightarrow> re_Item e = Some x \<Longrightarrow> kp_items p (re_OutputIndex e) = None \<Longrightarrow>
      client_accept_type p e = Some (p\<lparr>kp_items := (kp_items p)(re_OutputIndex e \<mapsto> \<lparr>ci_Type = ro_Type x, ci_ID = ro_ID x, ci_Part = 0, ci_Data = [], ci_Open = True\<rparr>)\<rparr>)"
    "re_Type e = ''response.reasoning_summary_part.added'' \<Longrightarrow> client_accept_type p e = on_item p (re_OutputIndex e) (re_ItemID e) ''reasoning'' part_opens"
    "re_Type e = ''response.content_part.added'' \<Longrightarrow> client_accept_type p e = on_item p (re_OutputIndex e) (re_ItemID e) ''message'' part_opens"
    "re_Type e = ''response.reasoning_summary_text.delta'' \<Longrightarrow> client_accept_type p e = on_item p (re_OutputIndex e) (re_ItemID e) ''reasoning'' (grows 1 (re_Delta e))"
    "re_Type e = ''response.output_text.delta'' \<Longrightarrow> client_accept_type p e = on_item p (re_OutputIndex e) (re_ItemID e) ''message'' (grows 1 (re_Delta e))"
    "re_Type e = ''response.function_call_arguments.delta'' \<Longrightarrow> client_accept_type p e = on_item p (re_OutputIndex e) (re_ItemID e) ''function_call'' (grows 0 (re_Delta e))"
    "re_Type e = ''response.custom_tool_call_input.delta'' \<Longrightarrow> client_accept_type p e = on_item p (re_OutputIndex e) (re_ItemID e) ''custom_tool_call'' (grows 0 (re_Delta e))"
    "re_Type e = ''response.reasoning_summary_text.done'' \<Longrightarrow> client_accept_type p e = on_item p (re_OutputIndex e) (re_ItemID e) ''reasoning'' (is_whole 1 (re_Text e))"
    "re_Type e = ''response.output_text.done'' \<Longrightarrow> client_accept_type p e = on_item p (re_OutputIndex e) (re_ItemID e) ''message'' (is_whole 1 (re_Text e))"
    "re_Type e = ''response.function_call_arguments.done'' \<Longrightarrow> client_accept_type p e =
       on_item p (re_OutputIndex e) (re_ItemID e) ''function_call'' (\<lambda>it. if re_Arguments e = call_arguments (ci_Data it) then Some it else None)"
    "re_Type e = ''response.custom_tool_call_input.done'' \<Longrightarrow> client_accept_type p e = on_item p (re_OutputIndex e) (re_ItemID e) ''custom_tool_call'' (is_whole 0 (re_Input e))"
    "re_Type e = ''response.reasoning_summary_part.done'' \<Longrightarrow> client_accept_type p e = on_item p (re_OutputIndex e) (re_ItemID e) ''reasoning'' (part_closes (re_Part e))"
    "re_Type e = ''response.content_part.done'' \<Longrightarrow> client_accept_type p e = on_item p (re_OutputIndex e) (re_ItemID e) ''message'' (part_closes (re_Part e))"
    "re_Type e = ''response.output_item.done'' \<Longrightarrow> re_Item e = Some x \<Longrightarrow> client_accept_type p e = on_item p (re_OutputIndex e) (ro_ID x) (ro_Type x) (item_closes x)"
    "re_Type e = ''response.completed'' \<Longrightarrow> re_Response e = Some r \<Longrightarrow> client_accept_type p e = (if all_delivered p (rr_Output r) then Some (p\<lparr>kp_completed := True\<rparr>) else None)"
  using assms by (simp_all add: client_accept_type_def)

lemma on_item_known:
  assumes "kp_items p i = Some it" "ci_Open it" "ci_ID it = iid" "ci_Type it = t" "f it = Some it'"
  shows "on_item p i iid t f = Some (p\<lparr>kp_items := (kp_items p)(i \<mapsto> it')\<rparr>)"
  using assms by (simp add: on_item_def)

text \<open>One emitted event; the position it leads to.\<close>

lemma scan_emit:
  assumes "client_accept_type p (t\<lparr>re_Type := ty, re_SequenceNumber := kp_seq p\<rparr>) = Some p'"
  shows "scan_events client_accept p (t\<lparr>re_Type := ty, re_SequenceNumber := kp_seq p\<rparr> # es) = scan_events client_accept (p'\<lparr>kp_seq := kp_seq p + 1\<rparr>) es"
  using assms by (simp add: client_accept_def)

lemma c2r_view_simps [simp]:
  "kp_seq (c2r_view st) = cs_SequenceNumber st" "kp_created (c2r_view st) = cs_CreatedSent st"
  "kp_completed (c2r_view st) = cs_CompletedSent st" "kp_items (c2r_view st) = items_view st"
  by (simp_all add: c2r_view_def)

lemma inv_open: "c2r_inv st \<Longrightarrow> \<not> cs_CompletedSent st"
  by (simp add: c2r_inv_def)

lemma tool_map_index: "tool_map l i = Some e \<Longrightarrow> i \<in> (\<lambda>(k, e). te_OutputIndex e) ` set l \<and> te_OutputIndex e = i"
  by (force simp: tool_map_def dest: map_of_SomeD)

lemma items_view_used: "items_view st i = Some it \<Longrightarrow> i \<in> set (used_indices st)"
  by (auto simp: items_view_def used_indices_def bind_eq_Some_conv dest: tool_map_index split: if_splits)

lemma items_view_fresh:
  assumes "c2r_inv st"
  shows "items_view st (cs_nextOutputIndex st) = None"
proof (rule ccontr)
  assume "items_view st (cs_nextOutputIndex st) \<noteq> None"
  then obtain it where "items_view st (cs_nextOutputIndex st) = Some it" by blast
  from items_view_used [OF this] assms show False by (simp add: c2r_inv_def)
qed

lemma c2r_emit:
  assumes "chatToResponsesEvent ty t st' = r" "c2r_inv st'" "cs_CreatedSent st" "cs_Kinds st' = cs_Kinds st"
    and "cs_SequenceNumber st' = cs_SequenceNumber st" "cs_CreatedSent st' = cs_CreatedSent st" "cs_CompletedSent st' = cs_CompletedSent st"
    and "client_accept_type (c2r_view st) (t\<lparr>re_Type := ty, re_SequenceNumber := cs_SequenceNumber st\<rparr>) = Some ((c2r_view st)\<lparr>kp_items := items_view st'\<rparr>)"
  shows "c2r_ok st r"
  using assms by (auto simp: c2r_ok_def chatToResponsesEvent_def client_accept_def c2r_view_def)

lemma new_index:
  "distinct (xs @ ys) \<Longrightarrow> set (xs @ ys) = {0..<n :: int} \<Longrightarrow> 0 \<le> n \<Longrightarrow> distinct (xs @ n # ys) \<and> set (xs @ n # ys) = {0..<n + 1}"
proof -
  assume *: "distinct (xs @ ys)" "set (xs @ ys) = {0..<n}" "0 \<le> n"
  from *(2) have "n \<notin> set (xs @ ys)" by simp
  moreover have "set (xs @ n # ys) = insert n (set (xs @ ys))" by auto
  then have "set (xs @ n # ys) = {0..<n + 1}" using *(2,3) by auto
  ultimately show ?thesis using *(1) by simp
qed

lemma close_reasoning_ok:
  assumes "c2r_inv st" "cs_CreatedSent st"
  shows "c2r_ok st (closeChatReasoningItem st)"
proof (cases "cs_ReasoningOpen st")
  case True
  let ?it = "reasoning_view st" and ?i = "cs_ReasoningIndex st"
  have it: "items_view st ?i = Some ?it" using True by (simp add: items_view_def reasoned_def)
  have "items_view (st\<lparr>cs_ReasoningOpen := False, cs_ReasoningDone := True\<rparr>) = (items_view st)(?i \<mapsto> ?it\<lparr>ci_Part := 2, ci_Open := False\<rparr>)"
    using True by (auto simp: items_view_def reasoned_def fun_eq_iff reasoning_view_def message_view_def)
  moreover have "c2r_inv (st\<lparr>cs_ReasoningOpen := False, cs_ReasoningDone := True\<rparr>)"
    using assms True by (auto simp: c2r_inv_def used_indices_def reasoned_def)
  ultimately show ?thesis
    using True assms it inv_open [OF assms(1)]
    by (simp add: closeChatReasoningItem_def then_emit_def chatToResponsesEvent_def c2r_ok_def client_accept_def accept_types
      on_item_def is_whole_def part_closes_def item_closes_def item_payload_def Let_def reasoning_view_def zero_resp_event_def zero_part_def c2r_view_def)
qed (simp add: closeChatReasoningItem_def c2r_ok_refl assms)

lemma generateItemID_nonempty [simp]: "generateItemID b \<noteq> []" "[] \<noteq> generateItemID b"
  by (simp_all add: generateItemID_def)

lemma no_output_fields [simp]: "ro_Type zero_output = []" "ro_ID zero_output = []"
  by (simp_all add: zero_output_def)

lemma handle_reasoning_ok:
  assumes "c2r_inv st" "cs_CreatedSent st" "\<not> cs_ReasoningDone st" "t \<noteq> []"
  shows "c2r_ok st (handle_reasoning rnd t st)"
proof (cases "cs_ReasoningOpen st")
  case True
  let ?it = "reasoning_view st" and ?i = "cs_ReasoningIndex st"
  have it: "items_view st ?i = Some ?it" using True by (simp add: items_view_def reasoned_def)
  have "items_view (st\<lparr>cs_Reasoning := cs_Reasoning st @ t\<rparr>) = (items_view st)(?i \<mapsto> ?it\<lparr>ci_Data := ci_Data ?it @ t\<rparr>)"
    using True by (auto simp: items_view_def reasoned_def fun_eq_iff reasoning_view_def message_view_def)
  moreover have "c2r_inv (st\<lparr>cs_Reasoning := cs_Reasoning st @ t\<rparr>)"
    using assms True by (auto simp: c2r_inv_def used_indices_def reasoned_def)
  ultimately show ?thesis
    using True assms it inv_open [OF assms(1)]
    by (simp add: handle_reasoning_def ensureChatReasoningItem_def then_emit_def)
      (rule c2r_emit [OF refl], simp_all add: accept_types on_item_def grows_def reasoning_view_def zero_resp_event_def)
next
  case False
  let ?i = "cs_nextOutputIndex st" and ?iid = "generateItemID (rnd (cs_Drawn st))"
  let ?it = "\<lparr>ci_Type = ''reasoning'', ci_ID = ?iid, ci_Part = 1, ci_Data = t, ci_Open = True\<rparr>"
  let ?st = "st\<lparr>cs_ReasoningOpen := True, cs_ReasoningItemID := ?iid, cs_ReasoningIndex := ?i,
      cs_Drawn := cs_Drawn st + 1, cs_nextOutputIndex := ?i + 1, cs_Reasoning := t\<rparr>"
  have none: "cs_Reasoning st = []" "\<not> reasoned st" using assms False by (auto simp: c2r_inv_def reasoned_def)
  note fresh = items_view_fresh [OF assms(1)]
  have "items_view ?st = (items_view st)(?i \<mapsto> ?it)"
    using none(2) fresh by (auto simp: items_view_def reasoned_def fun_eq_iff reasoning_view_def message_view_def)
  moreover have "c2r_inv ?st"
    using assms none False by (auto simp: c2r_inv_def used_indices_def reasoned_def)
  ultimately show ?thesis
    using False assms fresh none inv_open [OF assms(1)]
    by (simp add: handle_reasoning_def ensureChatReasoningItem_def then_emit_def chatToResponsesEvent_def c2r_ok_def client_accept_def accept_types
      on_item_def part_opens_def grows_def Let_def zero_resp_event_def zero_part_def c2r_view_def)
qed

lemma emit_text_ok:
  assumes "c2r_inv st" "cs_CreatedSent st" "t \<noteq> []"
  shows "c2r_ok st (emit_text rnd t st)"
proof (cases "cs_MessageItemID st = []")
  case False
  let ?it = "message_view st" and ?i = "cs_MessageIndex st"
  have part: "cs_TextPartOpen st" using assms False by (simp add: c2r_inv_def)
  have other: "\<not> (reasoned st \<and> ?i = cs_ReasoningIndex st)" using assms False by (auto simp: c2r_inv_def used_indices_def)
  then have it: "items_view st ?i = Some ?it" using False by (auto simp: items_view_def)
  have "items_view (st\<lparr>cs_Text := cs_Text st @ t\<rparr>) = (items_view st)(?i \<mapsto> ?it\<lparr>ci_Data := ci_Data ?it @ t\<rparr>)"
    using False other by (auto simp: items_view_def fun_eq_iff reasoning_view_def message_view_def)
  moreover have "c2r_inv (st\<lparr>cs_Text := cs_Text st @ t\<rparr>)"
    using assms False by (auto simp: c2r_inv_def used_indices_def)
  ultimately show ?thesis
    using False part assms it inv_open [OF assms(1)]
    by (simp add: emit_text_def ensureChatToResponsesMessageItem_def ensureChatToResponsesTextPart_def then_emit_def)
      (rule c2r_emit [OF refl], simp_all add: accept_types on_item_def grows_def message_view_def zero_resp_event_def)
next
  case True
  let ?i = "cs_nextOutputIndex st" and ?iid = "generateItemID (rnd (cs_Drawn st))"
  let ?it = "\<lparr>ci_Type = ''message'', ci_ID = ?iid, ci_Part = 1, ci_Data = t, ci_Open = True\<rparr>"
  let ?st = "st\<lparr>cs_MessageItemID := ?iid, cs_MessageIndex := ?i, cs_Drawn := cs_Drawn st + 1, cs_nextOutputIndex := ?i + 1,
      cs_TextPartOpen := True, cs_Text := t\<rparr>"
  have none: "cs_Text st = []" "\<not> cs_TextPartOpen st" using assms True by (auto simp: c2r_inv_def)
  note fresh = items_view_fresh [OF assms(1)]
  have old: "\<not> (reasoned st \<and> cs_ReasoningIndex st = ?i)" using assms(1) by (auto simp: c2r_inv_def used_indices_def)
  have "items_view ?st = (items_view st)(?i \<mapsto> ?it)"
    using True fresh old by (auto simp: items_view_def reasoned_def fun_eq_iff reasoning_view_def message_view_def)
  moreover have "c2r_inv ?st"
  proof -
    have "used_indices st = (if reasoned st then [cs_ReasoningIndex st] else []) @ map (\<lambda>(k, e). te_OutputIndex e) (cs_Tools st)"
      "used_indices ?st = (if reasoned st then [cs_ReasoningIndex st] else []) @ ?i # map (\<lambda>(k, e). te_OutputIndex e) (cs_Tools st)"
      unfolding used_indices_def using True by simp_all
    note eqs = this
    have "distinct (used_indices st)" "set (used_indices st) = {0..<?i}" "0 \<le> ?i" using assms(1) unfolding c2r_inv_def by blast+
    note new_index [OF this [unfolded eqs(1)]]
    then have "distinct (used_indices ?st)" "set (used_indices ?st) = {0..<?i + 1}" unfolding eqs(2) by blast+
    with assms(1,3) show ?thesis by (simp add: c2r_inv_def)
  qed
  ultimately show ?thesis
    using True assms fresh none inv_open [OF assms(1)]
    by (simp add: emit_text_def ensureChatToResponsesMessageItem_def ensureChatToResponsesTextPart_def then_emit_def chatToResponsesEvent_def
      c2r_ok_def client_accept_def accept_types on_item_def part_opens_def grows_def Let_def zero_resp_event_def c2r_view_def)
qed

subsection \<open>Tool calls keep the view\<close>

abbreviation outs :: "(int \<times> ChatToolEntry) list \<Rightarrow> int list" where
  "outs l \<equiv> map (\<lambda>(k, e). te_OutputIndex e) l"

lemma update_known:
  assumes "map_of l k = Some e" "te_OutputIndex e' = te_OutputIndex e"
  shows "outs (AList.update k e' l) = outs l" "map fst (AList.update k e' l) = map fst l"
  using assms by (induction l) auto

lemma update_subset: "set (AList.update k e l) \<subseteq> insert (k, e) (set l)"
  by (induction l) auto

lemma update_new: "k \<notin> fst ` set l \<Longrightarrow> AList.update k e l = l @ [(k, e)]"
  by (induction l) auto

lemma tool_map_other: "i \<notin> set (outs l) \<Longrightarrow> tool_map l i = None"
  by (force simp: tool_map_def map_of_eq_None_iff)

lemma tool_map_at: "map_of l k = Some e \<Longrightarrow> distinct (outs l) \<Longrightarrow> tool_map l (te_OutputIndex e) = Some e"
proof (induction l)
  case (Cons x l)
  show ?case
  proof (cases "fst x = k")
    case False
    then have k: "map_of l k = Some e" using Cons.prems by (cases x) auto
    then have "te_OutputIndex e \<in> set (outs l)" by (force dest: map_of_SomeD)
    then have "te_OutputIndex (snd x) \<noteq> te_OutputIndex e" using Cons.prems(2) by (cases x) auto
    with Cons.IH [OF k] Cons.prems(2) show ?thesis by (cases x) (auto simp: tool_map_def)
  qed (use Cons.prems in \<open>cases x; auto simp: tool_map_def\<close>)
qed simp

lemma tool_map_update:
  assumes "map_of l k = Some e" "te_OutputIndex e' = te_OutputIndex e" "distinct (outs l)"
  shows "tool_map (AList.update k e' l) = (tool_map l)(te_OutputIndex e \<mapsto> e')"
  using assms
proof (induction l)
  case (Cons x l)
  show ?case
  proof (cases "fst x = k")
    case False
    then have k: "map_of l k = Some e" using Cons.prems by (cases x) auto
    then have "te_OutputIndex e \<in> set (outs l)" by (force dest: map_of_SomeD)
    then have "te_OutputIndex (snd x) \<noteq> te_OutputIndex e" using Cons.prems(3) by (cases x) auto
    with Cons.IH [OF k Cons.prems(2)] Cons.prems(3) False show ?thesis by (cases x) (auto simp: tool_map_def)
  qed (use Cons.prems in \<open>cases x; auto simp: tool_map_def\<close>)
qed simp

lemma tool_map_append: "te_OutputIndex e \<notin> set (outs l) \<Longrightarrow> tool_map (l @ [(k, e)]) = (tool_map l)(te_OutputIndex e \<mapsto> e)"
proof (induction l)
  case (Cons x l)
  then show ?case by (cases x) (auto simp: tool_map_def)
qed (simp add: tool_map_def)

lemma inv_parts:
  assumes "c2r_inv st"
  shows "distinct (outs (cs_Tools st))" "map fst (cs_Tools st) = map int [0..<length (cs_Tools st)]"
    "reasoned st \<Longrightarrow> cs_ReasoningIndex st \<notin> set (outs (cs_Tools st))"
    "cs_MessageItemID st \<noteq> [] \<Longrightarrow> cs_MessageIndex st \<notin> set (outs (cs_Tools st))"
    "set (outs (cs_Tools st)) \<subseteq> {0..<cs_nextOutputIndex st}" "0 \<le> cs_nextOutputIndex st"
proof -
  have *: "distinct (used_indices st)" "set (used_indices st) = {0..<cs_nextOutputIndex st}" "0 \<le> cs_nextOutputIndex st"
      "map fst (cs_Tools st) = map int [0..<length (cs_Tools st)]"
    using assms unfolding c2r_inv_def by blast+
  show "distinct (outs (cs_Tools st))" using *(1) by (simp add: used_indices_def)
  show "map fst (cs_Tools st) = map int [0..<length (cs_Tools st)]" by (rule *(4))
  show "cs_ReasoningIndex st \<notin> set (outs (cs_Tools st))" if "reasoned st" using *(1) that by (auto simp: used_indices_def)
  show "cs_MessageIndex st \<notin> set (outs (cs_Tools st))" if "cs_MessageItemID st \<noteq> []" using *(1) that by (auto simp: used_indices_def)
  show "set (outs (cs_Tools st)) \<subseteq> {0..<cs_nextOutputIndex st}" using *(2) by (auto simp: used_indices_def)
  show "0 \<le> cs_nextOutputIndex st" by (rule *(3))
qed

lemma entry_index: "map_of l k = Some e \<Longrightarrow> te_OutputIndex e \<in> set (outs l)"
  by (force dest: map_of_SomeD)

lemma items_view_tool:
  assumes "c2r_inv st" "map_of (cs_Tools st) k = Some e"
  shows "items_view st (te_OutputIndex e) = entry_view e"
  using assms inv_parts [OF assms(1)] entry_index [OF assms(2)] tool_map_at [OF assms(2)]
  by (auto simp: items_view_def)

lemma set_entry_simps [simp]:
  "cs_SequenceNumber (set_entry k e st) = cs_SequenceNumber st" "cs_CreatedSent (set_entry k e st) = cs_CreatedSent st"
  "cs_CompletedSent (set_entry k e st) = cs_CompletedSent st" "cs_Kinds (set_entry k e st) = cs_Kinds st"
  "cs_nextOutputIndex (set_entry k e st) = cs_nextOutputIndex st" "reasoned (set_entry k e st) = reasoned st"
  "cs_Tools (set_entry k e st) = AList.update k e (cs_Tools st)" "cs_Drawn (set_entry k e st) = cs_Drawn st"
  by (simp_all add: set_entry_def)

lemma items_view_set_entry:
  assumes "c2r_inv st" "map_of (cs_Tools st) k = Some e" "te_OutputIndex e' = te_OutputIndex e"
  shows "items_view (set_entry k e' st) = (items_view st)(te_OutputIndex e := entry_view e')"
proof -
  note parts = inv_parts [OF assms(1)]
  have other: "\<not> (reasoned st \<and> te_OutputIndex e = cs_ReasoningIndex st)" "\<not> (cs_MessageItemID st \<noteq> [] \<and> te_OutputIndex e = cs_MessageIndex st)"
    using parts entry_index [OF assms(2)] by auto
  show ?thesis
    using other tool_map_update [OF assms(2,3) parts(1)]
    by (auto simp: fun_eq_iff items_view_def set_entry_def reasoning_view_def message_view_def)
qed

lemma inv_set_entry:
  assumes "c2r_inv st" "map_of (cs_Tools st) k = Some e" "te_OutputIndex e' = te_OutputIndex e"
    and "entry_ok e'"
  shows "c2r_inv (set_entry k e' st)"
proof -
  note same = update_known [OF assms(2,3)]
  have "used_indices (set_entry k e' st) = used_indices st" using same(1) by (simp add: used_indices_def set_entry_def)
  moreover have "length (AList.update k e' (cs_Tools st)) = length (cs_Tools st)" using same(2) by (metis length_map)
  moreover have "set (AList.update k e' (cs_Tools st)) \<subseteq> insert (k, e') (set (cs_Tools st))" by (rule update_subset)
  moreover have "\<forall>(k, e) \<in> insert (k, e') (set (cs_Tools st)). entry_ok e"
    using assms(1,4) unfolding c2r_inv_def by simp
  ultimately have "\<forall>(k, e) \<in> set (AList.update k e' (cs_Tools st)). entry_ok e"
      "used_indices (set_entry k e' st) = used_indices st" "length (AList.update k e' (cs_Tools st)) = length (cs_Tools st)"
    by blast+
  then show ?thesis
    using assms(1) same(2) unfolding c2r_inv_def by (simp add: set_entry_def reasoned_def)
qed

lemma inv_entry: "c2r_inv st \<Longrightarrow> map_of (cs_Tools st) k = Some e \<Longrightarrow> entry_ok e"
  unfolding c2r_inv_def by (blast dest: map_of_SomeD)

lemma same_view_ok:
  assumes "c2r_inv st" "cs_CreatedSent st" "map_of (cs_Tools st) k = Some e" "te_OutputIndex e' = te_OutputIndex e"
    and "entry_ok e'" "entry_view e' = entry_view e"
  shows "c2r_ok st (set_entry k e' st, [])"
proof -
  have "items_view (set_entry k e' st) = items_view st"
    unfolding items_view_set_entry [OF assms(1,3,4)] assms(6) using items_view_tool [OF assms(1,3)] by (rule fun_upd_idem)
  then show ?thesis
    using assms inv_set_entry [OF assms(1,3,4,5)] by (simp add: c2r_ok_def c2r_view_def)
qed

lemma tool_entry_known: "map_of (cs_Tools st) k = Some e \<Longrightarrow> tool_entry st k = e"
  by (simp add: tool_entry_def)

lemma classify_simps [simp]:
  "te_OutputIndex (classify_entry sha k e) = te_OutputIndex e" "te_Announced (classify_entry sha k e)" "te_ItemID (classify_entry sha k e) = te_ItemID e"
  "te_Call (classify_entry sha k e) = te_Call e"
  by (simp_all add: classify_entry_def Let_def)

lemma entry_ok_classify [simp]: "entry_ok (classify_entry sha k e)"
  by (auto simp: classify_entry_def entry_ok_def Let_def)

lemma announced_item_simps [simp]:
  "ro_Type (announced_item sha k e) = (if te_IsToolSearch e then ''tool_search_call'' else if te_IsCustom e then ''custom_tool_call'' else ''function_call'')"
  "ro_ID (announced_item sha k e) = te_ItemID e"
  by (simp_all add: announced_item_def Let_def split: option.split)

lemma announce_ok:
  assumes "c2r_inv st" "cs_CreatedSent st" "map_of (cs_Tools st) k = Some e"
  shows "c2r_ok st (announceChatToolItem sha force k st)"
proof (cases "te_Announced e \<or> (\<not> force \<and> deferred (cs_Kinds st) e)")
  case True
  then show ?thesis using assms by (simp add: announceChatToolItem_def tool_entry_known Let_def c2r_ok_refl)
next
  case False
  let ?e = "classify_entry sha (cs_Kinds st) e" and ?i = "te_OutputIndex e"
  let ?args = "fc_Arguments (tc_Function (te_Call e))"
  have view: "items_view (set_entry k ?e st) = (items_view st)(?i := entry_view ?e)"
    using items_view_set_entry [OF assms(1,3), of ?e] by simp
  have inv: "c2r_inv (set_entry k ?e st)" using inv_set_entry [OF assms(1,3), of ?e] by simp
  have none: "items_view st ?i = None" using items_view_tool [OF assms(1,3)] False by (simp add: entry_view_def)
  let ?rest = "if \<not> te_IsCustom ?e \<and> \<not> te_IsToolSearch ?e \<and> ?args \<noteq> [] then chatToResponsesEvent ''response.function_call_arguments.delta'' (entry_delta ?e ?args) else no_event"
  have run: "announceChatToolItem sha force k st = then_emit (chatToResponsesEvent ''response.output_item.added'' (zero_resp_event\<lparr>re_OutputIndex := ?i,
      re_Item := Some (announced_item sha (cs_Kinds st) ?e)\<rparr>) (set_entry k ?e st)) ?rest"
    unfolding announceChatToolItem_def Let_def tool_entry_known [OF assms(3)] if_not_P [OF False] classify_simps by (rule refl)
  let ?t = "zero_resp_event\<lparr>re_OutputIndex := ?i, re_Item := Some (announced_item sha (cs_Kinds st) ?e)\<rparr>"
  let ?p = "(c2r_view st)\<lparr>kp_items := (items_view st)(?i \<mapsto> the (entry_view ?e)\<lparr>ci_Data := []\<rparr>), kp_seq := cs_SequenceNumber st + 1\<rparr>"
  have first: "client_accept (c2r_view st) (?t\<lparr>re_Type := ''response.output_item.added'', re_SequenceNumber := cs_SequenceNumber st\<rparr>) = Some ?p"
    using none assms(2) inv_open [OF assms(1)] by (simp add: client_accept_def accept_types(1) entry_view_def c2r_view_def zero_resp_event_def)
  show ?thesis
  proof (cases "\<not> te_IsCustom ?e \<and> \<not> te_IsToolSearch ?e \<and> ?args \<noteq> []")
    case True
    let ?st = "(set_entry k ?e st)\<lparr>cs_SequenceNumber := cs_SequenceNumber st + 1\<rparr>"
    have "client_accept ?p ((entry_delta ?e ?args)\<lparr>re_Type := ''response.function_call_arguments.delta'', re_SequenceNumber := cs_SequenceNumber st + 1\<rparr>) =
        Some (c2r_view (?st\<lparr>cs_SequenceNumber := cs_SequenceNumber st + 2\<rparr>))"
      using True view assms(2) inv_open [OF assms(1)]
      by (simp add: client_accept_def accept_types(6) on_item_def grows_def entry_view_def c2r_view_def zero_resp_event_def entry_delta_def)
    with first inv assms(2) True show ?thesis unfolding run if_P [OF True]
      by (simp add: then_emit_def chatToResponsesEvent_def c2r_ok_def)
  next
    case False
    then have "the (entry_view ?e)\<lparr>ci_Data := []\<rparr> = the (entry_view ?e)" by (auto simp: entry_view_def)
    with first inv assms(2) view show ?thesis unfolding run if_not_P [OF False]
      by (simp add: then_emit_def chatToResponsesEvent_def no_event_def c2r_ok_def) (simp add: c2r_view_def entry_view_def)
  qed
qed

lemma stream_arguments_ok:
  assumes "c2r_inv st" "cs_CreatedSent st" "map_of (cs_Tools st) k = Some e"
  shows "c2r_ok st (stream_arguments k a st)"
proof (cases "a = []")
  case False
  let ?e = "append_arguments a e"
  have keeps: "te_OutputIndex ?e = te_OutputIndex e" "te_Announced ?e = te_Announced e" "te_IsCustom ?e = te_IsCustom e"
      "te_IsToolSearch ?e = te_IsToolSearch e" "te_ItemID ?e = te_ItemID e" "fc_Arguments (tc_Function (te_Call ?e)) = fc_Arguments (tc_Function (te_Call e)) @ a"
    by (simp_all add: append_arguments_def Let_def)
  have flags: "entry_ok ?e"
    using inv_entry [OF assms(1,3)] by (simp add: append_arguments_def entry_ok_def Let_def)
  have known: "tool_entry st k = e" by (rule tool_entry_known [OF assms(3)])
  show ?thesis
  proof (cases "te_Announced e \<and> \<not> te_IsCustom e \<and> \<not> te_IsToolSearch e")
    case True
    have "items_view (set_entry k ?e st) = (items_view st)(te_OutputIndex e := entry_view ?e)"
      by (rule items_view_set_entry [OF assms(1,3) keeps(1)])
    moreover have "c2r_inv (set_entry k ?e st)" by (rule inv_set_entry [OF assms(1,3) keeps(1) flags])
    moreover have "items_view st (te_OutputIndex e) = entry_view e" by (rule items_view_tool [OF assms(1,3)])
    ultimately show ?thesis
      using True False assms(2) inv_open [OF assms(1)] known keeps
      by (simp add: stream_arguments_def Let_def) (rule c2r_emit [OF refl], simp_all add: accept_types on_item_def grows_def zero_resp_event_def
          entry_delta_def entry_view_def)
  next
    case other: False
    then have "entry_view ?e = entry_view e" by (auto simp: entry_view_def keeps)
    from same_view_ok [OF assms keeps(1) flags this] show ?thesis
      using other False known keeps by (auto simp: stream_arguments_def Let_def)
  qed
qed (simp add: stream_arguments_def c2r_ok_refl assms)

lemma open_entry_ok:
  assumes "c2r_inv st" "cs_CreatedSent st" "idx = int (length (cs_Tools st))"
  shows "c2r_ok st (open_entry rnd idx tc st, [])" "map_of (cs_Tools (open_entry rnd idx tc st)) idx \<noteq> None"
proof -
  let ?st = "open_entry rnd idx tc st"
  obtain e m where st: "?st = (set_entry idx e st)\<lparr>cs_Drawn := m, cs_nextOutputIndex := cs_nextOutputIndex st + 1\<rparr>"
      and e: "te_OutputIndex e = cs_nextOutputIndex st" "\<not> te_Announced e" "\<not> te_IsCustom e" "\<not> te_IsToolSearch e" "te_Namespace e = None"
    by (simp add: open_entry_def Let_def)
  note parts = inv_parts [OF assms(1)]
  have "fst ` set (cs_Tools st) = int ` {0..<length (cs_Tools st)}" by (metis parts(2) atLeastLessThan_upt image_set)
  then have new: "idx \<notin> fst ` set (cs_Tools st)" using assms(3) by auto
  note upd = update_new [OF new, of e]
  have fresh: "cs_nextOutputIndex st \<notin> set (outs (cs_Tools st))" using parts(5) by auto
  have "tool_map (AList.update idx e (cs_Tools st)) = (tool_map (cs_Tools st))(cs_nextOutputIndex st \<mapsto> e)"
    unfolding upd using tool_map_append [of e "cs_Tools st" idx] fresh e(1) by simp
  then have "items_view ?st = items_view st"
    using e(2) tool_map_other [OF fresh] unfolding st
    by (auto simp: items_view_def fun_eq_iff set_entry_def reasoning_view_def message_view_def entry_view_def)
  moreover have "c2r_inv ?st"
  proof -
    have eqs: "used_indices ?st = used_indices st @ cs_nextOutputIndex st # []" unfolding st by (simp add: used_indices_def set_entry_def upd e(1) reasoned_def)
    have "distinct (used_indices st @ [])" "set (used_indices st @ []) = {0..<cs_nextOutputIndex st}" "0 \<le> cs_nextOutputIndex st"
      using assms(1) unfolding c2r_inv_def by simp_all
    from new_index [OF this] have "distinct (used_indices ?st)" "set (used_indices ?st) = {0..<cs_nextOutputIndex st + 1}" unfolding eqs by simp_all
    with assms(1) show ?thesis unfolding c2r_inv_def st
      by (simp add: set_entry_def reasoned_def upd [unfolded assms(3)] entry_ok_def e(2-) assms(3))
  qed
  ultimately show "c2r_ok st (?st, [])" using assms(2) unfolding st by (simp add: c2r_ok_def c2r_view_def set_entry_def)
  show "map_of (cs_Tools ?st) idx \<noteq> None" unfolding st by (simp add: upd map_of_append)
qed

text \<open>An upstream that numbers its calls from 0 without gaps.\<close>

definition call_in_order :: "ChatToolCall \<Rightarrow> C2RState \<Rightarrow> bool" where
  "call_in_order tc st \<longleftrightarrow> 0 \<le> call_index tc \<and> call_index tc \<le> int (length (cs_Tools st))"

lemma known_or_next:
  assumes "c2r_inv st" "call_in_order tc st"
  shows "map_of (cs_Tools st) (call_index tc) = None \<longleftrightarrow> call_index tc = int (length (cs_Tools st))"
proof -
  have "fst ` set (cs_Tools st) = int ` {0..<length (cs_Tools st)}" by (metis inv_parts(2) [OF assms(1)] atLeastLessThan_upt image_set)
  then have "map_of (cs_Tools st) (call_index tc) = None \<longleftrightarrow> call_index tc \<notin> int ` {0..<length (cs_Tools st)}"
    by (simp add: map_of_eq_None_iff)
  then show ?thesis using assms(2) by (auto simp: call_in_order_def image_int_atLeastLessThan)
qed

lemma close_reasoning_tools:
  "cs_Tools (fst (closeChatReasoningItem st)) = cs_Tools st" "cs_Kinds (fst (closeChatReasoningItem st)) = cs_Kinds st"
  by (simp_all add: closeChatReasoningItem_def then_emit_def chatToResponsesEvent_def Let_def)

lemma update_call_simps [simp]:
  "te_OutputIndex (update_call tc e) = te_OutputIndex e" "te_Announced (update_call tc e) = te_Announced e" "te_IsCustom (update_call tc e) = te_IsCustom e"
  "te_IsToolSearch (update_call tc e) = te_IsToolSearch e" "te_Namespace (update_call tc e) = te_Namespace e"
  "entry_ok (update_call tc e) = entry_ok e" "entry_view (update_call tc e) = entry_view e"
  by (simp_all add: update_call_def Let_def entry_view_def entry_ok_def)

lemma announce_keeps: "map_of (cs_Tools st) k \<noteq> None \<Longrightarrow> map_of (cs_Tools (fst (announceChatToolItem sha force k st))) k \<noteq> None"
  by (simp add: announceChatToolItem_def Let_def then_emit_def chatToResponsesEvent_def no_event_def update_conv)

lemma handle_tool_call_ok:
  assumes "c2r_inv st" "cs_CreatedSent st" "call_in_order tc st"
  shows "c2r_ok st (handle_tool_call sha rnd tc st)"
proof -
  let ?i = "call_index tc"
  let ?start = "case map_of (cs_Tools st) ?i of
      None \<Rightarrow> (case closeChatReasoningItem st of (s, es) \<Rightarrow> (open_entry rnd ?i tc s, es))
    | Some e \<Rightarrow> (set_entry ?i (update_call tc e) st, [])"
  have start: "c2r_ok st ?start \<and> map_of (cs_Tools (fst ?start)) ?i \<noteq> None"
  proof (cases "map_of (cs_Tools st) ?i")
    case None
    obtain s es where s: "closeChatReasoningItem st = (s, es)" by fastforce
    have ok: "c2r_ok st (s, es)" using close_reasoning_ok [OF assms(1,2)] s by simp
    have "?i = int (length (cs_Tools s))" using None known_or_next [OF assms(1,3)] close_reasoning_tools(1) [of st] s by simp
    moreover have "c2r_inv s" "cs_CreatedSent s" using ok by (simp_all add: c2r_ok_def)
    ultimately have "c2r_ok s (open_entry rnd ?i tc s, [])" "map_of (cs_Tools (open_entry rnd ?i tc s)) ?i \<noteq> None"
      using open_entry_ok by blast+
    with ok s None show ?thesis by (simp add: c2r_ok_def)
  next
    case (Some e)
    have "c2r_ok st (set_entry ?i (update_call tc e) st, [])"
      using inv_entry [OF assms(1) Some] by (intro same_view_ok [OF assms(1,2) Some]) simp_all
    with Some show ?thesis by (simp add: update_conv)
  qed
  obtain s es e where r: "?start = (s, es)" "map_of (cs_Tools s) ?i = Some e" "c2r_inv s" "cs_CreatedSent s"
    using start by (cases ?start) (auto simp: c2r_ok_def)
  obtain s1 es1 where a: "announceChatToolItem sha False ?i s = (s1, es1)" by fastforce
  have announced: "c2r_ok s (s1, es1)" using announce_ok [OF r(3,4,2), of sha False] a by simp
  have "map_of (cs_Tools s1) ?i \<noteq> None" using announce_keeps [of s ?i sha False] r(2) a by simp
  then obtain e1 where "map_of (cs_Tools s1) ?i = Some e1" by blast
  moreover have "c2r_inv s1" "cs_CreatedSent s1" using announced by (simp_all add: c2r_ok_def)
  ultimately have args: "c2r_ok s1 (stream_arguments ?i (fc_Arguments (tc_Function tc)) s1)" by (intro stream_arguments_ok)
  have both: "c2r_ok st (s1, es @ es1)" using start announced r(1) by (simp add: c2r_ok_def scan_events_append)
  have "c2r_ok st (then_emit (s1, es @ es1) (stream_arguments ?i (fc_Arguments (tc_Function tc))))"
    by (rule c2r_ok_then [OF both]) (use args in simp)
  then show ?thesis
    unfolding handle_tool_call_def Let_def call_index_def [symmetric] r(1) using a by (simp add: then_emit_def)
qed

definition nonempty :: "string option \<Rightarrow> bool" where
  "nonempty t \<longleftrightarrow> t \<noteq> None \<and> t \<noteq> Some []"

text \<open>A choice in order: no reasoning after the reasoning item was closed, and calls numbered in their order.\<close>

definition calls_in_order :: "(string \<Rightarrow> string) \<Rightarrow> (nat \<Rightarrow> string) \<Rightarrow> ChatToolCall list \<Rightarrow> C2RState \<Rightarrow> bool" where
  "calls_in_order sha rnd tcs st = guarded_run call_in_order (handle_tool_call sha rnd) tcs st"

definition choice_texts :: "(nat \<Rightarrow> string) \<Rightarrow> ChatDelta \<Rightarrow> C2RState \<Rightarrow> c2r" where
  "choice_texts rnd d st = then_emit (given (delta_reasoningText d) (handle_reasoning rnd) st)
     (given (cd_Content d) (\<lambda>t s. then_emit (closeChatReasoningItem s) (emit_text rnd t)))"

definition choice_in_order :: "(string \<Rightarrow> string) \<Rightarrow> (nat \<Rightarrow> string) \<Rightarrow> ChatChunkChoice \<Rightarrow> C2RState \<Rightarrow> bool" where
  "choice_in_order sha rnd c st \<longleftrightarrow> (nonempty (delta_reasoningText (cx_Delta c)) \<longrightarrow> \<not> cs_ReasoningDone st) \<and>
     calls_in_order sha rnd (cd_ToolCalls (cx_Delta c)) (fst (choice_texts rnd (cx_Delta c) st))"

definition chunk_in_order :: "(string \<Rightarrow> string) \<Rightarrow> (nat \<Rightarrow> string) \<Rightarrow> ChatCompletionsChunk \<Rightarrow> C2RState \<Rightarrow> bool" where
  "chunk_in_order sha rnd chunk st \<longleftrightarrow>
     guarded_run (choice_in_order sha rnd) (handle_choice sha rnd) (ck_Choices chunk) (fst (ensureChatToResponsesCreated (read_chunk chunk st)))"

lemma given_ok:
  assumes "c2r_inv st" "cs_CreatedSent st" "\<And>s. nonempty t \<Longrightarrow> t = Some s \<Longrightarrow> c2r_ok st (f s st)"
  shows "c2r_ok st (given t f st)"
  using assms by (auto simp: given_def nonempty_def c2r_ok_refl split: option.split)

lemma choice_texts_ok:
  assumes "c2r_inv st" "cs_CreatedSent st" "nonempty (delta_reasoningText d) \<Longrightarrow> \<not> cs_ReasoningDone st"
  shows "c2r_ok st (choice_texts rnd d st)"
  unfolding choice_texts_def
proof (rule c2r_ok_then)
  show "c2r_ok st (given (delta_reasoningText d) (handle_reasoning rnd) st)"
    using assms by (intro given_ok handle_reasoning_ok) (auto simp: nonempty_def)
  show "c2r_ok s (given (cd_Content d) (\<lambda>t s. then_emit (closeChatReasoningItem s) (emit_text rnd t)) s)" if "c2r_inv s" "cs_CreatedSent s" for s
    using that by (intro given_ok c2r_ok_then [OF close_reasoning_ok] emit_text_ok) (auto simp: nonempty_def)
qed

lemma handle_choice_ok:
  assumes "choice_in_order sha rnd c st" "c2r_inv st" "cs_CreatedSent st"
  shows "c2r_ok st (handle_choice sha rnd c st)"
proof -
  let ?r = "then_emit (choice_texts rnd (cx_Delta c) st) (run_events (handle_tool_call sha rnd) (cd_ToolCalls (cx_Delta c)))"
  have "c2r_ok st ?r"
    using assms choice_texts_ok [OF assms(2,3), of "cx_Delta c" rnd]
    by (intro c2r_ok_then) (auto simp: choice_in_order_def calls_in_order_def intro!: c2r_ok_run [where P = call_in_order] handle_tool_call_ok)
  then have "c2r_ok st ((fst ?r)\<lparr>cs_FinishReason := x\<rparr>, snd ?r)" for x
    by (simp add: c2r_ok_def c2r_view_def)
  with \<open>c2r_ok st ?r\<close> show ?thesis
    unfolding handle_choice_def Let_def choice_texts_def [symmetric] by (auto split: prod.split option.split)
qed

lemma read_chunk_frame:
  "c2r_inv (read_chunk chunk st) = c2r_inv st" "c2r_view (read_chunk chunk st) = c2r_view st" "cs_Kinds (read_chunk chunk st) = cs_Kinds st"
  by (simp_all add: read_chunk_def c2r_inv_def used_indices_def reasoned_def c2r_view_def fun_eq_iff items_view_def reasoning_view_def message_view_def)

lemma chunk_ok:
  assumes "c2r_inv st" "chunk_in_order sha rnd chunk st"
  shows "c2r_ok st (ChatCompletionsChunkToResponsesEvents sha rnd chunk st)"
proof -
  have created: "c2r_ok (read_chunk chunk st) (ensureChatToResponsesCreated (read_chunk chunk st))"
    using assms(1) by (intro chat_created_ok) (simp add: read_chunk_frame)
  have "c2r_ok (read_chunk chunk st) (ChatCompletionsChunkToResponsesEvents sha rnd chunk st)"
    unfolding ChatCompletionsChunkToResponsesEvents_def
    using assms(2) by (intro c2r_ok_then [OF created] c2r_ok_run [where P = "choice_in_order sha rnd"] handle_choice_ok) (simp_all add: chunk_in_order_def)
  then show ?thesis by (simp add: c2r_ok_def read_chunk_frame)
qed

interpretation c2r: guarded_protocol "ChatCompletionsChunkToResponsesEvents sha rnd" c2r_inv c2r_view client_accept "chunk_in_order sha rnd" for sha rnd
  using chunk_ok by unfold_locales (auto simp: c2r_ok_def)

subsection \<open>Closing the items\<close>

text \<open>
  At the end the converter closes the message and the calls without recording it in its state. \<open>over\<close> puts
  the items that are closed already on top of the view.
\<close>

definition over :: "client_pos \<Rightarrow> (int \<Rightarrow> client_item option) \<Rightarrow> client_pos" where
  "over p q = p\<lparr>kp_items := kp_items p ++ q\<rparr>"

lemma over_simps [simp]:
  "kp_seq (over p q) = kp_seq p" "kp_created (over p q) = kp_created p" "kp_completed (over p q) = kp_completed p"
  "kp_items (over p q) = kp_items p ++ q" "over (p\<lparr>kp_seq := n\<rparr>) q = (over p q)\<lparr>kp_seq := n\<rparr>" "over p Map.empty = p"
  by (simp_all add: over_def)

lemma on_item_over: "i \<notin> dom q \<Longrightarrow> on_item (over p q) i iid t f = map_option (\<lambda>p'. over p' q) (on_item p i iid t f)"
  by (auto simp: on_item_def over_def map_add_dom_app_simps map_add_upd_left domIff option.map_comp o_def split: option.split)

lemma accept_over:
  assumes "re_OutputIndex e \<notin> dom q" "re_Type e \<noteq> ''response.completed''"
  shows "client_accept (over p q) e = map_option (\<lambda>p'. over p' q) (client_accept p e)"
proof -
  have at: "(kp_items p ++ q) (re_OutputIndex e) = kp_items p (re_OutputIndex e)" using assms(1) by (simp add: map_add_dom_app_simps)
  have "client_accept_type (over p q) e = map_option (\<lambda>p'. over p' q) (client_accept_type p e)"
    unfolding client_accept_type_def Let_def over_simps at
    using assms by (simp add: on_item_over map_add_upd_left split: option.split) (auto simp: over_def map_add_upd_left)
  then show ?thesis by (simp add: client_accept_def option.map_comp o_def)
qed

lemma scan_over:
  assumes "list_all (\<lambda>e. re_OutputIndex e \<notin> dom q \<and> re_Type e \<noteq> ''response.completed'') es"
  shows "scan_events client_accept (over p q) es = map_option (\<lambda>p'. over p' q) (scan_events client_accept p es)"
  using assms by (induction es arbitrary: p) (auto simp: accept_over split: option.split)

text \<open>The events of one item only.\<close>

definition about :: "int \<Rightarrow> ResponsesStreamEvent list \<Rightarrow> bool" where
  "about i es \<longleftrightarrow> list_all (\<lambda>e. re_OutputIndex e = i \<and> re_Type e \<noteq> ''response.completed'') es"

lemma about_simps [simp]: "about i []" "about i (e # es) \<longleftrightarrow> (re_OutputIndex e = i \<and> re_Type e \<noteq> ''response.completed'') \<and> about i es"
    "about i (es @ es') \<longleftrightarrow> about i es \<and> about i es'"
  by (simp_all add: about_def)

lemma scan_about: "about i es \<Longrightarrow> i \<notin> dom q \<Longrightarrow>
    scan_events client_accept (over p q) es = map_option (\<lambda>p'. over p' q) (scan_events client_accept p es)"
  by (rule scan_over) (auto simp: about_def list_all_iff)

lemma close_message_scan:
  assumes "c2r_inv st" "cs_CreatedSent st" "cs_MessageItemID st \<noteq> []"
  shows "\<exists>n it. fst (close_message st) = st\<lparr>cs_SequenceNumber := n\<rparr> \<and> \<not> ci_Open it \<and> about (cs_MessageIndex st) (snd (close_message st)) \<and>
    scan_events client_accept (c2r_view st) (snd (close_message st)) = Some (over (c2r_view (st\<lparr>cs_SequenceNumber := n\<rparr>)) [cs_MessageIndex st \<mapsto> it])"
proof -
  let ?it = "message_view st" and ?i = "cs_MessageIndex st"
  have part: "cs_TextPartOpen st" using assms by (simp add: c2r_inv_def)
  have other: "\<not> (reasoned st \<and> ?i = cs_ReasoningIndex st)" using assms by (auto simp: c2r_inv_def used_indices_def)
  then have it: "items_view st ?i = Some ?it" using assms(3) by (auto simp: items_view_def)
  have "over ((c2r_view st)\<lparr>kp_seq := cs_SequenceNumber st + 3\<rparr>) [?i \<mapsto> ?it\<lparr>ci_Part := 2, ci_Open := False\<rparr>] =
      (c2r_view st)\<lparr>kp_items := (items_view st)(?i \<mapsto> ?it\<lparr>ci_Part := 2, ci_Open := False\<rparr>), kp_seq := cs_SequenceNumber st + 3\<rparr>"
    by (simp add: over_def c2r_view_def)
  moreover have "c2r_view (st\<lparr>cs_SequenceNumber := cs_SequenceNumber st + 3\<rparr>) = (c2r_view st)\<lparr>kp_seq := cs_SequenceNumber st + 3\<rparr>"
    by (simp add: c2r_view_def)
  ultimately show ?thesis
    using part assms(2,3) it inv_open [OF assms(1)]
    by (intro exI [of _ "cs_SequenceNumber st + 3"] exI [of _ "?it\<lparr>ci_Part := 2, ci_Open := False\<rparr>"])
      (simp add: close_message_def then_emit_def chatToResponsesEvent_def client_accept_def accept_types
      on_item_def is_whole_def part_closes_def item_closes_def item_payload_def Let_def message_view_def zero_resp_event_def
      message_item_def zero_output_def output_text_part_def zero_part_def)
qed

lemma entry_item_simps [simp]:
  "ro_Type (entry_item sha jt st iid e) = (if te_IsCustom e then ''custom_tool_call'' else if te_IsToolSearch e then ''tool_search_call'' else ''function_call'')"
  "ro_ID (entry_item sha jt st iid e) = iid" "ro_Status (entry_item sha jt st iid e) = ''completed''"
  "\<not> te_IsCustom e \<Longrightarrow> ro_Arguments (entry_item sha jt st iid e) = call_arguments (fc_Arguments (tc_Function (te_Call e)))"
  by (simp_all add: entry_item_def custom_call_item_def search_call_item_def function_call_item_def Let_def split: option.split)

lemma close_entry_scan:
  assumes "c2r_inv st" "cs_CreatedSent st" "map_of (cs_Tools st) k = Some e" "te_Announced e" "\<not> (te_IsCustom e \<and> te_IsToolSearch e)"
  shows "\<exists>n it. fst (close_entry sha jt e st) = st\<lparr>cs_SequenceNumber := n\<rparr> \<and> \<not> ci_Open it \<and> about (te_OutputIndex e) (snd (close_entry sha jt e st)) \<and>
    scan_events client_accept (c2r_view st) (snd (close_entry sha jt e st)) = Some (over (c2r_view (st\<lparr>cs_SequenceNumber := n\<rparr>)) [te_OutputIndex e \<mapsto> it])"
proof -
  let ?i = "te_OutputIndex e"
  have it: "items_view st ?i = entry_view e" by (rule items_view_tool [OF assms(1,3)])
  have eq: "over (c2r_view (st\<lparr>cs_SequenceNumber := n\<rparr>)) [?i \<mapsto> x] = (c2r_view st)\<lparr>kp_items := (items_view st)(?i \<mapsto> x), kp_seq := n\<rparr>" for n x
    by (simp add: over_def c2r_view_def)
  note accept = close_entry_def then_emit_def chatToResponsesEvent_def client_accept_def accept_types on_item_def is_whole_def grows_def item_closes_def
    item_payload_def zero_resp_event_def
  consider (custom) "te_IsCustom e" "\<not> te_IsToolSearch e" | (search) "\<not> te_IsCustom e" "te_IsToolSearch e" | (plain) "\<not> te_IsCustom e" "\<not> te_IsToolSearch e"
    using assms(5) by blast
  then show ?thesis
  proof cases
    case custom
    let ?x = "entry_item sha jt st (te_ItemID e) e"
    let ?it = "\<lparr>ci_Type = ''custom_tool_call'', ci_ID = te_ItemID e, ci_Part = 0, ci_Data = ro_Input ?x, ci_Open = False\<rparr>"
    let ?n = "cs_SequenceNumber st + (if ro_Input ?x = [] then 2 else 3)"
    show ?thesis
      by (rule exI [of _ ?n], rule exI [of _ ?it], unfold eq) (use custom assms(2,4) it inv_open [OF assms(1)] in
        \<open>cases "ro_Input ?x = []"; simp add: accept Let_def entry_view_def c2r_view_def\<close>)
  next
    case search
    show ?thesis
      by (rule exI [of _ "cs_SequenceNumber st + 1"], rule exI [of _ "(the (entry_view e))\<lparr>ci_Open := False\<rparr>"], unfold eq)
        (use search assms(2,4) it inv_open [OF assms(1)] in \<open>simp add: accept Let_def entry_view_def c2r_view_def\<close>)
  next
    case plain
    show ?thesis
      by (rule exI [of _ "cs_SequenceNumber st + 2"], rule exI [of _ "(the (entry_view e))\<lparr>ci_Open := False\<rparr>"], unfold eq)
        (use plain assms(2,4) it inv_open [OF assms(1)] in \<open>simp add: accept Let_def entry_view_def c2r_view_def\<close>)
  qed
qed

definition closed_only :: "(int \<Rightarrow> client_item option) \<Rightarrow> bool" where
  "closed_only q \<longleftrightarrow> (\<forall>i it. q i = Some it \<longrightarrow> \<not> ci_Open it)"

lemma announce_about: "map_of (cs_Tools st) k = Some e \<Longrightarrow> about (te_OutputIndex e) (snd (announceChatToolItem sha force k st))"
  by (simp add: announceChatToolItem_def Let_def then_emit_def chatToResponsesEvent_def no_event_def tool_entry_known entry_delta_def)

lemma announce_entry:
  assumes "map_of (cs_Tools st) k = Some e"
  shows "\<exists>e'. map_of (cs_Tools (fst (announceChatToolItem sha True k st))) k = Some e' \<and> te_Announced e' \<and> te_OutputIndex e' = te_OutputIndex e \<and>
    outs (cs_Tools (fst (announceChatToolItem sha True k st))) = outs (cs_Tools st) \<and>
    map fst (cs_Tools (fst (announceChatToolItem sha True k st))) = map fst (cs_Tools st)"
proof (cases "te_Announced e")
  case True
  with assms show ?thesis by (simp add: announceChatToolItem_def tool_entry_known Let_def)
next
  case False
  with assms show ?thesis
    by (simp add: announceChatToolItem_def tool_entry_known Let_def then_emit_def chatToResponsesEvent_def no_event_def update_conv update_known)
qed

text \<open>What closing does not touch.\<close>

definition same_rest :: "C2RState \<Rightarrow> C2RState \<Rightarrow> bool" where
  "same_rest st s \<longleftrightarrow> outs (cs_Tools s) = outs (cs_Tools st) \<and> map fst (cs_Tools s) = map fst (cs_Tools st) \<and>
     cs_ReasoningOpen s = cs_ReasoningOpen st \<and> cs_ReasoningDone s = cs_ReasoningDone st \<and> cs_ReasoningIndex s = cs_ReasoningIndex st \<and>
     cs_MessageItemID s = cs_MessageItemID st \<and> cs_MessageIndex s = cs_MessageIndex st"

lemma announce_fields:
  "cs_ReasoningOpen (fst (announceChatToolItem sha f k st)) = cs_ReasoningOpen st"
  "cs_ReasoningDone (fst (announceChatToolItem sha f k st)) = cs_ReasoningDone st"
  "cs_ReasoningIndex (fst (announceChatToolItem sha f k st)) = cs_ReasoningIndex st"
  "cs_MessageItemID (fst (announceChatToolItem sha f k st)) = cs_MessageItemID st"
  "cs_MessageIndex (fst (announceChatToolItem sha f k st)) = cs_MessageIndex st"
  by (simp_all add: announceChatToolItem_def Let_def then_emit_def chatToResponsesEvent_def no_event_def set_entry_def)

lemma announce_rest: "map_of (cs_Tools st) k \<noteq> None \<Longrightarrow> same_rest st (fst (announceChatToolItem sha True k st))"
proof -
  assume "map_of (cs_Tools st) k \<noteq> None"
  then obtain e where "map_of (cs_Tools st) k = Some e" by blast
  from announce_entry [OF this, of sha] announce_fields [of sha True k st] show ?thesis by (auto simp: same_rest_def)
qed

lemma close_tool_scan:
  assumes "c2r_inv st" "cs_CreatedSent st" "map_of (cs_Tools st) k = Some e" "te_OutputIndex e \<notin> dom q" "closed_only q"
  shows "\<exists>s q'. fst (close_tool sha jt k st) = s \<and> c2r_inv s \<and> cs_CreatedSent s \<and> same_rest st s \<and> closed_only q' \<and> dom q' = insert (te_OutputIndex e) (dom q) \<and>
    scan_events client_accept (over (c2r_view st) q) (snd (close_tool sha jt k st)) = Some (over (c2r_view s) q')"
proof -
  obtain s1 es1 where a: "announceChatToolItem sha True k st = (s1, es1)" by fastforce
  have ok: "c2r_ok st (s1, es1)" using announce_ok [OF assms(1-3), of sha True] a by simp
  then have s1: "c2r_inv s1" "cs_CreatedSent s1" by (simp_all add: c2r_ok_def)
  obtain e1 where e1: "map_of (cs_Tools s1) k = Some e1" "te_Announced e1" "te_OutputIndex e1 = te_OutputIndex e"
    using announce_entry [OF assms(3), of sha] a by auto
  have kinds: "\<not> (te_IsCustom e1 \<and> te_IsToolSearch e1)" using s1(1) map_of_SomeD [OF e1(1)] by (auto simp: c2r_inv_def entry_ok_def)
  obtain n it where c: "fst (close_entry sha jt e1 s1) = s1\<lparr>cs_SequenceNumber := n\<rparr>" "\<not> ci_Open it" "about (te_OutputIndex e1) (snd (close_entry sha jt e1 s1))"
      "scan_events client_accept (c2r_view s1) (snd (close_entry sha jt e1 s1)) = Some (over (c2r_view (s1\<lparr>cs_SequenceNumber := n\<rparr>)) [te_OutputIndex e1 \<mapsto> it])"
    using close_entry_scan [OF s1 e1(1,2) kinds, of sha jt] by blast
  have run: "close_tool sha jt k st = (s1\<lparr>cs_SequenceNumber := n\<rparr>, es1 @ snd (close_entry sha jt e1 s1))"
    using a c(1) e1(1) by (cases "close_entry sha jt e1 s1") (simp add: close_tool_def then_emit_def tool_entry_known)
  have "about (te_OutputIndex e) es1" using announce_about [OF assms(3), of sha True] a by simp
  from scan_about [OF this assms(4), of "c2r_view st"] ok
  have "scan_events client_accept (over (c2r_view st) q) es1 = Some (over (c2r_view s1) q)" by (simp add: c2r_ok_def)
  moreover have "scan_events client_accept (over (c2r_view s1) q) (snd (close_entry sha jt e1 s1)) =
      Some (over (over (c2r_view (s1\<lparr>cs_SequenceNumber := n\<rparr>)) [te_OutputIndex e1 \<mapsto> it]) q)"
    using scan_about [OF c(3), of q "c2r_view s1"] assms(4) e1(3) c(4) by simp
  moreover have "over (over p r) q = over p (r ++ q)" for p r by (simp add: over_def)
  moreover have "same_rest st (s1\<lparr>cs_SequenceNumber := n\<rparr>)" using announce_rest [of st k sha] assms(3) a by (simp add: same_rest_def)
  moreover have "closed_only ([te_OutputIndex e1 \<mapsto> it] ++ q)" using c(2) assms(5) by (auto simp: closed_only_def map_add_Some_iff split: if_splits)
  ultimately show ?thesis
    using s1 e1(3) unfolding run by (intro exI [of _ "s1\<lparr>cs_SequenceNumber := n\<rparr>"] exI [of _ "[te_OutputIndex e1 \<mapsto> it] ++ q"]) (simp add: scan_events_append insert_commute)
qed

lemma same_rest_trans: "same_rest st s \<Longrightarrow> same_rest s s' \<Longrightarrow> same_rest st s'"
  by (simp add: same_rest_def)

lemma same_rest_refl [simp]: "same_rest st st"
  by (simp add: same_rest_def)

text \<open>The output index of a call.\<close>

definition out_at :: "C2RState \<Rightarrow> int \<Rightarrow> int option" where
  "out_at st k = map_of (map (\<lambda>(k, e). (k, te_OutputIndex e)) (cs_Tools st)) k"

lemma out_at_entry: "out_at st k = map_option te_OutputIndex (map_of (cs_Tools st) k)"
  unfolding out_at_def by (induction "cs_Tools st" arbitrary: st) (auto simp: map_of_map)

lemma same_rest_out_at: "same_rest st s \<Longrightarrow> out_at s k = out_at st k"
proof -
  have "map (\<lambda>(k, e). (k, te_OutputIndex e)) l = zip (map fst l) (outs l)" for l :: "(int \<times> ChatToolEntry) list" by (induction l) auto
  then show "same_rest st s \<Longrightarrow> out_at s k = out_at st k" by (simp add: same_rest_def out_at_def)
qed

lemma close_tools_scan:
  assumes "c2r_inv st" "cs_CreatedSent st" "distinct (map (\<lambda>k. the (out_at st k)) ks)" "\<forall>k\<in>set ks. out_at st k \<noteq> None \<and> the (out_at st k) \<notin> dom q" "closed_only q"
  shows "\<exists>s q'. fst (run_events (close_tool sha jt) ks st) = s \<and> c2r_inv s \<and> cs_CreatedSent s \<and> same_rest st s \<and> closed_only q' \<and>
    dom q' = (\<lambda>k. the (out_at st k)) ` set ks \<union> dom q \<and>
    scan_events client_accept (over (c2r_view st) q) (snd (run_events (close_tool sha jt) ks st)) = Some (over (c2r_view s) q')"
  using assms
proof (induction ks arbitrary: st q)
  case (Cons k ks)
  from Cons.prems(4) obtain e where e: "map_of (cs_Tools st) k = Some e" "the (out_at st k) = te_OutputIndex e"
    by (auto simp: out_at_entry)
  then have fresh: "te_OutputIndex e \<notin> dom q" using Cons.prems(4) by auto
  obtain s1 q1 where s1: "fst (close_tool sha jt k st) = s1" "c2r_inv s1" "cs_CreatedSent s1" "same_rest st s1" "closed_only q1"
      "dom q1 = insert (te_OutputIndex e) (dom q)"
      "scan_events client_accept (over (c2r_view st) q) (snd (close_tool sha jt k st)) = Some (over (c2r_view s1) q1)"
    using close_tool_scan [OF Cons.prems(1,2) e(1) fresh Cons.prems(5)] by blast
  note out = same_rest_out_at [OF s1(4)]
  have "\<forall>k\<in>set ks. out_at s1 k \<noteq> None \<and> the (out_at s1 k) \<notin> dom q1"
    using Cons.prems(3,4) e(2) s1(6) unfolding out by (auto simp: image_iff)
  moreover have "distinct (map (\<lambda>k. the (out_at s1 k)) ks)" using Cons.prems(3) unfolding out by simp
  ultimately obtain s q' where s: "fst (run_events (close_tool sha jt) ks s1) = s" "c2r_inv s" "cs_CreatedSent s" "same_rest s1 s" "closed_only q'"
      "dom q' = (\<lambda>k. the (out_at s1 k)) ` set ks \<union> dom q1"
      "scan_events client_accept (over (c2r_view s1) q1) (snd (run_events (close_tool sha jt) ks s1)) = Some (over (c2r_view s) q')"
    using Cons.IH [OF s1(2,3) _ _ s1(5)] by blast
  have "dom q' = (\<lambda>k. the (out_at st k)) ` set (k # ks) \<union> dom q" using s(6) s1(6) e(2) unfolding out by auto
  then show ?case
    using s s1 same_rest_trans [OF s1(4) s(4)]
    by (intro exI [of _ s] exI [of _ q']) (simp add: run_events_Cons scan_events_append del: run_events.simps(2))
qed auto

lemma fallback_ok:
  assumes "c2r_inv st" "cs_CreatedSent st"
  shows "c2r_ok st (synthesizeChatReasoningFallbackMessage rnd st)"
  using assms by (simp add: synthesizeChatReasoningFallbackMessage_def c2r_ok_refl emit_text_ok)

lemma emit_text_reasoning: "cs_ReasoningOpen (fst (emit_text rnd t st)) = cs_ReasoningOpen st"
  by (simp add: emit_text_def then_emit_def ensureChatToResponsesMessageItem_def ensureChatToResponsesTextPart_def chatToResponsesEvent_def Let_def)

lemma reasoning_closed:
  "\<not> cs_ReasoningOpen (fst (closeChatReasoningItem st))"
  "cs_ReasoningOpen (fst (synthesizeChatReasoningFallbackMessage rnd st)) = cs_ReasoningOpen st"
  by (simp_all add: closeChatReasoningItem_def synthesizeChatReasoningFallbackMessage_def emit_text_reasoning then_emit_def chatToResponsesEvent_def Let_def)

lemma counted_all:
  assumes "c2r_inv st"
  shows "counted st = map int [0..<length (cs_Tools st)]" "map (\<lambda>k. the (out_at st k)) (counted st) = outs (cs_Tools st)"
    "\<forall>k\<in>set (counted st). out_at st k \<noteq> None"
proof -
  note keys = inv_parts(2) [OF assms]
  have "\<forall>i\<in>set (map int [0..<length (cs_Tools st)]). map_of (cs_Tools st) i \<noteq> None"
    unfolding keys [symmetric] by (simp add: map_of_eq_None_iff)
  then have filt: "filter (\<lambda>i. map_of (cs_Tools st) i \<noteq> None) (map int [0..<length (cs_Tools st)]) = map int [0..<length (cs_Tools st)]"
    by (simp only: filter_id_conv)
  then show "counted st = map int [0..<length (cs_Tools st)]" unfolding counted_def .
  then have c: "counted st = map fst (cs_Tools st)" using keys by simp
  have "map (\<lambda>k. the (map_option te_OutputIndex (map_of l k))) (map fst l) = outs l" if "distinct (map fst l)" for l :: "(int \<times> ChatToolEntry) list"
    using that by (auto simp: map_of_is_SomeI)
  moreover have "distinct (map fst (cs_Tools st))" unfolding keys by (simp add: distinct_map inj_on_def)
  ultimately show "map (\<lambda>k. the (out_at st k)) (counted st) = outs (cs_Tools st)" unfolding c out_at_entry by blast
  show "\<forall>k\<in>set (counted st). out_at st k \<noteq> None" by (auto simp: counted_def out_at_entry)
qed

lemma counted_image:
  assumes "c2r_inv st"
  shows "(\<lambda>k. the (out_at st k)) ` set (counted st) = set (outs (cs_Tools st))"
  using arg_cong [OF counted_all(2) [OF assms], of set] by (simp only: set_map)

lemma chatOutput_length:
  assumes "c2r_inv st"
  shows "length (chatOutput sha jt rnd st) = (if reasoned st then 1 else 0) + (if cs_MessageItemID st \<noteq> [] \<or> cs_Tools st = [] then 1 else 0) + length (cs_Tools st)"
    "cs_MessageItemID st = [] \<Longrightarrow> cs_Tools st = [] \<Longrightarrow> ro_Type (last (chatOutput sha jt rnd st)) = ''message'' \<and> item_payload (last (chatOutput sha jt rnd st)) []"
proof -
  have "reasoned st \<longleftrightarrow> cs_Reasoning st \<noteq> []" "cs_MessageItemID st = [] \<Longrightarrow> cs_Text st = []" using assms by (simp_all add: c2r_inv_def)
  then show "length (chatOutput sha jt rnd st) = (if reasoned st then 1 else 0) + (if cs_MessageItemID st \<noteq> [] \<or> cs_Tools st = [] then 1 else 0) + length (cs_Tools st)"
    "cs_MessageItemID st = [] \<Longrightarrow> cs_Tools st = [] \<Longrightarrow> ro_Type (last (chatOutput sha jt rnd st)) = ''message'' \<and> item_payload (last (chatOutput sha jt rnd st)) []"
    using counted_all(1) [OF assms]
    by (simp_all add: chatOutput_def Let_def message_item_def output_text_part_def zero_output_def zero_part_def item_payload_def)
qed

lemma view_frame: "c2r_view (st\<lparr>cs_SequenceNumber := n\<rparr>) = (c2r_view st)\<lparr>kp_seq := n\<rparr>"
  by (simp add: c2r_view_def)

text \<open>From the closed reasoning item to the last call.\<close>

lemma close_all_scan:
  assumes "c2r_inv st" "cs_CreatedSent st"
  shows "\<exists>s q. fst (then_emit (close_message st) (closeChatToolItems sha jt)) = s \<and> c2r_inv s \<and> cs_CreatedSent s \<and> same_rest st s \<and> closed_only q \<and>
    dom q = set (outs (cs_Tools st)) \<union> (if cs_MessageItemID st \<noteq> [] then {cs_MessageIndex st} else {}) \<and>
    scan_events client_accept (c2r_view st) (snd (then_emit (close_message st) (closeChatToolItems sha jt))) = Some (over (c2r_view s) q)"
proof -
  obtain n q0 where m: "fst (close_message st) = st\<lparr>cs_SequenceNumber := n\<rparr>" "closed_only q0"
      "dom q0 = (if cs_MessageItemID st \<noteq> [] then {cs_MessageIndex st} else {})"
      "scan_events client_accept (c2r_view st) (snd (close_message st)) = Some (over (c2r_view (st\<lparr>cs_SequenceNumber := n\<rparr>)) q0)"
  proof (cases "cs_MessageItemID st = []")
    case True
    then show ?thesis
      using that [of "cs_SequenceNumber st" Map.empty] by (simp add: close_message_def closed_only_def)
  next
    case False
    from close_message_scan [OF assms False] obtain n it where "fst (close_message st) = st\<lparr>cs_SequenceNumber := n\<rparr>" "\<not> ci_Open it"
      "scan_events client_accept (c2r_view st) (snd (close_message st)) = Some (over (c2r_view (st\<lparr>cs_SequenceNumber := n\<rparr>)) [cs_MessageIndex st \<mapsto> it])"
      by blast
    then show ?thesis using that [of n "[cs_MessageIndex st \<mapsto> it]"] False by (simp add: closed_only_def)
  qed
  let ?st = "st\<lparr>cs_SequenceNumber := n\<rparr>"
  have st: "c2r_inv ?st" "cs_CreatedSent ?st" "same_rest st ?st" using assms by (simp_all add: same_rest_def)
  note all = counted_all [OF st(1)]
  have "distinct (map (\<lambda>k. the (out_at ?st k)) (counted ?st))" unfolding all(2) using inv_parts(1) [OF st(1)] .
  moreover have "\<forall>k\<in>set (counted ?st). out_at ?st k \<noteq> None \<and> the (out_at ?st k) \<notin> dom q0"
  proof
    fix k assume "k \<in> set (counted ?st)"
    then have "out_at ?st k \<noteq> None" "the (out_at ?st k) \<in> set (outs (cs_Tools ?st))" using all(3) counted_image [OF st(1)] by blast+
    then show "out_at ?st k \<noteq> None \<and> the (out_at ?st k) \<notin> dom q0" using inv_parts(4) [OF st(1)] m(3) by (metis (full_types) C2RState.select_convs(13,14) st(3) same_rest_def emptyE singletonD)
  qed
  ultimately obtain s q where s: "fst (run_events (close_tool sha jt) (counted ?st) ?st) = s" "c2r_inv s" "cs_CreatedSent s" "same_rest ?st s" "closed_only q"
      "dom q = (\<lambda>k. the (out_at ?st k)) ` set (counted ?st) \<union> dom q0"
      "scan_events client_accept (over (c2r_view ?st) q0) (snd (run_events (close_tool sha jt) (counted ?st) ?st)) = Some (over (c2r_view s) q)"
    using close_tools_scan [OF st(1,2) _ _ m(2), of "counted ?st" sha jt] by blast
  have "(\<lambda>k. the (out_at ?st k)) ` set (counted ?st) = set (outs (cs_Tools st))" using counted_image [OF st(1)] by simp
  then show ?thesis
    using s m same_rest_trans [OF st(3) s(4)]
    by (intro exI [of _ s] exI [of _ q]) (simp add: then_emit_proj closeChatToolItems_def scan_events_append)
qed

lemma closed_items:
  assumes "c2r_inv s" "\<not> cs_ReasoningOpen s" "closed_only q"
    and "dom q = set (outs (cs_Tools s)) \<union> (if cs_MessageItemID s \<noteq> [] then {cs_MessageIndex s} else {})"
  shows "all_delivered (over (c2r_view s) q) (chatOutput sha jt rnd s)"
proof -
  have open_in_q: "i \<in> dom q" if "items_view s i = Some it" "ci_Open it" for i it
  proof -
    from that assms(2) have "\<not> (reasoned s \<and> i = cs_ReasoningIndex s)" by (auto simp: items_view_def reasoning_view_def)
    with that(1) show ?thesis using assms(4) by (auto simp: items_view_def bind_eq_Some_conv dest!: tool_map_index split: if_splits)
  qed
  have closed: "\<forall>i it. (items_view s ++ q) i = Some it \<longrightarrow> \<not> ci_Open it"
    using open_in_q assms(3) by (auto simp: map_add_Some_iff closed_only_def)
  have used: "set (used_indices s) = {0..<cs_nextOutputIndex s}" "distinct (used_indices s)" "0 \<le> cs_nextOutputIndex s"
    using assms(1) unfolding c2r_inv_def by blast+
  have "dom (items_view s ++ q) = set (used_indices s)"
  proof
    show "dom (items_view s ++ q) \<subseteq> set (used_indices s)"
      using assms(4) by (auto dest!: items_view_used simp: used_indices_def split: if_splits)
    show "set (used_indices s) \<subseteq> dom (items_view s ++ q)"
      using assms(4) by (auto simp: used_indices_def items_view_def split: if_splits)
  qed
  moreover have "int (length (used_indices s)) = cs_nextOutputIndex s"
    using distinct_card [OF used(2)] used(1,3) by simp
  ultimately have dom: "dom (items_view s ++ q) = {0..<int (length (used_indices s))}" using used(1) by simp
  have len: "length (used_indices s) = (if reasoned s then 1 else 0) + (if cs_MessageItemID s \<noteq> [] then 1 else 0) + length (cs_Tools s)"
    by (simp add: used_indices_def)
  note out = chatOutput_length [OF assms(1), of sha jt rnd]
  show ?thesis
  proof (cases "cs_MessageItemID s = [] \<and> cs_Tools s = []")
    case True
    then have "length (chatOutput sha jt rnd s) = length (used_indices s) + 1" using out(1) len by simp
    then show ?thesis unfolding all_delivered_def using closed dom out(2) True by auto
  next
    case False
    then have "length (chatOutput sha jt rnd s) = length (used_indices s)" using out(1) len by auto
    then show ?thesis unfolding all_delivered_def using closed dom by simp
  qed
qed

lemma finalize_scan:
  assumes "c2r_inv st"
  shows "\<exists>p. scan_events client_accept (c2r_view st) (snd (FinalizeChatCompletionsResponsesStream sha jt rnd st)) = Some p \<and> kp_completed p"
proof -
  let ?r = "then_emit (then_emit (ensureChatToResponsesCreated st) closeChatReasoningItem) (synthesizeChatReasoningFallbackMessage rnd)"
  obtain s es where r: "?r = (s, es)" by fastforce
  have "c2r_ok st ?r"
    using chat_created_ok [OF assms] by (intro c2r_ok_then) (auto intro!: close_reasoning_ok fallback_ok)
  then have s: "c2r_inv s" "cs_CreatedSent s" "scan_events client_accept (c2r_view st) es = Some (c2r_view s)" using r by (simp_all add: c2r_ok_def)
  have "\<not> cs_ReasoningOpen (fst ?r)"
    by (simp add: then_emit_proj reasoning_closed)
  then have closed: "\<not> cs_ReasoningOpen s" using r by simp
  obtain s2 q where s2: "fst (then_emit (close_message s) (closeChatToolItems sha jt)) = s2" "c2r_inv s2" "cs_CreatedSent s2" "same_rest s s2" "closed_only q"
      "dom q = set (outs (cs_Tools s)) \<union> (if cs_MessageItemID s \<noteq> [] then {cs_MessageIndex s} else {})"
      "scan_events client_accept (c2r_view s) (snd (then_emit (close_message s) (closeChatToolItems sha jt))) = Some (over (c2r_view s2) q)"
    using close_all_scan [OF s(1,2), of sha jt] by blast
  have delivered: "all_delivered (over (c2r_view s2) q) (chatOutput sha jt rnd s2)"
    using s2(4,6) closed by (intro closed_items [OF s2(2) _ s2(5)]) (simp_all add: same_rest_def)
  have assoc: "then_emit (then_emit r f) g = then_emit r (\<lambda>s. then_emit (f s) g)" for r :: c2r and f g
    by (simp add: then_emit_def split: prod.split)
  obtain e where run: "snd (FinalizeChatCompletionsResponsesStream sha jt rnd st) =
      es @ snd (then_emit (close_message s) (closeChatToolItems sha jt)) @ [e]"
      and e: "re_Type e = ''response.completed''" "re_SequenceNumber e = cs_SequenceNumber s2" "\<exists>x. re_Response e = Some x \<and> rr_Output x = chatOutput sha jt rnd s2"
  proof -
    have "snd ?r = es" "fst ?r = s" using r by simp_all
    with that s2(1) inv_open [OF assms] show ?thesis
      by (simp add: FinalizeChatCompletionsResponsesStream_def then_emit_proj) (simp add: chatToResponsesEvent_def zero_resp_event_def zero_response_def)
  qed
  have "client_accept (over (c2r_view s2) q) e = Some ((over (c2r_view s2) q)\<lparr>kp_completed := True, kp_seq := cs_SequenceNumber s2 + 1\<rparr>)"
    using e delivered s2(3) inv_open [OF s2(2)] by (auto simp: client_accept_def accept_types)
  with run s(3) s2(7) show ?thesis by (simp add: scan_events_append)
qed

subsection \<open>Properties\<close>

abbreviation c2r_stream :: "(string \<Rightarrow> string) \<Rightarrow> (nat \<Rightarrow> string) \<Rightarrow> ChatCompletionsChunk list \<Rightarrow> C2RState \<Rightarrow> c2r" where
  "c2r_stream sha rnd chunks st \<equiv> run_events (ChatCompletionsChunkToResponsesEvents sha rnd) chunks st"

lemma c2r_new: "c2r_inv (NewChatCompletionsToResponsesStreamState rid model now k)" "c2r_view (NewChatCompletionsToResponsesStreamState rid model now k) = client_start"
  by (simp_all add: c2r_inv_def used_indices_def reasoned_def NewChatCompletionsToResponsesStreamState_def c2r_view_def client_start_def
      items_view_def fun_eq_iff tool_map_def)

text \<open>C23: When the upstream numbers its tool calls from 0 without gaps and sends no reasoning after the
  reasoning was closed, a client that keeps the items of the Responses stream accepts every event: fresh output indices, deltas for
  open items and parts only, done events that repeat what was delivered, and a terminal event after which every item is closed.\<close>

theorem chat_stream_well_formed:
  assumes "guarded_run (chunk_in_order sha rnd) (ChatCompletionsChunkToResponsesEvents sha rnd) chunks (NewChatCompletionsToResponsesStreamState rid model now k)"
  shows "\<exists>p. scan_events client_accept client_start
      (snd (c2r_stream sha rnd chunks (NewChatCompletionsToResponsesStreamState rid model now k)) @
       snd (FinalizeChatCompletionsResponsesStream sha jt rnd (fst (c2r_stream sha rnd chunks (NewChatCompletionsToResponsesStreamState rid model now k))))) = Some p \<and>
    kp_completed p"
  using c2r.guarded_run_accepted [OF c2r_new(1) assms] c2r.guarded_run_inv [OF c2r_new(1) assms] finalize_scan
  by (simp add: scan_events_append c2r_new(2))

definition chat_chunk :: "ChatDelta \<Rightarrow> ChatCompletionsChunk" where
  "chat_chunk d = \<lparr>ck_ID = ''c1'', ck_Object = [], ck_Created = 0, ck_Model = ''m'', ck_Choices = [\<lparr>cx_Index = 0, cx_Delta = d, cx_FinishReason = None\<rparr>],
     ck_Usage = None, ck_SystemFingerprint = [], ck_ServiceTier = []\<rparr>"

definition call_delta :: "int \<Rightarrow> string \<Rightarrow> string \<Rightarrow> string \<Rightarrow> ChatDelta" where
  "call_delta i cid name args = zero_chat_delta\<lparr>cd_ToolCalls := [\<lparr>tc_Index = Some i, tc_ID = cid, tc_Type = ''function'',
     tc_Function = \<lparr>fc_Name = name, fc_Arguments = args\<rparr>\<rparr>]\<rparr>"

definition plain_sha :: "string \<Rightarrow> string" where "plain_sha s = s"

definition plain_random :: "nat \<Rightarrow> string" where "plain_random n = [char_of n]"

definition sample_chunks :: "ChatCompletionsChunk list" where
  "sample_chunks = map chat_chunk [zero_chat_delta\<lparr>cd_ReasoningContent := Some ''hm''\<rparr>, zero_chat_delta\<lparr>cd_Content := Some ''ok''\<rparr>,
     call_delta 0 ''call_1'' ''f'' ''{'', call_delta 1 ''call_2'' [] [], call_delta 0 [] [] ''}'', call_delta 1 [] ''g'' ''{}'']"

definition sample_kinds :: ChatToolKinds where
  "sample_kinds = no_tool_kinds\<lparr>tk_Custom := [''g''], tk_Function := [''f'']\<rparr>"

theorem chat_stream_well_formed_witness:
  "\<exists>p. scan_events client_accept client_start
      (snd (c2r_stream plain_sha plain_random sample_chunks (NewChatCompletionsToResponsesStreamState [] [] 0 sample_kinds)) @
       snd (FinalizeChatCompletionsResponsesStream plain_sha \<lparr>jt_value = (\<lambda>s. None), jt_text = (\<lambda>v. [])\<rparr> plain_random
         (fst (c2r_stream plain_sha plain_random sample_chunks (NewChatCompletionsToResponsesStreamState [] [] 0 sample_kinds))))) = Some p \<and> kp_completed p"
proof -
  have "guarded_run (chunk_in_order plain_sha plain_random) (ChatCompletionsChunkToResponsesEvents plain_sha plain_random) sample_chunks
      (NewChatCompletionsToResponsesStreamState [] [] 0 sample_kinds)"
    by code_simp
  then show ?thesis by (rule chat_stream_well_formed)
qed

subsection \<open>Text is conserved\<close>

definition delivered :: "string \<Rightarrow> ResponsesStreamEvent list \<Rightarrow> string" where
  "delivered ty evs = concat (map (\<lambda>e. if re_Type e = ty then re_Delta e else []) evs)"

definition text_or_empty :: "string option \<Rightarrow> string" where
  "text_or_empty t = (case t of None \<Rightarrow> [] | Some s \<Rightarrow> s)"

definition chunk_text :: "ChatCompletionsChunk \<Rightarrow> string" where
  "chunk_text c = concat (map (\<lambda>ch. text_or_empty (cd_Content (cx_Delta ch))) (ck_Choices c))"

definition chunk_reasoning :: "ChatCompletionsChunk \<Rightarrow> string" where
  "chunk_reasoning c = concat (map (\<lambda>ch. text_or_empty (delta_reasoningText (cx_Delta ch))) (ck_Choices c))"

lemma delivered_list [simp]:
  "delivered ty [] = []" "delivered ty (e # es) = (if re_Type e = ty then re_Delta e else []) @ delivered ty es"
  "delivered ty (es @ es') = delivered ty es @ delivered ty es'"
  by (simp_all add: delivered_def)

lemma delivered_emit [simp]:
  "delivered ty (snd (chatToResponsesEvent t x st)) = (if t = ty then re_Delta x else [])"
  by (simp add: chatToResponsesEvent_def)

lemma delivered_seq [simp]: "delivered ty (snd (then_emit r k)) = delivered ty (snd r) @ delivered ty (snd (k (fst r)))"
  by (simp add: then_emit_proj)

text \<open>\<open>ty\<close> is the type of text or reasoning deltas.\<close>

definition text_type :: "string \<Rightarrow> bool" where
  "text_type ty \<longleftrightarrow> ty = ''response.output_text.delta'' \<or> ty = ''response.reasoning_summary_text.delta''"

lemma delivered_none:
  assumes "text_type ty"
  shows "delivered ty (snd (ensureChatToResponsesCreated st)) = []" "delivered ty (snd (ensureChatReasoningItem rnd st)) = []"
    "delivered ty (snd (closeChatReasoningItem st)) = []" "delivered ty (snd (ensureChatToResponsesMessageItem rnd st)) = []"
    "delivered ty (snd (ensureChatToResponsesTextPart st)) = []" "delivered ty (snd (announceChatToolItem sha f idx st)) = []"
    "delivered ty (snd (stream_arguments idx a st)) = []"
  using assms by (auto simp: text_type_def ensureChatToResponsesCreated_def ensureChatReasoningItem_def closeChatReasoningItem_def
      ensureChatToResponsesMessageItem_def ensureChatToResponsesTextPart_def announceChatToolItem_def stream_arguments_def no_event_def Let_def)

lemma delivered_tool_call: "text_type ty \<Longrightarrow> delivered ty (snd (handle_tool_call sha rnd tc st)) = []"
proof -
  assume ty: "text_type ty"
  have "snd (case r of (s, es) \<Rightarrow> (f s, es)) = snd r" for r :: c2r and f :: "C2RState \<Rightarrow> C2RState" by (simp split: prod.split)
  with delivered_none [OF ty] show ?thesis by (simp add: handle_tool_call_def Let_def split: option.split)
qed

lemma delivered_tool_calls: "text_type ty \<Longrightarrow> delivered ty (snd (run_events (handle_tool_call sha rnd) tcs st)) = []"
  by (induction tcs arbitrary: st) (simp_all add: run_events_Cons delivered_tool_call del: run_events.simps(2))

lemma delivered_emit_text: "delivered ''response.output_text.delta'' (snd (emit_text rnd t st)) = t"
    "delivered ''response.reasoning_summary_text.delta'' (snd (emit_text rnd t st)) = []"
  by (simp_all add: emit_text_def delivered_none text_type_def)

lemma delivered_reasoning: "delivered ''response.reasoning_summary_text.delta'' (snd (handle_reasoning rnd t st)) = t"
    "delivered ''response.output_text.delta'' (snd (handle_reasoning rnd t st)) = []"
  by (simp_all add: handle_reasoning_def delivered_none text_type_def)

lemma choice_events: "snd (handle_choice sha rnd c st) =
    snd (then_emit (choice_texts rnd (cx_Delta c) st) (run_events (handle_tool_call sha rnd) (cd_ToolCalls (cx_Delta c))))"
  unfolding handle_choice_def Let_def choice_texts_def [symmetric] by (simp split: prod.split)

lemma delivered_choice:
  "delivered ''response.output_text.delta'' (snd (handle_choice sha rnd c st)) = text_or_empty (cd_Content (cx_Delta c))"
  "delivered ''response.reasoning_summary_text.delta'' (snd (handle_choice sha rnd c st)) = text_or_empty (delta_reasoningText (cx_Delta c))"
  unfolding choice_events
  by (simp_all add: choice_texts_def given_def delivered_tool_calls text_type_def text_or_empty_def delivered_none delivered_emit_text
    delivered_reasoning split: option.split)

interpretation c2r_choices: stream_conservation "handle_choice sha rnd" "\<lambda>c. text_or_empty (cd_Content (cx_Delta c))"
    "\<lambda>e. if re_Type e = ''response.output_text.delta'' then re_Delta e else []" for sha rnd
  by unfold_locales (simp add: delivered_choice flip: delivered_def)

interpretation c2r_reasonings: stream_conservation "handle_choice sha rnd" "\<lambda>c. text_or_empty (delta_reasoningText (cx_Delta c))"
    "\<lambda>e. if re_Type e = ''response.reasoning_summary_text.delta'' then re_Delta e else []" for sha rnd
  by unfold_locales (simp add: delivered_choice flip: delivered_def)

interpretation c2r_text: stream_conservation "ChatCompletionsChunkToResponsesEvents sha rnd" chunk_text
    "\<lambda>e. if re_Type e = ''response.output_text.delta'' then re_Delta e else []" for sha rnd
  by unfold_locales (simp add: ChatCompletionsChunkToResponsesEvents_def delivered_none text_type_def chunk_text_def flip: delivered_def,
    simp add: delivered_def c2r_choices.run_conserved)

interpretation c2r_reasoning: stream_conservation "ChatCompletionsChunkToResponsesEvents sha rnd" chunk_reasoning
    "\<lambda>e. if re_Type e = ''response.reasoning_summary_text.delta'' then re_Delta e else []" for sha rnd
  by unfold_locales (simp add: ChatCompletionsChunkToResponsesEvents_def delivered_none text_type_def chunk_reasoning_def flip: delivered_def,
    simp add: delivered_def c2r_reasonings.run_conserved)

text \<open>C25: Whatever chunks the upstream sends, the text and the reasoning that are streamed to the Responses client
  are those of the chunks, byte for byte and in their order.\<close>

theorem chat_stream_text_conserved:
  "delivered ''response.output_text.delta'' (snd (c2r_stream sha rnd chunks st)) = concat (map chunk_text chunks) \<and>
   delivered ''response.reasoning_summary_text.delta'' (snd (c2r_stream sha rnd chunks st)) = concat (map chunk_reasoning chunks)"
  unfolding delivered_def using c2r_text.run_conserved c2r_reasoning.run_conserved by blast

subsection \<open>Calls whose numbers have gaps\<close>

text \<open>A tool call whose upstream index is positive although it is the only one (some providers count from 1) is
  announced and its arguments are streamed, but the end of the stream neither finishes its item nor lists it in the response.\<close>

theorem chat_stream_gap_lost:
  assumes "i > 0" "name \<noteq> []" "args \<noteq> []"
    and "r = c2r_stream sha rnd [chat_chunk (call_delta i cid name args)] (NewChatCompletionsToResponsesStreamState rid model now no_tool_kinds)"
  shows "map re_Type (snd r) = [''response.created'', ''response.output_item.added'', ''response.function_call_arguments.delta''] \<and>
    (\<exists>x. map re_Type (snd (FinalizeChatCompletionsResponsesStream sha jt rnd (fst r))) = [''response.completed''] \<and>
      re_Response (last (snd (FinalizeChatCompletionsResponsesStream sha jt rnd (fst r)))) = Some x \<and> rr_Status x = ''completed'' \<and> rr_Output x = [])"
proof -
  have kinds: "customToolCallName sha no_tool_kinds n = None" for n by (simp add: customToolCallName_def no_tool_kinds_def)
  have "\<not> deferred no_tool_kinds e" for e by (simp add: deferred_def no_tool_kinds_def)
  with assms kinds show ?thesis
    by (simp add: chat_chunk_def call_delta_def ChatCompletionsChunkToResponsesEvents_def read_chunk_def NewChatCompletionsToResponsesStreamState_def
      then_emit_def ensureChatToResponsesCreated_def chatToResponsesEvent_def handle_choice_def given_def zero_chat_delta_def delta_reasoningText_def
      handle_tool_call_def closeChatReasoningItem_def open_entry_def set_entry_def announceChatToolItem_def tool_entry_def classify_entry_def
      no_event_def stream_arguments_def append_arguments_def Let_def FinalizeChatCompletionsResponsesStream_def synthesizeChatReasoningFallbackMessage_def
      close_message_def closeChatToolItems_def counted_def chatOutput_def no_tool_kinds_def zero_resp_event_def zero_response_def)
qed

theorem chat_stream_gap_lost_witness:
  "\<exists>x. re_Response (last (snd (FinalizeChatCompletionsResponsesStream plain_sha \<lparr>jt_value = (\<lambda>s. None), jt_text = (\<lambda>v. [])\<rparr> plain_random
      (fst (c2r_stream plain_sha plain_random [chat_chunk (call_delta 1 ''call_1'' ''f'' ''{}'')]
        (NewChatCompletionsToResponsesStreamState [] [] 0 no_tool_kinds)))))) = Some x \<and> rr_Output x = []"
  using chat_stream_gap_lost [OF _ _ _ refl, of 1 "''f''" "''{}''"] by fastforce

subsection \<open>Streaming and buffered conversion agree\<close>

text \<open>Items up to their random identifiers.\<close>

definition anonymous :: "ResponsesOutput \<Rightarrow> ResponsesOutput" where
  "anonymous x = x\<lparr>ro_ID := []\<rparr>"



lemma anonymous_simps [simp]:
  "anonymous (reasoning_item i t) = reasoning_item [] t" "anonymous (message_item i ps) = message_item [] ps"
  "anonymous (entry_item sha jt st i e) = entry_item sha jt st [] e"
  by (simp_all add: anonymous_def reasoning_item_def message_item_def entry_item_def custom_call_item_def search_call_item_def function_call_item_def
    zero_output_def Let_def split: option.split)




text \<open>The calls after the last of them was announced.\<close>

definition finished :: "(string \<Rightarrow> string) \<Rightarrow> ChatToolKinds \<Rightarrow> ChatToolEntry \<Rightarrow> ChatToolEntry" where
  "finished sha k e = (if te_Announced e then e else classify_entry sha k e)"

lemma finished_twice [simp]: "finished sha k (finished sha k e) = finished sha k e"
  by (simp add: finished_def)























end
