(* ===== verification/Chat_To_Anthropic.thy ===== *)
theory Chat_To_Anthropic
  imports Chat_Upstream Resp_To_Anthropic
begin

section \<open>Chat Completions to Anthropic: apicompat/chatcompletions\_anthropic\_bridge.go\<close>

text \<open>
  The response side of the direct bridge from a Chat Completions upstream to an Anthropic client: the buffered
  conversion and the stream converter, which assigns the index of a content block when the block is opened. The
  maps of its state that are keyed by the index of a tool call are functions of that index; the one over which the
  end of the stream ranges is an association list.
\<close>

subsection \<open>The buffered conversion\<close>

definition chatMessageToAnthropicBlocks :: "json_lib \<Rightarrow> ChatUpstreamMessage \<Rightarrow> AnthropicContentBlock list" where
  "chatMessageToAnthropicBlocks J m =
     (let reasoning = message_reasoningText m;
          thinking = (if reasoning \<noteq> [] then [zero_block\<lparr>cb_Type := ''thinking'', cb_Thinking := reasoning\<rparr>] else []);
          t = chatMessageContentText (qm_Content m);
          txt = (if t = [] \<and> go_TrimSpace reasoning \<noteq> [] \<and> qm_ToolCalls m = [] then reasoning else t);
          texts = (if txt \<noteq> [] \<or> qm_ToolCalls m = [] then [zero_block\<lparr>cb_Type := ''text'', cb_Text := txt\<rparr>] else [])
      in thinking @ texts @
         map (\<lambda>tc. zero_block\<lparr>cb_Type := ''tool_use'', cb_ID := fromResponsesCallID (tc_ID tc), cb_Name := fc_Name (tc_Function tc),
                cb_Input := sanitizeAnthropicToolUseInput J (fc_Name (tc_Function tc)) (call_arguments (fc_Arguments (tc_Function tc)))\<rparr>)
           (qm_ToolCalls m))"

definition chatFinishReasonToAnthropicStopReason :: "string \<Rightarrow> AnthropicContentBlock list \<Rightarrow> string" where
  "chatFinishReasonToAnthropicStopReason reason blocks =
     (if reason = ''length'' then ''max_tokens''
      else if reason = ''tool_calls'' then ''tool_use''
      else if containsAnthropicToolUseBlock blocks then ''tool_use'' else ''end_turn'')"

definition chatUsageToAnthropicUsage :: "ChatUsage option \<Rightarrow> AnthropicUsage" where
  "chatUsageToAnthropicUsage usage =
     (case usage of
        None \<Rightarrow> zero_usage
      | Some u \<Rightarrow>
          let cached = (case cu_PromptTokensDetails u of None \<Rightarrow> 0 | Some d \<Rightarrow> td_CachedTokens d);
              creation = (case cu_PromptTokensDetails u of None \<Rightarrow> 0
                | Some d \<Rightarrow> if td_CacheWriteTokens d > 0 then td_CacheWriteTokens d else td_CacheCreationTokens d);
              input = cu_PromptTokens u - cached - creation
          in zero_usage\<lparr>au_InputTokens := (if input < 0 then 0 else input), au_OutputTokens := cu_CompletionTokens u,
               au_CacheReadInputTokens := cached, au_CacheCreationInputTokens := creation\<rparr>)"

definition ChatCompletionsResponseToAnthropic :: "json_lib \<Rightarrow> string \<Rightarrow> ChatUpstreamResponse option \<Rightarrow> string \<Rightarrow> AnthropicResponse" where
  "ChatCompletionsResponseToAnthropic J rid resp model =
     (let choices = (case resp of None \<Rightarrow> [] | Some r \<Rightarrow> us_Choices r);
          content = (case choices of [] \<Rightarrow> [] | c # _ \<Rightarrow> chatMessageToAnthropicBlocks J (uc_Message c));
          stop = (case choices of [] \<Rightarrow> None | c # _ \<Rightarrow> Some (chatFinishReasonToAnthropicStopReason (uc_FinishReason c) content));
          content = (if content = [] then [zero_block\<lparr>cb_Type := ''text''\<rparr>] else content);
          aid = (case resp of None \<Rightarrow> [] | Some r \<Rightarrow> us_ID r)
      in \<lparr>ar_ID = (if aid = [] then generateResponsesID rid else aid), ar_Type = ''message'', ar_Role = ''assistant'', ar_Content = content,
          ar_Model = (case resp of None \<Rightarrow> model | Some r \<Rightarrow> if model = [] then us_Model r else model),
          ar_StopReason = (if AnthropicStopReasonString stop = [] then Some (chatFinishReasonToAnthropicStopReason [] content) else stop),
          ar_StopSequence = None,
          ar_Usage = (case resp of None \<Rightarrow> zero_usage
            | Some r \<Rightarrow> (case us_Usage r of None \<Rightarrow> zero_usage | Some u \<Rightarrow> chatUsageToAnthropicUsage (Some u)))\<rparr>)"

subsection \<open>The state of a stream\<close>

record CCAState =
  cc_MessageStartSent :: bool
  cc_MessageStopSent :: bool
  cc_ContentBlockIndex :: int
  cc_ContentBlockOpen :: bool
  cc_CurrentBlockType :: string
  cc_CurrentToolName :: string
  cc_CurrentToolHadDelta :: bool
  cc_HasToolCall :: bool
  cc_toolBlockIndex :: "int \<Rightarrow> int option"
  cc_toolAnnounced :: "int \<Rightarrow> bool option"
  cc_toolName :: "int \<Rightarrow> string option"
  cc_pendingToolCallID :: "(int \<times> string) list"
  cc_pendingToolArgs :: "int \<Rightarrow> string"
  cc_FinishReason :: string
  cc_InputTokens :: int
  cc_OutputTokens :: int
  cc_CacheReadInputTokens :: int
  cc_CacheCreationInputTokens :: int
  cc_ResponseID :: string
  cc_Model :: string
  cc_Created :: int
  cc_Drawn :: nat

definition NewChatCompletionsToAnthropicStreamState :: "string \<Rightarrow> string \<Rightarrow> int \<Rightarrow> CCAState" where
  "NewChatCompletionsToAnthropicStreamState rid model now =
     \<lparr>cc_MessageStartSent = False, cc_MessageStopSent = False, cc_ContentBlockIndex = 0, cc_ContentBlockOpen = False,
      cc_CurrentBlockType = [], cc_CurrentToolName = [], cc_CurrentToolHadDelta = False, cc_HasToolCall = False,
      cc_toolBlockIndex = Map.empty, cc_toolAnnounced = Map.empty, cc_toolName = Map.empty, cc_pendingToolCallID = [],
      cc_pendingToolArgs = (\<lambda>i. []), cc_FinishReason = [], cc_InputTokens = 0, cc_OutputTokens = 0, cc_CacheReadInputTokens = 0,
      cc_CacheCreationInputTokens = 0, cc_ResponseID = generateResponsesID rid, cc_Model = model, cc_Created = now, cc_Drawn = 0\<rparr>"

type_synonym cca = "CCAState \<times> AnthropicStreamEvent list"

subsection \<open>Blocks\<close>

definition closeCCAnthropicBlock :: "CCAState \<Rightarrow> cca" where
  "closeCCAnthropicBlock st =
     (if \<not> cc_ContentBlockOpen st then (st, [])
      else
        let idx = cc_ContentBlockIndex st
        in (st\<lparr>cc_ContentBlockOpen := False, cc_ContentBlockIndex := idx + 1, cc_CurrentBlockType := [], cc_CurrentToolName := [],
              cc_CurrentToolHadDelta := False\<rparr>,
            (if cc_CurrentBlockType st = ''tool_use'' \<and> \<not> cc_CurrentToolHadDelta st then [block_delta idx (input_json_delta ''{}'')] else []) @
            [block_stop idx]))"

definition closeCCAnthropicBlockIfOpen :: "string \<Rightarrow> CCAState \<Rightarrow> cca" where
  "closeCCAnthropicBlockIfOpen blockType st =
     (if \<not> cc_ContentBlockOpen st \<or> cc_CurrentBlockType st \<noteq> blockType then (st, []) else closeCCAnthropicBlock st)"

definition ensureCCAnthropicMessageStart :: "CCAState \<Rightarrow> cca" where
  "ensureCCAnthropicMessageStart st =
     (if cc_MessageStartSent st then (st, [])
      else (st\<lparr>cc_MessageStartSent := True\<rparr>,
        [zero_anth_event\<lparr>ae_Type := ''message_start'', ae_Message := Some \<lparr>ar_ID = cc_ResponseID st, ar_Type = ''message'',
           ar_Role = ''assistant'', ar_Content = [], ar_Model = cc_Model st, ar_StopReason = None, ar_StopSequence = None,
           ar_Usage = zero_usage\<rparr>\<rparr>]))"

text \<open>\<open>ensureCCAnthropicThinkingBlock\<close> and \<open>ensureCCAnthropicTextBlock\<close> differ in the type only.\<close>

definition ensure_block :: "string \<Rightarrow> CCAState \<Rightarrow> cca" where
  "ensure_block ty st =
     (if cc_ContentBlockOpen st \<and> cc_CurrentBlockType st = ty then (st, [])
      else then_emit (closeCCAnthropicBlock st)
        (\<lambda>s. (s\<lparr>cc_ContentBlockOpen := True, cc_CurrentBlockType := ty\<rparr>,
              [block_start (cc_ContentBlockIndex s) (zero_block\<lparr>cb_Type := ty\<rparr>)])))"

definition ensureCCAnthropicThinkingBlock :: "CCAState \<Rightarrow> cca" where
  "ensureCCAnthropicThinkingBlock = ensure_block ''thinking''"

definition ensureCCAnthropicTextBlock :: "CCAState \<Rightarrow> cca" where
  "ensureCCAnthropicTextBlock = ensure_block ''text''"

definition ccAnthropicDelta :: "AnthropicDelta \<Rightarrow> CCAState \<Rightarrow> cca" where
  "ccAnthropicDelta d st = (st, if cc_ContentBlockOpen st then [block_delta (cc_ContentBlockIndex st) d] else [])"

subsection \<open>Tool calls\<close>

definition announceCCAnthropicToolBlock :: "int \<Rightarrow> string \<Rightarrow> string \<Rightarrow> CCAState \<Rightarrow> cca" where
  "announceCCAnthropicToolBlock idx callID name st =
     (let blockIdx = cc_ContentBlockIndex st; pending = cc_pendingToolArgs st idx;
          st1 = st\<lparr>cc_toolBlockIndex := (cc_toolBlockIndex st)(idx \<mapsto> blockIdx), cc_toolAnnounced := (cc_toolAnnounced st)(idx \<mapsto> True),
            cc_toolName := (cc_toolName st)(idx \<mapsto> name), cc_CurrentToolName := name, cc_CurrentToolHadDelta := False,
            cc_ContentBlockOpen := True, cc_CurrentBlockType := ''tool_use'',
            cc_pendingToolCallID := AList.delete idx (cc_pendingToolCallID st)\<rparr>;
          started = block_start blockIdx (zero_block\<lparr>cb_Type := ''tool_use'', cb_ID := fromResponsesCallID callID, cb_Name := name,
            cb_Input := ''{}''\<rparr>)
      in if pending \<noteq> []
         then (st1\<lparr>cc_pendingToolArgs := (cc_pendingToolArgs st)(idx := []), cc_CurrentToolHadDelta := True\<rparr>,
               [started, block_delta blockIdx (input_json_delta pending)])
         else (st1, [started]))"

text \<open>The first half of \<open>handleCCAnthropicToolCall\<close>: a new call, and the name of a known one.\<close>

definition new_tool :: "(nat \<Rightarrow> string) \<Rightarrow> int \<Rightarrow> ChatToolCall \<Rightarrow> CCAState \<Rightarrow> cca" where
  "new_tool rnd idx tc st =
     (let name = fc_Name (tc_Function tc);
          callID = (if tc_ID tc = [] then generateItemID (rnd (cc_Drawn st)) else tc_ID tc);
          st1 = st\<lparr>cc_HasToolCall := True, cc_Drawn := (if tc_ID tc = [] then cc_Drawn st + 1 else cc_Drawn st)\<rparr>
      in if name \<noteq> [] then announceCCAnthropicToolBlock idx callID name st1
         else (st1\<lparr>cc_toolAnnounced := (cc_toolAnnounced st)(idx \<mapsto> False),
                  cc_pendingToolCallID := AList.update idx callID (cc_pendingToolCallID st)\<rparr>, []))"

definition pending_id :: "int \<Rightarrow> CCAState \<Rightarrow> string" where
  "pending_id idx st = (case map_of (cc_pendingToolCallID st) idx of None \<Rightarrow> [] | Some i \<Rightarrow> i)"

definition open_tool :: "(nat \<Rightarrow> string) \<Rightarrow> int \<Rightarrow> ChatToolCall \<Rightarrow> CCAState \<Rightarrow> cca" where
  "open_tool rnd idx tc st =
     (let name = fc_Name (tc_Function tc) in
      case cc_toolAnnounced st idx of
        None \<Rightarrow> then_emit (closeCCAnthropicBlock st) (new_tool rnd idx tc)
      | Some announced \<Rightarrow>
          if \<not> announced \<and> name \<noteq> [] then
            then_emit (closeCCAnthropicBlock st)
              (announceCCAnthropicToolBlock idx (if tc_ID tc \<noteq> [] then tc_ID tc else pending_id idx st) name)
          else (st, []))"

definition tool_arguments :: "int \<Rightarrow> string \<Rightarrow> CCAState \<Rightarrow> cca" where
  "tool_arguments idx a st =
     (if a = [] then (st, [])
      else if cc_toolAnnounced st idx = Some True then
        let blockIdx = (case cc_toolBlockIndex st idx of None \<Rightarrow> 0 | Some i \<Rightarrow> i)
        in (if cc_ContentBlockOpen st \<and> blockIdx = cc_ContentBlockIndex st then st\<lparr>cc_CurrentToolHadDelta := True\<rparr> else st,
            [block_delta blockIdx (input_json_delta a)])
      else (st\<lparr>cc_pendingToolArgs := (cc_pendingToolArgs st)(idx := cc_pendingToolArgs st idx @ a)\<rparr>, []))"

definition handleCCAnthropicToolCall :: "(nat \<Rightarrow> string) \<Rightarrow> ChatToolCall \<Rightarrow> CCAState \<Rightarrow> cca" where
  "handleCCAnthropicToolCall rnd tc st =
     (let idx = (case tc_Index tc of None \<Rightarrow> 0 | Some i \<Rightarrow> i)
      in then_emit (open_tool rnd idx tc st) (tool_arguments idx (fc_Arguments (tc_Function tc))))"

subsection \<open>Chunks\<close>

definition say :: "string \<Rightarrow> CCAState \<Rightarrow> cca" where
  "say t st = then_emit (then_emit (closeCCAnthropicBlockIfOpen ''thinking'' st) ensureCCAnthropicTextBlock)
     (ccAnthropicDelta (zero_delta\<lparr>ad_Type := ''text_delta'', ad_Text := t\<rparr>))"

definition think :: "string \<Rightarrow> CCAState \<Rightarrow> cca" where
  "think t st = then_emit (ensureCCAnthropicThinkingBlock st) (ccAnthropicDelta (zero_delta\<lparr>ad_Type := ''thinking_delta'', ad_Thinking := t\<rparr>))"

definition call_tool :: "(nat \<Rightarrow> string) \<Rightarrow> ChatToolCall \<Rightarrow> CCAState \<Rightarrow> cca" where
  "call_tool rnd tc st = then_emit (closeCCAnthropicBlockIfOpen ''thinking'' st) (handleCCAnthropicToolCall rnd tc)"

text \<open>What is said when the pointer is not nil and the text not empty.\<close>

definition unless_empty :: "string option \<Rightarrow> (string \<Rightarrow> CCAState \<Rightarrow> cca) \<Rightarrow> CCAState \<Rightarrow> cca" where
  "unless_empty t f st = (case t of None \<Rightarrow> (st, []) | Some s \<Rightarrow> if s = [] then (st, []) else f s st)"

definition anthropic_choice :: "(nat \<Rightarrow> string) \<Rightarrow> ChatChunkChoice \<Rightarrow> CCAState \<Rightarrow> cca" where
  "anthropic_choice rnd c st =
     (let d = cx_Delta c
      in then_emit (then_emit (then_emit (unless_empty (delta_reasoningText d) think st) (unless_empty (cd_Content d) say))
             (run_events (call_tool rnd) (cd_ToolCalls d)))
           (\<lambda>s. (case cx_FinishReason c of None \<Rightarrow> s | Some r \<Rightarrow> if r \<noteq> [] then s\<lparr>cc_FinishReason := r\<rparr> else s, [])))"

definition read_usage :: "ChatUsage option \<Rightarrow> CCAState \<Rightarrow> CCAState" where
  "read_usage usage st =
     (case usage of None \<Rightarrow> st
      | Some v \<Rightarrow> let u = chatUsageToAnthropicUsage (Some v)
          in st\<lparr>cc_InputTokens := au_InputTokens u, cc_OutputTokens := au_OutputTokens u,
               cc_CacheReadInputTokens := au_CacheReadInputTokens u, cc_CacheCreationInputTokens := au_CacheCreationInputTokens u\<rparr>)"

definition read_anthropic_chunk :: "ChatCompletionsChunk \<Rightarrow> CCAState \<Rightarrow> CCAState" where
  "read_anthropic_chunk chunk st =
     (read_usage (ck_Usage chunk) st)\<lparr>cc_ResponseID := (if ck_ID chunk \<noteq> [] then ck_ID chunk else cc_ResponseID st),
        cc_Model := (if cc_Model st = [] \<and> ck_Model chunk \<noteq> [] then ck_Model chunk else cc_Model st)\<rparr>"

definition ChatCompletionsChunkToAnthropicEvents :: "(nat \<Rightarrow> string) \<Rightarrow> ChatCompletionsChunk \<Rightarrow> CCAState \<Rightarrow> cca" where
  "ChatCompletionsChunkToAnthropicEvents rnd chunk st =
     then_emit (ensureCCAnthropicMessageStart (read_anthropic_chunk chunk st)) (run_events (anthropic_choice rnd) (ck_Choices chunk))"

subsection \<open>The end of the stream\<close>

definition ccFinishReasonToAnthropicStopReason :: "string \<Rightarrow> bool \<Rightarrow> string" where
  "ccFinishReasonToAnthropicStopReason reason hasToolCall =
     (if reason = ''length'' then ''max_tokens''
      else if reason = ''tool_calls'' then ''tool_use''
      else if hasToolCall then ''tool_use'' else ''end_turn'')"

text \<open>The calls that never got a name, in the order of their indices.\<close>

definition announce_nameless :: "int \<Rightarrow> CCAState \<Rightarrow> cca" where
  "announce_nameless idx st =
     then_emit (closeCCAnthropicBlock st) (announceCCAnthropicToolBlock idx (pending_id idx st) [])"

definition FinalizeChatCompletionsAnthropicStream :: "CCAState \<Rightarrow> cca" where
  "FinalizeChatCompletionsAnthropicStream st =
     (if cc_MessageStopSent st then (st, [])
      else
        then_emit (then_emit (then_emit (ensureCCAnthropicMessageStart st)
            (\<lambda>s. run_events announce_nameless (sort (map fst (cc_pendingToolCallID s))) s)) closeCCAnthropicBlock)
          (\<lambda>s. (s\<lparr>cc_MessageStopSent := True\<rparr>,
             [zero_anth_event\<lparr>ae_Type := ''message_delta'',
                ae_Delta := Some (zero_delta\<lparr>ad_StopReason := ccFinishReasonToAnthropicStopReason (cc_FinishReason s) (cc_HasToolCall s)\<rparr>),
                ae_Usage := Some (zero_usage\<lparr>au_InputTokens := cc_InputTokens s, au_OutputTokens := cc_OutputTokens s,
                  au_CacheReadInputTokens := cc_CacheReadInputTokens s, au_CacheCreationInputTokens := cc_CacheCreationInputTokens s\<rparr>)\<rparr>,
              zero_anth_event\<lparr>ae_Type := ''message_stop''\<rparr>])))"

end
