(* ===== verification/Chat_Anthropic_Correct.thy ===== *)
theory Chat_Anthropic_Correct
  imports Chat_To_Anthropic
begin

section \<open>Correctness of the direct bridge from chat answers to Anthropic\<close>

text \<open>
  A client that assembles the message of a stream, a simulation between it and the converter, and the comparison of the stream
  with the buffered conversion and of both with the two bridges that the direct one replaces.
\<close>

subsection \<open>A client that assembles the message\<close>

record anth_client =
  k_phase :: nat
  k_blocks :: "AnthropicContentBlock list"
  k_open :: bool
  k_stop :: string
  k_usage :: "AnthropicUsage option"

definition new_client :: anth_client where
  "new_client = \<lparr>k_phase = 0, k_blocks = [], k_open = False, k_stop = [], k_usage = None\<rparr>"

definition grow_block :: "AnthropicDelta \<Rightarrow> AnthropicContentBlock \<Rightarrow> AnthropicContentBlock option" where
  "grow_block d b =
     (if ad_Type d = ''text_delta'' \<and> cb_Type b = ''text'' then Some (b\<lparr>cb_Text := cb_Text b @ ad_Text d\<rparr>)
      else if ad_Type d = ''thinking_delta'' \<and> cb_Type b = ''thinking'' then Some (b\<lparr>cb_Thinking := cb_Thinking b @ ad_Thinking d\<rparr>)
      else if ad_Type d = ''input_json_delta'' \<and> cb_Type b = ''tool_use'' then Some (b\<lparr>cb_Input := cb_Input b @ ad_PartialJSON d\<rparr>)
      else None)"

definition client_reads :: "anth_client \<Rightarrow> AnthropicStreamEvent \<Rightarrow> anth_client option" where
  "client_reads c e =
     (let t = ae_Type e; current = (ae_Index e = Some (int (length (k_blocks c)) - 1)) in
      if t = ''message_start'' then (if k_phase c = 0 then Some (c\<lparr>k_phase := 1\<rparr>) else None)
      else if t = ''message_stop'' then (if k_phase c = 2 then Some (c\<lparr>k_phase := 3\<rparr>) else None)
      else if k_phase c \<noteq> 1 then None
      else if t = ''content_block_start'' then
        (case ae_ContentBlock e of None \<Rightarrow> None
         | Some b \<Rightarrow> if \<not> k_open c \<and> ae_Index e = Some (int (length (k_blocks c)))
             then Some (c\<lparr>k_blocks := k_blocks c @ [if cb_Type b = ''tool_use'' then b\<lparr>cb_Input := []\<rparr> else b], k_open := True\<rparr>) else None)
      else if t = ''content_block_delta'' then
        (case ae_Delta e of None \<Rightarrow> None
         | Some d \<Rightarrow> if k_open c \<and> current
             then map_option (\<lambda>b. c\<lparr>k_blocks := butlast (k_blocks c) @ [b]\<rparr>) (grow_block d (last (k_blocks c))) else None)
      else if t = ''content_block_stop'' then
        (if k_open c \<and> current \<and> (cb_Type (last (k_blocks c)) = ''tool_use'' \<longrightarrow> cb_Input (last (k_blocks c)) \<noteq> [])
         then Some (c\<lparr>k_open := False\<rparr>) else None)
      else if t = ''message_delta'' then
        (case ae_Delta e of None \<Rightarrow> None
         | Some d \<Rightarrow> if \<not> k_open c then Some (c\<lparr>k_phase := 2, k_stop := ad_StopReason d, k_usage := ae_Usage e\<rparr>) else None)
      else None)"

lemma client_reads_start:
  "k_phase c = 1 \<Longrightarrow> client_reads c (block_start i b) =
     (if \<not> k_open c \<and> i = int (length (k_blocks c))
      then Some (c\<lparr>k_blocks := k_blocks c @ [if cb_Type b = ''tool_use'' then b\<lparr>cb_Input := []\<rparr> else b], k_open := True\<rparr>) else None)"
  by (auto simp: client_reads_def block_start_def)

lemma client_reads_delta:
  "k_phase c = 1 \<Longrightarrow> client_reads c (block_delta i d) =
     (if k_open c \<and> i = int (length (k_blocks c)) - 1
      then map_option (\<lambda>b. c\<lparr>k_blocks := butlast (k_blocks c) @ [b]\<rparr>) (grow_block d (last (k_blocks c))) else None)"
  by (auto simp: client_reads_def block_delta_def)

lemma client_reads_stop:
  "k_phase c = 1 \<Longrightarrow> client_reads c (block_stop i) =
     (if k_open c \<and> i = int (length (k_blocks c)) - 1 \<and> (cb_Type (last (k_blocks c)) = ''tool_use'' \<longrightarrow> cb_Input (last (k_blocks c)) \<noteq> [])
      then Some (c\<lparr>k_open := False\<rparr>) else None)"
  by (auto simp: client_reads_def block_stop_def)

lemma grow_block_simps [simp]:
  "cb_Type b = ''text'' \<Longrightarrow> grow_block (zero_delta\<lparr>ad_Type := ''text_delta'', ad_Text := t\<rparr>) b = Some (b\<lparr>cb_Text := cb_Text b @ t\<rparr>)"
  "cb_Type b = ''thinking'' \<Longrightarrow> grow_block (zero_delta\<lparr>ad_Type := ''thinking_delta'', ad_Thinking := t\<rparr>) b = Some (b\<lparr>cb_Thinking := cb_Thinking b @ t\<rparr>)"
  "cb_Type b = ''tool_use'' \<Longrightarrow> grow_block (input_json_delta a) b = Some (b\<lparr>cb_Input := cb_Input b @ a\<rparr>)"
  by (simp_all add: grow_block_def input_json_delta_def zero_delta_def)

text \<open>The client in the middle of a message, and how the state of the converter describes it.\<close>

definition open_view :: "CCAState \<Rightarrow> AnthropicContentBlock \<Rightarrow> bool" where
  "open_view st b \<longleftrightarrow> cb_Type b = cc_CurrentBlockType st \<and> cb_Type b \<in> {''text'', ''thinking'', ''tool_use''} \<and>
     (cb_Type b = ''tool_use'' \<longrightarrow> (cc_CurrentToolHadDelta st \<longleftrightarrow> cb_Input b \<noteq> []))"

definition tool_blocks_ok :: "CCAState \<Rightarrow> bool" where
  "tool_blocks_ok st \<longleftrightarrow> (\<forall>i b. cc_toolBlockIndex st i = Some b \<longrightarrow>
     b \<le> cc_ContentBlockIndex st \<and> (b = cc_ContentBlockIndex st \<longrightarrow> cc_ContentBlockOpen st \<and> cc_CurrentBlockType st = ''tool_use''))"

definition cca_sim :: "CCAState \<Rightarrow> anth_client \<Rightarrow> bool" where
  "cca_sim st c \<longleftrightarrow> k_phase c = 1 \<and> cc_MessageStartSent st \<and> \<not> cc_MessageStopSent st \<and> k_open c = cc_ContentBlockOpen st \<and>
     int (length (k_blocks c)) = cc_ContentBlockIndex st + (if cc_ContentBlockOpen st then 1 else 0) \<and>
     (cc_ContentBlockOpen st \<longrightarrow> k_blocks c \<noteq> [] \<and> open_view st (last (k_blocks c))) \<and> tool_blocks_ok st"

definition finish_block :: "AnthropicContentBlock \<Rightarrow> AnthropicContentBlock" where
  "finish_block b = (if cb_Type b = ''tool_use'' \<and> cb_Input b = [] then b\<lparr>cb_Input := ''{}''\<rparr> else b)"

definition closed_blocks :: "anth_client \<Rightarrow> AnthropicContentBlock list" where
  "closed_blocks c = (if k_open c then butlast (k_blocks c) @ [finish_block (last (k_blocks c))] else k_blocks c)"

definition close_client :: "anth_client \<Rightarrow> anth_client" where
  "close_client c = c\<lparr>k_blocks := closed_blocks c, k_open := False\<rparr>"

lemma close_sim:
  assumes "cca_sim st c"
  shows "scan_events client_reads c (snd (closeCCAnthropicBlock st)) = Some (close_client c)"
    "cca_sim (fst (closeCCAnthropicBlock st)) (close_client c)" "\<not> cc_ContentBlockOpen (fst (closeCCAnthropicBlock st))"
proof -
  have *: "k_phase c = 1" "k_open c = cc_ContentBlockOpen st" "cc_ContentBlockOpen st \<Longrightarrow> k_blocks c \<noteq> []"
      "cc_ContentBlockOpen st \<Longrightarrow> open_view st (last (k_blocks c))"
      "int (length (k_blocks c)) = cc_ContentBlockIndex st + (if cc_ContentBlockOpen st then 1 else 0)"
    using assms by (auto simp: cca_sim_def)
  then show "scan_events client_reads c (snd (closeCCAnthropicBlock st)) = Some (close_client c)"
    by (auto simp: closeCCAnthropicBlock_def Let_def client_reads_delta client_reads_stop open_view_def close_client_def closed_blocks_def
      finish_block_def)
  have "b \<le> cc_ContentBlockIndex st" if "cc_toolBlockIndex st i = Some b" for i b
    using assms that by (simp add: cca_sim_def tool_blocks_ok_def)
  from order_trans [OF this] have "tool_blocks_ok (fst (closeCCAnthropicBlock st))" if "cc_ContentBlockOpen st"
    using that \<open>\<And>i b. cc_toolBlockIndex st i = Some b \<Longrightarrow> b \<le> cc_ContentBlockIndex st\<close>
    by (fastforce simp: tool_blocks_ok_def closeCCAnthropicBlock_def Let_def)
  with assms * show "cca_sim (fst (closeCCAnthropicBlock st)) (close_client c)"
    by (auto simp: closeCCAnthropicBlock_def Let_def cca_sim_def close_client_def closed_blocks_def)
  show "\<not> cc_ContentBlockOpen (fst (closeCCAnthropicBlock st))" by (simp add: closeCCAnthropicBlock_def Let_def)
qed

definition cca_ok :: "CCAState \<Rightarrow> cca \<Rightarrow> bool" where
  "cca_ok st r \<longleftrightarrow> (\<forall>c. cca_sim st c \<longrightarrow> (\<exists>c'. scan_events client_reads c (snd r) = Some c' \<and> cca_sim (fst r) c'))"

lemma cca_ok_refl: "cca_ok st (st, [])"
  by (simp add: cca_ok_def)

lemma cca_ok_then: "cca_ok st r \<Longrightarrow> cca_ok (fst r) (k (fst r)) \<Longrightarrow> cca_ok st (then_emit r k)"
  unfolding cca_ok_def then_emit_proj by (auto simp: scan_events_append split: option.split)

lemma close_ok: "cca_ok st (closeCCAnthropicBlock st)"
  unfolding cca_ok_def using close_sim by blast

lemma closed: "\<not> cc_ContentBlockOpen (fst (closeCCAnthropicBlock st))"
  by (simp add: closeCCAnthropicBlock_def Let_def)

lemma close_if_ok: "cca_ok st (closeCCAnthropicBlockIfOpen ty st)"
  by (simp add: closeCCAnthropicBlockIfOpen_def cca_ok_refl close_ok)

lemma tool_blocks_opened:
  assumes "tool_blocks_ok st" "\<not> cc_ContentBlockOpen st"
  shows "cc_toolBlockIndex st i = Some b \<Longrightarrow> b < cc_ContentBlockIndex st"
  using assms by (auto simp: tool_blocks_ok_def order_le_less)

lemma start_block_ok:
  assumes "\<not> cc_ContentBlockOpen st" "ty = ''text'' \<or> ty = ''thinking''"
  shows "cca_ok st (st\<lparr>cc_ContentBlockOpen := True, cc_CurrentBlockType := ty\<rparr>, [block_start (cc_ContentBlockIndex st) (zero_block\<lparr>cb_Type := ty\<rparr>)])"
  using assms tool_blocks_opened [of st]
  by (auto simp: cca_ok_def cca_sim_def client_reads_start open_view_def zero_block_def tool_blocks_ok_def order_less_imp_le)

lemma ensure_block_ok: "ty = ''text'' \<or> ty = ''thinking'' \<Longrightarrow> cca_ok st (ensure_block ty st)"
  unfolding ensure_block_def
  by (auto intro!: cca_ok_refl cca_ok_then [OF close_ok] start_block_ok simp: closed)

lemma grow_ok:
  assumes "\<And>b. cb_Type b = cc_CurrentBlockType st \<Longrightarrow> \<exists>b'. grow_block d b = Some b' \<and> cb_Type b' = cb_Type b \<and> (cb_Type b = ''tool_use'' \<longrightarrow> cb_Input b' \<noteq> [])"
    and "cc_CurrentBlockType st = ''tool_use'' \<longrightarrow> had" "cc_CurrentBlockType st \<noteq> ''tool_use'' \<longrightarrow> had = cc_CurrentToolHadDelta st" "cc_ContentBlockOpen st"
  shows "cca_ok st (st\<lparr>cc_CurrentToolHadDelta := had\<rparr>, [block_delta (cc_ContentBlockIndex st) d])"
  unfolding cca_ok_def
proof (intro allI impI)
  fix c assume c: "cca_sim st c"
  then have "open_view st (last (k_blocks c))" using assms(4) by (simp add: cca_sim_def)
  with assms(1) obtain b' where "grow_block d (last (k_blocks c)) = Some b'" "cb_Type b' = cb_Type (last (k_blocks c))"
      "cb_Type b' = ''tool_use'' \<longrightarrow> cb_Input b' \<noteq> []"
    unfolding open_view_def by metis
  with c assms show "\<exists>c'. scan_events client_reads c (snd (st\<lparr>cc_CurrentToolHadDelta := had\<rparr>, [block_delta (cc_ContentBlockIndex st) d])) = Some c' \<and>
      cca_sim (fst (st\<lparr>cc_CurrentToolHadDelta := had\<rparr>, [block_delta (cc_ContentBlockIndex st) d])) c'"
    by (auto simp: cca_sim_def client_reads_delta open_view_def tool_blocks_ok_def)
qed

lemma ensured: "cc_ContentBlockOpen (fst (ensure_block ty st))" "cc_CurrentBlockType (fst (ensure_block ty st)) = ty"
  by (simp_all add: ensure_block_def then_emit_proj)

lemma text_delta_grows:
  "cb_Type b = ''text'' \<Longrightarrow> \<exists>b'. grow_block (zero_delta\<lparr>ad_Type := ''text_delta'', ad_Text := t\<rparr>) b = Some b' \<and> cb_Type b' = cb_Type b \<and> (cb_Type b = ''tool_use'' \<longrightarrow> cb_Input b' \<noteq> [])"
  "cb_Type b = ''thinking'' \<Longrightarrow> \<exists>b'. grow_block (zero_delta\<lparr>ad_Type := ''thinking_delta'', ad_Thinking := t\<rparr>) b = Some b' \<and> cb_Type b' = cb_Type b \<and> (cb_Type b = ''tool_use'' \<longrightarrow> cb_Input b' \<noteq> [])"
  by auto

lemma delta_ok:
  assumes "cc_ContentBlockOpen st" "cc_CurrentBlockType st \<noteq> ''tool_use''"
    "\<And>b. cb_Type b = cc_CurrentBlockType st \<Longrightarrow> \<exists>b'. grow_block d b = Some b' \<and> cb_Type b' = cb_Type b \<and> (cb_Type b = ''tool_use'' \<longrightarrow> cb_Input b' \<noteq> [])"
  shows "cca_ok st (ccAnthropicDelta d st)"
proof -
  have "cca_ok st (st\<lparr>cc_CurrentToolHadDelta := cc_CurrentToolHadDelta st\<rparr>, [block_delta (cc_ContentBlockIndex st) d])"
    using assms by (intro grow_ok) auto
  with assms(1) show ?thesis by (simp add: ccAnthropicDelta_def)
qed

lemma say_ok: "cca_ok st (say t st)"
  unfolding say_def ensureCCAnthropicTextBlock_def
  by (intro cca_ok_then close_if_ok ensure_block_ok delta_ok) (simp_all add: then_emit_proj ensured text_delta_grows)

lemma think_ok: "cca_ok st (think t st)"
  unfolding think_def ensureCCAnthropicThinkingBlock_def
  by (intro cca_ok_then ensure_block_ok delta_ok) (simp_all add: ensured text_delta_grows)

lemma announce_tool_ok:
  assumes "\<not> cc_ContentBlockOpen st"
  shows "cca_ok st (announceCCAnthropicToolBlock idx callID name st)"
  using assms tool_blocks_opened [of st]
  by (auto simp: cca_ok_def cca_sim_def announceCCAnthropicToolBlock_def Let_def client_reads_start client_reads_delta open_view_def zero_block_def
      tool_blocks_ok_def order_less_imp_le)

lemma cca_sim_frame [simp]:
  "cca_sim (st\<lparr>cc_HasToolCall := h\<rparr>) c = cca_sim st c" "cca_sim (st\<lparr>cc_Drawn := n\<rparr>) c = cca_sim st c"
  "cca_sim (st\<lparr>cc_toolAnnounced := m\<rparr>) c = cca_sim st c" "cca_sim (st\<lparr>cc_pendingToolCallID := l\<rparr>) c = cca_sim st c"
  "cca_sim (st\<lparr>cc_pendingToolArgs := f\<rparr>) c = cca_sim st c" "cca_sim (st\<lparr>cc_FinishReason := r\<rparr>) c = cca_sim st c"
  by (simp_all add: cca_sim_def open_view_def tool_blocks_ok_def)

lemma cca_ok_step: "cca_ok st' r \<Longrightarrow> (\<And>c. cca_sim st' c = cca_sim st c) \<Longrightarrow> cca_ok st r"
  by (simp add: cca_ok_def)

lemma cca_ok_same: "(\<And>c. cca_sim st' c = cca_sim st c) \<Longrightarrow> cca_ok st (st', [])"
  by (simp add: cca_ok_def)

lemma new_tool_ok:
  assumes "\<not> cc_ContentBlockOpen st"
  shows "cca_ok st (new_tool rnd idx tc st)"
proof -
  let ?s = "st\<lparr>cc_HasToolCall := True, cc_Drawn := (if tc_ID tc = [] then cc_Drawn st + 1 else cc_Drawn st)\<rparr>"
  have "cca_ok st (announceCCAnthropicToolBlock idx i n ?s)" for i n
    using assms by (intro cca_ok_step [OF announce_tool_ok]) simp_all
  then show ?thesis unfolding new_tool_def Let_def by (auto intro!: cca_ok_same)
qed

lemma open_tool_ok: "cca_ok st (open_tool rnd idx tc st)"
  unfolding open_tool_def Let_def
  by (auto intro!: cca_ok_then [OF close_ok] cca_ok_refl announce_tool_ok new_tool_ok simp: closed split: option.split)

definition arguments_current :: "int \<Rightarrow> string \<Rightarrow> CCAState \<Rightarrow> bool" where
  "arguments_current idx a st \<longleftrightarrow> (a \<noteq> [] \<and> cc_toolAnnounced st idx = Some True \<longrightarrow>
     cc_ContentBlockOpen st \<and> cc_toolBlockIndex st idx = Some (cc_ContentBlockIndex st))"

lemma tool_arguments_ok:
  assumes "arguments_current idx a st"
  shows "cca_ok st (tool_arguments idx a st)"
proof (cases "a \<noteq> [] \<and> cc_toolAnnounced st idx = Some True")
  case True
  with assms have st: "cc_ContentBlockOpen st" "cc_toolBlockIndex st idx = Some (cc_ContentBlockIndex st)" by (simp_all add: arguments_current_def)
  have "cca_ok st (st\<lparr>cc_CurrentToolHadDelta := True\<rparr>, [block_delta (cc_ContentBlockIndex st) (input_json_delta a)])"
    if "cca_sim st c" for c
  proof -
    have "cc_CurrentBlockType st = ''tool_use''" using that st by (simp add: cca_sim_def tool_blocks_ok_def)
    then show ?thesis using st True by (intro grow_ok) auto
  qed
  then have "cca_ok st (st\<lparr>cc_CurrentToolHadDelta := True\<rparr>, [block_delta (cc_ContentBlockIndex st) (input_json_delta a)])"
    unfolding cca_ok_def by blast
  with True st show ?thesis by (simp add: tool_arguments_def)
qed (auto simp: tool_arguments_def intro: cca_ok_refl cca_ok_same)

text \<open>The fragments of a call come while its block is the open one.\<close>

definition call_in_turn :: "(nat \<Rightarrow> string) \<Rightarrow> ChatToolCall \<Rightarrow> CCAState \<Rightarrow> bool" where
  "call_in_turn rnd tc st \<longleftrightarrow> arguments_current (call_index tc) (fc_Arguments (tc_Function tc))
     (fst (open_tool rnd (call_index tc) tc (fst (closeCCAnthropicBlockIfOpen ''thinking'' st))))"

lemma call_tool_ok:
  assumes "call_in_turn rnd tc st"
  shows "cca_ok st (call_tool rnd tc st)"
  unfolding call_tool_def handleCCAnthropicToolCall_def Let_def
  by (intro cca_ok_then close_if_ok open_tool_ok tool_arguments_ok) (use assms in \<open>simp add: call_in_turn_def call_index_def\<close>)

lemma cca_ok_run:
  assumes "\<And>x s. P x s \<Longrightarrow> cca_ok s (f x s)" "guarded_run P f xs st"
  shows "cca_ok st (run_events f xs st)"
  using assms(2)
proof (induction xs arbitrary: st)
  case (Cons x xs)
  have run: "run_events f (x # xs) st = then_emit (f x st) (run_events f xs)" by (simp add: then_emit_def split: prod.splits)
  from Cons assms(1) show ?case unfolding run by (intro cca_ok_then) simp_all
qed (simp add: cca_ok_refl)

definition choice_in_turn :: "(nat \<Rightarrow> string) \<Rightarrow> ChatChunkChoice \<Rightarrow> CCAState \<Rightarrow> bool" where
  "choice_in_turn rnd c st \<longleftrightarrow> guarded_run (call_in_turn rnd) (call_tool rnd) (cd_ToolCalls (cx_Delta c))
     (fst (then_emit (unless_empty (delta_reasoningText (cx_Delta c)) think st) (unless_empty (cd_Content (cx_Delta c)) say)))"

lemma unless_empty_ok: "(\<And>t. cca_ok st (f t st)) \<Longrightarrow> cca_ok st (unless_empty t f st)"
  by (simp add: unless_empty_def cca_ok_refl split: option.split)

lemma choice_ok: "choice_in_turn rnd c st \<Longrightarrow> cca_ok st (anthropic_choice rnd c st)"
  unfolding anthropic_choice_def Let_def choice_in_turn_def
  by (intro cca_ok_then unless_empty_ok think_ok say_ok cca_ok_run [where P = "call_in_turn rnd"] call_tool_ok cca_ok_same)
    (auto split: option.split)

definition chunk_in_turn :: "(nat \<Rightarrow> string) \<Rightarrow> ChatCompletionsChunk \<Rightarrow> CCAState \<Rightarrow> bool" where
  "chunk_in_turn rnd chunk st \<longleftrightarrow>
     guarded_run (choice_in_turn rnd) (anthropic_choice rnd) (ck_Choices chunk) (fst (ensureCCAnthropicMessageStart (read_anthropic_chunk chunk st)))"

text \<open>Before the first chunk the client has seen nothing.\<close>

definition cca_related :: "CCAState \<Rightarrow> anth_client \<Rightarrow> bool" where
  "cca_related st c \<longleftrightarrow> (if cc_MessageStartSent st then cca_sim st c else c = new_client \<and> cca_sim (st\<lparr>cc_MessageStartSent := True\<rparr>) (c\<lparr>k_phase := 1\<rparr>))"

lemma read_sim: "cca_related (read_anthropic_chunk chunk st) c = cca_related st c"
  by (simp add: cca_related_def cca_sim_def open_view_def tool_blocks_ok_def read_anthropic_chunk_def read_usage_def Let_def split: option.split)

lemma start_related:
  assumes "cca_related st c"
  shows "\<exists>c'. scan_events client_reads c (snd (ensureCCAnthropicMessageStart st)) = Some c' \<and> cca_sim (fst (ensureCCAnthropicMessageStart st)) c'"
  using assms by (auto simp: cca_related_def ensureCCAnthropicMessageStart_def client_reads_def zero_anth_event_def new_client_def)

lemma chunk_related:
  assumes "cca_related st c" "chunk_in_turn rnd chunk st"
  shows "\<exists>c'. scan_events client_reads c (snd (ChatCompletionsChunkToAnthropicEvents rnd chunk st)) = Some c' \<and>
    cca_related (fst (ChatCompletionsChunkToAnthropicEvents rnd chunk st)) c'"
proof -
  let ?s = "ensureCCAnthropicMessageStart (read_anthropic_chunk chunk st)"
  from start_related assms(1) obtain c1 where "scan_events client_reads c (snd ?s) = Some c1" "cca_sim (fst ?s) c1"
    by (metis read_sim)
  moreover have "cca_ok (fst ?s) (run_events (anthropic_choice rnd) (ck_Choices chunk) (fst ?s))"
    using assms(2) by (intro cca_ok_run [where P = "choice_in_turn rnd"] choice_ok) (simp_all add: chunk_in_turn_def)
  ultimately obtain c2 where "scan_events client_reads c (snd (ChatCompletionsChunkToAnthropicEvents rnd chunk st)) = Some c2"
      "cca_sim (fst (ChatCompletionsChunkToAnthropicEvents rnd chunk st)) c2"
    unfolding ChatCompletionsChunkToAnthropicEvents_def then_emit_proj cca_ok_def scan_events_append by force
  moreover from this have "cc_MessageStartSent (fst (ChatCompletionsChunkToAnthropicEvents rnd chunk st))" by (simp add: cca_sim_def)
  ultimately show ?thesis by (simp add: cca_related_def)
qed

interpretation cca: stream_simulation "ChatCompletionsChunkToAnthropicEvents rnd" cca_related client_reads "chunk_in_turn rnd" for rnd
  using chunk_related by unfold_locales blast

lemma nameless_frame:
  "cc_FinishReason (fst (run_events announce_nameless is st)) = cc_FinishReason st \<and> cc_HasToolCall (fst (run_events announce_nameless is st)) = cc_HasToolCall st"
proof (induction "is" arbitrary: st)
  case (Cons i "is")
  have "cc_FinishReason (fst (announce_nameless i st)) = cc_FinishReason st" "cc_HasToolCall (fst (announce_nameless i st)) = cc_HasToolCall st"
    by (simp_all add: announce_nameless_def then_emit_proj announceCCAnthropicToolBlock_def closeCCAnthropicBlock_def Let_def)
  with Cons show ?case by (simp add: run_events_Cons del: run_events.simps(2))
qed simp

lemma nameless_ok: "cca_ok st (run_events announce_nameless is st)"
  by (rule cca_ok_run [where P = "\<lambda>i s. True"])
    (auto simp: announce_nameless_def Let_def closed intro!: cca_ok_then [OF close_ok] announce_tool_ok)

lemma finalize_read:
  assumes "cca_related st c" "\<not> cc_MessageStopSent st"
  shows "\<exists>c'. scan_events client_reads c (snd (FinalizeChatCompletionsAnthropicStream st)) = Some c' \<and> k_phase c' = 3 \<and>
    k_stop c' = ccFinishReasonToAnthropicStopReason (cc_FinishReason st) (cc_HasToolCall st)"
proof -
  let ?s = "fst (ensureCCAnthropicMessageStart st)"
  let ?r = "then_emit (run_events announce_nameless (sort (map fst (cc_pendingToolCallID ?s))) ?s) closeCCAnthropicBlock"
  from start_related [OF assms(1)] obtain c1 where c1: "scan_events client_reads c (snd (ensureCCAnthropicMessageStart st)) = Some c1" "cca_sim ?s c1" by blast
  have "cca_ok ?s ?r" by (intro cca_ok_then nameless_ok close_ok)
  with c1(2) obtain c2 where c2: "scan_events client_reads c1 (snd ?r) = Some c2" "cca_sim (fst ?r) c2" unfolding cca_ok_def by blast
  have frame: "cc_FinishReason (fst ?r) = cc_FinishReason st" "cc_HasToolCall (fst ?r) = cc_HasToolCall st"
    using nameless_frame [of "sort (map fst (cc_pendingToolCallID ?s))" ?s]
    by (simp_all add: then_emit_proj closeCCAnthropicBlock_def ensureCCAnthropicMessageStart_def Let_def)
  have "\<not> cc_ContentBlockOpen (fst ?r)" by (simp add: then_emit_proj closed)
  with c2(2) have "k_phase c2 = 1" "\<not> k_open c2" by (simp_all add: cca_sim_def)
  moreover obtain d u where run: "snd (FinalizeChatCompletionsAnthropicStream st) = snd (ensureCCAnthropicMessageStart st) @ snd ?r @
        [zero_anth_event\<lparr>ae_Type := ''message_delta'', ae_Delta := Some d, ae_Usage := u\<rparr>, zero_anth_event\<lparr>ae_Type := ''message_stop''\<rparr>]"
      and d: "ad_StopReason d = ccFinishReasonToAnthropicStopReason (cc_FinishReason (fst ?r)) (cc_HasToolCall (fst ?r))"
    using that assms(2) by (simp add: FinalizeChatCompletionsAnthropicStream_def then_emit_proj)
  ultimately show ?thesis
    unfolding run scan_events_append c1(1) option.case c2(1) by (simp add: client_reads_def zero_anth_event_def frame)
qed

subsection \<open>Chunks as sequences of pieces\<close>

datatype piece = Think string | Say string | Call ChatToolCall

fun piece_step :: "(nat \<Rightarrow> string) \<Rightarrow> piece \<Rightarrow> CCAState \<Rightarrow> cca" where
  "piece_step rnd (Think t) = think t"
| "piece_step rnd (Say t) = say t"
| "piece_step rnd (Call tc) = call_tool rnd tc"

definition if_given :: "(string \<Rightarrow> piece) \<Rightarrow> string option \<Rightarrow> piece list" where
  "if_given p t = (case t of None \<Rightarrow> [] | Some s \<Rightarrow> if s = [] then [] else [p s])"

definition choice_pieces :: "ChatChunkChoice \<Rightarrow> piece list" where
  "choice_pieces c = if_given Think (delta_reasoningText (cx_Delta c)) @ if_given Say (cd_Content (cx_Delta c)) @ map Call (cd_ToolCalls (cx_Delta c))"

definition chunk_pieces :: "ChatCompletionsChunk \<Rightarrow> piece list" where
  "chunk_pieces chunk = concat (map choice_pieces (ck_Choices chunk))"

text \<open>The fields of the state that the pieces neither read nor write.\<close>

definition metadata :: "bool \<Rightarrow> string \<Rightarrow> int \<Rightarrow> int \<Rightarrow> int \<Rightarrow> int \<Rightarrow> string \<Rightarrow> string \<Rightarrow> CCAState \<Rightarrow> CCAState" where
  "metadata b r i j k l rid m st = st\<lparr>cc_MessageStartSent := b, cc_FinishReason := r, cc_InputTokens := i, cc_OutputTokens := j,
     cc_CacheReadInputTokens := k, cc_CacheCreationInputTokens := l, cc_ResponseID := rid, cc_Model := m\<rparr>"

definition blind :: "(CCAState \<Rightarrow> cca) \<Rightarrow> bool" where
  "blind f \<longleftrightarrow> (\<forall>b r i j k l rid m s. f (metadata b r i j k l rid m s) = (metadata b r i j k l rid m (fst (f s)), snd (f s)))"

lemma blind_then: "blind f \<Longrightarrow> blind g \<Longrightarrow> blind (\<lambda>s. then_emit (f s) g)"
  by (simp add: blind_def prod_eq_iff then_emit_proj)

lemma blind_run: "(\<And>x. blind (f x)) \<Longrightarrow> blind (run_events f xs)"
proof (induction xs)
  case (Cons x xs)
  have "run_events f (x # xs) = (\<lambda>s. then_emit (f x s) (run_events f xs))" by (simp add: then_emit_def fun_eq_iff split: prod.split)
  with Cons show ?case by (simp add: blind_then)
qed (simp add: blind_def)

lemma metadata_fields [simp]:
  "cc_ContentBlockOpen (metadata b r i j k l rid m s) = cc_ContentBlockOpen s" "cc_ContentBlockIndex (metadata b r i j k l rid m s) = cc_ContentBlockIndex s"
  "cc_CurrentBlockType (metadata b r i j k l rid m s) = cc_CurrentBlockType s" "cc_CurrentToolHadDelta (metadata b r i j k l rid m s) = cc_CurrentToolHadDelta s"
  "cc_toolAnnounced (metadata b r i j k l rid m s) = cc_toolAnnounced s" "cc_toolBlockIndex (metadata b r i j k l rid m s) = cc_toolBlockIndex s"
  "cc_pendingToolArgs (metadata b r i j k l rid m s) = cc_pendingToolArgs s" "cc_pendingToolCallID (metadata b r i j k l rid m s) = cc_pendingToolCallID s"
  "cc_toolName (metadata b r i j k l rid m s) = cc_toolName s" "cc_Drawn (metadata b r i j k l rid m s) = cc_Drawn s"
  "cc_HasToolCall (metadata b r i j k l rid m s) = cc_HasToolCall s" "cc_MessageStartSent (metadata b r i j k l rid m s) = b"
  by (simp_all add: metadata_def)

lemma blind_blocks:
  "blind closeCCAnthropicBlock" "blind (closeCCAnthropicBlockIfOpen ty)" "blind (ensure_block ty)" "blind (ccAnthropicDelta d)"
  "blind (announceCCAnthropicToolBlock idx i n)" "blind (tool_arguments idx a)"
proof -
  show close: "blind closeCCAnthropicBlock" by (simp add: blind_def closeCCAnthropicBlock_def Let_def) (simp add: metadata_def)
  then show "blind (closeCCAnthropicBlockIfOpen ty)" by (simp add: blind_def closeCCAnthropicBlockIfOpen_def)
  show "blind (ccAnthropicDelta d)" by (simp add: blind_def ccAnthropicDelta_def)
  show "blind (announceCCAnthropicToolBlock idx i n)" by (simp add: blind_def announceCCAnthropicToolBlock_def Let_def) (simp add: metadata_def)
  show "blind (tool_arguments idx a)" by (simp add: blind_def tool_arguments_def Let_def) (simp add: metadata_def)
  have "blind (\<lambda>s. (s\<lparr>cc_ContentBlockOpen := True, cc_CurrentBlockType := ty\<rparr>, [block_start (cc_ContentBlockIndex s) (zero_block\<lparr>cb_Type := ty\<rparr>)]))"
    by (simp add: blind_def) (simp add: metadata_def)
  from blind_then [OF close this] show "blind (ensure_block ty)" by (simp add: blind_def ensure_block_def)
qed

lemma metadata_updates:
  "(metadata b r i j k l rid m s)\<lparr>cc_HasToolCall := h\<rparr> = metadata b r i j k l rid m (s\<lparr>cc_HasToolCall := h\<rparr>)"
  "(metadata b r i j k l rid m s)\<lparr>cc_Drawn := n\<rparr> = metadata b r i j k l rid m (s\<lparr>cc_Drawn := n\<rparr>)"
  "(metadata b r i j k l rid m s)\<lparr>cc_toolAnnounced := a\<rparr> = metadata b r i j k l rid m (s\<lparr>cc_toolAnnounced := a\<rparr>)"
  "(metadata b r i j k l rid m s)\<lparr>cc_pendingToolCallID := p\<rparr> = metadata b r i j k l rid m (s\<lparr>cc_pendingToolCallID := p\<rparr>)"
  by (simp_all add: metadata_def)

lemma blind_open_tool: "blind (open_tool rnd idx tc)"
proof -
  have "blind (new_tool rnd idx tc)"
    using blind_blocks(5) [of idx] by (simp add: blind_def new_tool_def Let_def metadata_updates)
  from blind_then [OF blind_blocks(1) this] blind_then [OF blind_blocks(1) blind_blocks(5)] show ?thesis
    by (simp add: blind_def open_tool_def Let_def pending_id_def split: option.split)
qed

lemma blind_piece: "blind (piece_step rnd p)"
proof (cases p)
  case (Think t)
  then show ?thesis using blind_then [OF blind_blocks(3,4)] by (simp add: fun_eq_iff think_def [abs_def] ensureCCAnthropicThinkingBlock_def)
next
  case (Say t)
  then show ?thesis using blind_then [OF blind_then [OF blind_blocks(2,3)] blind_blocks(4)] by (simp add: say_def [abs_def] ensureCCAnthropicTextBlock_def)
next
  case (Call tc)
  then show ?thesis
    using blind_then [OF blind_blocks(2) blind_then [OF blind_open_tool blind_blocks(6)]]
    by (simp add: call_tool_def [abs_def] handleCCAnthropicToolCall_def [abs_def] Let_def)
qed

text \<open>Results that differ in the metadata only.\<close>

definition core :: "CCAState \<Rightarrow> CCAState" where "core = metadata True [] 0 0 0 0 [] []"

definition same_core :: "cca \<Rightarrow> cca \<Rightarrow> bool" where
  "same_core r r' \<longleftrightarrow> snd r = snd r' \<and> core (fst r) = core (fst r')"

lemma blind_core: "blind k \<Longrightarrow> core s = core s' \<Longrightarrow> same_core (k s) (k s')"
  unfolding same_core_def blind_def core_def by (metis fst_conv snd_conv)

lemma blind_started: "blind k \<Longrightarrow> cc_MessageStartSent (fst (k s)) = cc_MessageStartSent s"
proof -
  assume k: "blind k"
  have "s = metadata (cc_MessageStartSent s) (cc_FinishReason s) (cc_InputTokens s) (cc_OutputTokens s) (cc_CacheReadInputTokens s)
      (cc_CacheCreationInputTokens s) (cc_ResponseID s) (cc_Model s) s" by (simp add: metadata_def)
  with k show ?thesis unfolding blind_def by (metis fst_conv metadata_fields(12))
qed

lemma core_fields: "core (s\<lparr>cc_FinishReason := r\<rparr>) = core s" "core (s\<lparr>cc_MessageStartSent := b\<rparr>) = core s" "core (read_anthropic_chunk c s) = core s"
  by (simp_all add: core_def metadata_def read_anthropic_chunk_def read_usage_def Let_def split: option.split)

lemma core_field_eqs:
  "core s = core s' \<Longrightarrow> cc_ContentBlockOpen s = cc_ContentBlockOpen s'" "core s = core s' \<Longrightarrow> cc_toolAnnounced s = cc_toolAnnounced s'"
  "core s = core s' \<Longrightarrow> cc_pendingToolArgs s = cc_pendingToolArgs s'" "core s = core s' \<Longrightarrow> cc_pendingToolCallID s = cc_pendingToolCallID s'"
  "core s = core s' \<Longrightarrow> cc_HasToolCall s = cc_HasToolCall s'" "core s = core s' \<Longrightarrow> cc_CurrentBlockType s = cc_CurrentBlockType s'"
  unfolding core_def by (metis metadata_fields)+

lemma run_append: "run_events f (xs @ ys) s = then_emit (run_events f xs s) (run_events f ys)"
  by (simp add: prod_eq_iff run_events_append then_emit_proj)

lemma run_same:
  assumes "\<And>x s. same_core (f x s) (run_events g (h x) s)" "\<And>y. blind (g y)" "core s = core s'"
  shows "same_core (run_events f xs s) (run_events g (concat (map h xs)) s')"
  using assms(3)
proof (induction xs arbitrary: s s')
  case (Cons x xs)
  have "same_core (f x s) (run_events g (h x) s')"
    using assms(1) [of x s] blind_core [OF blind_run [of g "h x", OF assms(2)] Cons.prems] by (simp add: same_core_def)
  then show ?case
    using Cons.IH [of "fst (f x s)" "fst (run_events g (h x) s')"]
    by (simp add: same_core_def run_events_Cons run_append then_emit_proj del: run_events.simps(2))
qed (simp add: same_core_def)

lemma choice_pieces_run: "same_core (anthropic_choice rnd c s) (run_events (piece_step rnd) (choice_pieces c) s)"
    "cc_MessageStartSent (fst (anthropic_choice rnd c s)) = cc_MessageStartSent s"
proof -
  have given: "run_events (piece_step rnd) (if_given p t) s' = unless_empty t (\<lambda>t. piece_step rnd (p t)) s'" for p t s'
    by (simp add: if_given_def unless_empty_def run_events_single del: run_events.simps(2) split: option.split)
  have calls: "run_events (piece_step rnd) (map Call tcs) s' = run_events (call_tool rnd) tcs s'" for tcs s'
    by (induction tcs arbitrary: s') (simp_all split: prod.split)
  have pieces: "run_events (piece_step rnd) (choice_pieces c) s = then_emit (then_emit (unless_empty (delta_reasoningText (cx_Delta c)) think s)
      (unless_empty (cd_Content (cx_Delta c)) say)) (run_events (call_tool rnd) (cd_ToolCalls (cx_Delta c)))"
    by (simp add: choice_pieces_def run_append given calls prod_eq_iff then_emit_proj)
  then show same: "same_core (anthropic_choice rnd c s) (run_events (piece_step rnd) (choice_pieces c) s)"
    by (simp add: anthropic_choice_def Let_def same_core_def then_emit_proj core_fields split: option.split)
  have "cc_MessageStartSent (fst (run_events (piece_step rnd) (choice_pieces c) s)) = cc_MessageStartSent s"
    by (intro blind_started blind_run blind_piece)
  then show "cc_MessageStartSent (fst (anthropic_choice rnd c s)) = cc_MessageStartSent s"
    using pieces by (simp add: anthropic_choice_def Let_def then_emit_proj split: option.split)
qed

lemma read_started [simp]: "cc_MessageStartSent (read_anthropic_chunk c s) = cc_MessageStartSent s"
  by (simp add: read_anthropic_chunk_def read_usage_def Let_def split: option.split)

lemma chunk_started:
  assumes "cc_MessageStartSent s"
  shows "same_core (ChatCompletionsChunkToAnthropicEvents rnd c s) (run_events (piece_step rnd) (chunk_pieces c) s)"
    "cc_MessageStartSent (fst (ChatCompletionsChunkToAnthropicEvents rnd c s))"
proof -
  have start: "ensureCCAnthropicMessageStart (read_anthropic_chunk c s) = (read_anthropic_chunk c s, [])"
    using assms by (simp add: ensureCCAnthropicMessageStart_def)
  have "same_core (run_events (anthropic_choice rnd) (ck_Choices c) (read_anthropic_chunk c s)) (run_events (piece_step rnd) (chunk_pieces c) s)"
    unfolding chunk_pieces_def by (intro run_same choice_pieces_run blind_piece core_fields)
  then show "same_core (ChatCompletionsChunkToAnthropicEvents rnd c s) (run_events (piece_step rnd) (chunk_pieces c) s)"
    by (simp add: ChatCompletionsChunkToAnthropicEvents_def start then_emit_def split: prod.split)
  have "cc_MessageStartSent (fst (run_events (anthropic_choice rnd) cs st)) = cc_MessageStartSent st" for cs st
    by (induction cs arbitrary: st) (simp_all add: run_events_Cons choice_pieces_run(2) del: run_events.simps(2))
  then show "cc_MessageStartSent (fst (ChatCompletionsChunkToAnthropicEvents rnd c s))"
    using assms by (simp only: ChatCompletionsChunkToAnthropicEvents_def start then_emit_proj fst_conv read_started)
qed

lemma chunks_started:
  assumes "cc_MessageStartSent s" "core s = core s'"
  shows "same_core (run_events (ChatCompletionsChunkToAnthropicEvents rnd) cs s) (run_events (piece_step rnd) (concat (map chunk_pieces cs)) s') \<and>
    cc_MessageStartSent (fst (run_events (ChatCompletionsChunkToAnthropicEvents rnd) cs s))"
  using assms
proof (induction cs arbitrary: s s')
  case (Cons c cs)
  have "same_core (ChatCompletionsChunkToAnthropicEvents rnd c s) (run_events (piece_step rnd) (chunk_pieces c) s')"
    using chunk_started(1) [OF Cons.prems(1), of rnd c] blind_core [OF blind_run [of "piece_step rnd" "chunk_pieces c", OF blind_piece] Cons.prems(2)]
    by (simp add: same_core_def)
  then show ?case
    using Cons.IH [OF chunk_started(2) [OF Cons.prems(1)], of rnd c "fst (run_events (piece_step rnd) (chunk_pieces c) s')"]
    by (simp add: same_core_def run_events_Cons run_append then_emit_proj del: run_events.simps(2))
qed (simp add: same_core_def)

text \<open>A stream is the start of the message and the pieces of its chunks.\<close>

lemma chunks_run:
  assumes "cs \<noteq> []" "\<not> cc_MessageStartSent s0" "run = run_events (ChatCompletionsChunkToAnthropicEvents rnd) cs s0"
    and "pieces = run_events (piece_step rnd) (concat (map chunk_pieces cs)) (s0\<lparr>cc_MessageStartSent := True\<rparr>)"
  shows "\<exists>m. snd run = zero_anth_event\<lparr>ae_Type := ''message_start'', ae_Message := Some m\<rparr> # snd pieces" "core (fst run) = core (fst pieces)"
    "cc_MessageStartSent (fst run)"
proof -
  from assms(1) obtain c cs' where cs: "cs = c # cs'" by (cases cs) auto
  have "\<not> cc_MessageStartSent (read_anthropic_chunk c s0)" using assms(2) by simp
  then obtain s1 m where m: "ensureCCAnthropicMessageStart (read_anthropic_chunk c s0) = (s1, [zero_anth_event\<lparr>ae_Type := ''message_start'', ae_Message := Some m\<rparr>])"
      "s1 = (read_anthropic_chunk c s0)\<lparr>cc_MessageStartSent := True\<rparr>"
    by (simp add: ensureCCAnthropicMessageStart_def)
  have s1: "cc_MessageStartSent s1" "core s1 = core (s0\<lparr>cc_MessageStartSent := True\<rparr>)" by (simp_all add: m(2) core_fields)
  have again: "read_anthropic_chunk c s1 = s1"
    by (simp add: m(2) read_anthropic_chunk_def read_usage_def Let_def split: option.split)
  have "ensureCCAnthropicMessageStart s1 = (s1, [])" using s1(1) by (simp only: ensureCCAnthropicMessageStart_def if_True)
  then have "ChatCompletionsChunkToAnthropicEvents rnd c s1 = run_events (anthropic_choice rnd) (ck_Choices c) s1"
    by (simp add: ChatCompletionsChunkToAnthropicEvents_def again then_emit_def split: prod.split)
  then have "ChatCompletionsChunkToAnthropicEvents rnd c s0 = then_emit (s1, [zero_anth_event\<lparr>ae_Type := ''message_start'', ae_Message := Some m\<rparr>])
      (ChatCompletionsChunkToAnthropicEvents rnd c)"
    unfolding ChatCompletionsChunkToAnthropicEvents_def [of rnd c s0] m(1) by (simp add: then_emit_def)
  then have "snd run = zero_anth_event\<lparr>ae_Type := ''message_start'', ae_Message := Some m\<rparr> # snd (run_events (ChatCompletionsChunkToAnthropicEvents rnd) cs s1)"
    "fst run = fst (run_events (ChatCompletionsChunkToAnthropicEvents rnd) cs s1)"
    unfolding assms(3) cs by (simp_all add: run_events_Cons then_emit_proj del: run_events.simps(2))
  with chunks_started [OF s1, of rnd cs] show "\<exists>m. snd run = zero_anth_event\<lparr>ae_Type := ''message_start'', ae_Message := Some m\<rparr> # snd pieces"
      "core (fst run) = core (fst pieces)" "cc_MessageStartSent (fst run)"
    by (auto simp: same_core_def assms(4))
qed

subsection \<open>What the client assembles\<close>

definition ensure_client :: "string \<Rightarrow> anth_client \<Rightarrow> anth_client" where
  "ensure_client ty c = (if k_open c \<and> cb_Type (last (k_blocks c)) = ty then c
     else c\<lparr>k_blocks := closed_blocks c @ [zero_block\<lparr>cb_Type := ty\<rparr>], k_open := True\<rparr>)"

definition on_last :: "(AnthropicContentBlock \<Rightarrow> AnthropicContentBlock) \<Rightarrow> anth_client \<Rightarrow> anth_client" where
  "on_last f c = c\<lparr>k_blocks := butlast (k_blocks c) @ [f (last (k_blocks c))]\<rparr>"

lemma on_last_simps [simp]:
  "k_open (on_last f c) = k_open c" "k_blocks (on_last f c) = butlast (k_blocks c) @ [f (last (k_blocks c))]"
  "on_last g (on_last f c) = on_last (\<lambda>b. g (f b)) c"
  by (simp_all add: on_last_def)

lemma on_last_id: "k_blocks c \<noteq> [] \<Longrightarrow> on_last (\<lambda>b. b) c = c"
  by (simp add: on_last_def)

lemma ensure_sim:
  assumes "cca_sim st c" "ty = ''text'' \<or> ty = ''thinking''"
  shows "scan_events client_reads c (snd (ensure_block ty st)) = Some (ensure_client ty c)" "cca_sim (fst (ensure_block ty st)) (ensure_client ty c)"
    "k_open (ensure_client ty c)" "cb_Type (last (k_blocks (ensure_client ty c))) = ty" "k_blocks (ensure_client ty c) \<noteq> []"
proof -
  have known: "k_open c \<and> cb_Type (last (k_blocks c)) = ty \<longleftrightarrow> cc_ContentBlockOpen st \<and> cc_CurrentBlockType st = ty"
    using assms(1) by (auto simp: cca_sim_def open_view_def)
  show scan: "scan_events client_reads c (snd (ensure_block ty st)) = Some (ensure_client ty c)"
  proof (cases "cc_ContentBlockOpen st \<and> cc_CurrentBlockType st = ty")
    case False
    let ?s = "fst (closeCCAnthropicBlock st)"
    have "k_phase (close_client c) = 1" "\<not> k_open (close_client c)" "int (length (k_blocks (close_client c))) = cc_ContentBlockIndex ?s"
      using close_sim(2,3) [OF assms(1)] by (simp_all add: cca_sim_def)
    then have "client_reads (close_client c) (block_start (cc_ContentBlockIndex ?s) (zero_block\<lparr>cb_Type := ty\<rparr>)) =
        Some ((close_client c)\<lparr>k_blocks := k_blocks (close_client c) @ [zero_block\<lparr>cb_Type := ty\<rparr>], k_open := True\<rparr>)"
      using assms(2) by (auto simp: client_reads_start)
    moreover from False known have "\<not> (k_open c \<and> cb_Type (last (k_blocks c)) = ty)" by blast
    ultimately show ?thesis using close_sim(1) [OF assms(1)]
      unfolding ensure_block_def ensure_client_def if_not_P [OF False] by (simp only: then_emit_proj scan_events_append) (simp add: close_client_def)
  qed (simp add: known ensure_block_def ensure_client_def)
  from ensure_block_ok [OF assms(2), of st] assms(1) scan show sim: "cca_sim (fst (ensure_block ty st)) (ensure_client ty c)"
    unfolding cca_ok_def by fastforce
  show "k_open (ensure_client ty c)" "cb_Type (last (k_blocks (ensure_client ty c))) = ty" by (simp_all add: ensure_client_def)
  with sim show "k_blocks (ensure_client ty c) \<noteq> []" by (simp add: cca_sim_def)
qed

lemma say_eq: "say t st = then_emit (ensure_block ''text'' st) (ccAnthropicDelta (zero_delta\<lparr>ad_Type := ''text_delta'', ad_Text := t\<rparr>))"
proof -
  have "then_emit (closeCCAnthropicBlockIfOpen ''thinking'' st) (ensure_block ''text'') = ensure_block ''text'' st"
    by (simp add: closeCCAnthropicBlockIfOpen_def ensure_block_def prod_eq_iff then_emit_proj) (simp add: closeCCAnthropicBlock_def Let_def)
  then show ?thesis by (simp add: say_def ensureCCAnthropicTextBlock_def)
qed

lemma think_eq: "think t st = then_emit (ensure_block ''thinking'' st) (ccAnthropicDelta (zero_delta\<lparr>ad_Type := ''thinking_delta'', ad_Thinking := t\<rparr>))"
  by (simp add: think_def ensureCCAnthropicThinkingBlock_def)

text \<open>Text or thinking goes to the last block, which is opened when it is of another kind.\<close>

lemma utter_sim:
  assumes "cca_sim st c" "ty = ''text'' \<or> ty = ''thinking''" "\<And>b. cb_Type b = ty \<Longrightarrow> grow_block d b = Some (f b)" "\<And>b. cb_Type (f b) = cb_Type b"
    and "r = then_emit (ensure_block ty st) (ccAnthropicDelta d)"
  shows "scan_events client_reads c (snd r) = Some (on_last f (ensure_client ty c))" "cca_sim (fst r) (on_last f (ensure_client ty c))"
proof -
  note e = ensure_sim [OF assms(1,2)]
  have "ccAnthropicDelta d (fst (ensure_block ty st)) = (fst (ensure_block ty st), [block_delta (cc_ContentBlockIndex (fst (ensure_block ty st))) d])"
    by (simp add: ccAnthropicDelta_def ensured)
  then have r: "fst r = fst (ensure_block ty st)" "snd r = snd (ensure_block ty st) @ [block_delta (cc_ContentBlockIndex (fst (ensure_block ty st))) d]"
    by (simp_all add: assms(5) then_emit_proj)
  have "k_phase (ensure_client ty c) = 1" "int (length (k_blocks (ensure_client ty c))) - 1 = cc_ContentBlockIndex (fst (ensure_block ty st))"
    using e(2) by (simp_all add: cca_sim_def ensured)
  then show "scan_events client_reads c (snd r) = Some (on_last f (ensure_client ty c))"
    using e(1,3,4) assms(3) by (simp add: r scan_events_append client_reads_delta on_last_def)
  have "cb_Type (f (last (k_blocks (ensure_client ty c)))) = ty" using e(4) assms(4) by simp
  then show "cca_sim (fst r) (on_last f (ensure_client ty c))"
    using e assms(2,4) unfolding r by (auto simp: cca_sim_def open_view_def on_last_def)
qed

lemma ensure_again: "k_open c \<Longrightarrow> cb_Type (last (k_blocks c)) = ty \<Longrightarrow> ensure_client ty c = c"
  by (simp add: ensure_client_def)

lemma utters_sim:
  assumes "cca_sim st c" "ty = ''text'' \<or> ty = ''thinking''" "\<And>t b. cb_Type (f t b) = cb_Type b" "\<And>t u b. f t (f u b) = f (u @ t) b" "\<And>b. f [] b = b"
    and "\<And>t st c. cca_sim st c \<Longrightarrow> scan_events client_reads c (snd (g t st)) = Some (on_last (f t) (ensure_client ty c)) \<and> cca_sim (fst (g t st)) (on_last (f t) (ensure_client ty c))"
  shows "ts \<noteq> [] \<Longrightarrow> scan_events client_reads c (snd (run_events g ts st)) = Some (on_last (f (concat ts)) (ensure_client ty c)) \<and>
    cca_sim (fst (run_events g ts st)) (on_last (f (concat ts)) (ensure_client ty c))"
  using assms(1)
proof (induction ts arbitrary: st c)
  case (Cons t ts)
  let ?c = "on_last (f t) (ensure_client ty c)" and ?s = "fst (g t st)"
  note step = assms(6) [OF Cons.prems(2), of t]
  show ?case
  proof (cases "ts = []")
    case True
    with step show ?thesis by (simp add: run_events_single del: run_events.simps(2))
  next
    case False
    have "ensure_client ty ?c = ?c" using ensure_sim(3,4) [OF Cons.prems(2) assms(2)] assms(3) by (intro ensure_again) simp_all
    with Cons.IH [OF False conjunct2 [OF step]] step assms(4) show ?thesis
      by (simp add: run_events_Cons scan_events_append del: run_events.simps(2))
  qed
qed simp

lemma says_sim:
  assumes "cca_sim st c" "ts \<noteq> []"
  shows "scan_events client_reads c (snd (run_events say ts st)) = Some (on_last (\<lambda>b. b\<lparr>cb_Text := cb_Text b @ concat ts\<rparr>) (ensure_client ''text'' c))"
    "cca_sim (fst (run_events say ts st)) (on_last (\<lambda>b. b\<lparr>cb_Text := cb_Text b @ concat ts\<rparr>) (ensure_client ''text'' c))"
proof -
  have "scan_events client_reads c (snd (say t st)) = Some (on_last (\<lambda>b. b\<lparr>cb_Text := cb_Text b @ t\<rparr>) (ensure_client ''text'' c)) \<and>
      cca_sim (fst (say t st)) (on_last (\<lambda>b. b\<lparr>cb_Text := cb_Text b @ t\<rparr>) (ensure_client ''text'' c))" if "cca_sim st c" for t st c
    using utter_sim [where f = "\<lambda>b. b\<lparr>cb_Text := cb_Text b @ t\<rparr>", OF that _ _ _ say_eq] by simp
  from utters_sim [where f = "\<lambda>t b. b\<lparr>cb_Text := cb_Text b @ t\<rparr>" and ty = "''text''", OF assms(1) _ _ _ _ this assms(2)]
  show "scan_events client_reads c (snd (run_events say ts st)) = Some (on_last (\<lambda>b. b\<lparr>cb_Text := cb_Text b @ concat ts\<rparr>) (ensure_client ''text'' c))"
    "cca_sim (fst (run_events say ts st)) (on_last (\<lambda>b. b\<lparr>cb_Text := cb_Text b @ concat ts\<rparr>) (ensure_client ''text'' c))"
    by simp_all
qed

lemma thinks_sim:
  assumes "cca_sim st c" "ts \<noteq> []"
  shows "scan_events client_reads c (snd (run_events think ts st)) = Some (on_last (\<lambda>b. b\<lparr>cb_Thinking := cb_Thinking b @ concat ts\<rparr>) (ensure_client ''thinking'' c))"
    "cca_sim (fst (run_events think ts st)) (on_last (\<lambda>b. b\<lparr>cb_Thinking := cb_Thinking b @ concat ts\<rparr>) (ensure_client ''thinking'' c))"
proof -
  have "scan_events client_reads c (snd (think t st)) = Some (on_last (\<lambda>b. b\<lparr>cb_Thinking := cb_Thinking b @ t\<rparr>) (ensure_client ''thinking'' c)) \<and>
      cca_sim (fst (think t st)) (on_last (\<lambda>b. b\<lparr>cb_Thinking := cb_Thinking b @ t\<rparr>) (ensure_client ''thinking'' c))" if "cca_sim st c" for t st c
    using utter_sim [where f = "\<lambda>b. b\<lparr>cb_Thinking := cb_Thinking b @ t\<rparr>", OF that _ _ _ think_eq] by simp
  from utters_sim [where f = "\<lambda>t b. b\<lparr>cb_Thinking := cb_Thinking b @ t\<rparr>" and ty = "''thinking''", OF assms(1) _ _ _ _ this assms(2)]
  show "scan_events client_reads c (snd (run_events think ts st)) = Some (on_last (\<lambda>b. b\<lparr>cb_Thinking := cb_Thinking b @ concat ts\<rparr>) (ensure_client ''thinking'' c))"
    "cca_sim (fst (run_events think ts st)) (on_last (\<lambda>b. b\<lparr>cb_Thinking := cb_Thinking b @ concat ts\<rparr>) (ensure_client ''thinking'' c))"
    by simp_all
qed

definition tool_block :: "ChatToolCall \<Rightarrow> string \<Rightarrow> AnthropicContentBlock" where
  "tool_block tc args = zero_block\<lparr>cb_Type := ''tool_use'', cb_ID := fromResponsesCallID (tc_ID tc), cb_Name := fc_Name (tc_Function tc), cb_Input := args\<rparr>"

text \<open>A fragment of a known call, and all deltas of a call: the first has its identifier and name.\<close>

definition fragment :: "int \<Rightarrow> string \<Rightarrow> piece" where
  "fragment i a = Call \<lparr>tc_Index = Some i, tc_ID = [], tc_Type = [], tc_Function = \<lparr>fc_Name = [], fc_Arguments = a\<rparr>\<rparr>"

definition call_pieces :: "ChatToolCall \<times> string list \<Rightarrow> piece list" where
  "call_pieces = (\<lambda>(tc, fs). Call tc # map (fragment (call_index tc)) fs)"

definition call_text :: "ChatToolCall \<times> string list \<Rightarrow> string" where
  "call_text = (\<lambda>(tc, fs). fc_Arguments (tc_Function tc) @ concat fs)"

lemma close_twice: "then_emit (closeCCAnthropicBlockIfOpen ty st) (\<lambda>s. then_emit (closeCCAnthropicBlock s) k) = then_emit (closeCCAnthropicBlock st) k"
  by (simp add: closeCCAnthropicBlockIfOpen_def prod_eq_iff then_emit_proj) (simp add: closeCCAnthropicBlock_def Let_def)

lemma close_frame:
  "cc_toolAnnounced (fst (closeCCAnthropicBlock st)) = cc_toolAnnounced st" "cc_pendingToolArgs (fst (closeCCAnthropicBlock st)) = cc_pendingToolArgs st"
  "cc_pendingToolCallID (fst (closeCCAnthropicBlock st)) = cc_pendingToolCallID st" "cc_HasToolCall (fst (closeCCAnthropicBlock st)) = cc_HasToolCall st"
  by (simp_all add: closeCCAnthropicBlock_def Let_def)

text \<open>No call waits for its name.\<close>

definition none_pending :: "CCAState \<Rightarrow> bool" where
  "none_pending st \<longleftrightarrow> cc_pendingToolCallID st = [] \<and> cc_pendingToolArgs st = (\<lambda>i. [])"

lemma first_delta:
  assumes "cca_sim st c" "cc_toolAnnounced st (call_index tc) = None" "none_pending st" "fc_Name (tc_Function tc) \<noteq> []" "tc_ID tc \<noteq> []"
    and "c' = c\<lparr>k_blocks := closed_blocks c @ [tool_block tc (fc_Arguments (tc_Function tc))], k_open := True\<rparr>" "s = fst (call_tool rnd tc st)"
  shows "scan_events client_reads c (snd (call_tool rnd tc st)) = Some c'" "cca_sim s c'"
    "cc_toolAnnounced s = (cc_toolAnnounced st)(call_index tc \<mapsto> True)" "none_pending s" "cc_HasToolCall s"
    "cc_toolBlockIndex s (call_index tc) = Some (cc_ContentBlockIndex s)"
proof -
  let ?i = "call_index tc" and ?a = "fc_Arguments (tc_Function tc)" and ?s0 = "fst (closeCCAnthropicBlock st)"
  have call: "call_tool rnd tc st = then_emit (closeCCAnthropicBlock st) (\<lambda>s. then_emit (new_tool rnd ?i tc s) (tool_arguments ?i ?a))"
  proof -
    have "cc_toolAnnounced (fst (closeCCAnthropicBlockIfOpen ''thinking'' st)) ?i = None"
      using assms(2) by (simp add: closeCCAnthropicBlockIfOpen_def close_frame)
    then have "call_tool rnd tc st = then_emit (closeCCAnthropicBlockIfOpen ''thinking'' st)
        (\<lambda>s. then_emit (closeCCAnthropicBlock s) (\<lambda>s. then_emit (new_tool rnd ?i tc s) (tool_arguments ?i ?a)))"
      by (simp add: call_tool_def handleCCAnthropicToolCall_def open_tool_def call_index_def [symmetric] prod_eq_iff then_emit_proj Let_def)
    then show ?thesis by (simp add: close_twice)
  qed
  note closed = close_sim [OF assms(1)]
  have s0: "none_pending ?s0" using assms(3) by (simp add: none_pending_def close_frame)
  have st: "k_phase (close_client c) = 1" "\<not> k_open (close_client c)" "int (length (k_blocks (close_client c))) = cc_ContentBlockIndex ?s0"
    using closed(2,3) by (simp_all add: cca_sim_def)
  have new: "new_tool rnd ?i tc ?s0 = (s1, [block_start (cc_ContentBlockIndex ?s0) (tool_block tc ''{}'')])"
    if "s1 = ?s0\<lparr>cc_HasToolCall := True, cc_toolBlockIndex := (cc_toolBlockIndex ?s0)(?i \<mapsto> cc_ContentBlockIndex ?s0),
        cc_toolAnnounced := (cc_toolAnnounced ?s0)(?i \<mapsto> True), cc_toolName := (cc_toolName ?s0)(?i \<mapsto> fc_Name (tc_Function tc)),
        cc_CurrentToolName := fc_Name (tc_Function tc), cc_CurrentToolHadDelta := False, cc_ContentBlockOpen := True, cc_CurrentBlockType := ''tool_use'',
        cc_pendingToolCallID := []\<rparr>" for s1
    using s0 assms(4,5) unfolding that by (simp add: new_tool_def announceCCAnthropicToolBlock_def none_pending_def tool_block_def Let_def)
  obtain s1 where s1: "new_tool rnd ?i tc ?s0 = (s1, [block_start (cc_ContentBlockIndex ?s0) (tool_block tc ''{}'')])"
      "cc_ContentBlockIndex s1 = cc_ContentBlockIndex ?s0" "cc_ContentBlockOpen s1" "cc_toolBlockIndex s1 ?i = Some (cc_ContentBlockIndex s1)"
      "cc_toolAnnounced s1 = (cc_toolAnnounced st)(?i \<mapsto> True)" "none_pending s1" "cc_HasToolCall s1"
    using new [OF refl] s0 that by (simp add: none_pending_def close_frame)
  have args: "tool_arguments ?i ?a s1 = (if ?a = [] then s1 else s1\<lparr>cc_CurrentToolHadDelta := True\<rparr>,
      if ?a = [] then [] else [block_delta (cc_ContentBlockIndex s1) (input_json_delta ?a)])"
    using s1 by (simp add: tool_arguments_def)
  have run: "snd (call_tool rnd tc st) = snd (closeCCAnthropicBlock st) @ block_start (cc_ContentBlockIndex ?s0) (tool_block tc ''{}'') #
      (if ?a = [] then [] else [block_delta (cc_ContentBlockIndex ?s0) (input_json_delta ?a)])"
    "s = (if ?a = [] then s1 else s1\<lparr>cc_CurrentToolHadDelta := True\<rparr>)"
    unfolding assms(7) call then_emit_proj s1(1) fst_conv snd_conv args using s1(2) by simp_all
  have block: "cb_Type (tool_block tc x) = ''tool_use''" "(tool_block tc x)\<lparr>cb_Input := y\<rparr> = tool_block tc y" "cb_Input (tool_block tc x) = x" for x y
    by (simp_all add: tool_block_def)
  show scan: "scan_events client_reads c (snd (call_tool rnd tc st)) = Some c'"
    using closed(1) st unfolding run(1) scan_events_append by (simp add: client_reads_start client_reads_delta block assms(6)) (simp add: close_client_def)
  have "cca_ok st (call_tool rnd tc st)"
    unfolding call by (intro cca_ok_then [OF close_ok] cca_ok_then [OF new_tool_ok] tool_arguments_ok)
      (use s1 in \<open>simp_all add: closed(3) arguments_current_def\<close>)
  with assms(1) scan show "cca_sim s c'" unfolding cca_ok_def assms(7) by fastforce
  show "cc_toolAnnounced s = (cc_toolAnnounced st)(?i \<mapsto> True)" "none_pending s" "cc_HasToolCall s" "cc_toolBlockIndex s ?i = Some (cc_ContentBlockIndex s)"
    using s1 by (simp_all add: run(2) none_pending_def)
qed

text \<open>The state while the block of call \<open>i\<close> is open.\<close>

definition calling :: "int \<Rightarrow> CCAState \<Rightarrow> bool" where
  "calling i st \<longleftrightarrow> cc_ContentBlockOpen st \<and> cc_toolAnnounced st i = Some True \<and> cc_toolBlockIndex st i = Some (cc_ContentBlockIndex st) \<and>
     cc_CurrentBlockType st = ''tool_use''"

lemma fragment_step:
  assumes "cca_sim st c" "calling i st"
  shows "scan_events client_reads c (snd (piece_step rnd (fragment i a) st)) = Some (on_last (\<lambda>b. b\<lparr>cb_Input := cb_Input b @ a\<rparr>) c)"
    "cca_sim (fst (piece_step rnd (fragment i a) st)) (on_last (\<lambda>b. b\<lparr>cb_Input := cb_Input b @ a\<rparr>) c)"
    "fst (piece_step rnd (fragment i a) st) = (if a = [] then st else st\<lparr>cc_CurrentToolHadDelta := True\<rparr>)"
proof -
  have step: "piece_step rnd (fragment i a) st = (if a = [] then st else st\<lparr>cc_CurrentToolHadDelta := True\<rparr>,
      if a = [] then [] else [block_delta (cc_ContentBlockIndex st) (input_json_delta a)])"
    using assms(2) by (simp add: calling_def fragment_def call_tool_def handleCCAnthropicToolCall_def closeCCAnthropicBlockIfOpen_def open_tool_def
      tool_arguments_def then_emit_def Let_def)
  have c: "k_phase c = 1" "k_open c" "cb_Type (last (k_blocks c)) = ''tool_use''" "k_blocks c \<noteq> []" "int (length (k_blocks c)) - 1 = cc_ContentBlockIndex st"
    using assms by (auto simp: cca_sim_def calling_def open_view_def)
  show scan: "scan_events client_reads c (snd (piece_step rnd (fragment i a) st)) = Some (on_last (\<lambda>b. b\<lparr>cb_Input := cb_Input b @ a\<rparr>) c)"
    using c by (simp add: step client_reads_delta on_last_def)
  show "cca_sim (fst (piece_step rnd (fragment i a) st)) (on_last (\<lambda>b. b\<lparr>cb_Input := cb_Input b @ a\<rparr>) c)"
  proof (cases "a = []")
    case False
    have "cca_ok st (st\<lparr>cc_CurrentToolHadDelta := True\<rparr>, [block_delta (cc_ContentBlockIndex st) (input_json_delta a)])"
      using assms(2) False by (intro grow_ok) (auto simp: calling_def)
    with assms(1) scan False show ?thesis unfolding cca_ok_def step by fastforce
  next
    case True
    with assms(1) c show ?thesis unfolding step by (simp add: on_last_id)
  qed
  show "fst (piece_step rnd (fragment i a) st) = (if a = [] then st else st\<lparr>cc_CurrentToolHadDelta := True\<rparr>)" by (simp add: step)
qed

lemma fragments_run:
  assumes "cca_sim st c" "calling i st" "s = fst (run_events (piece_step rnd) (map (fragment i) fs) st)"
  shows "scan_events client_reads c (snd (run_events (piece_step rnd) (map (fragment i) fs) st)) = Some (on_last (\<lambda>b. b\<lparr>cb_Input := cb_Input b @ concat fs\<rparr>) c) \<and>
    cca_sim s (on_last (\<lambda>b. b\<lparr>cb_Input := cb_Input b @ concat fs\<rparr>) c) \<and> cc_toolAnnounced s = cc_toolAnnounced st \<and>
    cc_HasToolCall s = cc_HasToolCall st \<and> none_pending s = none_pending st"
  using assms
proof (induction fs arbitrary: st c)
  case Nil
  then have "k_blocks c \<noteq> []" by (auto simp: cca_sim_def calling_def)
  with Nil show ?case by (simp add: on_last_id)
next
  case (Cons a fs)
  note step = fragment_step [OF Cons.prems(1,2), of rnd a]
  have "calling i (fst (piece_step rnd (fragment i a) st))" using Cons.prems(2) by (simp add: step(3) calling_def)
  from Cons.IH [OF step(2) this] Cons.prems(3) step(1) show ?case
    by (simp add: run_events_Cons scan_events_append step(3) none_pending_def del: run_events.simps(2) piece_step.simps)
qed

lemma call_run:
  assumes "cca_sim st c" "cc_toolAnnounced st (call_index tc) = None" "none_pending st" "fc_Name (tc_Function tc) \<noteq> []" "tc_ID tc \<noteq> []"
    and "c' = c\<lparr>k_blocks := closed_blocks c @ [tool_block tc (call_text (tc, fs))], k_open := True\<rparr>" "r = run_events (piece_step rnd) (call_pieces (tc, fs)) st"
  shows "scan_events client_reads c (snd r) = Some c' \<and> cca_sim (fst r) c' \<and> cc_toolAnnounced (fst r) = (cc_toolAnnounced st)(call_index tc \<mapsto> True) \<and>
    none_pending (fst r) \<and> cc_HasToolCall (fst r)"
proof -
  let ?c1 = "c\<lparr>k_blocks := closed_blocks c @ [tool_block tc (fc_Arguments (tc_Function tc))], k_open := True\<rparr>"
  let ?s1 = "fst (call_tool rnd tc st)"
  note first = first_delta [OF assms(1-5) refl refl, of rnd]
  have open1: "cc_ContentBlockOpen ?s1" using first(2) by (simp add: cca_sim_def)
  then have "cc_CurrentBlockType ?s1 = ''tool_use''" using first(2,6) by (auto simp: cca_sim_def tool_blocks_ok_def)
  with open1 first(3,6) have "calling (call_index tc) ?s1" by (simp add: calling_def)
  note fragments = fragments_run [OF first(2) this refl, of rnd fs]
  have "on_last (\<lambda>b. b\<lparr>cb_Input := cb_Input b @ concat fs\<rparr>) ?c1 = c'"
    unfolding assms(6) by (rule anth_client.equality) (simp_all add: on_last_def tool_block_def call_text_def)
  with fragments first(1,3-5) show ?thesis unfolding assms(7)
    by (simp add: call_pieces_def run_events_Cons scan_events_append del: run_events.simps(2))
qed

definition plain_call :: "ChatToolCall \<times> string list \<Rightarrow> bool" where
  "plain_call = (\<lambda>(tc, fs). fc_Name (tc_Function tc) \<noteq> [] \<and> tc_ID tc \<noteq> [] \<and> (call_text (tc, fs) = [] \<or> go_TrimSpace (call_text (tc, fs)) \<noteq> []))"

lemma calls_run:
  assumes "cca_sim st c" "none_pending st" "\<forall>q\<in>set calls. plain_call q \<and> cc_toolAnnounced st (call_index (fst q)) = None"
    and "distinct (map (\<lambda>q. call_index (fst q)) calls)" "r = run_events (piece_step rnd) (concat (map call_pieces calls)) st"
  shows "\<exists>c'. scan_events client_reads c (snd r) = Some c' \<and> cca_sim (fst r) c' \<and> none_pending (fst r) \<and>
    closed_blocks c' = closed_blocks c @ map (\<lambda>q. finish_block (tool_block (fst q) (call_text q))) calls \<and>
    (cc_HasToolCall (fst r) \<longleftrightarrow> calls \<noteq> [] \<or> cc_HasToolCall st)"
  using assms
proof (induction calls arbitrary: st c r)
  case (Cons q calls)
  obtain tc fs where q: "q = (tc, fs)" by (cases q)
  let ?r = "run_events (piece_step rnd) (call_pieces (tc, fs)) st"
  let ?c = "c\<lparr>k_blocks := closed_blocks c @ [tool_block tc (call_text (tc, fs))], k_open := True\<rparr>"
  have "fc_Name (tc_Function tc) \<noteq> []" "tc_ID tc \<noteq> []" "cc_toolAnnounced st (call_index tc) = None"
    using Cons.prems(3) by (simp_all add: q plain_call_def)
  note call = call_run [OF Cons.prems(1) this(3) Cons.prems(2) this(1,2) refl refl, of rnd fs]
  have "\<forall>q\<in>set calls. plain_call q \<and> cc_toolAnnounced (fst ?r) (call_index (fst q)) = None"
    using call Cons.prems(3,4) by (auto simp: q image_iff)
  moreover have "distinct (map (\<lambda>q. call_index (fst q)) calls)" using Cons.prems(4) by simp
  ultimately obtain c' where "scan_events client_reads ?c (snd (run_events (piece_step rnd) (concat (map call_pieces calls)) (fst ?r))) = Some c'"
      "cca_sim (fst (run_events (piece_step rnd) (concat (map call_pieces calls)) (fst ?r))) c'"
      "none_pending (fst (run_events (piece_step rnd) (concat (map call_pieces calls)) (fst ?r)))"
      "closed_blocks c' = closed_blocks ?c @ map (\<lambda>q. finish_block (tool_block (fst q) (call_text q))) calls"
      "cc_HasToolCall (fst (run_events (piece_step rnd) (concat (map call_pieces calls)) (fst ?r))) \<longleftrightarrow> calls \<noteq> [] \<or> cc_HasToolCall (fst ?r)"
    using Cons.IH [OF _ _ _ _ refl, of "fst ?r" ?c] call by blast
  with call show ?case unfolding Cons.prems(5)
    by (intro exI [of _ c']) (simp add: q run_append then_emit_proj scan_events_append closed_blocks_def [of ?c])
qed auto

lemma cca_sim_core:
  assumes "core s = core s'" "cc_MessageStartSent s" "cc_MessageStartSent s'"
  shows "cca_sim s c = cca_sim s' c"
proof -
  have c: "cca_sim (core s) c = cca_sim s c" if "cc_MessageStartSent s" for s
    using that by (simp add: core_def cca_sim_def open_view_def tool_blocks_ok_def metadata_def)
  show ?thesis using c [OF assms(2)] c [OF assms(3)] assms(1) by simp
qed

lemma run_pieces:
  "run_events (piece_step rnd) (map Think rs) s = run_events think rs s" "run_events (piece_step rnd) (map Say ts) s = run_events say ts s"
  by (induction rs arbitrary: s) (simp_all split: prod.split, induction ts arbitrary: s, simp_all split: prod.split)

lemma utter_frame:
  "cc_toolAnnounced (fst (think t s)) = cc_toolAnnounced s \<and> none_pending (fst (think t s)) = none_pending s \<and> cc_HasToolCall (fst (think t s)) = cc_HasToolCall s"
  "cc_toolAnnounced (fst (say t s)) = cc_toolAnnounced s \<and> none_pending (fst (say t s)) = none_pending s \<and> cc_HasToolCall (fst (say t s)) = cc_HasToolCall s"
  by (simp_all add: think_eq say_eq then_emit_proj ccAnthropicDelta_def ensure_block_def closeCCAnthropicBlock_def none_pending_def Let_def)

lemma utters_frame:
  "cc_toolAnnounced (fst (run_events think ts s)) = cc_toolAnnounced s \<and> none_pending (fst (run_events think ts s)) = none_pending s \<and> cc_HasToolCall (fst (run_events think ts s)) = cc_HasToolCall s"
  "cc_toolAnnounced (fst (run_events say ts s)) = cc_toolAnnounced s \<and> none_pending (fst (run_events say ts s)) = none_pending s \<and> cc_HasToolCall (fst (run_events say ts s)) = cc_HasToolCall s"
  by (induction ts arbitrary: s) (simp_all add: run_events_Cons utter_frame del: run_events.simps(2))

definition thinking_blocks :: "string list \<Rightarrow> AnthropicContentBlock list" where
  "thinking_blocks rs = (if rs = [] then [] else [zero_block\<lparr>cb_Type := ''thinking'', cb_Thinking := concat rs\<rparr>])"

definition text_blocks :: "string list \<Rightarrow> AnthropicContentBlock list" where
  "text_blocks ts = (if ts = [] then [] else [zero_block\<lparr>cb_Type := ''text'', cb_Text := concat ts\<rparr>])"

lemma fresh_utters:
  assumes "cca_sim s c" "k_open c \<longrightarrow> cb_Type (last (k_blocks c)) = ''thinking''"
  shows "\<exists>c'. scan_events client_reads c (snd (run_events say ts s)) = Some c' \<and> cca_sim (fst (run_events say ts s)) c' \<and>
    closed_blocks c' = closed_blocks c @ text_blocks ts"
proof (cases "ts = []")
  case False
  have "ensure_client ''text'' c = c\<lparr>k_blocks := closed_blocks c @ [zero_block\<lparr>cb_Type := ''text''\<rparr>], k_open := True\<rparr>"
    using assms(2) by (auto simp: ensure_client_def)
  then have "closed_blocks (on_last (\<lambda>b. b\<lparr>cb_Text := cb_Text b @ concat ts\<rparr>) (ensure_client ''text'' c)) = closed_blocks c @ text_blocks ts"
    using False by (simp add: closed_blocks_def [of "on_last f d" for f d] text_blocks_def finish_block_def) (simp add: zero_block_def)
  with says_sim [OF assms(1) False] show ?thesis by blast
qed (use assms in \<open>simp add: text_blocks_def\<close>)

lemma fresh_thinks:
  assumes "cca_sim s c" "\<not> k_open c"
  shows "\<exists>c'. scan_events client_reads c (snd (run_events think rs s)) = Some c' \<and> cca_sim (fst (run_events think rs s)) c' \<and>
    closed_blocks c' = closed_blocks c @ thinking_blocks rs \<and> (k_open c' \<longrightarrow> cb_Type (last (k_blocks c')) = ''thinking'')"
proof (cases "rs = []")
  case False
  have "ensure_client ''thinking'' c = c\<lparr>k_blocks := closed_blocks c @ [zero_block\<lparr>cb_Type := ''thinking''\<rparr>], k_open := True\<rparr>"
    using assms(2) by (auto simp: ensure_client_def)
  then have "closed_blocks (on_last (\<lambda>b. b\<lparr>cb_Thinking := cb_Thinking b @ concat rs\<rparr>) (ensure_client ''thinking'' c)) = closed_blocks c @ thinking_blocks rs"
      "cb_Type (last (k_blocks (on_last (\<lambda>b. b\<lparr>cb_Thinking := cb_Thinking b @ concat rs\<rparr>) (ensure_client ''thinking'' c)))) = ''thinking''"
    using False by (simp_all add: closed_blocks_def [of "on_last f d" for f d] thinking_blocks_def finish_block_def) (simp add: zero_block_def)
  with thinks_sim [OF assms(1) False] show ?thesis by blast
qed (use assms in \<open>simp add: thinking_blocks_def\<close>)

lemma ordered_pieces:
  assumes "cca_sim s new" "new = new_client\<lparr>k_phase := 1\<rparr>" "none_pending s" "cc_toolAnnounced s = Map.empty" "\<not> cc_HasToolCall s"
    and "\<forall>q\<in>set calls. plain_call q" "distinct (map (\<lambda>q. call_index (fst q)) calls)"
    and "r = run_events (piece_step rnd) (map Think rs @ map Say ts @ concat (map call_pieces calls)) s"
  shows "\<exists>c'. scan_events client_reads new (snd r) = Some c' \<and> cca_sim (fst r) c' \<and> none_pending (fst r) \<and> (cc_HasToolCall (fst r) \<longleftrightarrow> calls \<noteq> []) \<and>
    closed_blocks c' = thinking_blocks rs @ text_blocks ts @ map (\<lambda>q. finish_block (tool_block (fst q) (call_text q))) calls"
proof -
  let ?s1 = "fst (run_events think rs s)" and ?s2 = "fst (run_events say ts (fst (run_events think rs s)))"
  have "\<not> k_open new" "closed_blocks new = []" by (simp_all add: assms(2) new_client_def closed_blocks_def)
  with fresh_thinks [OF assms(1), of rs] obtain c1 where c1: "scan_events client_reads new (snd (run_events think rs s)) = Some c1" "cca_sim ?s1 c1"
      "closed_blocks c1 = thinking_blocks rs" "k_open c1 \<longrightarrow> cb_Type (last (k_blocks c1)) = ''thinking''" by auto
  from fresh_utters [OF c1(2,4), of ts] c1(3) obtain c2 where c2: "scan_events client_reads c1 (snd (run_events say ts ?s1)) = Some c2" "cca_sim ?s2 c2"
      "closed_blocks c2 = thinking_blocks rs @ text_blocks ts" by auto
  have s2: "none_pending ?s2" "\<forall>q\<in>set calls. plain_call q \<and> cc_toolAnnounced ?s2 (call_index (fst q)) = None" "\<not> cc_HasToolCall ?s2"
    using assms(3-6) by (simp_all add: utters_frame)
  from calls_run [OF c2(2) s2(1,2) assms(7) refl, of rnd] obtain c3 where
      c3: "scan_events client_reads c2 (snd (run_events (piece_step rnd) (concat (map call_pieces calls)) ?s2)) = Some c3"
      "cca_sim (fst (run_events (piece_step rnd) (concat (map call_pieces calls)) ?s2)) c3"
      "none_pending (fst (run_events (piece_step rnd) (concat (map call_pieces calls)) ?s2))"
      "closed_blocks c3 = closed_blocks c2 @ map (\<lambda>q. finish_block (tool_block (fst q) (call_text q))) calls"
      "cc_HasToolCall (fst (run_events (piece_step rnd) (concat (map call_pieces calls)) ?s2)) \<longleftrightarrow> calls \<noteq> [] \<or> cc_HasToolCall ?s2" by blast
  with c1(1) c2(1,3) s2(3) show ?thesis
    unfolding assms(8) run_append then_emit_proj run_pieces scan_events_append by (intro exI [of _ c3]) simp
qed

lemma finalize_blocks:
  assumes "cca_sim st c" "cc_pendingToolCallID st = []"
  shows "\<exists>u. scan_events client_reads c (snd (FinalizeChatCompletionsAnthropicStream st)) =
    Some (c\<lparr>k_phase := 3, k_blocks := closed_blocks c, k_open := False, k_stop := ccFinishReasonToAnthropicStopReason (cc_FinishReason st) (cc_HasToolCall st), k_usage := u\<rparr>)"
proof -
  have st: "cc_MessageStartSent st" "\<not> cc_MessageStopSent st" "k_phase (close_client c) = 1" "\<not> k_open (close_client c)"
    using assms(1) by (simp_all add: cca_sim_def close_client_def)
  have "ensureCCAnthropicMessageStart st = (st, [])" using st(1) by (simp add: ensureCCAnthropicMessageStart_def)
  moreover have "cc_FinishReason (fst (closeCCAnthropicBlock st)) = cc_FinishReason st" "cc_HasToolCall (fst (closeCCAnthropicBlock st)) = cc_HasToolCall st"
    by (simp_all add: closeCCAnthropicBlock_def Let_def)
  ultimately obtain d u where run: "snd (FinalizeChatCompletionsAnthropicStream st) = snd (closeCCAnthropicBlock st) @
        [zero_anth_event\<lparr>ae_Type := ''message_delta'', ae_Delta := Some d, ae_Usage := u\<rparr>, zero_anth_event\<lparr>ae_Type := ''message_stop''\<rparr>]"
      and d: "ad_StopReason d = ccFinishReasonToAnthropicStopReason (cc_FinishReason st) (cc_HasToolCall st)"
    using that st(2) assms(2) by (simp add: FinalizeChatCompletionsAnthropicStream_def then_emit_proj)
  have "scan_events client_reads (close_client c) [zero_anth_event\<lparr>ae_Type := ''message_delta'', ae_Delta := Some d, ae_Usage := u\<rparr>, zero_anth_event\<lparr>ae_Type := ''message_stop''\<rparr>] =
      Some ((close_client c)\<lparr>k_phase := 3, k_stop := ad_StopReason d, k_usage := u\<rparr>)"
    using st(3,4) by (simp add: client_reads_def zero_anth_event_def)
  then show ?thesis
    unfolding run scan_events_append close_sim(1) [OF assms(1)] option.case d by (intro exI [of _ u]) (simp add: close_client_def)
qed

abbreviation cca_stream :: "(nat \<Rightarrow> string) \<Rightarrow> ChatCompletionsChunk list \<Rightarrow> CCAState \<Rightarrow> cca" where
  "cca_stream rnd chunks st \<equiv> run_events (ChatCompletionsChunkToAnthropicEvents rnd) chunks st"

lemma cca_new:
  assumes "s0 = NewChatCompletionsToAnthropicStreamState rid model now"
  shows "cca_related s0 new_client" "cca_sim (s0\<lparr>cc_MessageStartSent := True\<rparr>) (new_client\<lparr>k_phase := 1\<rparr>)" "none_pending s0" "cc_toolAnnounced s0 = Map.empty"
    "\<not> cc_HasToolCall s0" "\<not> cc_MessageStartSent s0"
  by (simp_all add: assms NewChatCompletionsToAnthropicStreamState_def cca_related_def cca_sim_def new_client_def tool_blocks_ok_def none_pending_def)

lemma cca_related_open: "cca_related st c \<Longrightarrow> \<not> cc_MessageStopSent st"
  by (auto simp: cca_related_def cca_sim_def split: if_splits)

lemma whole_stream:
  assumes "concat (map chunk_pieces chunks) = map Think rs @ map Say ts @ concat (map call_pieces calls)" "chunks \<noteq> []"
    and "\<forall>q\<in>set calls. plain_call q" "distinct (map (\<lambda>q. call_index (fst q)) calls)"
    and "s0 = NewChatCompletionsToAnthropicStreamState rid model now" "st = fst (cca_stream rnd chunks s0)"
  shows "\<exists>c. scan_events client_reads new_client (snd (cca_stream rnd chunks s0) @ snd (FinalizeChatCompletionsAnthropicStream st)) = Some c \<and> k_phase c = 3 \<and>
    k_blocks c = thinking_blocks rs @ text_blocks ts @ map (\<lambda>q. finish_block (tool_block (fst q) (call_text q))) calls \<and>
    k_stop c = ccFinishReasonToAnthropicStopReason (cc_FinishReason st) (calls \<noteq> [])"
proof -
  note new = cca_new [OF assms(5)]
  let ?s = "s0\<lparr>cc_MessageStartSent := True\<rparr>"
  let ?p = "run_events (piece_step rnd) (concat (map chunk_pieces chunks)) ?s"
  note run = chunks_run [OF assms(2) new(6) refl refl, of rnd, folded assms(6)]
  have started: "cc_MessageStartSent (fst ?p)" by (subst blind_started) (simp_all add: blind_run blind_piece)
  have "none_pending ?s" "cc_toolAnnounced ?s = Map.empty" "\<not> cc_HasToolCall ?s" using new(3-5) by (simp_all add: none_pending_def)
  from ordered_pieces [OF new(2) refl this assms(3,4) refl, of rnd rs ts] obtain c where
      c: "scan_events client_reads (new_client\<lparr>k_phase := 1\<rparr>) (snd ?p) = Some c" "cca_sim (fst ?p) c" "none_pending (fst ?p)" "cc_HasToolCall (fst ?p) \<longleftrightarrow> calls \<noteq> []"
      "closed_blocks c = thinking_blocks rs @ text_blocks ts @ map (\<lambda>q. finish_block (tool_block (fst q) (call_text q))) calls"
    unfolding assms(1) by blast
  have sim: "cca_sim st c" using cca_sim_core [OF run(2,3) started] c(2) by simp
  have st: "cc_pendingToolCallID st = []" "cc_HasToolCall st \<longleftrightarrow> calls \<noteq> []"
    using core_field_eqs(4,5) [OF run(2)] c(3,4) by (simp_all add: none_pending_def)
  from run(1) obtain m where "snd (cca_stream rnd chunks s0) = zero_anth_event\<lparr>ae_Type := ''message_start'', ae_Message := Some m\<rparr> # snd ?p" by blast
  then have "scan_events client_reads new_client (snd (cca_stream rnd chunks s0)) = Some c"
    using c(1) by (simp add: client_reads_def zero_anth_event_def new_client_def)
  with finalize_blocks [OF sim st(1)] st(2) c(5) show ?thesis by (auto simp: scan_events_append)
qed

text \<open>A piece of text is never empty.\<close>

lemma pieces_nonempty: "Say [] \<notin> set (chunk_pieces chunk)" "Think [] \<notin> set (chunk_pieces chunk)"
  by (auto simp: chunk_pieces_def choice_pieces_def if_given_def split: option.splits if_splits)

lemma utterances_nonempty:
  assumes "concat (map chunk_pieces chunks) = map Think rs @ map Say ts @ ps"
  shows "concat ts = [] \<longleftrightarrow> ts = []" "concat rs = [] \<longleftrightarrow> rs = []"
proof -
  have "Say [] \<notin> set (concat (map chunk_pieces chunks))" "Think [] \<notin> set (concat (map chunk_pieces chunks))"
    using pieces_nonempty by (simp_all add: image_iff)
  then have "[] \<notin> set ts" "[] \<notin> set rs" unfolding assms by auto
  moreover have "concat l = [] \<longleftrightarrow> l = []" if "[] \<notin> set l" for l :: "string list" using that by (cases l) auto
  ultimately show "concat ts = [] \<longleftrightarrow> ts = []" "concat rs = [] \<longleftrightarrow> rs = []" by blast+
qed

subsection \<open>Properties\<close>

text \<open>C28: When the fragments of each call come while its block is open, an Anthropic client can assemble the message of
  the stream without exception: one block at a time with indices from 0, deltas of the kind of the open block only, some JSON for every tool
  call, and an end with the stop reason that follows from the finish reason and the calls.\<close>

theorem cca_stream_assembles:
  assumes "guarded_run (chunk_in_turn rnd) (ChatCompletionsChunkToAnthropicEvents rnd) chunks (NewChatCompletionsToAnthropicStreamState rid model now)"
    and "st = fst (cca_stream rnd chunks (NewChatCompletionsToAnthropicStreamState rid model now))"
  shows "\<exists>c. scan_events client_reads new_client
      (snd (cca_stream rnd chunks (NewChatCompletionsToAnthropicStreamState rid model now)) @ snd (FinalizeChatCompletionsAnthropicStream st)) = Some c \<and>
    k_phase c = 3 \<and> k_stop c = ccFinishReasonToAnthropicStopReason (cc_FinishReason st) (cc_HasToolCall st)"
proof -
  from cca.run_simulated [OF cca_new(1) [OF refl] assms(1)] obtain c where
      "scan_events client_reads new_client (snd (cca_stream rnd chunks (NewChatCompletionsToAnthropicStreamState rid model now))) = Some c" "cca_related st c"
    unfolding assms(2) by blast
  with finalize_read [OF this(2) cca_related_open [OF this(2)]] show ?thesis by (simp add: scan_events_append)
qed

definition anthropic_chunk :: "ChatDelta \<Rightarrow> ChatCompletionsChunk" where
  "anthropic_chunk d = \<lparr>ck_ID = ''c1'', ck_Object = [], ck_Created = 0, ck_Model = ''m'', ck_Choices = [\<lparr>cx_Index = 0, cx_Delta = d, cx_FinishReason = Some ''stop''\<rparr>],
     ck_Usage = None, ck_SystemFingerprint = [], ck_ServiceTier = []\<rparr>"

definition tool_delta_of :: "int \<Rightarrow> string \<Rightarrow> string \<Rightarrow> string \<Rightarrow> ChatToolCall" where
  "tool_delta_of i cid name args = \<lparr>tc_Index = Some i, tc_ID = cid, tc_Type = [], tc_Function = \<lparr>fc_Name = name, fc_Arguments = args\<rparr>\<rparr>"

definition random_bytes :: "nat \<Rightarrow> string" where "random_bytes n = [char_of n]"

definition mixed_chunks :: "ChatCompletionsChunk list" where
  "mixed_chunks = map anthropic_chunk [zero_chat_delta\<lparr>cd_ReasoningContent := Some ''hm''\<rparr>, zero_chat_delta\<lparr>cd_Content := Some ''ok''\<rparr>,
     zero_chat_delta\<lparr>cd_ToolCalls := [tool_delta_of 0 ''call_1'' ''f'' ''{'', tool_delta_of 0 [] [] ''}'']\<rparr>,
     zero_chat_delta\<lparr>cd_ToolCalls := [tool_delta_of 1 ''call_2'' [] ''{}'']\<rparr>]"

theorem cca_stream_assembles_witness:
  "\<exists>c. scan_events client_reads new_client
      (snd (cca_stream random_bytes mixed_chunks (NewChatCompletionsToAnthropicStreamState [] [] 0)) @
       snd (FinalizeChatCompletionsAnthropicStream (fst (cca_stream random_bytes mixed_chunks (NewChatCompletionsToAnthropicStreamState [] [] 0))))) = Some c \<and>
    k_phase c = 3"
proof -
  have "guarded_run (chunk_in_turn random_bytes) (ChatCompletionsChunkToAnthropicEvents random_bytes) mixed_chunks (NewChatCompletionsToAnthropicStreamState [] [] 0)"
    by code_simp
  from cca_stream_assembles [OF this refl] show ?thesis by blast
qed

subsection \<open>Streaming and buffered conversion\<close>

definition gathered_message :: "string list \<Rightarrow> string list \<Rightarrow> (ChatToolCall \<times> string list) list \<Rightarrow> ChatUpstreamMessage" where
  "gathered_message rs ts calls = \<lparr>qm_Role = ''assistant'', qm_Content = Some (JStr (concat ts)), qm_ReasoningContent = concat rs, qm_Name = [],
     qm_ToolCalls = map (\<lambda>q. (fst q)\<lparr>tc_Function := \<lparr>fc_Name = fc_Name (tc_Function (fst q)), fc_Arguments = call_text q\<rparr>\<rparr>) calls,
     qm_ToolCallID = [], qm_FunctionCall = None, um_Reasoning = []\<rparr>"

definition sanitize_block :: "json_lib \<Rightarrow> AnthropicContentBlock \<Rightarrow> AnthropicContentBlock" where
  "sanitize_block J b = (if cb_Type b = ''tool_use'' then b\<lparr>cb_Input := sanitizeAnthropicToolUseInput J (cb_Name b) (cb_Input b)\<rparr> else b)"

lemma gathered_fields:
  "message_reasoningText (gathered_message rs ts calls) = concat rs" "chatMessageContentText (qm_Content (gathered_message rs ts calls)) = concat ts"
  "qm_ToolCalls (gathered_message rs ts calls) = [] \<longleftrightarrow> calls = []"
  by (simp_all add: gathered_message_def message_reasoningText_def chatMessageContentText_def raw_string_def del: concat_eq_Nil_conv)

lemma sanitized_calls:
  assumes "plain_call q"
  shows "sanitize_block J (finish_block (tool_block (fst q) (call_text q))) =
    zero_block\<lparr>cb_Type := ''tool_use'', cb_ID := fromResponsesCallID (tc_ID (fst q)), cb_Name := fc_Name (tc_Function (fst q)),
      cb_Input := sanitizeAnthropicToolUseInput J (fc_Name (tc_Function (fst q))) (call_arguments (call_text q))\<rparr>"
  using assms by (auto simp: plain_call_def sanitize_block_def finish_block_def tool_block_def call_arguments_def split: prod.splits)

lemma buffered_blocks:
  assumes "\<forall>q\<in>set calls. plain_call q" "concat ts = [] \<longleftrightarrow> ts = []" "concat rs = [] \<longleftrightarrow> rs = []"
  shows "chatMessageToAnthropicBlocks J (gathered_message rs ts calls) = thinking_blocks rs @
      (if ts = [] \<and> calls = [] then [zero_block\<lparr>cb_Type := ''text'', cb_Text := (if go_TrimSpace (concat rs) \<noteq> [] then concat rs else [])\<rparr>] else text_blocks ts) @
      map (\<lambda>q. sanitize_block J (finish_block (tool_block (fst q) (call_text q)))) calls"
proof -
  have "map (\<lambda>tc. zero_block\<lparr>cb_Type := ''tool_use'', cb_ID := fromResponsesCallID (tc_ID tc), cb_Name := fc_Name (tc_Function tc),
        cb_Input := sanitizeAnthropicToolUseInput J (fc_Name (tc_Function tc)) (call_arguments (fc_Arguments (tc_Function tc)))\<rparr>)
      (qm_ToolCalls (gathered_message rs ts calls)) = map (\<lambda>q. sanitize_block J (finish_block (tool_block (fst q) (call_text q)))) calls"
    using assms(1) by (simp add: gathered_message_def sanitized_calls)
  then show ?thesis
    using assms(2,3) unfolding chatMessageToAnthropicBlocks_def Let_def gathered_fields
    by (simp add: thinking_blocks_def text_blocks_def del: concat_eq_Nil_conv)
qed






subsection \<open>Where the stream differs\<close>

text \<open>An answer that only reasons is streamed as a thinking block alone, while the buffered conversion of the same answer
  shows the reasoning as text, so that the turn has content.\<close>

theorem cca_reasoning_only:
  assumes "concat (map chunk_pieces chunks) = map Think rs" "rs \<noteq> []" "go_TrimSpace (concat rs) \<noteq> []"
    and "s0 = NewChatCompletionsToAnthropicStreamState rid model now" "st = fst (cca_stream rnd chunks s0)"
  shows "\<exists>c. scan_events client_reads new_client (snd (cca_stream rnd chunks s0) @ snd (FinalizeChatCompletionsAnthropicStream st)) = Some c \<and>
    k_blocks c = [zero_block\<lparr>cb_Type := ''thinking'', cb_Thinking := concat rs\<rparr>] \<and>
    chatMessageToAnthropicBlocks J (gathered_message rs [] []) = k_blocks c @ [zero_block\<lparr>cb_Type := ''text'', cb_Text := concat rs\<rparr>]"
proof -
  have pieces: "concat (map chunk_pieces chunks) = map Think rs @ map Say [] @ concat (map call_pieces [])" using assms(1) by simp
  have "chunks \<noteq> []" using assms(1,2) by auto
  from whole_stream [OF pieces this _ _ assms(4,5)] obtain c where
      c: "scan_events client_reads new_client (snd (cca_stream rnd chunks s0) @ snd (FinalizeChatCompletionsAnthropicStream st)) = Some c"
      "k_blocks c = [zero_block\<lparr>cb_Type := ''thinking'', cb_Thinking := concat rs\<rparr>]"
    using assms(2) by (auto simp: thinking_blocks_def text_blocks_def)
  moreover have "concat rs = [] \<longleftrightarrow> rs = []" using utterances_nonempty(2) [OF pieces] .
  then have "chatMessageToAnthropicBlocks J (gathered_message rs [] []) = k_blocks c @ [zero_block\<lparr>cb_Type := ''text'', cb_Text := concat rs\<rparr>]"
    using assms(2,3) buffered_blocks [of "[]" "[]" rs J] unfolding c(2) by (simp add: thinking_blocks_def text_blocks_def del: concat_eq_Nil_conv)
  ultimately show ?thesis by blast
qed

theorem cca_reasoning_only_witness:
  "\<exists>c. scan_events client_reads new_client (snd (cca_stream random_bytes [anthropic_chunk (zero_chat_delta\<lparr>cd_ReasoningContent := Some ''hm''\<rparr>)]
        (NewChatCompletionsToAnthropicStreamState [] [] 0)) @
       snd (FinalizeChatCompletionsAnthropicStream (fst (cca_stream random_bytes [anthropic_chunk (zero_chat_delta\<lparr>cd_ReasoningContent := Some ''hm''\<rparr>)]
        (NewChatCompletionsToAnthropicStreamState [] [] 0))))) = Some c \<and>
    k_blocks c = [zero_block\<lparr>cb_Type := ''thinking'', cb_Thinking := ''hm''\<rparr>]"
proof -
  have pieces: "concat (map chunk_pieces [anthropic_chunk (zero_chat_delta\<lparr>cd_ReasoningContent := Some ''hm''\<rparr>)]) = map Think [''hm'']"
    by (simp add: anthropic_chunk_def chunk_pieces_def choice_pieces_def if_given_def delta_reasoningText_def zero_chat_delta_def)
  have "go_TrimSpace (concat [''hm'']) \<noteq> []" by code_simp
  from cca_reasoning_only [OF pieces _ this refl refl, of random_bytes "[]" "[]" 0] show ?thesis by fastforce
qed

text \<open>C29: When the upstream announces two calls before it sends the arguments of the first, the first block is closed with
  the empty object and the arguments follow as a delta for the closed block: the client meets an event out of order, and the JSON of the first call
  is no JSON.\<close>

theorem cca_interleaved_calls:
  assumes "i \<noteq> j" "n \<noteq> []" "n' \<noteq> []" "x \<noteq> []"
    and "evs = snd (cca_stream rnd [anthropic_chunk (zero_chat_delta\<lparr>cd_ToolCalls := [tool_delta_of i a n [], tool_delta_of j b n' [], tool_delta_of i [] [] x]\<rparr>)]
      (NewChatCompletionsToAnthropicStreamState rid model now))"
  shows "scan_events client_reads new_client evs = None \<and> last evs = block_delta 0 (input_json_delta x) \<and> block_stop 0 \<in> set (butlast evs) \<and>
    concat (map (\<lambda>e. if ae_Index e = Some 0 then json_out e else []) evs) = ''{}'' @ x"
proof -
  have "\<exists>m. evs = [zero_anth_event\<lparr>ae_Type := ''message_start'', ae_Message := Some m\<rparr>,
      block_start 0 (zero_block\<lparr>cb_Type := ''tool_use'', cb_ID := fromResponsesCallID (if a = [] then generateItemID (rnd 0) else a), cb_Name := n, cb_Input := ''{}''\<rparr>),
      block_delta 0 (input_json_delta ''{}''), block_stop 0,
      block_start 1 (zero_block\<lparr>cb_Type := ''tool_use'', cb_ID := fromResponsesCallID (if b = [] then generateItemID (rnd (if a = [] then 1 else 0)) else b),
        cb_Name := n', cb_Input := ''{}''\<rparr>), block_delta 0 (input_json_delta x)]"
    using assms(1-4) unfolding assms(5)
    by (simp add: anthropic_chunk_def zero_chat_delta_def tool_delta_of_def ChatCompletionsChunkToAnthropicEvents_def then_emit_def ensureCCAnthropicMessageStart_def
      read_anthropic_chunk_def read_usage_def NewChatCompletionsToAnthropicStreamState_def anthropic_choice_def unless_empty_def delta_reasoningText_def
      call_tool_def closeCCAnthropicBlockIfOpen_def handleCCAnthropicToolCall_def open_tool_def new_tool_def closeCCAnthropicBlock_def
      announceCCAnthropicToolBlock_def tool_arguments_def Let_def) blast
  then obtain m where evs: "evs = [zero_anth_event\<lparr>ae_Type := ''message_start'', ae_Message := Some m\<rparr>,
      block_start 0 (zero_block\<lparr>cb_Type := ''tool_use'', cb_ID := fromResponsesCallID (if a = [] then generateItemID (rnd 0) else a), cb_Name := n, cb_Input := ''{}''\<rparr>),
      block_delta 0 (input_json_delta ''{}''), block_stop 0,
      block_start 1 (zero_block\<lparr>cb_Type := ''tool_use'', cb_ID := fromResponsesCallID (if b = [] then generateItemID (rnd (if a = [] then 1 else 0)) else b),
        cb_Name := n', cb_Input := ''{}''\<rparr>), block_delta 0 (input_json_delta x)]" by blast
  have "client_reads new_client (zero_anth_event\<lparr>ae_Type := ''message_start'', ae_Message := Some m\<rparr>) = Some (new_client\<lparr>k_phase := 1\<rparr>)"
    by (simp add: client_reads_def new_client_def zero_anth_event_def)
  then have "scan_events client_reads new_client evs = None"
    unfolding evs by (simp add: client_reads_start client_reads_delta client_reads_stop new_client_def zero_block_def)
  then show ?thesis unfolding evs by (simp add: json_out_def block_delta_def block_start_def block_stop_def input_json_delta_def zero_anth_event_def zero_delta_def)
qed

theorem cca_interleaved_calls_witness:
  "scan_events client_reads new_client (snd (cca_stream random_bytes [anthropic_chunk (zero_chat_delta\<lparr>cd_ToolCalls :=
      [tool_delta_of 0 ''call_1'' ''f'' [], tool_delta_of 1 ''call_2'' ''g'' [], tool_delta_of 0 [] [] ''{}'']\<rparr>)] (NewChatCompletionsToAnthropicStreamState [] [] 0))) = None"
  using cca_interleaved_calls [OF _ _ _ _ refl, of 0 1 "''f''" "''g''" "''{}''" random_bytes "''call_1''" "''call_2''" "[]" "[]" 0] by simp

subsection \<open>The direct bridge and the two bridges it replaces\<close>












end
