(* ===== verification/Chat_Messages.thy ===== *)
theory Chat_Messages
  imports Chat_Upstream
begin

section \<open>Histories for Chat Completions upstreams: apicompat/chatcompletions\_responses\_bridge.go\<close>

text \<open>
  From the input of a Responses request to the messages that an upstream without the Responses API
  receives: the walk over the items (\<open>buildChatMessagesFromItems\<close>) with its state as a record, and the
  normalisation that every Chat history goes through. An error return is \<open>None\<close>; \<open>jt\<close> is the syntax of
  JSON text, \<open>sha\<close> is \<open>sha256.Sum256\<close>.
\<close>

subsection \<open>Values\<close>

definition rawString :: "raw \<Rightarrow> string" where
  "rawString r = (case raw_string r of None \<Rightarrow> [] | Some s \<Rightarrow> s)"

definition rawNestedString :: "raw \<Rightarrow> string \<Rightarrow> string" where
  "rawNestedString r key = (case Option.bind r raw_object of None \<Rightarrow> [] | Some obj \<Rightarrow> rawString (map_of obj key))"

text \<open>
  A value read into an \<open>any\<close> and written again: the names of its objects are sorted. A number is read as
  \<open>float64\<close>, or kept with \<open>UseNumber\<close>; \<open>number\<close> says how its literal is written again.
\<close>

fun any_value :: "(string \<Rightarrow> string) \<Rightarrow> json \<Rightarrow> json" where
  "any_value number (JNum n) = JNum (number n)"
| "any_value number (JArr vs) = JArr (map (any_value number) vs)"
| "any_value number (JObj kvs) = marshal_map (AList.clearjunk (rev (map (\<lambda>kv. (fst kv, any_value number (snd kv))) kvs)))"
| "any_value number v = v"

definition enc_file :: "ChatFile \<Rightarrow> json" where
  "enc_file f = JObj (omitempty ''filename'' (cf_Filename f) @ omitempty ''file_data'' (cf_FileData f) @ omitempty ''file_id'' (cf_FileID f))"

definition enc_chat_part :: "ChatContentPart \<Rightarrow> json" where
  "enc_chat_part p = JObj ((''type'', JStr (pt_Type p)) # omitempty ''text'' (pt_Text p) @
     omitnone ''image_url'' (map_option (\<lambda>u. JObj [(''url'', JStr u)]) (pt_ImageURL p)) @ omitnone ''file'' (map_option enc_file (pt_File p)))"

definition text_part :: "string \<Rightarrow> ChatContentPart" where
  "text_part t = \<lparr>pt_Type = ''text'', pt_Text = t, pt_ImageURL = None, pt_File = None\<rparr>"

definition toolOutputImagePart :: "string \<Rightarrow> ChatContentPart" where
  "toolOutputImagePart imageURL = \<lparr>pt_Type = ''image_url'', pt_Text = [], pt_ImageURL = Some imageURL, pt_File = None\<rparr>"

definition chat_message_of :: "string \<Rightarrow> raw \<Rightarrow> ChatRequestMessage" where
  "chat_message_of role content = \<lparr>qm_Role = role, qm_Content = content, qm_ReasoningContent = [], qm_Name = [], qm_ToolCalls = [],
     qm_ToolCallID = [], qm_FunctionCall = None\<rparr>"

definition user_text :: "string \<Rightarrow> ChatRequestMessage" where
  "user_text t = chat_message_of ''user'' (Some (JStr t))"

definition tool_reply :: "string \<Rightarrow> string \<Rightarrow> ChatRequestMessage" where
  "tool_reply cid t = (chat_message_of ''tool'' (Some (JStr t)))\<lparr>qm_ToolCallID := cid\<rparr>"

definition function_call_of :: "string \<Rightarrow> string \<Rightarrow> string \<Rightarrow> ChatToolCall" where
  "function_call_of cid name arguments = \<lparr>tc_Index = None, tc_ID = cid, tc_Type = ''function'',
     tc_Function = \<lparr>fc_Name = name, fc_Arguments = arguments\<rparr>\<rparr>"

subsection \<open>Images in the outputs of tools\<close>

definition toolOutputMediaMarker :: string where
  "toolOutputMediaMarker = ''[Tool output media moved to the following user message]''"

definition toolOutputMediaAttribution :: "string \<Rightarrow> string" where
  "toolOutputMediaAttribution cid = ''[Tool output media for call '' @ cid @ '']''"

text \<open>\<open>strings.Index\<close>.\<close>

fun go_Index :: "string \<Rightarrow> string \<Rightarrow> nat option" where
  "go_Index s sub =
     (if go_HasPrefix s sub then Some 0 else case s of [] \<Rightarrow> None | c # cs \<Rightarrow> map_option Suc (go_Index cs sub))"

declare go_Index.simps [simp del]

definition isToolOutputImageDataURL :: "string \<Rightarrow> bool" where
  "isToolOutputImageDataURL value \<longleftrightarrow>
     (case go_CutPrefix value ''data:image/'' of
        None \<Rightarrow> False
      | Some rest \<Rightarrow>
          (case go_Index rest '';base64,'' of
             None \<Rightarrow> False
           | Some i \<Rightarrow> i > 0 \<and> length ''data:image/'' + i + length '';base64,'' < length value))"

definition recognizedToolOutputImageURL :: "(string \<times> json) list \<Rightarrow> string option" where
  "recognizedToolOutputImageURL m =
     (if any_string m ''type'' \<notin> {''input_image'', ''image_url''} then None
      else case map_of m ''image_url'' of
        Some (JStr imageURL) \<Rightarrow> if go_TrimSpace imageURL \<noteq> [] then Some imageURL else None
      | Some (JObj kvs) \<Rightarrow>
          (let url = any_string (AList.clearjunk (rev kvs)) ''url'' in if go_TrimSpace url \<noteq> [] then Some url else None)
      | _ \<Rightarrow> None)"

text \<open>The value of a member of an object is smaller than the object.\<close>

lemma member_smaller: "(k, v) \<in> set (AList.clearjunk (rev kvs)) \<Longrightarrow> size v < Suc (size_list (size_prod (\<lambda>_. 0) size) kvs)"
proof -
  assume "(k, v) \<in> set (AList.clearjunk (rev kvs))"
  then have "map_of (AList.clearjunk (rev kvs)) k = Some v" by simp
  then have "(k, v) \<in> set kvs" unfolding map_of_clearjunk by (auto dest: map_of_SomeD)
  then show ?thesis by (induction kvs) (auto simp: less_Suc_eq)
qed

function rewriteToolOutputMediaValue :: "json \<Rightarrow> json \<times> ChatContentPart list \<times> bool" where
  "rewriteToolOutputMediaValue (JArr vs) =
     (let rs = map rewriteToolOutputMediaValue vs
      in (JArr (map fst rs), concat (map (\<lambda>r. fst (snd r)) rs), list_ex (\<lambda>r. snd (snd r)) rs))"
| "rewriteToolOutputMediaValue (JObj kvs) =
     (let m = AList.clearjunk (rev kvs)
      in case recognizedToolOutputImageURL m of
           Some imageURL \<Rightarrow> (JObj [(''type'', JStr ''input_text''), (''text'', JStr toolOutputMediaMarker)], [toolOutputImagePart imageURL], True)
         | None \<Rightarrow>
             (case map_of m ''content'' of
                None \<Rightarrow> (JObj kvs, [], False)
              | Some content \<Rightarrow>
                  (case rewriteToolOutputMediaValue content of
                     (rewritten, media, changed) \<Rightarrow>
                       if changed then (JObj (AList.update ''content'' rewritten m), media, True) else (JObj kvs, [], False))))"
| "rewriteToolOutputMediaValue JNull = (JNull, [], False)"
| "rewriteToolOutputMediaValue (JBool b) = (JBool b, [], False)"
| "rewriteToolOutputMediaValue (JNum n) = (JNum n, [], False)"
| "rewriteToolOutputMediaValue (JStr s) = (JStr s, [], False)"
  by pat_completeness auto
termination
proof (relation "measure size")
  fix vs :: "json list" and v assume "v \<in> set vs"
  then show "(v, JArr vs) \<in> measure size" by (induction vs) auto
qed (auto dest: member_smaller)

text \<open>\<open>None\<close> stands for an output that is not rewritten.\<close>

definition rewritten_output :: "json_text \<Rightarrow> json \<Rightarrow> (string \<times> ChatContentPart list) option" where
  "rewritten_output jt v =
     (case rewriteToolOutputMediaValue v of
        (rewritten, media, changed) \<Rightarrow> if changed then Some (jt_text jt (any_value (\<lambda>n. n) rewritten), media) else None)"

definition extractToolOutputMedia :: "json_text \<Rightarrow> raw \<Rightarrow> (string \<times> ChatContentPart list) option" where
  "extractToolOutputMedia jt r =
     (case r of
        None \<Rightarrow> None
      | Some JNull \<Rightarrow> None
      | Some (JStr s) \<Rightarrow>
          if isToolOutputImageDataURL s then Some (toolOutputMediaMarker, [toolOutputImagePart s])
          else (case jt_value jt s of None \<Rightarrow> None | Some nested \<Rightarrow> rewritten_output jt nested)
      | Some v \<Rightarrow> rewritten_output jt v)"

subsection \<open>Contents\<close>

definition agentMessageText :: "raw \<Rightarrow> string" where
  "agentMessageText r =
     (case r of
        None \<Rightarrow> []
      | Some JNull \<Rightarrow> []
      | Some (JStr s) \<Rightarrow> s
      | Some v \<Rightarrow>
          (case raw_list raw_object (Some v) of
             None \<Rightarrow> []
           | Some parts \<Rightarrow> concat (map (\<lambda>part.
               let t = rawString (map_of part ''type'') in
               if t \<in> {''input_text'', ''text''} then rawString (map_of part ''text'')
               else if t = ''encrypted_content'' then rawString (map_of part ''encrypted_content'') else []) parts)))"

text \<open>The closure \<open>collect\<close>: the texts of a summary or a content.\<close>

definition collect_texts :: "raw \<Rightarrow> string list" where
  "collect_texts r =
     (if r \<in> {None, Some JNull} then []
      else case raw_list raw_object r of
        Some arr \<Rightarrow> filter (\<lambda>t. t \<noteq> []) (map (\<lambda>p. rawString (map_of p ''text'')) arr)
      | None \<Rightarrow> if rawString r \<noteq> [] then [rawString r] else [])"

definition extractResponsesReasoningText :: "(string \<times> json) list \<Rightarrow> string" where
  "extractResponsesReasoningText item =
     (let parts = collect_texts (map_of item ''summary'')
      in go_Join (if parts = [] then collect_texts (map_of item ''content'') else parts) [CHR 0x0A])"

definition ExtractResponsesReasoningItem :: "raw \<Rightarrow> (string \<times> string) option" where
  "ExtractResponsesReasoningItem r =
     (if r \<in> {None, Some JNull} then None
      else case Option.bind r raw_object of
        None \<Rightarrow> None
      | Some item \<Rightarrow>
          if rawString (map_of item ''type'') \<noteq> ''reasoning'' then None
          else Some (rawString (map_of item ''id''), extractResponsesReasoningText item))"

definition chatCompletionsBridgeRole :: "string \<Rightarrow> string" where
  "chatCompletionsBridgeRole role =
     (let trimmed = go_TrimSpace role
      in if trimmed = [] then ''user'' else if go_EqualFold trimmed ''developer'' then ''system'' else role)"

text \<open>The address of an image, a string or the member \<open>url\<close> of an object.\<close>

definition part_image_url :: "(string \<times> json) list \<Rightarrow> string" where
  "part_image_url part =
     (let imageURL = rawString (map_of part ''image_url'')
      in if imageURL = [] then rawNestedString (map_of part ''image_url'') ''url'' else imageURL)"

definition chat_part_of :: "json \<Rightarrow> ChatContentPart list" where
  "chat_part_of rawPart =
     (case raw_object rawPart of
        None \<Rightarrow> []
      | Some part \<Rightarrow>
          let partType = rawString (map_of part ''type'') in
          if partType \<in> {''input_text'', ''output_text'', ''text'', []} then
            (let t = rawString (map_of part ''text'') in if t = [] then [] else [text_part t])
          else if partType \<in> {''input_image'', ''image_url''} then
            (let imageURL = part_image_url part in if imageURL = [] then [] else [toolOutputImagePart imageURL])
          else [])"

definition responsesContentPartsToChatContent :: "json list \<Rightarrow> string \<Rightarrow> json" where
  "responsesContentPartsToChatContent rawParts role =
     (let chatParts = concat (map chat_part_of rawParts);
          textParts = map pt_Text (filter (\<lambda>p. pt_Type p = ''text'') chatParts);
          hasNonText = list_ex (\<lambda>p. pt_Type p \<noteq> ''text'') chatParts
      in if \<not> hasNonText \<or> role \<noteq> ''user'' then JStr (go_Join textParts [CHR 0x0A, CHR 0x0A])
         else JArr (map enc_chat_part chatParts))"

definition chatContentFromSingleResponsesPart :: "string \<Rightarrow> (string \<times> json) list \<Rightarrow> json" where
  "chatContentFromSingleResponsesPart partType part =
     (if partType \<in> {''input_image'', ''image_url''} then JArr [enc_chat_part (toolOutputImagePart (part_image_url part))]
      else JStr (rawString (map_of part ''text'')))"

definition responsesContentToChatContent :: "raw \<Rightarrow> string \<Rightarrow> json" where
  "responsesContentToChatContent r role =
     (case r of
        None \<Rightarrow> JStr []
      | Some JNull \<Rightarrow> JStr []
      | Some (JArr rawParts) \<Rightarrow> responsesContentPartsToChatContent rawParts role
      | Some (JObj kvs) \<Rightarrow>
          (let obj = AList.clearjunk (rev kvs) in chatContentFromSingleResponsesPart (rawString (map_of obj ''type'')) obj)
      | Some v \<Rightarrow> v)"

subsection \<open>The walk over the items\<close>

definition appendAssistantToolCall :: "ChatRequestMessage list \<Rightarrow> ChatToolCall \<Rightarrow> string \<Rightarrow> ChatRequestMessage list" where
  "appendAssistantToolCall messages toolCall pendingReasoning =
     (if messages \<noteq> [] \<and> qm_Role (last messages) = ''assistant'' then
        butlast messages @ [(last messages)\<lparr>qm_ToolCalls := qm_ToolCalls (last messages) @ [toolCall],
          qm_ReasoningContent := (if qm_ReasoningContent (last messages) = [] then pendingReasoning else qm_ReasoningContent (last messages))\<rparr>]
      else messages @ [(chat_message_of ''assistant'' None)\<lparr>qm_ToolCalls := [toolCall], qm_ReasoningContent := pendingReasoning\<rparr>])"

text \<open>
  The variables of the walk. The map of media is an association list, the set of invalid calls a list.
\<close>

record ChatBuild =
  bd_messages :: "ChatRequestMessage list"
  bd_pendingReasoning :: string
  bd_lastTurnReasoning :: string
  bd_mediaByCallID :: "(string \<times> ChatContentPart list) list"
  bd_invalidFunctionCallIDs :: "string list"
  bd_invalidEmptyFunctionCallOutputs :: nat

definition start_build :: "ChatRequestMessage list \<Rightarrow> ChatBuild" where
  "start_build messages = \<lparr>bd_messages = messages, bd_pendingReasoning = [], bd_lastTurnReasoning = [], bd_mediaByCallID = [],
     bd_invalidFunctionCallIDs = [], bd_invalidEmptyFunctionCallOutputs = 0\<rparr>"

definition reasoningForAssistant :: "ChatBuild \<Rightarrow> string" where
  "reasoningForAssistant b = (if bd_pendingReasoning b \<noteq> [] then bd_pendingReasoning b else bd_lastTurnReasoning b)"

definition build_user :: "json \<Rightarrow> ChatBuild \<Rightarrow> ChatBuild" where
  "build_user content b = b\<lparr>bd_messages := bd_messages b @ [chat_message_of ''user'' (Some content)],
     bd_pendingReasoning := [], bd_lastTurnReasoning := []\<rparr>"

definition build_call :: "ChatToolCall \<Rightarrow> ChatBuild \<Rightarrow> ChatBuild" where
  "build_call toolCall b = b\<lparr>bd_messages := appendAssistantToolCall (bd_messages b) toolCall (reasoningForAssistant b), bd_pendingReasoning := []\<rparr>"

text \<open>The hook of the gateway's cache of reasoning texts is optional.\<close>

definition build_reasoning :: "(string \<Rightarrow> string) option \<Rightarrow> (string \<times> json) list \<Rightarrow> ChatBuild \<Rightarrow> ChatBuild" where
  "build_reasoning cache item b =
     (let txt = extractResponsesReasoningText item; iid = rawString (map_of item ''id'');
          pending = (if txt \<noteq> [] then txt
            else case cache of
              Some lookup \<Rightarrow> if iid \<noteq> [] \<and> lookup iid \<noteq> [] then lookup iid else bd_pendingReasoning b
            | None \<Rightarrow> bd_pendingReasoning b)
      in b\<lparr>bd_pendingReasoning := pending, bd_lastTurnReasoning := (if pending \<noteq> [] then pending else bd_lastTurnReasoning b)\<rparr>)"

definition build_function_call :: "(string \<Rightarrow> string) \<Rightarrow> json_text \<Rightarrow> (string \<times> json) list \<Rightarrow> ChatBuild \<Rightarrow> ChatBuild" where
  "build_function_call sha jt item b =
     (let arguments = call_arguments (rawString (map_of item ''arguments''));
          callID = rawString (map_of item ''call_id'');
          name = rawString (map_of item ''name''); ns = rawString (map_of item ''namespace'')
      in if jt_value jt arguments = None then
           (if callID \<noteq> [] then b\<lparr>bd_invalidFunctionCallIDs := callID # bd_invalidFunctionCallIDs b, bd_pendingReasoning := []\<rparr>
            else b\<lparr>bd_invalidEmptyFunctionCallOutputs := bd_invalidEmptyFunctionCallOutputs b + 1, bd_pendingReasoning := []\<rparr>)
         else build_call (function_call_of callID (if ns \<noteq> [] then flattenNamespaceToolName sha ns name else name) arguments) b)"

definition search_arguments :: "json_text \<Rightarrow> raw \<Rightarrow> string" where
  "search_arguments jt r =
     (let arguments = (if rawString r \<noteq> [] then rawString r
            else case r of None \<Rightarrow> [] | Some JNull \<Rightarrow> ''null'' | Some v \<Rightarrow> jt_text jt v)
      in if arguments = [] \<or> arguments = ''null'' then ''{}'' else arguments)"

definition build_search_call :: "json_text \<Rightarrow> (string \<times> json) list \<Rightarrow> ChatBuild \<Rightarrow> ChatBuild" where
  "build_search_call jt item =
     build_call (function_call_of (rawString (map_of item ''call_id'')) toolSearchProxyName (search_arguments jt (map_of item ''arguments'')))"

definition build_custom_call :: "json_text \<Rightarrow> (string \<times> json) list \<Rightarrow> ChatBuild \<Rightarrow> ChatBuild" where
  "build_custom_call jt item =
     build_call (function_call_of (rawString (map_of item ''call_id'')) (rawString (map_of item ''name''))
       (jt_text jt (JObj [(''input'', JStr (rawString (map_of item ''input'')))])))"

text \<open>The text of an output that has no images: a string, or the text of another value.\<close>

definition output_text_of :: "json_text \<Rightarrow> raw \<Rightarrow> string" where
  "output_text_of jt r =
     (if rawString r \<noteq> [] then rawString r
      else case r of None \<Rightarrow> [] | Some v \<Rightarrow> if v \<in> {JNull, JStr []} then [] else jt_text jt v)"

definition build_output :: "json_text \<Rightarrow> (string \<times> json) list \<Rightarrow> ChatBuild \<Rightarrow> ChatBuild" where
  "build_output jt item b =
     (let output = map_of item ''output'';
          outputRaw = (if rawString (map_of item ''type'') = ''tool_search_output'' \<and> output \<in> {None, Some JNull}
            then map_of item ''tools'' else output);
          callID = rawString (map_of item ''call_id'')
      in if callID = [] \<and> bd_invalidEmptyFunctionCallOutputs b > 0 then
           b\<lparr>bd_invalidEmptyFunctionCallOutputs := bd_invalidEmptyFunctionCallOutputs b - 1, bd_pendingReasoning := []\<rparr>
         else if callID \<in> set (bd_invalidFunctionCallIDs b) then b\<lparr>bd_pendingReasoning := []\<rparr>
         else
           let media0 = AList.delete callID (bd_mediaByCallID b)
           in case extractToolOutputMedia jt outputRaw of
                Some (outputText, media) \<Rightarrow>
                  b\<lparr>bd_messages := bd_messages b @ [tool_reply callID outputText], bd_pendingReasoning := [],
                    bd_mediaByCallID := (if callID \<noteq> [] then AList.update callID media media0 else media0)\<rparr>
              | None \<Rightarrow>
                  b\<lparr>bd_messages := bd_messages b @ [tool_reply callID (output_text_of jt outputRaw)], bd_pendingReasoning := [],
                    bd_mediaByCallID := media0\<rparr>)"

definition build_agent_message :: "(string \<times> json) list \<Rightarrow> ChatBuild \<Rightarrow> ChatBuild" where
  "build_agent_message item b =
     (let t = agentMessageText (map_of item ''content'')
      in if t = [] then b\<lparr>bd_pendingReasoning := []\<rparr> else build_user (JStr t) b)"

definition build_message :: "(string \<times> json) list \<Rightarrow> ChatBuild \<Rightarrow> ChatBuild" where
  "build_message item b =
     (let role = chatCompletionsBridgeRole (rawString (map_of item ''role''));
          t = rawString (map_of item ''text'');
          content = (if map_of item ''content'' = None \<and> t \<noteq> [] then Some (JStr t) else map_of item ''content'');
          msg = chat_message_of role (Some (responsesContentToChatContent content role))
      in if role = ''assistant'' then
           b\<lparr>bd_messages := bd_messages b @ [msg\<lparr>qm_ReasoningContent := reasoningForAssistant b\<rparr>], bd_pendingReasoning := []\<rparr>
         else b\<lparr>bd_messages := bd_messages b @ [msg], bd_pendingReasoning := [], bd_lastTurnReasoning := []\<rparr>)"

text \<open>One iteration: \<open>None\<close> is the error of an item that is neither an object nor a string.\<close>

definition build_object :: "(string \<Rightarrow> string) \<Rightarrow> json_text \<Rightarrow> (string \<Rightarrow> string) option \<Rightarrow> (string \<times> json) list \<Rightarrow> ChatBuild \<Rightarrow> ChatBuild" where
  "build_object sha jt cache item b =
     (let itemType = rawString (map_of item ''type'')
      in if itemType = ''reasoning'' then build_reasoning cache item b
         else if itemType = ''function_call'' then build_function_call sha jt item b
         else if itemType = ''tool_search_call'' then build_search_call jt item b
         else if itemType = ''custom_tool_call'' then build_custom_call jt item b
         else if itemType \<in> {''function_call_output'', ''custom_tool_call_output'', ''tool_search_output''} then build_output jt item b
         else if itemType = ''agent_message'' then build_agent_message item b
         else if itemType \<in> {''input_text'', ''text''} then build_user (JStr (rawString (map_of item ''text''))) b
         else if itemType = ''input_image'' then build_user (chatContentFromSingleResponsesPart itemType item) b
         else if itemType \<noteq> [] \<and> itemType \<noteq> ''message'' then b\<lparr>bd_pendingReasoning := []\<rparr>
         else build_message item b)"

definition build_item :: "(string \<Rightarrow> string) \<Rightarrow> json_text \<Rightarrow> (string \<Rightarrow> string) option \<Rightarrow> json \<Rightarrow> ChatBuild \<Rightarrow> ChatBuild option" where
  "build_item sha jt cache r b =
     (case r of
        JNull \<Rightarrow> Some b
      | JObj kvs \<Rightarrow> Some (build_object sha jt cache (AList.clearjunk (rev kvs)) b)
      | JStr t \<Rightarrow> Some (build_user (JStr t) b)
      | _ \<Rightarrow> None)"

fun buildChatMessagesFromItems ::
    "(string \<Rightarrow> string) \<Rightarrow> json_text \<Rightarrow> (string \<Rightarrow> string) option \<Rightarrow> json list \<Rightarrow> ChatBuild \<Rightarrow> ChatBuild option" where
  "buildChatMessagesFromItems sha jt cache [] b = Some b"
| "buildChatMessagesFromItems sha jt cache (r # rs) b =
     (case build_item sha jt cache r b of None \<Rightarrow> None | Some b' \<Rightarrow> buildChatMessagesFromItems sha jt cache rs b')"

subsection \<open>The normalisation\<close>

definition isBlankChatContent :: "raw \<Rightarrow> bool" where
  "isBlankChatContent r \<longleftrightarrow> r \<in> {None, Some JNull, Some (JStr [])} \<or> chatMessageContentText r = []"

text \<open>The replies by the call they answer, the last one counts.\<close>

definition reply_index :: "ChatRequestMessage list \<Rightarrow> string \<Rightarrow> ChatRequestMessage option" where
  "reply_index messages = map_of (rev (map (\<lambda>m. (qm_ToolCallID m, m))
     (filter (\<lambda>m. qm_Role m = ''tool'' \<and> qm_ToolCallID m \<noteq> []) messages)))"

definition media_parts :: "(string \<Rightarrow> ChatContentPart list option) \<Rightarrow> ChatToolCall list \<Rightarrow> ChatContentPart list" where
  "media_parts media kept = concat (map (\<lambda>tc. case media (tc_ID tc) of
       None \<Rightarrow> []
     | Some ps \<Rightarrow> if ps = [] then [] else text_part (toolOutputMediaAttribution (tc_ID tc)) # ps) kept)"

definition answered_calls :: "(string \<Rightarrow> ChatRequestMessage option) \<Rightarrow> ChatToolCall list \<Rightarrow> ChatToolCall list" where
  "answered_calls replies calls = filter (\<lambda>tc. tc_ID tc \<noteq> [] \<and> replies (tc_ID tc) \<noteq> None) calls"

definition normalize_message ::
    "(string \<Rightarrow> ChatRequestMessage option) \<Rightarrow> (string \<Rightarrow> ChatContentPart list option) \<Rightarrow> ChatRequestMessage \<Rightarrow> ChatRequestMessage list" where
  "normalize_message replies media m =
     (if qm_Role m = ''tool'' then (if qm_ToolCallID m = [] then [m] else [])
      else if qm_ToolCalls m \<noteq> [] then
        (let kept = answered_calls replies (qm_ToolCalls m);
             mediaParts = media_parts media kept
         in if kept = [] then (if isBlankChatContent (qm_Content m) then [] else [m\<lparr>qm_ToolCalls := []\<rparr>])
            else m\<lparr>qm_ToolCalls := kept\<rparr> # map (\<lambda>tc. the (replies (tc_ID tc))) kept @
              (if mediaParts \<noteq> [] then [chat_message_of ''user'' (Some (JArr (map enc_chat_part mediaParts)))] else []))
      else [m])"

definition normalizeChatMessagesWithToolOutputMedia ::
    "ChatRequestMessage list \<Rightarrow> (string \<Rightarrow> ChatContentPart list option) \<Rightarrow> ChatRequestMessage list" where
  "normalizeChatMessagesWithToolOutputMedia messages media =
     concat (map (normalize_message (reply_index messages) media) messages)"

definition normalizeChatMessages :: "ChatRequestMessage list \<Rightarrow> ChatRequestMessage list" where
  "normalizeChatMessages messages = normalizeChatMessagesWithToolOutputMedia messages Map.empty"

definition responsesInputToChatMessagesWithOptions ::
    "(string \<Rightarrow> string) \<Rightarrow> json_text \<Rightarrow> string \<Rightarrow> raw \<Rightarrow> (string \<Rightarrow> string) option \<Rightarrow> ChatRequestMessage list option" where
  "responsesInputToChatMessagesWithOptions sha jt instructions input cache =
     (let messages = (if go_TrimSpace instructions \<noteq> [] then [chat_message_of ''system'' (Some (JStr instructions))] else [])
      in case input of
           None \<Rightarrow> Some messages
         | Some JNull \<Rightarrow> Some messages
         | Some (JStr t) \<Rightarrow> Some (messages @ [user_text t])
         | Some (JArr rawItems) \<Rightarrow>
             map_option (\<lambda>b. normalizeChatMessagesWithToolOutputMedia (bd_messages b) (map_of (bd_mediaByCallID b)))
               (buildChatMessagesFromItems sha jt cache rawItems (start_build messages))
         | _ \<Rightarrow> None)"

subsection \<open>Anthropic messages, directly: apicompat/chatcompletions\_anthropic\_bridge.go\<close>

definition joinResponsesContentPartText :: "ResponsesContentPart list \<Rightarrow> string" where
  "joinResponsesContentPartText parts =
     go_Join (map cp_Text (filter (\<lambda>p. cp_Type p = ''input_text'' \<and> cp_Text p \<noteq> []) parts)) [CHR 0x0A, CHR 0x0A]"

text \<open>The parts of a user message: texts and images, in their order.\<close>

definition chat_user_parts :: "RequestBlock list \<Rightarrow> ChatContentPart list" where
  "chat_user_parts blocks = concat (map (\<lambda>b.
     if rb_Type b = ''text'' then (if rb_Text b \<noteq> [] then [text_part (rb_Text b)] else [])
     else if rb_Type b = ''image'' then
       (let uri = anthropicImageToDataURI (rb_Source b) in if uri \<noteq> [] then [toolOutputImagePart uri] else [])
     else []) blocks)"

definition result_images :: "RequestBlock list \<Rightarrow> ChatContentPart list" where
  "result_images blocks = map (\<lambda>ip. toolOutputImagePart (cp_ImageURL ip)) (concat (map (\<lambda>b. snd (convertToolResultOutput b)) (tool_results blocks)))"

definition anthropicUserToChatMessages :: "raw \<Rightarrow> ChatRequestMessage list option" where
  "anthropicUserToChatMessages r =
     (case raw_string r of
        Some s \<Rightarrow> Some [user_text s]
      | None \<Rightarrow>
          (case raw_list dec_block r of
             None \<Rightarrow> None
           | Some blocks \<Rightarrow>
               let out = map (\<lambda>b. tool_reply (rb_ToolUseID b) (fst (convertToolResultOutput b))) (tool_results blocks);
                   images = result_images blocks;
                   parts = chat_user_parts blocks @ images;
                   hasImage = list_ex (\<lambda>p. pt_Type p \<noteq> ''text'') (chat_user_parts blocks) \<or> images \<noteq> []
               in Some (out @
                    (if \<not> hasImage then
                       (if block_texts blocks \<noteq> [] then [user_text (go_Join (block_texts blocks) [CHR 0x0A, CHR 0x0A])] else [])
                     else [chat_message_of ''user'' (Some (JArr (map enc_chat_part parts)))]))))"

definition anthropicThinkingToReasoningContent :: "RequestBlock list \<Rightarrow> bool \<Rightarrow> string" where
  "anthropicThinkingToReasoningContent blocks hasToolCalls =
     (if \<not> hasToolCalls then []
      else go_Join (map rb_Thinking (filter (\<lambda>b. rb_Type b = ''thinking'' \<and> rb_Thinking b \<noteq> []) blocks)) [CHR 0x0A])"

definition tool_use_calls :: "json_text \<Rightarrow> RequestBlock list \<Rightarrow> ChatToolCall list" where
  "tool_use_calls jt blocks =
     map (\<lambda>b. function_call_of (rb_ID b) (rb_Name b) (tool_use_args jt b)) (filter (\<lambda>b. rb_Type b = ''tool_use'') blocks)"

definition anthropicAssistantToChatMessages :: "json_text \<Rightarrow> raw \<Rightarrow> ChatRequestMessage list option" where
  "anthropicAssistantToChatMessages jt r =
     (case raw_string r of
        Some s \<Rightarrow> Some [chat_message_of ''assistant'' (Some (JStr s))]
      | None \<Rightarrow>
          (case raw_list dec_block r of
             None \<Rightarrow> None
           | Some blocks \<Rightarrow>
               let t = extractAnthropicTextFromBlocks blocks; calls = tool_use_calls jt blocks
               in Some [(chat_message_of ''assistant'' (if t \<noteq> [] then Some (JStr t) else None))\<lparr>qm_ToolCalls := calls,
                    qm_ReasoningContent := anthropicThinkingToReasoningContent blocks (calls \<noteq> [])\<rparr>]))"

definition anthropicMsgToChatMessages :: "json_text \<Rightarrow> AnthropicMessage \<Rightarrow> ChatRequestMessage list option" where
  "anthropicMsgToChatMessages jt m =
     (if am_Role m = ''assistant'' then anthropicAssistantToChatMessages jt (am_Content m) else anthropicUserToChatMessages (am_Content m))"

definition system_messages :: "raw \<Rightarrow> ChatRequestMessage list option" where
  "system_messages system =
     (if system = None then Some []
      else case parseAnthropicSystemContentParts system of
        None \<Rightarrow> None
      | Some sysParts \<Rightarrow>
          let t = joinResponsesContentPartText sysParts
          in Some (if sysParts \<noteq> [] \<and> t \<noteq> [] then [chat_message_of ''system'' (Some (JStr t))] else []))"

definition anthropicToChatMessages :: "json_text \<Rightarrow> raw \<Rightarrow> AnthropicMessage list \<Rightarrow> ChatRequestMessage list option" where
  "anthropicToChatMessages jt system msgs =
     (case system_messages system of
        None \<Rightarrow> None
      | Some sys \<Rightarrow>
          (case those (map (anthropicMsgToChatMessages jt) msgs) of
             None \<Rightarrow> None
           | Some converted \<Rightarrow> Some (normalizeChatMessages (sys @ concat converted))))"

end
