(* ===== verification/Chat_Tools.thy ===== *)
theory Chat_Tools
  imports Chat_Messages
begin

section \<open>Tools for Chat Completions upstreams: apicompat/chatcompletions\_responses\_bridge.go\<close>

text \<open>
  The tools of a Responses request: those it declares at the top, those of \<open>additional_tools\<close> items and
  those that a tool search of the client has found (\<open>responses_tool_search_discoveries.go\<close>); their lowering
  to function tools with the flattened names of namespaces, and the two conversions of whole requests.
  \<open>number\<close> is the literal that is written for the \<open>float64\<close> of a literal.
\<close>

subsection \<open>Tools in JSON\<close>

definition dec_bool_pointer :: "json \<Rightarrow> bool option option" where
  "dec_bool_pointer v = (case v of JBool b \<Rightarrow> Some (Some b) | JNull \<Rightarrow> Some None | _ \<Rightarrow> None)"

definition dec_strings :: "json \<Rightarrow> string list option" where
  "dec_strings = dec_list (\<lambda>v. dec_string v [])"

definition set_declaration :: "string \<Rightarrow> json \<Rightarrow> 'a ToolDeclaration_scheme \<Rightarrow> 'a ToolDeclaration_scheme option" where
  "set_declaration k v t =
     (if k = ''TYPE'' then map_option (\<lambda>s. t\<lparr>rt_Type := s\<rparr>) (dec_string v (rt_Type t))
      else if k = ''NAME'' then map_option (\<lambda>s. t\<lparr>rt_Name := s\<rparr>) (dec_string v (rt_Name t))
      else if k = ''DESCRIPTION'' then map_option (\<lambda>s. t\<lparr>rt_Description := s\<rparr>) (dec_string v (rt_Description t))
      else if k = ''PARAMETERS'' then Some (t\<lparr>rt_Parameters := Some v\<rparr>)
      else if k = ''STRICT'' then map_option (\<lambda>b. t\<lparr>rt_Strict := b\<rparr>) (dec_bool_pointer v)
      else if k = ''ALLOWED_X_HANDLES'' then map_option (\<lambda>l. t\<lparr>rt_AllowedXHandles := l\<rparr>) (dec_strings v)
      else if k = ''EXCLUDED_X_HANDLES'' then map_option (\<lambda>l. t\<lparr>rt_ExcludedXHandles := l\<rparr>) (dec_strings v)
      else if k = ''FROM_DATE'' then map_option (\<lambda>s. t\<lparr>rt_FromDate := s\<rparr>) (dec_string v (rt_FromDate t))
      else if k = ''TO_DATE'' then map_option (\<lambda>s. t\<lparr>rt_ToDate := s\<rparr>) (dec_string v (rt_ToDate t))
      else if k = ''ENABLE_IMAGE_UNDERSTANDING'' then map_option (\<lambda>b. t\<lparr>rt_EnableImageUnderstanding := b\<rparr>) (dec_bool_pointer v)
      else if k = ''ENABLE_VIDEO_UNDERSTANDING'' then map_option (\<lambda>b. t\<lparr>rt_EnableVideoUnderstanding := b\<rparr>) (dec_bool_pointer v)
      else Some t)"

text \<open>\<open>UnmarshalJSON\<close>: a string, like \<open>null\<close>, declares a custom tool.\<close>

definition dec_child :: "json \<Rightarrow> ToolDeclaration option" where
  "dec_child v =
     (case raw_string (Some v) of
        Some name \<Rightarrow> Some (no_declaration\<lparr>rt_Type := ''custom'', rt_Name := name\<rparr>)
      | None \<Rightarrow> dec_struct set_declaration no_declaration v)"

definition set_tool :: "string \<Rightarrow> json \<Rightarrow> ResponsesTool \<Rightarrow> ResponsesTool option" where
  "set_tool k v t =
     (if k = ''TOOLS'' then map_option (\<lambda>l. t\<lparr>rt_Tools := l\<rparr>) (dec_list dec_child v)
      else if k = ''CHILDREN'' then map_option (\<lambda>l. t\<lparr>rt_Children := l\<rparr>) (dec_list dec_child v)
      else set_declaration k v t)"

definition dec_tool :: "json \<Rightarrow> ResponsesTool option" where
  "dec_tool v =
     (case raw_string (Some v) of
        Some name \<Rightarrow> Some (no_tool\<lparr>rt_Type := ''custom'', rt_Name := name\<rparr>)
      | None \<Rightarrow> dec_struct set_tool no_tool v)"

definition omit_nil :: "string \<Rightarrow> json list \<Rightarrow> (string \<times> json) list" where
  "omit_nil k vs = (if vs = [] then [] else [(k, JArr vs)])"

definition declaration_members :: "'a ToolDeclaration_scheme \<Rightarrow> (string \<times> json) list" where
  "declaration_members t = [(''type'', JStr (rt_Type t))] @ omitempty ''name'' (rt_Name t) @ omitempty ''description'' (rt_Description t) @
     omitnone ''parameters'' (rt_Parameters t) @ omitnone ''strict'' (map_option JBool (rt_Strict t)) @
     omit_nil ''allowed_x_handles'' (map JStr (rt_AllowedXHandles t)) @ omit_nil ''excluded_x_handles'' (map JStr (rt_ExcludedXHandles t)) @
     omitempty ''from_date'' (rt_FromDate t) @ omitempty ''to_date'' (rt_ToDate t) @
     omitnone ''enable_image_understanding'' (map_option JBool (rt_EnableImageUnderstanding t)) @
     omitnone ''enable_video_understanding'' (map_option JBool (rt_EnableVideoUnderstanding t))"

definition enc_tool :: "ResponsesTool \<Rightarrow> json" where
  "enc_tool t = JObj (declaration_members t @ omit_nil ''tools'' (map (\<lambda>c. JObj (declaration_members c)) (rt_Tools t)) @
     omit_nil ''children'' (map (\<lambda>c. JObj (declaration_members c)) (rt_Children t)))"

subsection \<open>Discovered tools: responses\_tool\_search\_discoveries.go\<close>

text \<open>
  The values are those of \<open>any\<close>: the members of an object have distinct, sorted names. The identity of a
  tool compares the text of its declaration, that is the value.
\<close>

record responsesDiscoveredToolIdentity =
  di_typ :: string
  di_name :: string
  di_namespace :: string
  di_encoded :: json
  di_ambiguous :: bool

definition customToolInputSchema :: json where
  "customToolInputSchema = JObj [(''type'', JStr ''object''),
     (''properties'', JObj [(''input'', JObj [(''type'', JStr ''string''),
        (''description'', JStr ''The raw input for this tool, passed through verbatim.'')])]),
     (''required'', JArr [JStr ''input''])]"

text \<open>\<open>strings.TrimSpace(stringValue(m[k]))\<close>.\<close>

definition trimmed :: "(string \<times> json) list \<Rightarrow> string \<Rightarrow> string" where
  "trimmed m k = go_TrimSpace (any_string m k)"

definition namespaceChildren :: "(string \<times> json) list \<Rightarrow> json list" where
  "namespaceChildren tool =
     (case map_of tool ''tools'' of
        Some (JArr (c # cs)) \<Rightarrow> c # cs
      | _ \<Rightarrow> (case map_of tool ''children'' of Some (JArr cs) \<Rightarrow> cs | _ \<Rightarrow> []))"

definition responsesDirectToolDiscovery ::
    "(string \<times> json) list \<Rightarrow> string \<Rightarrow> ((string \<times> json) list \<times> responsesDiscoveredToolIdentity) option" where
  "responsesDirectToolDiscovery tool typ =
     (let name = trimmed tool ''name'';
          copy = AList.update ''name'' (JStr name) (AList.update ''type'' (JStr typ) tool);
          identityCopy = (if typ = ''custom'' then
              AList.delete ''format'' (AList.update ''parameters'' customToolInputSchema (AList.update ''type'' (JStr ''function'') copy))
            else copy)
      in if name = [] then None
         else Some (copy, \<lparr>di_typ = typ, di_name = name, di_namespace = [], di_encoded = marshal_map identityCopy, di_ambiguous = False\<rparr>))"

record responsesNamespaceToolCandidate =
  nc_flat :: string
  nc_child :: "(string \<times> json) list"
  nc_identity :: responsesDiscoveredToolIdentity

definition namespace_candidate :: "(string \<Rightarrow> string) \<Rightarrow> string \<Rightarrow> json \<Rightarrow> responsesNamespaceToolCandidate list" where
  "namespace_candidate sha namespace rawChild =
     (case rawChild of
        JObj child \<Rightarrow>
          if trimmed child ''type'' \<noteq> ''function'' then []
          else (case responsesDirectToolDiscovery child ''function'' of
                  None \<Rightarrow> []
                | Some (childCopy, direct) \<Rightarrow>
                    [\<lparr>nc_flat = flattenNamespaceToolName sha namespace (di_name direct), nc_child = childCopy,
                      nc_identity = \<lparr>di_typ = ''namespace'', di_name = di_name direct, di_namespace = namespace,
                        di_encoded = di_encoded direct, di_ambiguous = False\<rparr>\<rparr>])
      | _ \<Rightarrow> [])"

definition responsesNamespaceToolDiscovery ::
    "(string \<Rightarrow> string) \<Rightarrow> (string \<times> json) list \<Rightarrow> ((string \<times> json) list \<times> responsesNamespaceToolCandidate list) option" where
  "responsesNamespaceToolDiscovery sha tool =
     (let namespace = trimmed tool ''name''; children = namespaceChildren tool;
          identities = concat (map (namespace_candidate sha namespace) children)
      in if namespace = [] \<or> identities = [] then None
         else Some (AList.update ''name'' (JStr namespace) (AList.update ''type'' (JStr ''namespace'') tool), identities))"

definition sameResponsesDiscoveredTool :: "responsesDiscoveredToolIdentity \<Rightarrow> responsesDiscoveredToolIdentity \<Rightarrow> bool" where
  "sameResponsesDiscoveredTool left right \<longleftrightarrow>
     di_typ left = di_typ right \<and> di_name left = di_name right \<and> di_namespace left = di_namespace right \<and> di_encoded left = di_encoded right"

type_synonym known_tools = "(string \<times> responsesDiscoveredToolIdentity) list"

definition registerExistingResponsesIdentity :: "string \<Rightarrow> responsesDiscoveredToolIdentity \<Rightarrow> known_tools \<Rightarrow> known_tools" where
  "registerExistingResponsesIdentity key identity known =
     (case map_of known key of
        None \<Rightarrow> AList.update key identity known
      | Some previous \<Rightarrow>
          if sameResponsesDiscoveredTool previous identity then known
          else AList.update key (previous\<lparr>di_ambiguous := True\<rparr>) known)"

definition registerExistingResponsesToolIdentity :: "(string \<Rightarrow> string) \<Rightarrow> json \<Rightarrow> known_tools \<Rightarrow> known_tools" where
  "registerExistingResponsesToolIdentity sha raw known =
     (case raw of
        JObj tool \<Rightarrow>
          (let typ = trimmed tool ''type'' in
           if typ \<in> {''function'', ''custom''} then
             (case responsesDirectToolDiscovery tool typ of
                None \<Rightarrow> known
              | Some (_, identity) \<Rightarrow> registerExistingResponsesIdentity (di_name identity) identity known)
           else if typ = ''namespace'' then
             (case responsesNamespaceToolDiscovery sha tool of
                None \<Rightarrow> known
              | Some (_, identities) \<Rightarrow>
                  fold (\<lambda>c. registerExistingResponsesIdentity (nc_flat c) (nc_identity c)) identities known)
           else known)
      | _ \<Rightarrow> known)"

text \<open>\<open>None\<close> is the error of a conflict; otherwise the tool is new or already known.\<close>

definition admitResponsesDiscoveredTool :: "string \<Rightarrow> responsesDiscoveredToolIdentity \<Rightarrow> known_tools \<Rightarrow> (known_tools \<times> bool) option" where
  "admitResponsesDiscoveredTool key identity known =
     (case map_of known key of
        None \<Rightarrow> Some (AList.update key identity known, True)
      | Some previous \<Rightarrow>
          if \<not> di_ambiguous previous \<and> sameResponsesDiscoveredTool previous identity then Some (known, False) else None)"

fun admit_children :: "responsesNamespaceToolCandidate list \<Rightarrow> known_tools \<Rightarrow> (known_tools \<times> json list) option" where
  "admit_children [] known = Some (known, [])"
| "admit_children (c # cs) known =
     (case admitResponsesDiscoveredTool (nc_flat c) (nc_identity c) known of
        None \<Rightarrow> None
      | Some (known', appendTool) \<Rightarrow>
          map_option (\<lambda>(k, children). (k, if appendTool then JObj (nc_child c) # children else children)) (admit_children cs known'))"

definition promote_discovery :: "(string \<Rightarrow> string) \<Rightarrow> json \<Rightarrow> known_tools \<Rightarrow> (known_tools \<times> json list) option" where
  "promote_discovery sha rawDiscovery known =
     (case rawDiscovery of
        JObj discovery \<Rightarrow>
          (let typ = trimmed discovery ''type'' in
           if typ \<in> {''function'', ''custom''} then
             (case responsesDirectToolDiscovery discovery typ of
                None \<Rightarrow> Some (known, [])
              | Some (copy, identity) \<Rightarrow>
                  map_option (\<lambda>(k, appendTool). (k, if appendTool then [JObj copy] else []))
                    (admitResponsesDiscoveredTool (di_name identity) identity known))
           else if typ = ''namespace'' then
             (case responsesNamespaceToolDiscovery sha discovery of
                None \<Rightarrow> Some (known, [])
              | Some (copy, identities) \<Rightarrow>
                  map_option (\<lambda>(k, children). (k, if children = [] then []
                      else [JObj (AList.delete ''children'' (AList.update ''tools'' (JArr children) copy))]))
                    (admit_children identities known))
           else Some (known, []))
      | _ \<Rightarrow> Some (known, []))"

fun promote_all :: "(string \<Rightarrow> string) \<Rightarrow> json list \<Rightarrow> known_tools \<Rightarrow> (known_tools \<times> json list) option" where
  "promote_all sha [] known = Some (known, [])"
| "promote_all sha (d # ds) known =
     (case promote_discovery sha d known of
        None \<Rightarrow> None
      | Some (known', ps) \<Rightarrow> map_option (\<lambda>(k, qs). (k, ps @ qs)) (promote_all sha ds known'))"

definition hasResponsesToolSearchDeclaration :: "json list \<Rightarrow> bool" where
  "hasResponsesToolSearchDeclaration tools \<longleftrightarrow>
     list_ex (\<lambda>raw. case raw of JObj tool \<Rightarrow> trimmed tool ''type'' = ''tool_search'' | _ \<Rightarrow> False) tools"

definition usableResponsesToolSearchOutput :: "(string \<times> json) list \<Rightarrow> bool" where
  "usableResponsesToolSearchOutput item \<longleftrightarrow>
     (case map_of item ''status'' of
        None \<Rightarrow> True
      | Some (JStr t) \<Rightarrow> go_TrimSpace t = ''completed''
      | Some _ \<Rightarrow> False)"

definition item_discoveries :: "json \<Rightarrow> json list" where
  "item_discoveries rawItem =
     (case rawItem of
        JObj item \<Rightarrow>
          if trimmed item ''type'' = ''tool_search_output'' \<and> usableResponsesToolSearchOutput item then
            (case map_of item ''tools'' of Some (JArr ds) \<Rightarrow> ds | _ \<Rightarrow> [])
          else []
      | _ \<Rightarrow> [])"

definition promotedResponsesToolSearchDiscoveries :: "(string \<Rightarrow> string) \<Rightarrow> json list \<Rightarrow> json list \<Rightarrow> json list option" where
  "promotedResponsesToolSearchDiscoveries sha tools input =
     (if \<not> hasResponsesToolSearchDeclaration tools then Some []
      else map_option snd (promote_all sha (concat (map item_discoveries input))
        (fold (registerExistingResponsesToolIdentity sha) tools [])))"

subsection \<open>The effective tools\<close>

definition set_type :: "string \<Rightarrow> json \<Rightarrow> string \<Rightarrow> string option" where
  "set_type k v t = (if k = ''TYPE'' then dec_string v t else Some t)"

definition set_tools :: "string \<Rightarrow> json \<Rightarrow> ResponsesTool list \<Rightarrow> ResponsesTool list option" where
  "set_tools k v ts = (if k = ''TOOLS'' then dec_list dec_tool v else Some ts)"

definition additional_tools :: "json \<Rightarrow> ResponsesTool list option" where
  "additional_tools item =
     (case item of
        JObj kvs \<Rightarrow>
          (case dec_struct set_type [] item of
             None \<Rightarrow> None
           | Some t \<Rightarrow> if t = ''additional_tools'' then dec_struct set_tools [] item else Some [])
      | _ \<Rightarrow> Some [])"

definition EffectiveResponsesTools :: "(string \<Rightarrow> string) \<Rightarrow> (string \<Rightarrow> string) \<Rightarrow> ResponsesRequest \<Rightarrow> ResponsesTool list option" where
  "EffectiveResponsesTools sha number req =
     (case rq_Input req of
        Some (JArr items) \<Rightarrow>
          (case those (map additional_tools items) of
             None \<Rightarrow> None
           | Some additional \<Rightarrow>
               let tools = rq_Tools req @ concat additional
               in case promotedResponsesToolSearchDiscoveries sha (map (\<lambda>t. any_value number (enc_tool t)) tools) (map (any_value number) items) of
                    None \<Rightarrow> None
                  | Some promoted \<Rightarrow> map_option (\<lambda>discovered. tools @ discovered) (those (map dec_tool promoted)))
      | _ \<Rightarrow> Some (rq_Tools req))"

subsection \<open>Lowering to function tools\<close>

definition no_chat_tool :: ChatTool where
  "no_chat_tool = \<lparr>ct_Type = [], ct_Function = None, ct_AllowedXHandles = [], ct_ExcludedXHandles = [], ct_FromDate = [], ct_ToDate = [],
     ct_EnableImageUnderstanding = None, ct_EnableVideoUnderstanding = None\<rparr>"

definition chat_function_tool :: "string \<Rightarrow> string \<Rightarrow> raw \<Rightarrow> bool option \<Rightarrow> ChatTool" where
  "chat_function_tool name description parameters strict = no_chat_tool\<lparr>ct_Type := ''function'',
     ct_Function := Some \<lparr>fn_Name = name, fn_Description = description, fn_Parameters = parameters, fn_Strict = strict\<rparr>\<rparr>"

definition toolSearchProxySchema :: json where
  "toolSearchProxySchema = JObj [(''type'', JStr ''object''),
     (''properties'', JObj
        [(''query'', JObj [(''type'', JStr ''string''), (''description'', JStr ''Search query for tools or connectors to load.'')]),
         (''limit'', JObj [(''type'', JStr ''integer''), (''description'', JStr ''Maximum number of tool groups to return.'')])]),
     (''required'', JArr [JStr ''query''])]"

definition toolSearchProxyChatTool :: ChatTool where
  "toolSearchProxyChatTool = chat_function_tool toolSearchProxyName
     ''Search and load Codex tools, plugins, connectors, and MCP namespaces for the current task.'' (Some toolSearchProxySchema) None"

datatype tool_error =
    Duplicate_Top_Level string
  | Search_Conflict
  | Namespace_Top_Level string string string
  | Namespaces_Collide NamespacedToolName NamespacedToolName string

definition top_level_names :: "ResponsesTool list \<Rightarrow> string list" where
  "top_level_names tools = map rt_Name (filter (\<lambda>t. rt_Type t \<in> {''function'', ''custom''} \<and> rt_Name t \<noteq> []) tools)"

text \<open>The first name that has come before.\<close>

fun first_duplicate :: "string list \<Rightarrow> string list \<Rightarrow> string option" where
  "first_duplicate seen [] = None"
| "first_duplicate seen (n # ns) = (if n \<in> set seen then Some n else first_duplicate (n # seen) ns)"

definition namespace_children :: "ResponsesTool \<Rightarrow> ToolDeclaration list" where
  "namespace_children tool = filter (\<lambda>c. rt_Type c = ''function'' \<and> rt_Name c \<noteq> [])
     (if rt_Tools tool = [] then rt_Children tool else rt_Tools tool)"

type_synonym flat_owners = "(string \<times> NamespacedToolName) list"

fun lower_children :: "(string \<Rightarrow> string) \<Rightarrow> string list \<Rightarrow> string \<Rightarrow> ToolDeclaration list \<Rightarrow> flat_owners \<Rightarrow> tool_error + flat_owners \<times> ChatTool list" where
  "lower_children sha topLevel ns [] flatOwner = Inr (flatOwner, [])"
| "lower_children sha topLevel ns (c # cs) flatOwner =
     (let flat = flattenNamespaceToolName sha ns (rt_Name c); entry = \<lparr>nt_Namespace = ns, nt_Name = rt_Name c\<rparr>
      in if flat \<in> set topLevel then Inl (Namespace_Top_Level ns (rt_Name c) flat)
         else case map_of flatOwner flat of
           Some prev \<Rightarrow>
             if prev = entry then lower_children sha topLevel ns cs flatOwner else Inl (Namespaces_Collide prev entry flat)
         | None \<Rightarrow>
             (case lower_children sha topLevel ns cs (AList.update flat entry flatOwner) of
                Inl e \<Rightarrow> Inl e
              | Inr (owners, out) \<Rightarrow> Inr (owners, chat_function_tool flat (rt_Description c) (rt_Parameters c) (rt_Strict c) # out)))"

definition namespaceChildrenToChatTools ::
    "(string \<Rightarrow> string) \<Rightarrow> ResponsesTool \<Rightarrow> string list \<Rightarrow> flat_owners \<Rightarrow> tool_error + flat_owners \<times> ChatTool list" where
  "namespaceChildrenToChatTools sha tool topLevel flatOwner =
     (if rt_Name tool = [] then Inr (flatOwner, []) else lower_children sha topLevel (rt_Name tool) (namespace_children tool) flatOwner)"

definition x_search_tool :: "ResponsesTool \<Rightarrow> ChatTool" where
  "x_search_tool t = no_chat_tool\<lparr>ct_Type := ''x_search'', ct_AllowedXHandles := rt_AllowedXHandles t, ct_ExcludedXHandles := rt_ExcludedXHandles t,
     ct_FromDate := rt_FromDate t, ct_ToDate := rt_ToDate t, ct_EnableImageUnderstanding := rt_EnableImageUnderstanding t,
     ct_EnableVideoUnderstanding := rt_EnableVideoUnderstanding t\<rparr>"

text \<open>The loop: \<open>declared\<close> tells whether the tool search has been declared already.\<close>

fun lower_tools :: "(string \<Rightarrow> string) \<Rightarrow> string list \<Rightarrow> ResponsesTool list \<Rightarrow> flat_owners \<Rightarrow> bool \<Rightarrow> tool_error + ChatTool list" where
  "lower_tools sha topLevel [] flatOwner declared = Inr []"
| "lower_tools sha topLevel (t # ts) flatOwner declared =
     (if rt_Type t = ''function'' then
        map_sum id ((#) (chat_function_tool (rt_Name t) (rt_Description t) (rt_Parameters t) (rt_Strict t))) (lower_tools sha topLevel ts flatOwner declared)
      else if rt_Type t = ''custom'' then
        map_sum id ((#) (chat_function_tool (rt_Name t) (rt_Description t) (Some customToolInputSchema) None)) (lower_tools sha topLevel ts flatOwner declared)
      else if rt_Type t = ''tool_search'' then
        (if toolSearchProxyName \<in> set topLevel then Inl Search_Conflict
         else if declared then lower_tools sha topLevel ts flatOwner declared
         else map_sum id ((#) toolSearchProxyChatTool) (lower_tools sha topLevel ts flatOwner True))
      else if rt_Type t = ''namespace'' then
        (case namespaceChildrenToChatTools sha t topLevel flatOwner of
           Inl e \<Rightarrow> Inl e
         | Inr (owners, flattened) \<Rightarrow> map_sum id ((@) flattened) (lower_tools sha topLevel ts owners declared))
      else if rt_Type t = ''x_search'' then
        map_sum id ((#) (x_search_tool t)) (lower_tools sha topLevel ts flatOwner declared)
      else lower_tools sha topLevel ts flatOwner declared)"

definition responsesToolsToChatTools :: "(string \<Rightarrow> string) \<Rightarrow> ResponsesTool list \<Rightarrow> tool_error + ChatTool list" where
  "responsesToolsToChatTools sha tools =
     (case first_duplicate [] (top_level_names tools) of
        Some name \<Rightarrow> Inl (Duplicate_Top_Level name)
      | None \<Rightarrow> lower_tools sha (top_level_names tools) tools [] False)"

text \<open>The map for the way back; of two entries with one name the later counts.\<close>

definition NamespaceToolNames :: "(string \<Rightarrow> string) \<Rightarrow> ResponsesTool list \<Rightarrow> (string \<times> NamespacedToolName) list" where
  "NamespaceToolNames sha tools = rev (concat (map (\<lambda>t. if rt_Type t \<noteq> ''namespace'' \<or> rt_Name t = [] then []
     else map (\<lambda>c. (flattenNamespaceToolName sha (rt_Name t) (rt_Name c), \<lparr>nt_Namespace = rt_Name t, nt_Name = rt_Name c\<rparr>)) (namespace_children t)) tools))"

definition tool_kinds_of :: "(string \<Rightarrow> string) \<Rightarrow> ResponsesTool list \<Rightarrow> ChatToolKinds" where
  "tool_kinds_of sha tools = \<lparr>tk_Custom = CustomToolNames tools, tk_Function = FunctionToolNames tools,
     tk_ToolSearch = HasToolSearchTool tools, tk_Namespace = NamespaceToolNames sha tools\<rparr>"

subsection \<open>The choice of a tool\<close>

definition function_choice :: "string \<Rightarrow> json" where
  "function_choice name = JObj [(''function'', JObj [(''name'', JStr name)]), (''type'', JStr ''function'')]"

definition responsesToolChoiceToChatToolChoice :: "json \<Rightarrow> string list \<Rightarrow> raw" where
  "responsesToolChoiceToChatToolChoice v declared =
     (case raw_object v of
        None \<Rightarrow> Some v
      | Some choice \<Rightarrow>
          (let typ = rawString (map_of choice ''type'');
               name0 = rawString (map_of choice ''name'');
               name = (if name0 = [] then rawNestedString (map_of choice ''function'') ''name'' else name0)
           in if typ = ''x_search'' then (if ''x_search'' \<in> set declared then Some (JObj [(''type'', JStr ''x_search'')]) else None)
              else if typ = ''tool_search'' then
                (if toolSearchProxyName \<in> set declared then Some (function_choice toolSearchProxyName) else None)
              else if typ \<in> {''function'', ''custom''} then
                (if name = [] then Some v else if name \<in> set declared then Some (function_choice name) else None)
              else None))"

definition function_names :: "ChatTool list \<Rightarrow> string list" where
  "function_names tools = concat (map (\<lambda>t. case ct_Function t of None \<Rightarrow> [] | Some f \<Rightarrow> [fn_Name f]) tools)"

definition declared_names :: "ChatTool list \<Rightarrow> string list" where
  "declared_names tools = function_names tools @
     (if list_ex (\<lambda>t. go_EqualFold (go_TrimSpace (ct_Type t)) ''x_search'') tools then [''x_search''] else [])"

definition responsesTextFormatToChatResponseFormat :: "raw \<Rightarrow> raw" where
  "responsesTextFormatToChatResponseFormat r =
     (case normalizedRawJSON r of
        None \<Rightarrow> None
      | Some v \<Rightarrow>
          (case raw_object v of
             None \<Rightarrow> Some v
           | Some obj \<Rightarrow>
               let schema = filter (\<lambda>kv. fst kv \<noteq> ''type'') obj
               in if rawString (map_of obj ''type'') \<noteq> ''json_schema'' \<or> map_of obj ''json_schema'' \<noteq> None \<or> schema = [] then Some v
                  else Some (marshal_map [(''type'', JStr ''json_schema''), (''json_schema'', marshal_map schema)])))"

subsection \<open>The requests\<close>

definition ResponsesToChatCompletionsRequestWithOptions ::
    "(string \<Rightarrow> string) \<Rightarrow> json_text \<Rightarrow> (string \<Rightarrow> string) \<Rightarrow> (string \<Rightarrow> string) option \<Rightarrow> ResponsesRequest \<Rightarrow> ChatCompletionsRequest option" where
  "ResponsesToChatCompletionsRequestWithOptions sha jt number cache req =
     (case responsesInputToChatMessagesWithOptions sha jt (rq_Instructions req) (rq_Input req) cache of
        None \<Rightarrow> None
      | Some messages \<Rightarrow>
          (case EffectiveResponsesTools sha number req of
             None \<Rightarrow> None
           | Some effectiveTools \<Rightarrow>
               (case responsesToolsToChatTools sha effectiveTools of
                  Inl e \<Rightarrow> None
                | Inr tools \<Rightarrow>
                    Some \<lparr>cq_Model = rq_Model req, cq_Messages = messages, cq_Instructions = [], cq_MaxTokens = None,
                      cq_MaxCompletionTokens = rq_MaxOutputTokens req, cq_Temperature = rq_Temperature req, cq_TopP = rq_TopP req,
                      cq_Stream = rq_Stream req, cq_Tools = tools, cq_ParallelToolCalls = rq_ParallelToolCalls req,
                      cq_ToolChoice = (if tools \<noteq> [] then Option.bind (rq_ToolChoice req) (\<lambda>v. responsesToolChoiceToChatToolChoice v (declared_names tools)) else None),
                      cq_ReasoningEffort = (case rq_Reasoning req of None \<Rightarrow> [] | Some r \<Rightarrow> rg_Effort r),
                      cq_ServiceTier = rq_ServiceTier req,
                      cq_ResponseFormat = (case rq_Text req of None \<Rightarrow> None | Some t \<Rightarrow> responsesTextFormatToChatResponseFormat (tx_Format t)),
                      cq_Functions = [], cq_FunctionCall = None\<rparr>)))"

definition anthropicToolsToChatTools :: "AnthropicTool list \<Rightarrow> ChatTool list" where
  "anthropicToolsToChatTools tools =
     map (\<lambda>t. chat_function_tool (an_Name t) (an_Description t) (normalizeToolParameters (an_InputSchema t)) (Some False))
       (filter (\<lambda>t. \<not> go_HasPrefix (an_Type t) ''web_search'') tools)"

text \<open>\<open>None\<close> is the error, \<open>Some None\<close> a choice that is dropped.\<close>

definition convertAnthropicToolChoiceToChat :: "json \<Rightarrow> string list \<Rightarrow> raw option" where
  "convertAnthropicToolChoiceToChat v declared =
     (case dec_struct set_tool_choice ([], []) v of
        None \<Rightarrow> None
      | Some (typ, name) \<Rightarrow>
          Some (if typ = ''auto'' then Some (JStr ''auto'')
                else if typ = ''any'' then Some (JStr ''required'')
                else if typ = ''none'' then Some (JStr ''none'')
                else if typ = ''tool'' then (if name = [] \<or> name \<notin> set declared then None else Some (function_choice name))
                else None))"

definition AnthropicToChatCompletionsRequest :: "json_text \<Rightarrow> AnthropicRequest \<Rightarrow> ChatCompletionsRequest option" where
  "AnthropicToChatCompletionsRequest jt req =
     (case anthropicToChatMessages jt (aq_System req) (aq_Messages req) of
        None \<Rightarrow> None
      | Some messages \<Rightarrow>
          let tools = anthropicToolsToChatTools (aq_Tools req);
              effort = (case aq_OutputConfig req of None \<Rightarrow> ''medium'' | Some e \<Rightarrow> if e \<noteq> [] then e else ''medium'')
          in case (case aq_ToolChoice req of
                     None \<Rightarrow> Some None
                   | Some v \<Rightarrow> if tools = [] then Some None else convertAnthropicToolChoiceToChat v (function_names tools)) of
               None \<Rightarrow> None
             | Some choice \<Rightarrow>
                 Some \<lparr>cq_Model = aq_Model req, cq_Messages = messages, cq_Instructions = [], cq_MaxTokens = None,
                   cq_MaxCompletionTokens = clamp_max_output (aq_MaxTokens req),
                   cq_Temperature = (if isReasoningModel (aq_Model req) then None else aq_Temperature req),
                   cq_TopP = (if isReasoningModel (aq_Model req) then None else aq_TopP req),
                   cq_Stream = aq_Stream req, cq_Tools = tools, cq_ParallelToolCalls = Some True, cq_ToolChoice = choice,
                   cq_ReasoningEffort = mapAnthropicEffortToResponses effort, cq_ServiceTier = [], cq_ResponseFormat = None,
                   cq_Functions = [], cq_FunctionCall = None\<rparr>)"

end
