(* ===== verification/Chat_Requests_Correct.thy ===== *)
theory Chat_Requests_Correct
  imports Chat_Tools
begin

section \<open>Requests to Chat Completions upstreams: properties\<close>

text \<open>
  The history that is sent (its shape, what it keeps, the arguments of its calls), the agreement of the direct
  conversion of Anthropic messages with the one over Responses items, and the names of tools, which the answer
  of the upstream must bring back to their namespaces.
\<close>

subsection \<open>Every call is answered behind it\<close>

text \<open>
  What DeepSeek and OpenAI ask of a history: behind a message with calls come the replies, one for each call
  in its order; a reply elsewhere answers no call by name.
\<close>

function replies_follow :: "ChatRequestMessage list \<Rightarrow> bool" where
  "replies_follow [] = True"
| "replies_follow (m # ms) =
     (if qm_Role m = ''tool'' then qm_ToolCallID m = [] \<and> replies_follow ms
      else if qm_ToolCalls m = [] then replies_follow ms
      else let n = length (qm_ToolCalls m) in
        map qm_ToolCallID (take n ms) = map tc_ID (qm_ToolCalls m) \<and> list_all (\<lambda>r. qm_Role r = ''tool'') (take n ms) \<and>
        list_all (\<lambda>tc. tc_ID tc \<noteq> []) (qm_ToolCalls m) \<and> replies_follow (drop n ms))"
  by pat_completeness auto
termination by (relation "measure length") auto

declare replies_follow.simps(2) [simp del]

lemma replies_follow_plain:
  "qm_Role m \<noteq> ''tool'' \<Longrightarrow> qm_ToolCalls m = [] \<Longrightarrow> replies_follow (m # ms) = replies_follow ms"
  "qm_Role m = ''tool'' \<Longrightarrow> qm_ToolCallID m = [] \<Longrightarrow> replies_follow (m # ms) = replies_follow ms"
  by (simp_all add: replies_follow.simps)

lemma reply_index_props:
  "reply_index messages cid = Some m \<Longrightarrow> m \<in> set messages \<and> qm_Role m = ''tool'' \<and> qm_ToolCallID m = cid \<and> cid \<noteq> []"
  by (auto simp: reply_index_def dest!: map_of_SomeD)

lemma replies_of_kept:
  assumes "\<And>cid m. replies cid = Some m \<Longrightarrow> qm_Role m = ''tool'' \<and> qm_ToolCallID m = cid"
    and "\<And>tc. tc \<in> set kept \<Longrightarrow> replies (tc_ID tc) \<noteq> None"
  shows "map qm_ToolCallID (map (\<lambda>tc. the (replies (tc_ID tc))) kept) = map tc_ID kept"
    and "list_all (\<lambda>r. qm_Role r = ''tool'') (map (\<lambda>tc. the (replies (tc_ID tc))) kept)"
  using assms by (auto simp: list_all_iff)

lemma replies_follow_block:
  assumes "qm_Role m \<noteq> ''tool''" "qm_ToolCalls m \<noteq> []" "map qm_ToolCallID rs = map tc_ID (qm_ToolCalls m)"
    "list_all (\<lambda>r. qm_Role r = ''tool'') rs" "list_all (\<lambda>tc. tc_ID tc \<noteq> []) (qm_ToolCalls m)"
  shows "replies_follow (m # rs @ ms) = replies_follow ms"
proof -
  have "length rs = length (qm_ToolCalls m)" using assms(3) by (metis length_map)
  then show ?thesis using assms by (simp add: replies_follow.simps)
qed

lemma replies_follow_normalized:
  assumes "\<And>cid m. replies cid = Some m \<Longrightarrow> qm_Role m = ''tool'' \<and> qm_ToolCallID m = cid"
  shows "replies_follow (normalize_message replies media m @ ms) = replies_follow ms"
proof -
  define kept where "kept = answered_calls replies (qm_ToolCalls m)"
  have kept: "\<And>tc. tc \<in> set kept \<Longrightarrow> replies (tc_ID tc) \<noteq> None" "list_all (\<lambda>tc. tc_ID tc \<noteq> []) kept"
    by (auto simp: kept_def answered_calls_def list_all_iff)
  have block: "kept \<noteq> [] \<Longrightarrow> qm_Role m \<noteq> ''tool'' \<Longrightarrow>
      replies_follow (m\<lparr>qm_ToolCalls := kept\<rparr> # map (\<lambda>tc. the (replies (tc_ID tc))) kept @ xs) = replies_follow xs" for xs
    using replies_of_kept [where replies = replies and kept = kept, OF assms kept(1)] kept(2) by (intro replies_follow_block) (simp_all del: map_map)
  show ?thesis
    by (simp add: normalize_message_def Let_def kept_def [symmetric] block replies_follow_plain chat_message_of_def)
qed

lemma replies_follow_chat: "replies_follow (normalizeChatMessagesWithToolOutputMedia messages media)"
proof -
  have "replies_follow (concat (map (normalize_message (reply_index messages) media) ms))" for ms
    by (induction ms) (auto simp: replies_follow_normalized reply_index_props)
  then show ?thesis by (simp add: normalizeChatMessagesWithToolOutputMedia_def)
qed

subsection \<open>What the normalisation keeps\<close>


lemma reply_indexI:
  assumes "r \<in> set messages" "qm_Role r = ''tool''" "qm_ToolCallID r = cid" "cid \<noteq> []"
    and "\<And>x. x \<in> set messages \<Longrightarrow> qm_Role x = ''tool'' \<Longrightarrow> qm_ToolCallID x = cid \<Longrightarrow> x = r"
  shows "reply_index messages cid = Some r"
proof -
  have "reply_index messages cid \<noteq> None"
    using assms(1-4) by (auto simp: reply_index_def map_of_eq_None_iff image_iff)
  then obtain x where "reply_index messages cid = Some x" by blast
  with reply_index_props [OF this] assms(5) show ?thesis by auto
qed

text \<open>Doing it again changes nothing.\<close>

lemma user_normal: "normalize_message replies media (chat_message_of ''user'' c) = [chat_message_of ''user'' c]"
  by (simp add: normalize_message_def chat_message_of_def)

lemma normalized_again:
  assumes "\<And>cid r. replies cid = Some r \<Longrightarrow> qm_Role r = ''tool'' \<and> qm_ToolCallID r = cid \<and> cid \<noteq> []"
    and "\<And>tc. tc \<in> set (qm_ToolCalls m) \<Longrightarrow> tc_ID tc \<noteq> [] \<Longrightarrow> replies (tc_ID tc) \<noteq> None \<Longrightarrow> qm_Role m \<noteq> ''tool'' \<Longrightarrow>
      replies' (tc_ID tc) = replies (tc_ID tc)"
  shows "concat (map (normalize_message replies' Map.empty) (normalize_message replies media m)) = normalize_message replies media m"
proof -
  define kept where "kept = answered_calls replies (qm_ToolCalls m)"
  have [simp]: "media_parts Map.empty k = []" for k by (simp add: media_parts_def)
  show ?thesis
  proof (cases "qm_Role m = ''tool'' \<or> kept = []")
    case True
    then show ?thesis by (auto simp: normalize_message_def Let_def kept_def [symmetric])
  next
    case False
    have again: "answered_calls replies' kept = kept"
      unfolding answered_calls_def using assms(2) False by (intro filter_True) (auto simp: kept_def answered_calls_def)
    have same: "map (\<lambda>tc. the (replies' (tc_ID tc))) kept = map (\<lambda>tc. the (replies (tc_ID tc))) kept"
      using assms(2) False by (auto simp: kept_def answered_calls_def)
    have gone: "concat (map (\<lambda>tc. normalize_message replies' Map.empty (the (replies (tc_ID tc)))) kept) = []"
      using assms(1) by (fastforce simp: kept_def answered_calls_def normalize_message_def)
    show ?thesis
      using False gone by (simp add: normalize_message_def [where m = m] normalize_message_def [where m = "m\<lparr>qm_ToolCalls := _\<rparr>"]
          user_normal Let_def kept_def [symmetric] again same o_def)
  qed
qed

lemma normalize_again: "normalizeChatMessages (normalizeChatMessagesWithToolOutputMedia ms media) = normalizeChatMessagesWithToolOutputMedia ms media"
proof -
  define R where "R = reply_index ms"
  define N where "N = normalizeChatMessagesWithToolOutputMedia ms media"
  have N: "N = concat (map (normalize_message R media) ms)"
    by (simp add: N_def R_def normalizeChatMessagesWithToolOutputMedia_def)
  have R: "R cid = Some r \<Longrightarrow> qm_Role r = ''tool'' \<and> qm_ToolCallID r = cid \<and> cid \<noteq> []" for cid r
    unfolding R_def using reply_index_props by blast
  have tools: "x \<in> set N \<Longrightarrow> qm_Role x = ''tool'' \<Longrightarrow> qm_ToolCallID x \<noteq> [] \<Longrightarrow> R (qm_ToolCallID x) = Some x" for x
    using R by (auto simp: N answered_calls_def normalize_message_def Let_def chat_message_of_def media_parts_def split: if_splits)
  have index: "reply_index N (tc_ID tc) = R (tc_ID tc)"
    if "m \<in> set ms" "tc \<in> set (qm_ToolCalls m)" "tc_ID tc \<noteq> []" "R (tc_ID tc) \<noteq> None" "qm_Role m \<noteq> ''tool''" for m tc
  proof -
    obtain r where r: "R (tc_ID tc) = Some r" using \<open>R (tc_ID tc) \<noteq> None\<close> by auto
    have "r \<in> set (normalize_message R media m)"
      using that r by (force simp: normalize_message_def answered_calls_def Let_def filter_empty_conv)
    then have "r \<in> set N" using that by (auto simp: N)
    then have "reply_index N (tc_ID tc) = Some r"
      using R [OF r] tools r by (intro reply_indexI) force+
    then show ?thesis using r by simp
  qed
  have "concat (map (normalize_message (reply_index N) Map.empty) (concat (map (normalize_message R media) ms'))) =
      concat (map (normalize_message R media) ms')" if "set ms' \<subseteq> set ms" for ms'
    using that
  proof (induction ms')
    case (Cons m ms')
    then have "m \<in> set ms" by simp
    then have "concat (map (normalize_message (reply_index N) Map.empty) (normalize_message R media m)) = normalize_message R media m"
      by (intro normalized_again) (auto dest: R intro!: index)
    then show ?case using Cons by simp
  qed simp
  then show ?thesis
    by (simp add: N_def [symmetric]) (simp add: N normalizeChatMessages_def normalizeChatMessagesWithToolOutputMedia_def)
qed

subsection \<open>Items that a converter has encoded\<close>





lemma rawString_values [simp]: "rawString None = []" "rawString (Some (JStr s)) = s"
  by (simp_all add: rawString_def)

lemma rawString_or_empty [simp]: "rawString (if s = [] then None else Some (JStr s)) = s"
  by simp

lemma start_build_simps [simp]:
  "bd_messages (start_build ms) = ms" "bd_pendingReasoning (start_build ms) = []" "bd_lastTurnReasoning (start_build ms) = []"
  "bd_mediaByCallID (start_build ms) = []" "bd_invalidFunctionCallIDs (start_build ms) = []"
  "bd_invalidEmptyFunctionCallOutputs (start_build ms) = 0" "reasoningForAssistant (start_build ms) = []"
  "(start_build ms)\<lparr>bd_messages := ms', bd_pendingReasoning := []\<rparr> = start_build ms'"
  "(start_build ms)\<lparr>bd_messages := ms', bd_pendingReasoning := [], bd_lastTurnReasoning := []\<rparr> = start_build ms'"
  "(start_build ms)\<lparr>bd_messages := ms', bd_pendingReasoning := [], bd_mediaByCallID := []\<rparr> = start_build ms'"
  "(start_build ms)\<lparr>bd_pendingReasoning := [], bd_lastTurnReasoning := []\<rparr> = start_build ms"
  by (simp_all add: start_build_def reasoningForAssistant_def)









subsection \<open>One message, over Responses items and directly\<close>














lemma pt_Type_parts [simp]: "pt_Type (text_part t) = ''text''" "pt_Text (text_part t) = t" "pt_Type (toolOutputImagePart u) = ''image_url''"
  by (simp_all add: text_part_def toolOutputImagePart_def)










lemma bridge_roles: "chatCompletionsBridgeRole ''user'' = ''user''" "chatCompletionsBridgeRole ''assistant'' = ''assistant''"
  "chatCompletionsBridgeRole ''developer'' = ''system''"
proof -
  have user: "go_TrimSpace ''user'' = ''user''" by code_simp
  have assistant: "go_TrimSpace ''assistant'' = ''assistant''" by code_simp
  have developer: "go_TrimSpace ''developer'' = ''developer''" by code_simp
  have folded: "\<not> go_EqualFold ''user'' ''developer''" "\<not> go_EqualFold ''assistant'' ''developer''" "go_EqualFold ''developer'' ''developer''"
    by (simp_all add: go_EqualFold_def go_ToUpper_def ascii_upper_def)
  show "chatCompletionsBridgeRole ''user'' = ''user''" "chatCompletionsBridgeRole ''assistant'' = ''assistant''"
    "chatCompletionsBridgeRole ''developer'' = ''system''"
    by (simp_all add: chatCompletionsBridgeRole_def user assistant developer folded)
qed






subsection \<open>The two ways agree\<close>

definition chain_messages :: "(string \<Rightarrow> string) \<Rightarrow> json_text \<Rightarrow> raw \<Rightarrow> AnthropicMessage list \<Rightarrow> ChatRequestMessage list option" where
  "chain_messages sha jt system msgs =
     (case convertAnthropicToResponsesInput jt system msgs of
        None \<Rightarrow> None
      | Some items \<Rightarrow> responsesInputToChatMessagesWithOptions sha jt [] (Some (marshal_appended enc_item items)) None)"






subsection \<open>Every history\<close>

text \<open>A history that may be sent: normalising it changes nothing.\<close>

definition history_ok :: "ChatRequestMessage list \<Rightarrow> bool" where
  "history_ok ms \<longleftrightarrow> replies_follow ms \<and> normalizeChatMessages ms = ms"

lemma normalized_ok: "history_ok (normalizeChatMessagesWithToolOutputMedia ms media)"
  by (simp add: history_ok_def replies_follow_chat normalize_again)

lemma plain_ok: "list_all (\<lambda>m. qm_Role m \<noteq> ''tool'' \<and> qm_ToolCalls m = []) ms \<Longrightarrow> history_ok ms"
proof -
  assume plain: "list_all (\<lambda>m. qm_Role m \<noteq> ''tool'' \<and> qm_ToolCalls m = []) ms"
  then have "normalizeChatMessages ms = ms"
  proof -
    have "concat (map (normalize_message R Map.empty) ms) = ms" for R
      using plain by (induction ms) (auto simp: normalize_message_def)
    then show ?thesis by (simp add: normalizeChatMessages_def normalizeChatMessagesWithToolOutputMedia_def)
  qed
  with replies_follow_chat [of ms Map.empty] show ?thesis by (simp add: history_ok_def normalizeChatMessages_def)
qed

lemma input_history_ok: "pred_option history_ok (responsesInputToChatMessagesWithOptions sha jt instructions input cache)"
proof -
  have "list_all (\<lambda>m. qm_Role m \<noteq> ''tool'' \<and> qm_ToolCalls m = [])
      ((if go_TrimSpace instructions \<noteq> [] then [chat_message_of ''system'' (Some (JStr instructions))] else []) @ us)"
    if "us \<in> {[], [user_text t]}" for us t
    using that by (auto simp: chat_message_of_def user_text_def)
  from plain_ok [OF this] show ?thesis
    by (auto simp: responsesInputToChatMessagesWithOptions_def Let_def normalized_ok option.pred_map o_def option.pred_True split: option.split json.split)
qed

text \<open>C30: Whatever a Responses or an Anthropic request holds, in the history that is sent to a Chat upstream every
  assistant message with calls is followed by exactly the replies to its calls in their order, no other reply names a call, and
  normalising the history again changes nothing.\<close>

theorem chat_history_valid:
  "pred_option (\<lambda>out. history_ok (cq_Messages out)) (ResponsesToChatCompletionsRequestWithOptions sha jt number cache req) \<and>
   pred_option (\<lambda>out. history_ok (cq_Messages out)) (AnthropicToChatCompletionsRequest jt areq)"
proof
  show "pred_option (\<lambda>out. history_ok (cq_Messages out)) (ResponsesToChatCompletionsRequestWithOptions sha jt number cache req)"
    using input_history_ok [of sha jt "rq_Instructions req" "rq_Input req" cache]
    by (auto simp: ResponsesToChatCompletionsRequestWithOptions_def split: option.splits sum.splits)
  have "pred_option history_ok (anthropicToChatMessages jt (aq_System areq) (aq_Messages areq))"
    using normalized_ok by (auto simp: anthropicToChatMessages_def normalizeChatMessages_def split: option.split)
  then show "pred_option (\<lambda>out. history_ok (cq_Messages out)) (AnthropicToChatCompletionsRequest jt areq)"
    by (auto simp: AnthropicToChatCompletionsRequest_def Let_def split: option.splits)
qed






subsection \<open>Arguments\<close>

definition calls_valid :: "json_text \<Rightarrow> ChatRequestMessage list \<Rightarrow> bool" where
  "calls_valid jt ms \<longleftrightarrow> list_all (\<lambda>m. list_all (\<lambda>tc. jt_value jt (fc_Arguments (tc_Function tc)) \<noteq> None) (qm_ToolCalls m)) ms"

definition is_search_call :: "json \<Rightarrow> bool" where
  "is_search_call v \<longleftrightarrow> (case v of JObj kvs \<Rightarrow> rawString (map_of (AList.clearjunk (rev kvs)) ''type'') = ''tool_search_call'' | _ \<Rightarrow> False)"

lemma calls_valid_append [simp]: "calls_valid jt (xs @ ys) \<longleftrightarrow> calls_valid jt xs \<and> calls_valid jt ys"
  by (simp add: calls_valid_def)

lemma calls_valid_plain [simp]: "calls_valid jt [chat_message_of role c]" "calls_valid jt []" "calls_valid jt [tool_reply cid t]"
  "calls_valid jt [(chat_message_of role c)\<lparr>qm_ReasoningContent := s\<rparr>]"
  by (simp_all add: calls_valid_def chat_message_of_def tool_reply_def)

lemma append_call_valid:
  assumes "calls_valid jt ms" "jt_value jt (fc_Arguments (tc_Function tc)) \<noteq> None"
  shows "calls_valid jt (appendAssistantToolCall ms tc r)"
proof -
  have "calls_valid jt (butlast ms)" "ms \<noteq> [] \<Longrightarrow> calls_valid jt [last ms]"
    using assms(1) by (cases ms rule: rev_cases; simp add: calls_valid_def)+
  then show ?thesis using assms by (auto simp: appendAssistantToolCall_def calls_valid_def chat_message_of_def)
qed

lemma build_item_valid:
  assumes "\<not> is_search_call v" "\<And>s. jt_value jt (jt_text jt (JObj [(''input'', JStr s)])) \<noteq> None" "build_item sha jt cache v b = Some b'"
    "calls_valid jt (bd_messages b)"
  shows "calls_valid jt (bd_messages b')"
proof -
  have user: "calls_valid jt (bd_messages (build_user c b))" for c using assms(4) by (simp add: build_user_def)
  have call: "jt_value jt (fc_Arguments (tc_Function tc)) \<noteq> None \<Longrightarrow> calls_valid jt (bd_messages (build_call tc b))" for tc
    using assms(4) append_call_valid by (simp add: build_call_def)
  have message: "calls_valid jt (bd_messages (build_message item b))" for item
    using assms(4) by (simp add: build_message_def Let_def)
  have reply: "calls_valid jt (bd_messages (build_output jt item b))" for item
    using assms(4) by (auto simp: build_output_def Let_def split: option.split)
  have "calls_valid jt (bd_messages (build_object sha jt cache item b))" if "rawString (map_of item ''type'') \<noteq> ''tool_search_call''" for item
    using that assms(2,4) user call message reply
    by (simp add: build_object_def Let_def build_reasoning_def build_function_call_def build_custom_call_def build_agent_message_def
        function_call_of_def)
  then show ?thesis using assms user by (auto simp: build_item_def is_search_call_def split: json.splits)
qed

lemma build_valid:
  assumes "list_all (\<lambda>v. \<not> is_search_call v) items" "\<And>s. jt_value jt (jt_text jt (JObj [(''input'', JStr s)])) \<noteq> None"
    "buildChatMessagesFromItems sha jt cache items b = Some b'" "calls_valid jt (bd_messages b)"
  shows "calls_valid jt (bd_messages b')"
  using assms(1,3,4)
proof (induction items arbitrary: b)
  case (Cons v items)
  then show ?case using build_item_valid [OF _ assms(2)] by (auto split: option.splits)
qed simp

lemma normalized_valid:
  assumes "calls_valid jt ms"
  shows "calls_valid jt (normalizeChatMessagesWithToolOutputMedia ms media)"
proof -
  have "calls_valid jt (normalize_message (reply_index ms) media m)" if "m \<in> set ms" for m
  proof -
    have replies: "reply_index ms cid = Some r \<Longrightarrow> list_all (\<lambda>tc. jt_value jt (fc_Arguments (tc_Function tc)) \<noteq> None) (qm_ToolCalls r)" for cid r
      using reply_index_props [of ms cid r] assms by (auto simp: calls_valid_def list_all_iff)
    have "list_all (\<lambda>tc. jt_value jt (fc_Arguments (tc_Function tc)) \<noteq> None) (qm_ToolCalls m)"
      using that assms by (simp add: calls_valid_def list_all_iff)
    with replies show ?thesis
      by (auto simp: normalize_message_def Let_def calls_valid_def answered_calls_def list_all_iff chat_message_of_def)
  qed
  then show ?thesis by (simp add: normalizeChatMessagesWithToolOutputMedia_def calls_valid_def list_all_iff)
qed

text \<open>C32: Whatever calls a client's history holds, truncated ones included, every call that reaches the Chat
  upstream has arguments that are JSON, unless the client itself sends calls of the tool search.\<close>

theorem chat_history_calls_valid:
  assumes "list_all (\<lambda>v. \<not> is_search_call v) items" "\<And>s. jt_value jt (jt_text jt (JObj [(''input'', JStr s)])) \<noteq> None"
    "responsesInputToChatMessagesWithOptions sha jt instructions (Some (JArr items)) cache = Some ms"
  shows "calls_valid jt ms"
proof -
  obtain b where b: "buildChatMessagesFromItems sha jt cache items (start_build
        (if go_TrimSpace instructions \<noteq> [] then [chat_message_of ''system'' (Some (JStr instructions))] else [])) = Some b"
    and ms: "ms = normalizeChatMessagesWithToolOutputMedia (bd_messages b) (map_of (bd_mediaByCallID b))"
    using assms(3) by (auto simp: responsesInputToChatMessagesWithOptions_def Let_def)
  show ?thesis unfolding ms by (rule normalized_valid, rule build_valid [OF assms(1,2) b]) simp
qed

subsection \<open>Flattened names\<close>







lemma function_names_simps [simp]:
  "function_names [] = []"
  "function_names (chat_function_tool n d p s # ts) = n # function_names ts"
  "function_names (toolSearchProxyChatTool # ts) = toolSearchProxyName # function_names ts"
  "function_names (x_search_tool t # ts) = function_names ts"
  "function_names (xs @ ys) = function_names xs @ function_names ys"
  by (simp_all add: function_names_def chat_function_tool_def toolSearchProxyChatTool_def x_search_tool_def no_chat_tool_def)




























definition braces :: json_text where
  "braces = \<lparr>jt_value = (\<lambda>s. if s = ''{}'' then Some (JObj []) else None), jt_text = (\<lambda>_. ''{}'')\<rparr>"




text \<open>A truncated call in the history of a client, with its output and a new turn.\<close>

definition truncated_history :: "json list" where
  "truncated_history = [
     JObj [(''type'', JStr ''function_call''), (''call_id'', JStr ''c1''), (''name'', JStr ''ls''), (''arguments'', JStr ''{'')],
     JObj [(''type'', JStr ''function_call_output''), (''call_id'', JStr ''c1''), (''output'', JStr ''aborted'')],
     JObj [(''role'', JStr ''user''), (''content'', JStr ''again'')]]"

lemma roles_user: "chatCompletionsBridgeRole ''user'' = ''user''"
  by (rule bridge_roles)

lemma truncated_history_sent:
  "responsesInputToChatMessagesWithOptions (\<lambda>_. []) braces [] (Some (JArr truncated_history)) None = Some [user_text ''again'']"
proof -
  have trim: "go_TrimSpace ''{'' = ''{''" by code_simp
  show ?thesis
    by (simp add: responsesInputToChatMessagesWithOptions_def truncated_history_def build_item_def build_object_def build_function_call_def
        call_arguments_def trim braces_def build_output_def build_message_def roles_user responsesContentToChatContent_def user_text_def
        start_build_def normalizeChatMessagesWithToolOutputMedia_def user_normal)
qed

theorem chat_history_calls_valid_witness: "calls_valid braces [user_text ''again'']"
proof (rule chat_history_calls_valid [OF _ _ truncated_history_sent])
  show "list_all (\<lambda>v. \<not> is_search_call v) truncated_history" by (simp add: truncated_history_def is_search_call_def)
  show "jt_value braces (jt_text braces (JObj [(''input'', JStr s)])) \<noteq> None" for s by (simp add: braces_def)
qed

text \<open>The arguments of a tool search are forwarded as they come when they are a string.\<close>

lemma chat_search_arguments_unchecked:
  "responsesInputToChatMessagesWithOptions sha braces [] (Some (JArr [
      JObj [(''type'', JStr ''tool_search_call''), (''call_id'', JStr ''c1''), (''arguments'', JStr ''{'')],
      JObj [(''type'', JStr ''tool_search_output''), (''call_id'', JStr ''c1''), (''output'', JStr ''none'')]])) None =
    Some [(chat_message_of ''assistant'' None)\<lparr>qm_ToolCalls := [function_call_of ''c1'' toolSearchProxyName ''{'']\<rparr>, tool_reply ''c1'' ''none''] \<and>
    jt_value braces ''{'' = None"
proof -
  have "isToolOutputImageDataURL ''none'' = False" by (simp add: isToolOutputImageDataURL_def go_CutPrefix_def go_HasPrefix_def)
  then show ?thesis
    by (simp add: responsesInputToChatMessagesWithOptions_def build_item_def build_object_def build_search_call_def search_arguments_def
        build_call_def appendAssistantToolCall_def build_output_def extractToolOutputMedia_def braces_def output_text_of_def
        start_build_def reasoningForAssistant_def normalizeChatMessagesWithToolOutputMedia_def normalize_message_def answered_calls_def
        reply_index_def media_parts_def tool_reply_def chat_message_of_def function_call_of_def Let_def)
qed

text \<open>An identifier that is used again gives the first call the reply of the second.\<close>

lemma chat_reused_id_overwritten:
  assumes "cid \<noteq> []" and call: "call = (chat_message_of ''assistant'' None)\<lparr>qm_ToolCalls := [function_call_of cid name args]\<rparr>"
  shows "normalizeChatMessages [call, tool_reply cid t1, call, tool_reply cid t2] =
    [call, tool_reply cid t2, call, tool_reply cid t2]"
  using assms by (simp add: normalizeChatMessages_def normalizeChatMessagesWithToolOutputMedia_def normalize_message_def answered_calls_def
      reply_index_def media_parts_def tool_reply_def chat_message_of_def function_call_of_def Let_def)

text \<open>A turn that holds thinking only: the direct way sends an empty assistant message, the chain nothing.\<close>

lemma chat_thinking_only_turn:
  defines "turn \<equiv> [\<lparr>am_Role = ''assistant'', am_Content = Some (JArr (map enc_block [no_block\<lparr>rb_Type := ''thinking'', rb_Thinking := ''hm''\<rparr>]))\<rparr>]"
  shows "anthropicToChatMessages jt None turn = Some [chat_message_of ''assistant'' None]"
    and "chain_messages sha jt None turn = Some []"
proof -
  have read: "raw_list dec_block (Some (JArr (map enc_block [no_block\<lparr>rb_Type := ''thinking'', rb_Thinking := ''hm''\<rparr>]))) =
      Some [no_block\<lparr>rb_Type := ''thinking'', rb_Thinking := ''hm''\<rparr>]"
    by (rule block.raw_list_array)
  show "anthropicToChatMessages jt None turn = Some [chat_message_of ''assistant'' None]"
    using read by (simp add: anthropicToChatMessages_def turn_def system_messages_def anthropicMsgToChatMessages_def anthropicAssistantToChatMessages_def
        extractAnthropicTextFromBlocks_def block_texts_def tool_use_calls_def anthropicThinkingToReasoningContent_def no_block_def
        normalizeChatMessages_def normalizeChatMessagesWithToolOutputMedia_def normalize_message_def chat_message_of_def)
  show "chain_messages sha jt None turn = Some []"
    using read by (simp add: chain_messages_def turn_def convertAnthropicToResponsesInput_def system_items_def anthropicMsgToResponsesItems_def
        anthropicAssistantToResponses_def extractAnthropicTextFromBlocks_def block_texts_def function_call_items_def reasoning_items_def no_block_def
        marshal_appended_def responsesInputToChatMessagesWithOptions_def)
qed

end
